(* ===== verification/Prelude.thy ===== *)
theory Prelude
  imports Main "HOL-Library.Monad_Syntax"
begin

text \<open>
  The shared base of the development: the theorem collections the component theories fill,
  the status values the services return, and the generic facts on the option monad, lists and
  maps that several components use.
\<close>

named_theorems monad_simps \<open>unfolding of the option monad used for undefined behaviour\<close>
named_theorems heap_simps \<open>reads of a heap after writes\<close>
named_theorems chain_simps \<open>decomposition of pointer chains\<close>

subsection \<open>Statuses\<close>

text \<open>
  The codes of \<^verbatim>\<open>absl::Status\<close> and \<^verbatim>\<open>grpc::Status\<close> that the modelled code produces. A
  fallible operation returns \<open>status_code + 'a\<close>: \<open>Inl\<close> is the status that is not OK.
\<close>

datatype status_code =
    Cancelled
  | Unknown
  | InvalidArgument
  | DeadlineExceeded
  | NotFound
  | AlreadyExists
  | FailedPrecondition
  | OutOfRange
  | Internal
  | Unavailable
  | Unimplemented
  | PermissionDenied

type_synonym status = "status_code option"  \<comment> \<open>\<open>None\<close> is the OK status\<close>

abbreviation OkStatus :: status where
  "OkStatus \<equiv> None"

subsection \<open>The option monad\<close>

text \<open>
  A computation of type \<open>'a option\<close> yields \<open>None\<close> exactly where the C++ has undefined
  behaviour (a null or dangling dereference) or aborts in a CHECK.
\<close>

lemma bind_Some_iff [monad_simps]:
  "(x \<bind> f = Some y) \<longleftrightarrow> (\<exists>z. x = Some z \<and> f z = Some y)"
  by (cases x) auto

lemma bind_SomeI: "x = Some z \<Longrightarrow> f z = Some y \<Longrightarrow> x \<bind> f = Some y"
  by simp

lemma bind_SomeE:
  assumes "x \<bind> f = Some y"
  obtains z where "x = Some z" and "f z = Some y"
  using assms by (cases x) auto

text \<open>
  Computations that may also return an error status: \<^verbatim>\<open>PS_ASSIGN_OR_RETURN\<close>, and its form that
  returns a status of its own.
\<close>

type_synonym 'a result = "(status_code + 'a) option"

definition assign_or_return :: "'a result \<Rightarrow> ('a \<Rightarrow> 'b result) \<Rightarrow> 'b result" where
  "assign_or_return r f = (case r of
     None \<Rightarrow> None | Some (Inl e) \<Rightarrow> Some (Inl e) | Some (Inr x) \<Rightarrow> f x)"

definition or_status :: "'a result \<Rightarrow> status_code \<Rightarrow> 'a result" where
  "or_status r e = map_option (\<lambda>x. case x of Inl _ \<Rightarrow> Inl e | Inr y \<Rightarrow> Inr y) r"

lemma assign_or_return_simps [simp]:
  "assign_or_return None f = None"
  "assign_or_return (Some (Inl e)) f = Some (Inl e)"
  "assign_or_return (Some (Inr x)) f = f x"
  by (simp_all add: assign_or_return_def)

lemma or_status_simps [simp]:
  "or_status None e = None"
  "or_status (Some (Inl e')) e = Some (Inl e)"
  "or_status (Some (Inr x)) e = Some (Inr x)"
  by (simp_all add: or_status_def)

subsection \<open>Lists and maps\<close>

text \<open>Checked access to an element.\<close>

definition nth_option :: "'a list \<Rightarrow> nat \<Rightarrow> 'a option" where
  "nth_option xs i = (if i < length xs then Some (xs ! i) else None)"

lemma distinct_split_unique:
  assumes "distinct xs" and "xs = as @ x # bs" and "xs = as' @ x # bs'"
  shows "as = as' \<and> bs = bs'"
using assms by (metis append_Cons_eq_iff distinct_append not_distinct_conv_prefix distinct.simps(2) disjoint_iff list.set_intros(1))

lemma remove1_split:
  "x \<notin> set as \<Longrightarrow> remove1 x (as @ x # bs) = as @ bs"
  by (simp add: remove1_append)

lemma map_of_remove1_other:
  "distinct (map fst xs) \<Longrightarrow> (k, v) \<in> set xs \<Longrightarrow>
   map_of (remove1 (k, v) xs) = (map_of xs)(k := None)"
proof (induction xs)
  case Nil
  then show ?case by simp
next
  case (Cons x xs)
  show ?case
  proof (cases "x = (k, v)")
    case True
    with Cons.prems have "k \<notin> fst ` set xs" by auto
    then have "map_of xs k = None" by (simp add: map_of_eq_None_iff)
    with True show ?thesis by (auto simp: fun_eq_iff)
  next
    case False
    with Cons.prems have mem: "(k, v) \<in> set xs" and "fst x \<noteq> k"
      by (auto simp: image_iff)
    with False Cons show ?thesis
      by (cases x) (auto simp: fun_eq_iff)
  qed
qed

text \<open>
  \<open>try_emplace\<close> / \<open>insert\<close> of the hash maps: a key that is present keeps its value.
\<close>

definition try_emplace :: "('k \<rightharpoonup> 'v) \<Rightarrow> 'k \<Rightarrow> 'v \<Rightarrow> ('k \<rightharpoonup> 'v)" where
  "try_emplace m k v = (case m k of None \<Rightarrow> m(k \<mapsto> v) | Some _ \<Rightarrow> m)"

lemma try_emplace_apply [simp]:
  "try_emplace m k v k' = (if k' = k \<and> m k = None then Some v else m k')"
  by (simp add: try_emplace_def split: option.split)

lemma dom_try_emplace [simp]: "dom (try_emplace m k v) = insert k (dom m)"
  by (auto simp: try_emplace_def split: option.split)

end
