(* ===== verification/DoublyLinkedList.thy ===== *)
theory DoublyLinkedList
  imports Prelude
begin

text \<open>
  \<^verbatim>\<open>DoublyLinkedList\<close> of \<^verbatim>\<open>services/seller_frontend_service/cache/doubly_linked_list.h\<close>: the
  nodes are cells of an explicit heap, so that the pointer updates of every operation are
  executed in the source's order and a read through a null or freed pointer is \<open>None\<close>.
  The list abstracts to the sequence of its node addresses between the two sentinels.
\<close>

type_synonym ptr = nat

record 'd node =
  node_data :: "'d option"
  node_next :: "ptr option"
  node_prev :: "ptr option"

type_synonym 'd heap = "ptr \<rightharpoonup> 'd node"

record 'd dll =
  dll_heap :: "'d heap"
  dll_head :: ptr
  dll_tail :: ptr
  dll_fresh :: ptr  \<comment> \<open>the next address the allocator hands out\<close>

subsection \<open>Field writes through a pointer\<close>

definition set_next :: "'d heap \<Rightarrow> ptr option \<Rightarrow> ptr option \<Rightarrow> 'd heap option" where
  "set_next h p x = do {
     a \<leftarrow> p;
     n \<leftarrow> h a;
     Some (h(a \<mapsto> n\<lparr>node_next := x\<rparr>)) }"

definition set_prev :: "'d heap \<Rightarrow> ptr option \<Rightarrow> ptr option \<Rightarrow> 'd heap option" where
  "set_prev h p x = do {
     a \<leftarrow> p;
     n \<leftarrow> h a;
     Some (h(a \<mapsto> n\<lparr>node_prev := x\<rparr>)) }"

subsection \<open>Operations\<close>

definition dll_empty :: "'d dll" where
  "dll_empty =
     \<lparr>dll_heap = [0 \<mapsto> \<lparr>node_data = None, node_next = Some 1, node_prev = None\<rparr>,
                  1 \<mapsto> \<lparr>node_data = None, node_next = None, node_prev = Some 0\<rparr>],
      dll_head = 0, dll_tail = 1, dll_fresh = 2\<rparr>"

definition InsertAtFront :: "'d dll \<Rightarrow> 'd \<Rightarrow> (ptr \<times> 'd dll) option" where
  "InsertAtFront l d = (
     let p = dll_fresh l;
         h0 = (dll_heap l)(p \<mapsto> \<lparr>node_data = Some d, node_next = None, node_prev = None\<rparr>)
     in do {
       hd0 \<leftarrow> h0 (dll_head l);
       h1 \<leftarrow> set_next h0 (Some p) (node_next hd0);
       h2 \<leftarrow> set_prev h1 (Some p) (Some (dll_head l));
       hd2 \<leftarrow> h2 (dll_head l);
       h3 \<leftarrow> set_prev h2 (node_next hd2) (Some p);
       h4 \<leftarrow> set_next h3 (Some (dll_head l)) (Some p);
       Some (p, l\<lparr>dll_heap := h4, dll_fresh := Suc p\<rparr>) })"

definition MoveToFront :: "'d dll \<Rightarrow> ptr \<Rightarrow> 'd dll option" where
  "MoveToFront l p = do {
     n0 \<leftarrow> dll_heap l p;
     h1 \<leftarrow> set_next (dll_heap l) (node_prev n0) (node_next n0);
     n1 \<leftarrow> h1 p;
     h2 \<leftarrow> set_prev h1 (node_next n1) (node_prev n1);
     hd2 \<leftarrow> h2 (dll_head l);
     h3 \<leftarrow> set_next h2 (Some p) (node_next hd2);
     h4 \<leftarrow> set_prev h3 (Some p) (Some (dll_head l));
     hd4 \<leftarrow> h4 (dll_head l);
     h5 \<leftarrow> set_prev h4 (node_next hd4) (Some p);
     h6 \<leftarrow> set_next h5 (Some (dll_head l)) (Some p);
     Some (l\<lparr>dll_heap := h6\<rparr>) }"

text \<open>\<open>Remove\<close> unlinks the node and frees it; the destroyed data is handed back.\<close>

definition Remove :: "'d dll \<Rightarrow> ptr \<Rightarrow> ('d \<times> 'd dll) option" where
  "Remove l p = do {
     n0 \<leftarrow> dll_heap l p;
     h1 \<leftarrow> set_next (dll_heap l) (node_prev n0) (node_next n0);
     n1 \<leftarrow> h1 p;
     h2 \<leftarrow> set_prev h1 (node_next n1) (node_prev n1);
     n2 \<leftarrow> h2 p;
     d \<leftarrow> node_data n2;
     Some (d, l\<lparr>dll_heap := h2(p := None)\<rparr>) }"

text \<open>The outer option is a bad dereference, the inner one the null pointer of an empty list.\<close>

definition Tail :: "'d dll \<Rightarrow> ptr option option" where
  "Tail l = do {
     t \<leftarrow> dll_heap l (dll_tail l);
     Some (if node_prev t = Some (dll_head l) then None else node_prev t) }"

subsection \<open>Chains\<close>

definition nxt :: "'d heap \<Rightarrow> ptr \<Rightarrow> ptr option" where
  "nxt h a = Option.bind (h a) node_next"

definition prv :: "'d heap \<Rightarrow> ptr \<Rightarrow> ptr option" where
  "prv h a = Option.bind (h a) node_prev"

definition dat :: "'d heap \<Rightarrow> ptr \<Rightarrow> 'd option" where
  "dat h a = Option.bind (h a) node_data"

fun chain :: "'d heap \<Rightarrow> ptr \<Rightarrow> ptr list \<Rightarrow> ptr \<Rightarrow> bool" where
  "chain h a [] b = (nxt h a = Some b \<and> prv h b = Some a)"
| "chain h a (p # ps) b = (nxt h a = Some p \<and> prv h p = Some a \<and> chain h p ps b)"

definition dll_inv :: "'d dll \<Rightarrow> ptr list \<Rightarrow> bool" where
  "dll_inv l ps \<longleftrightarrow>
     chain (dll_heap l) (dll_head l) ps (dll_tail l) \<and>
     distinct (dll_head l # dll_tail l # ps) \<and>
     (\<forall>p \<in> set (dll_head l # dll_tail l # ps). p < dll_fresh l) \<and>
     (\<forall>p \<in> set ps. dat (dll_heap l) p \<noteq> None)"

lemma chain_append [chain_simps]:
  "chain h a (ps @ p # qs) b \<longleftrightarrow> chain h a ps p \<and> chain h p qs b"
  by (induction ps arbitrary: a) auto

lemma chain_cong:
  assumes "\<And>x. x \<in> set (a # ps) \<Longrightarrow> nxt h' x = nxt h x"
    and "\<And>x. x \<in> set (ps @ [b]) \<Longrightarrow> prv h' x = prv h x"
  shows "chain h' a ps b = chain h a ps b"
  using assms by (induction ps arbitrary: a) auto

lemma chain_first: "chain h a ps b \<Longrightarrow> nxt h a = Some (hd (ps @ [b]))"
  by (cases ps) auto

lemma chain_first_prv: "chain h a ps b \<Longrightarrow> prv h (hd (ps @ [b])) = Some a"
  by (cases ps) auto

lemma chain_last_prv: "chain h a ps b \<Longrightarrow> prv h b = Some (last (a # ps))"
  by (induction ps arbitrary: a) auto

lemma chain_last_nxt: "chain h a ps b \<Longrightarrow> nxt h (last (a # ps)) = Some b"
  by (induction ps arbitrary: a) auto

lemma nxt_Some [heap_simps]: "nxt h a = Some b \<longleftrightarrow> (\<exists>n. h a = Some n \<and> node_next n = Some b)"
  by (cases "h a") (auto simp: nxt_def)

lemma prv_Some [heap_simps]: "prv h a = Some b \<longleftrightarrow> (\<exists>n. h a = Some n \<and> node_prev n = Some b)"
  by (cases "h a") (auto simp: prv_def)

text \<open>
  A field write through a valid pointer succeeds; its effect is stated on the projections, so
  that the proofs about the operations never look at the cells themselves.
\<close>

lemma set_next_ok:
  assumes "a \<in> dom h"
  obtains h' where "set_next h (Some a) x = Some h'"
    and "nxt h' = (nxt h)(a := x)" and "prv h' = prv h" and "dat h' = dat h" and "dom h' = dom h"
proof -
  from assms obtain n where n: "h a = Some n" by auto
  show ?thesis
    by (rule that [of "h(a \<mapsto> n\<lparr>node_next := x\<rparr>)"])
       (use n in \<open>auto simp: set_next_def nxt_def prv_def dat_def fun_eq_iff\<close>)
qed

lemma set_prev_ok:
  assumes "a \<in> dom h"
  obtains h' where "set_prev h (Some a) x = Some h'"
    and "nxt h' = nxt h" and "prv h' = (prv h)(a := x)" and "dat h' = dat h" and "dom h' = dom h"
proof -
  from assms obtain n where n: "h a = Some n" by auto
  show ?thesis
    by (rule that [of "h(a \<mapsto> n\<lparr>node_prev := x\<rparr>)"])
       (use n in \<open>auto simp: set_prev_def nxt_def prv_def dat_def fun_eq_iff\<close>)
qed

lemma read_ok:
  assumes "a \<in> dom h"
  obtains n where "h a = Some n"
    and "node_next n = nxt h a" and "node_prev n = prv h a" and "node_data n = dat h a"
  using assms by (auto simp: nxt_def prv_def dat_def)

lemma nxt_dom: "nxt h a = Some b \<Longrightarrow> a \<in> dom h"
  by (auto simp: heap_simps)

lemma prv_dom: "prv h a = Some b \<Longrightarrow> a \<in> dom h"
  by (auto simp: heap_simps)

lemma chain_dom: "chain h a ps b \<Longrightarrow> set (a # ps @ [b]) \<subseteq> dom h"
  by (induction ps arbitrary: a) (auto dest: nxt_dom prv_dom)

text \<open>
  Relinking: a chain whose ends are joined, or into which a node is put, stays a chain. These
  two lemmas carry the three operations.
\<close>

lemma chain_join:
  assumes ch: "chain h a (xs @ p # ys) b" and dist: "distinct (a # b # xs @ p # ys)"
    and n: "nxt h' = (nxt h)(last (a # xs) := Some (hd (ys @ [b])))"
    and q: "prv h' = (prv h)(hd (ys @ [b]) := Some (last (a # xs)))"
  shows "chain h' a (xs @ ys) b"
proof -
  from ch have l: "chain h a xs p" and r: "chain h p ys b"
    by (simp_all add: chain_simps)
  define z where "z = last (a # xs)"
  have "z \<in> set (a # xs)" unfolding z_def by (rule last_in_set) simp
  with dist have z: "z \<in> set (a # xs)" "z \<notin> set ys" by auto
  have right: "chain h' z ys b"
  proof (cases ys)
    case Nil
    with n q show ?thesis by (simp add: z_def)
  next
    case (Cons y ys')
    with r have "chain h y ys' b" by simp
    then have "chain h' y ys' b"
      by (rule chain_cong [THEN iffD2, rotated 2])
         (use Cons n q dist z in \<open>auto simp: z_def\<close>)
    with Cons n q show ?thesis by (simp add: z_def)
  qed
  show ?thesis
  proof (cases xs rule: rev_cases)
    case Nil
    with right show ?thesis by (simp add: z_def)
  next
    case (snoc xs' x)
    with l have "chain h a xs' x" by (simp add: chain_simps)
    then have "chain h' a xs' x"
      by (rule chain_cong [THEN iffD2, rotated 2])
         (use snoc n q dist in \<open>cases ys; auto\<close>)+
    with right snoc show ?thesis by (simp add: chain_simps z_def)
  qed
qed

lemma chain_cons_new:
  assumes ch: "chain h a ps b" and dist: "distinct (a # b # p # ps)"
    and n: "nxt h' = (nxt h)(p := Some (hd (ps @ [b])), a := Some p)"
    and q: "prv h' = (prv h)(p := Some a, hd (ps @ [b]) := Some p)"
  shows "chain h' a (p # ps) b"
proof (cases ps)
  case Nil
  with n q dist show ?thesis by simp
next
  case (Cons y ys)
  with ch have "chain h y ys b" by simp
  then have "chain h' y ys b"
    by (rule chain_cong [THEN iffD2, rotated 2])
       (use Cons n q dist in auto)
  with Cons n q dist show ?thesis by simp
qed

subsection \<open>The operations refine list operations\<close>

lemma dll_empty_inv: "dll_inv dll_empty []"
  by (simp add: dll_inv_def dll_empty_def nxt_def prv_def)

lemma dll_inv_dom: "dll_inv l ps \<Longrightarrow> set (dll_head l # dll_tail l # ps) \<subseteq> dom (dll_heap l)"
  unfolding dll_inv_def by (drule conjunct1, drule chain_dom) auto

lemma InsertAtFront_correct:
  assumes inv: "dll_inv l ps"
  obtains l' where "InsertAtFront l d = Some (dll_fresh l, l')"
    and "dll_inv l' (dll_fresh l # ps)"
    and "dat (dll_heap l') = (dat (dll_heap l))(dll_fresh l := Some d)"
    and "dll_head l' = dll_head l" and "dll_tail l' = dll_tail l"
    and "dll_fresh l' = Suc (dll_fresh l)"
proof -
  let ?p = "dll_fresh l" and ?a = "dll_head l" and ?b = "dll_tail l"
  define h0 where "h0 = (dll_heap l)(?p \<mapsto> \<lparr>node_data = Some d, node_next = None, node_prev = None\<rparr>)"
  note inv' = inv [unfolded dll_inv_def]
  have dist: "distinct (?a # ?b # ?p # ps)" using inv' by auto
  have dom0: "set (?a # ?b # ?p # ps) \<subseteq> dom h0"
    using dll_inv_dom [OF inv] by (auto simp: h0_def)
  have p0: "nxt h0 = (nxt (dll_heap l))(?p := None)" "prv h0 = (prv (dll_heap l))(?p := None)"
    "dat h0 = (dat (dll_heap l))(?p := Some d)"
    by (auto simp: h0_def nxt_def prv_def dat_def fun_eq_iff)
  have first: "nxt (dll_heap l) ?a = Some (hd (ps @ [?b]))"
    using inv' chain_first by blast
  let ?f = "hd (ps @ [?b])"
  have f: "?f \<in> dom h0" "?f \<noteq> ?p" "?f \<noteq> ?a" using dom0 dist by (cases ps; auto)+
  obtain hd0 where hd0: "h0 ?a = Some hd0" "node_next hd0 = Some ?f"
    using read_ok [of ?a h0] dom0 first p0 dist by auto
  obtain h1 where h1: "set_next h0 (Some ?p) (Some ?f) = Some h1"
    "nxt h1 = (nxt h0)(?p := Some ?f)" "prv h1 = prv h0" "dat h1 = dat h0" "dom h1 = dom h0"
    using set_next_ok [of ?p h0 "Some ?f"] dom0 by auto
  obtain h2 where h2: "set_prev h1 (Some ?p) (Some ?a) = Some h2"
    "nxt h2 = nxt h1" "prv h2 = (prv h1)(?p := Some ?a)" "dat h2 = dat h1" "dom h2 = dom h1"
    using set_prev_ok [of ?p h1 "Some ?a"] dom0 h1 by auto
  have "nxt h2 ?a = Some ?f" using h1 h2 first p0 dist by simp
  then obtain hd2 where hd2: "h2 ?a = Some hd2" "node_next hd2 = Some ?f"
    unfolding nxt_Some by blast
  obtain h3 where h3: "set_prev h2 (Some ?f) (Some ?p) = Some h3"
    "nxt h3 = nxt h2" "prv h3 = (prv h2)(?f := Some ?p)" "dat h3 = dat h2" "dom h3 = dom h2"
    using set_prev_ok [of ?f h2 "Some ?p"] f h1 h2 by auto
  obtain h4 where h4: "set_next h3 (Some ?a) (Some ?p) = Some h4"
    "nxt h4 = (nxt h3)(?a := Some ?p)" "prv h4 = prv h3" "dat h4 = dat h3" "dom h4 = dom h3"
    using set_next_ok [of ?a h3 "Some ?p"] dom0 h1 h2 h3 by auto
  let ?l' = "l\<lparr>dll_heap := h4, dll_fresh := Suc ?p\<rparr>"
  have run: "InsertAtFront l d = Some (?p, ?l')"
    unfolding InsertAtFront_def Let_def h0_def [symmetric]
    using hd0 h1 h2 hd2 h3 h4 by simp
  have "chain h4 ?a (?p # ps) ?b"
    by (rule chain_cons_new [of "dll_heap l"])
       (use inv' dist h1 h2 h3 h4 p0 in auto)
  moreover have d4: "dat h4 = (dat (dll_heap l))(?p := Some d)"
    using h1 h2 h3 h4 p0 by simp
  ultimately have "dll_inv ?l' (?p # ps)"
    using inv' dist by (auto simp: dll_inv_def)
  with run d4 show ?thesis by (intro that [of ?l']) simp_all
qed

text \<open>Unlinking is the common first half of \<open>Remove\<close> and \<open>MoveToFront\<close>.\<close>

lemma unlink_ok:
  assumes inv: "dll_inv l (xs @ p # ys)"
  obtains n0 h1 n1 h2 where "dll_heap l p = Some n0"
    and "set_next (dll_heap l) (node_prev n0) (node_next n0) = Some h1"
    and "h1 p = Some n1" and "set_prev h1 (node_next n1) (node_prev n1) = Some h2"
    and "chain h2 (dll_head l) (xs @ ys) (dll_tail l)"
    and "dat h2 = dat (dll_heap l)" and "dom h2 = dom (dll_heap l)"
    and "nxt h2 p = Some (hd (ys @ [dll_tail l]))"
proof -
  let ?a = "dll_head l" and ?b = "dll_tail l" and ?h = "dll_heap l"
  let ?q = "last (?a # xs)" and ?s = "hd (ys @ [?b])"
  note inv' = inv [unfolded dll_inv_def]
  have dist: "distinct (?a # ?b # xs @ p # ys)" using inv' by blast
  have dom: "set (?a # ?b # xs @ p # ys) \<subseteq> dom ?h" by (rule dll_inv_dom [OF inv])
  have ch: "chain ?h ?a xs p" "chain ?h p ys ?b" using inv' by (simp_all add: chain_simps)
  have pv: "prv ?h p = Some ?q" by (rule chain_last_prv [OF ch(1)])
  have nx: "nxt ?h p = Some ?s" by (rule chain_first [OF ch(2)])
  have qin: "?q \<in> set (?a # xs)" by (rule last_in_set) simp
  have q: "?q \<in> dom ?h" "?q \<noteq> p" using qin dom dist by auto
  have s: "?s \<in> dom ?h" "?s \<noteq> p" using dom dist by (cases ys; auto)+
  have pd: "p \<in> dom ?h" using dom by simp
  obtain n0 where n0: "?h p = Some n0" "node_next n0 = Some ?s" "node_prev n0 = Some ?q"
    using read_ok [OF pd] nx pv by metis
  obtain h1 where h1: "set_next ?h (Some ?q) (Some ?s) = Some h1"
    "nxt h1 = (nxt ?h)(?q := Some ?s)" "prv h1 = prv ?h" "dat h1 = dat ?h" "dom h1 = dom ?h"
    using set_next_ok [OF q(1)] by metis
  have pd1: "p \<in> dom h1" using pd h1 by simp
  obtain n1 where n1: "h1 p = Some n1" "node_next n1 = Some ?s" "node_prev n1 = Some ?q"
    using read_ok [OF pd1] nx pv h1 q by (metis fun_upd_apply)
  have sd1: "?s \<in> dom h1" using s h1 by simp
  obtain h2 where h2: "set_prev h1 (Some ?s) (Some ?q) = Some h2"
    "nxt h2 = nxt h1" "prv h2 = (prv h1)(?s := Some ?q)" "dat h2 = dat h1" "dom h2 = dom h1"
    using set_prev_ok [OF sd1] by metis
  have "chain h2 ?a (xs @ ys) ?b"
  proof (rule chain_join)
    show "chain ?h ?a (xs @ p # ys) ?b" using inv' by blast
    show "distinct (?a # ?b # xs @ p # ys)" by (rule dist)
    show "nxt h2 = (nxt ?h)(?q := Some ?s)" by (simp only: h1 h2)
    show "prv h2 = (prv ?h)(?s := Some ?q)" by (simp only: h1 h2)
  qed
  then show ?thesis
    using n0 h1 n1 h2 q nx by (intro that [of n0 h1 n1 h2]) simp_all
qed

lemma Remove_correct:
  assumes inv: "dll_inv l (xs @ p # ys)"
  obtains d l' where "dat (dll_heap l) p = Some d" and "Remove l p = Some (d, l')"
    and "dll_inv l' (xs @ ys)" and "dat (dll_heap l') = (dat (dll_heap l))(p := None)"
    and "dll_head l' = dll_head l" and "dll_tail l' = dll_tail l" and "dll_fresh l' = dll_fresh l"
proof -
  note inv' = inv [unfolded dll_inv_def]
  obtain n0 h1 n1 h2 where u: "dll_heap l p = Some n0"
    "set_next (dll_heap l) (node_prev n0) (node_next n0) = Some h1"
    "h1 p = Some n1" "set_prev h1 (node_next n1) (node_prev n1) = Some h2"
    "chain h2 (dll_head l) (xs @ ys) (dll_tail l)"
    "dat h2 = dat (dll_heap l)" "dom h2 = dom (dll_heap l)"
    by (rule unlink_ok [OF inv])
  have pd: "p \<in> dom h2" using u by auto
  from inv' obtain d where d: "dat (dll_heap l) p = Some d" by auto
  then obtain n2 where n2: "h2 p = Some n2" "node_data n2 = Some d"
    using read_ok [OF pd] u by metis
  let ?l' = "l\<lparr>dll_heap := h2(p := None)\<rparr>"
  have run: "Remove l p = Some (d, ?l')"
    unfolding Remove_def using u n2 by simp
  have proj: "nxt (h2(p := None)) = (nxt h2)(p := None)" "prv (h2(p := None)) = (prv h2)(p := None)"
    "dat (h2(p := None)) = (dat h2)(p := None)"
    by (auto simp: nxt_def prv_def dat_def fun_eq_iff)
  have "chain (h2(p := None)) (dll_head l) (xs @ ys) (dll_tail l)"
    using u(5) by (rule chain_cong [THEN iffD2, rotated 2]) (use inv' proj in auto)
  then have "dll_inv ?l' (xs @ ys)"
    using inv' proj u by (auto simp: dll_inv_def)
  with d run proj u show ?thesis by (intro that [of d ?l']) simp_all
qed

lemma MoveToFront_correct:
  assumes inv: "dll_inv l (xs @ p # ys)"
  obtains l' where "MoveToFront l p = Some l'" and "dll_inv l' (p # xs @ ys)"
    and "dat (dll_heap l') = dat (dll_heap l)"
    and "dll_head l' = dll_head l" and "dll_tail l' = dll_tail l" and "dll_fresh l' = dll_fresh l"
proof -
  let ?a = "dll_head l" and ?b = "dll_tail l" and ?f = "hd ((xs @ ys) @ [dll_tail l])"
  note inv' = inv [unfolded dll_inv_def]
  obtain n0 h1 n1 h2 where u: "dll_heap l p = Some n0"
    "set_next (dll_heap l) (node_prev n0) (node_next n0) = Some h1"
    "h1 p = Some n1" "set_prev h1 (node_next n1) (node_prev n1) = Some h2"
    "chain h2 ?a (xs @ ys) ?b" "dat h2 = dat (dll_heap l)" "dom h2 = dom (dll_heap l)"
    by (rule unlink_ok [OF inv])
  have dist: "distinct (?a # ?b # p # xs @ ys)" using inv' by auto
  have dom: "set (?a # ?b # p # xs @ ys) \<subseteq> dom h2" using dll_inv_dom [OF inv] u by auto
  have first: "nxt h2 ?a = Some ?f" by (rule chain_first [OF u(5)])
  have f: "?f \<in> dom h2" "?f \<noteq> p" "?f \<noteq> ?a" using dom dist by (cases "xs @ ys"; auto)+
  obtain hd2 where hd2: "h2 ?a = Some hd2" "node_next hd2 = Some ?f"
    using first unfolding nxt_Some by blast
  obtain h3 where h3: "set_next h2 (Some p) (Some ?f) = Some h3"
    "nxt h3 = (nxt h2)(p := Some ?f)" "prv h3 = prv h2" "dat h3 = dat h2" "dom h3 = dom h2"
    using set_next_ok [of p h2 "Some ?f"] dom by auto
  obtain h4 where h4: "set_prev h3 (Some p) (Some ?a) = Some h4"
    "nxt h4 = nxt h3" "prv h4 = (prv h3)(p := Some ?a)" "dat h4 = dat h3" "dom h4 = dom h3"
    using set_prev_ok [of p h3 "Some ?a"] dom h3 by auto
  have "nxt h4 ?a = Some ?f" using h3 h4 first dist by simp
  then obtain hd4 where hd4: "h4 ?a = Some hd4" "node_next hd4 = Some ?f"
    unfolding nxt_Some by blast
  obtain h5 where h5: "set_prev h4 (Some ?f) (Some p) = Some h5"
    "nxt h5 = nxt h4" "prv h5 = (prv h4)(?f := Some p)" "dat h5 = dat h4" "dom h5 = dom h4"
    using set_prev_ok [of ?f h4 "Some p"] f h3 h4 by auto
  obtain h6 where h6: "set_next h5 (Some ?a) (Some p) = Some h6"
    "nxt h6 = (nxt h5)(?a := Some p)" "prv h6 = prv h5" "dat h6 = dat h5" "dom h6 = dom h5"
    using set_next_ok [of ?a h5 "Some p"] dom h3 h4 h5 by auto
  let ?l' = "l\<lparr>dll_heap := h6\<rparr>"
  have run: "MoveToFront l p = Some ?l'"
    unfolding MoveToFront_def using u hd2 h3 h4 hd4 h5 h6 by simp
  have "chain h6 ?a (p # xs @ ys) ?b"
    by (rule chain_cons_new [of h2]) (use u dist h3 h4 h5 h6 in auto)
  then have "dll_inv ?l' (p # xs @ ys)"
    using inv' u h3 h4 h5 h6 by (auto simp: dll_inv_def)
  with run u h3 h4 h5 h6 show ?thesis by (intro that [of ?l']) simp_all
qed

lemma Tail_correct:
  assumes inv: "dll_inv l ps"
  shows "Tail l = Some (if ps = [] then None else Some (last ps))"
proof -
  note inv' = inv [unfolded dll_inv_def]
  have pv: "prv (dll_heap l) (dll_tail l) = Some (last (dll_head l # ps))"
    using inv' chain_last_prv by blast
  then obtain n where n: "dll_heap l (dll_tail l) = Some n" "node_prev n = Some (last (dll_head l # ps))"
    by (auto simp: heap_simps)
  have "last ps \<noteq> dll_head l" if "ps \<noteq> []"
  proof
    assume "last ps = dll_head l"
    with last_in_set [OF that] have "dll_head l \<in> set ps" by simp
    with inv' show False by simp
  qed
  with n show ?thesis by (simp add: Tail_def)
qed

end
