(* ===== verification/Cache.thy ===== *)
theory Cache
  imports DoublyLinkedList
begin

text \<open>
  The expiring LRU cache of \<^verbatim>\<open>services/seller_frontend_service/cache/cache.h\<close>. The state is the
  object's guarded members, the libevent timers of its entries, the heap of the
  \<^verbatim>\<open>ExpiryEventData\<close> objects the timers point to and the closures posted to the executor.
  The iteration order of the hash containers passed to \<^verbatim>\<open>Query\<close> and \<^verbatim>\<open>Insert\<close> is the order of
  the lists given to the definitions, and every lemma holds for all orders. Counters are
  unbounded integers: the sizes stay far below \<open>2 ^ 31\<close>.
\<close>

record ('k, 'v) CacheHashData =
  chd_key :: 'k
  chd_value :: 'v
  chd_timer :: nat  \<comment> \<open>handle of the owned \<^verbatim>\<open>timer_event\<close>\<close>

record timer =
  timer_arg :: nat  \<comment> \<open>address of the \<^verbatim>\<open>ExpiryEventData\<close>\<close>
  timer_armed :: bool

record task =  \<comment> \<open>a closure of \<^verbatim>\<open>EntryExpiryCallback\<close> waiting in the executor\<close>
  task_arg :: nat
  task_timeout :: bool  \<comment> \<open>\<^verbatim>\<open>event_type & EV_TIMEOUT\<close>\<close>

record ('k, 'v) cache =
  dll :: "('k, 'v) CacheHashData dll"
  hash_to_node :: "'k \<rightharpoonup> ptr"
  num_entries :: int
  capacity :: int
  timers :: "nat \<rightharpoonup> timer"
  expiry_data :: "nat \<rightharpoonup> 'k"
  fresh_handle :: nat
  tasks :: "task list"

definition cache_new :: "int \<Rightarrow> ('k, 'v) cache" where
  "cache_new cap =
     \<lparr>dll = dll_empty, hash_to_node = Map.empty, num_entries = 0, capacity = cap,
      timers = Map.empty, expiry_data = Map.empty, fresh_handle = 0, tasks = []\<rparr>"

subsection \<open>Events\<close>

text \<open>The callback posts a closure that owns its argument.\<close>

definition EntryExpiryCallback :: "bool \<Rightarrow> nat \<Rightarrow> ('k, 'v) cache \<Rightarrow> ('k, 'v) cache" where
  "EntryExpiryCallback ev_timeout arg s =
     s\<lparr>tasks := tasks s @ [\<lparr>task_arg = arg, task_timeout = ev_timeout\<rparr>]\<rparr>"

text \<open>
  \<^verbatim>\<open>Event::~Event\<close> with the \<^verbatim>\<open>on_delete\<close> function of the cache: the callback is invoked with
  event type 0, then the event is deleted.
\<close>

definition destroy_event :: "nat \<Rightarrow> ('k, 'v) cache \<Rightarrow> ('k, 'v) cache option" where
  "destroy_event e s = do {
     t \<leftarrow> timers s e;
     let s1 = EntryExpiryCallback False (timer_arg t) s;
     Some (s1\<lparr>timers := (timers s1)(e := None)\<rparr>) }"

text \<open>\<^verbatim>\<open>evtimer_del\<close> followed by \<^verbatim>\<open>evtimer_add\<close>.\<close>

definition reset_timer :: "nat \<Rightarrow> ('k, 'v) cache \<Rightarrow> ('k, 'v) cache option" where
  "reset_timer e s = do {
     t \<leftarrow> timers s e;
     Some (s\<lparr>timers := (timers s)(e \<mapsto> t\<lparr>timer_armed := True\<rparr>)\<rparr>) }"

text \<open>\<^verbatim>\<open>dll_.Remove(node)\<close>: the node's data goes, and with it the entry's event.\<close>

definition remove_node :: "ptr \<Rightarrow> ('k, 'v) cache \<Rightarrow> ('k, 'v) cache option" where
  "remove_node p s = do {
     (d, l) \<leftarrow> Remove (dll s) p;
     destroy_event (chd_timer d) (s\<lparr>dll := l\<rparr>) }"

subsection \<open>Operations\<close>

fun Query_loop :: "'k list \<Rightarrow> ('k \<rightharpoonup> 'v) \<Rightarrow> ('k, 'v) cache \<Rightarrow> (('k \<rightharpoonup> 'v) \<times> ('k, 'v) cache) option" where
  "Query_loop [] found s = Some (found, s)"
| "Query_loop (k # ks) found s =
     (case hash_to_node s k of
        None \<Rightarrow> Query_loop ks found s
      | Some p \<Rightarrow> do {
          l \<leftarrow> MoveToFront (dll s) p;
          n \<leftarrow> dll_heap l p;
          d \<leftarrow> node_data n;
          Query_loop ks (try_emplace found k (chd_value d)) (s\<lparr>dll := l\<rparr>) })"

definition Query :: "'k list \<Rightarrow> ('k, 'v) cache \<Rightarrow> (('k \<rightharpoonup> 'v) \<times> ('k, 'v) cache) option" where
  "Query keys s = Query_loop keys Map.empty s"

function Evict :: "int \<Rightarrow> ('k, 'v) cache \<Rightarrow> (status \<times> ('k, 'v) cache) option" where
  "Evict N s = do {
     node \<leftarrow> Tail (dll s);
     (case node of
        Some p \<Rightarrow>
          if N > 0 then do {
            n \<leftarrow> dll_heap (dll s) p;
            d \<leftarrow> node_data n;
            let s1 = s\<lparr>hash_to_node := (hash_to_node s)(chd_key d := None)\<rparr>;
            s2 \<leftarrow> remove_node p s1;
            Evict (N - 1) (s2\<lparr>num_entries := num_entries s2 - 1\<rparr>) }
          else Some (if N = 0 then OkStatus else Some Internal, s)
      | None \<Rightarrow> Some (if N = 0 then OkStatus else Some Internal, s)) }"
  by pat_completeness auto
termination
  by (relation "measure (\<lambda>(N, s). nat N)") auto

declare Evict.simps [simp del]

fun Insert_loop :: "('k \<times> 'v) list \<Rightarrow> ('k, 'v) cache \<Rightarrow> ('k, 'v) cache option" where
  "Insert_loop [] s = Some s"
| "Insert_loop ((k, v) # es) s =
     (case hash_to_node s k of
        Some p \<Rightarrow> do {
          n \<leftarrow> dll_heap (dll s) p;
          d \<leftarrow> node_data n;
          s1 \<leftarrow> reset_timer (chd_timer d) s;
          l \<leftarrow> MoveToFront (dll s1) p;
          Insert_loop es (s1\<lparr>dll := l\<rparr>) }
      | None \<Rightarrow> do {
          let a = fresh_handle s;
          let s1 = s\<lparr>expiry_data := (expiry_data s)(a \<mapsto> k),
                     timers := (timers s)(a \<mapsto> \<lparr>timer_arg = a, timer_armed = True\<rparr>),
                     fresh_handle := Suc a\<rparr>;
          (p, l) \<leftarrow> InsertAtFront (dll s1) \<lparr>chd_key = k, chd_value = v, chd_timer = a\<rparr>;
          let s2 = s1\<lparr>dll := l, hash_to_node := (hash_to_node s1)(k \<mapsto> p),
                      num_entries := num_entries s1 + 1\<rparr>;
          if num_entries s2 = capacity s2 then Some s2 else Insert_loop es s2 })"

definition Insert :: "('k \<times> 'v) list \<Rightarrow> ('k, 'v) cache \<Rightarrow> (status \<times> ('k, 'v) cache) option" where
  "Insert entries s = (
     let overflow = num_entries s + int (length entries) - capacity s in do {
       s1 \<leftarrow> (if overflow > 0 then map_option snd (Evict overflow s) else Some s);
       s2 \<leftarrow> Insert_loop entries s1;
       Some (OkStatus, s2) })"

definition GetAllEntriesForTesting :: "('k, 'v) cache \<Rightarrow> ('k \<rightharpoonup> 'v)" where
  "GetAllEntriesForTesting s k = do {
     p \<leftarrow> hash_to_node s k;
     n \<leftarrow> dll_heap (dll s) p;
     d \<leftarrow> node_data n;
     Some (chd_value d) }"

text \<open>The body of the closure that \<^verbatim>\<open>EntryExpiryCallback\<close> posts.\<close>

definition run_task :: "task \<Rightarrow> ('k, 'v) cache \<Rightarrow> ('k, 'v) cache option" where
  "run_task t s = do {
     key \<leftarrow> expiry_data s (task_arg t);
     (if \<not> task_timeout t then Some (s\<lparr>expiry_data := (expiry_data s)(task_arg t := None)\<rparr>)
      else
        (case hash_to_node s key of
           None \<Rightarrow> Some s
         | Some p \<Rightarrow> do {
             let s1 = s\<lparr>num_entries := num_entries s - 1\<rparr>;
             s2 \<leftarrow> remove_node p s1;
             Some (s2\<lparr>hash_to_node := (hash_to_node s2)(key := None)\<rparr>) })) }"

text \<open>The event loop fires an armed timer; a one-shot event is disarmed when it fires.\<close>

definition fire_timer :: "nat \<Rightarrow> ('k, 'v) cache \<Rightarrow> ('k, 'v) cache option" where
  "fire_timer e s = do {
     t \<leftarrow> timers s e;
     if timer_armed t
     then Some (EntryExpiryCallback True (timer_arg t)
                  (s\<lparr>timers := (timers s)(e \<mapsto> t\<lparr>timer_armed := False\<rparr>)\<rparr>))
     else None }"

text \<open>
  A cache at work: requests take the mutex one after the other, timers fire when they are
  armed, and the executor runs the posted closures in the order they were posted.
\<close>

inductive cache_step :: "('k, 'v) cache \<Rightarrow> ('k, 'v) cache \<Rightarrow> bool" where
  query: "Query keys s = Some (r, s') \<Longrightarrow> cache_step s s'"
| insert: "distinct (map fst es) \<Longrightarrow> Insert es s = Some (st, s') \<Longrightarrow> cache_step s s'"
| fire: "fire_timer e s = Some s' \<Longrightarrow> cache_step s s'"
| run: "tasks s = t # ts \<Longrightarrow> run_task t (s\<lparr>tasks := ts\<rparr>) = Some s' \<Longrightarrow> cache_step s s'"

inductive cache_reachable :: "int \<Rightarrow> ('k, 'v) cache \<Rightarrow> bool" for cap where
  start: "cache_reachable cap (cache_new cap)"
| step: "cache_reachable cap s \<Longrightarrow> cache_step s t \<Longrightarrow> cache_reachable cap t"

subsection \<open>Representation invariant\<close>

text \<open>
  \<open>cache_rep s es\<close>: the nodes of the list, front first, are the pairs \<open>es\<close> of an address and
  its data. The map holds exactly their keys, the counter their number, the live timers are
  theirs, and every closure still finds its argument.
\<close>

type_synonym ('k, 'v) entries = "(ptr \<times> ('k, 'v) CacheHashData) list"

abbreviation entry_key :: "ptr \<times> ('k, 'v) CacheHashData \<Rightarrow> 'k" where
  "entry_key e \<equiv> chd_key (snd e)"

abbreviation entry_timer :: "ptr \<times> ('k, 'v) CacheHashData \<Rightarrow> nat" where
  "entry_timer e \<equiv> chd_timer (snd e)"

definition key_map :: "('k, 'v) entries \<Rightarrow> ('k \<rightharpoonup> ptr)" where
  "key_map es = map_of (map (\<lambda>e. (entry_key e, fst e)) es)"

definition list_rep :: "('k, 'v) cache \<Rightarrow> ('k, 'v) entries \<Rightarrow> bool" where
  "list_rep s es \<longleftrightarrow>
     dll_inv (dll s) (map fst es) \<and>
     (\<forall>e \<in> set es. dat (dll_heap (dll s)) (fst e) = Some (snd e)) \<and>
     distinct (map entry_key es) \<and>
     hash_to_node s = key_map es \<and>
     num_entries s = int (length es)"

fun queue_ok :: "nat set \<Rightarrow> task list \<Rightarrow> bool" where
  "queue_ok L [] = True"
| "queue_ok L (t # ts) =
     ((task_timeout t \<or> task_arg t \<notin> L \<and> task_arg t \<notin> task_arg ` set ts) \<and> queue_ok L ts)"

definition timers_rep :: "('k, 'v) cache \<Rightarrow> ('k, 'v) entries \<Rightarrow> bool" where
  "timers_rep s es \<longleftrightarrow>
     dom (timers s) = entry_timer ` set es \<and>
     distinct (map entry_timer es) \<and>
     (\<forall>e t. timers s e = Some t \<longrightarrow> timer_arg t = e) \<and>
     (\<forall>e \<in> set es. expiry_data s (entry_timer e) = Some (entry_key e)) \<and>
     (\<forall>a \<in> dom (expiry_data s). a < fresh_handle s) \<and>
     task_arg ` set (tasks s) \<subseteq> dom (expiry_data s) \<and>
     queue_ok (dom (timers s)) (tasks s)"

definition cache_rep :: "('k, 'v) cache \<Rightarrow> ('k, 'v) entries \<Rightarrow> bool" where
  "cache_rep s es \<longleftrightarrow> list_rep s es \<and> timers_rep s es"

definition cache_inv :: "('k, 'v) cache \<Rightarrow> bool" where
  "cache_inv s \<longleftrightarrow> (\<exists>es. cache_rep s es)"

text \<open>The abstract content: keys and values, most recently used first.\<close>

definition content :: "('k, 'v) entries \<Rightarrow> ('k \<times> 'v) list" where
  "content es = map (\<lambda>e. (entry_key e, chd_value (snd e))) es"

lemma queue_ok_append [simp]:
  "queue_ok L (ts @ [t]) \<longleftrightarrow>
     queue_ok L ts \<and> (task_timeout t \<or> task_arg t \<notin> L) \<and>
     (\<forall>u \<in> set ts. \<not> task_timeout u \<longrightarrow> task_arg u \<noteq> task_arg t)"
  by (induction ts) auto

lemma queue_ok_mono: "queue_ok L ts \<Longrightarrow> L' \<subseteq> L \<Longrightarrow> queue_ok L' ts"
  by (induction ts) auto

lemma queue_ok_insert_fresh:
  "queue_ok L ts \<Longrightarrow> a \<notin> task_arg ` set ts \<Longrightarrow> queue_ok (insert a L) ts"
  by (induction ts) auto

lemma queue_ok_live: "queue_ok L ts \<Longrightarrow> t \<in> set ts \<Longrightarrow> \<not> task_timeout t \<Longrightarrow> task_arg t \<notin> L"
  by (induction ts) auto

lemma capacity_cache_new [simp]: "capacity (cache_new cap) = cap"
  by (simp add: cache_new_def)

lemma cache_new_rep: "cache_rep (cache_new cap) []"
  by (simp add: cache_rep_def list_rep_def timers_rep_def cache_new_def dll_empty_inv key_map_def)

text \<open>The map of the keys under the list operations.\<close>

lemma key_map_Cons [simp]: "key_map (e # es) = (key_map es)(entry_key e \<mapsto> fst e)"
  by (simp add: key_map_def)

lemma key_map_None: "key_map es k = None \<longleftrightarrow> k \<notin> entry_key ` set es"
  by (simp add: key_map_def map_of_eq_None_iff image_image)

lemma key_map_Some:
  assumes "distinct (map entry_key es)"
  shows "key_map es k = Some p \<longleftrightarrow> (\<exists>d. (p, d) \<in> set es \<and> chd_key d = k)"
proof -
  have "distinct (map fst (map (\<lambda>e. (entry_key e, fst e)) es))"
    using assms by (simp add: comp_def)
  then have "key_map es k = Some p \<longleftrightarrow> (k, p) \<in> set (map (\<lambda>e. (entry_key e, fst e)) es)"
    unfolding key_map_def by (rule map_of_eq_Some_iff)
  then show ?thesis by force
qed

lemma key_map_append: "key_map (xs @ ys) k = (case key_map xs k of None \<Rightarrow> key_map ys k | Some p \<Rightarrow> Some p)"
  by (simp add: key_map_def map_add_def split: option.split)

lemma key_map_rotate:
  assumes "distinct (map entry_key (xs @ x # ys))"
  shows "key_map (xs @ x # ys) = key_map (x # xs @ ys)"
  using assms key_map_None [of xs "entry_key x"]
  by (auto simp: fun_eq_iff key_map_append split: option.split)

lemma key_map_delete:
  assumes "distinct (map entry_key (xs @ x # ys))"
  shows "(key_map (xs @ x # ys))(entry_key x := None) = key_map (xs @ ys)"
  using assms key_map_None [of xs "entry_key x"] key_map_None [of ys "entry_key x"]
  by (auto simp: fun_eq_iff key_map_append split: option.split)

lemma list_rep_lookup:
  "list_rep s es \<Longrightarrow> hash_to_node s k = Some p \<longleftrightarrow> (\<exists>d. (p, d) \<in> set es \<and> chd_key d = k)"
  by (simp add: list_rep_def key_map_Some)

lemma list_rep_None: "list_rep s es \<Longrightarrow> hash_to_node s k = None \<longleftrightarrow> k \<notin> entry_key ` set es"
  by (simp add: list_rep_def key_map_None)

lemma timers_rep_live:
  assumes "timers_rep s es" and "(p, d) \<in> set es"
  obtains t where "timers s (chd_timer d) = Some t" and "timer_arg t = chd_timer d"
proof -
  from assms(2) have "chd_timer d \<in> entry_timer ` set es" by (metis imageI snd_conv)
  with assms(1) have "chd_timer d \<in> dom (timers s)" by (simp add: timers_rep_def)
  then obtain t where t: "timers s (chd_timer d) = Some t" by auto
  moreover have "timer_arg t = chd_timer d" using assms(1) t by (simp add: timers_rep_def)
  ultimately show ?thesis by (rule that)
qed

lemma list_rep_split:
  assumes "list_rep s es" and "hash_to_node s k = Some p"
  obtains xs d ys where "es = xs @ (p, d) # ys" and "chd_key d = k"
proof -
  from list_rep_lookup [OF assms(1), of k p] assms(2)
  obtain d where "(p, d) \<in> set es" and k: "chd_key d = k" by blast
  then obtain xs ys where "es = xs @ (p, d) # ys" by (auto dest: split_list)
  with k that show ?thesis by blast
qed

lemma list_rep_node:
  assumes "list_rep s es" and "(p, d) \<in> set es"
  obtains n where "dll_heap (dll s) p = Some n" and "node_data n = Some d"
  using assms by (fastforce simp: list_rep_def dat_def bind_Some_iff)

subsection \<open>The steps every operation is made of\<close>

lemma touch_rep:
  assumes rep: "cache_rep s (xs @ (p, d) # ys)"
  obtains l n where "MoveToFront (dll s) p = Some l"
    and "cache_rep (s\<lparr>dll := l\<rparr>) ((p, d) # xs @ ys)"
    and "dll_heap l p = Some n" and "node_data n = Some d"
proof -
  have lr: "list_rep s (xs @ (p, d) # ys)" using rep by (simp add: cache_rep_def)
  then have "dll_inv (dll s) (map fst xs @ p # map fst ys)" by (simp add: list_rep_def)
  then obtain l where l: "MoveToFront (dll s) p = Some l" "dll_inv l (p # map fst xs @ map fst ys)"
    "dat (dll_heap l) = dat (dll_heap (dll s))"
    by (rule MoveToFront_correct)
  from lr have "hash_to_node s = key_map ((p, d) # xs @ ys)"
    using key_map_rotate [of xs "(p, d)" ys] by (simp only: list_rep_def)
  then have lr': "list_rep (s\<lparr>dll := l\<rparr>) ((p, d) # xs @ ys)"
    using lr l by (auto simp: list_rep_def)
  moreover have "timers_rep (s\<lparr>dll := l\<rparr>) ((p, d) # xs @ ys)"
    using rep by (auto simp: cache_rep_def timers_rep_def)
  ultimately have r: "cache_rep (s\<lparr>dll := l\<rparr>) ((p, d) # xs @ ys)" by (simp add: cache_rep_def)
  from lr' obtain n where "dll_heap l p = Some n" "node_data n = Some d"
    by (rule list_rep_node) auto
  with l r show ?thesis by (intro that [of l n]) auto
qed

lemma reset_timer_rep:
  assumes rep: "cache_rep s es" and mem: "(p, d) \<in> set es"
  obtains s' where "reset_timer (chd_timer d) s = Some s'" and "cache_rep s' es"
    and "dll s' = dll s" and "hash_to_node s' = hash_to_node s" and "capacity s' = capacity s"
    and "num_entries s' = num_entries s"
proof -
  from rep mem obtain t where t: "timers s (chd_timer d) = Some t"
    by (auto simp: cache_rep_def elim: timers_rep_live)
  let ?s' = "s\<lparr>timers := (timers s)(chd_timer d \<mapsto> t\<lparr>timer_armed := True\<rparr>)\<rparr>"
  have dom: "dom (timers ?s') = dom (timers s)" using t by auto
  have "timers_rep ?s' es"
    using rep t unfolding cache_rep_def timers_rep_def dom by auto
  moreover have "list_rep ?s' es" using rep by (simp add: cache_rep_def list_rep_def)
  ultimately show ?thesis
    using t by (intro that [of ?s']) (auto simp: reset_timer_def cache_rep_def)
qed

text \<open>Removing a node together with its map entry and its event.\<close>

lemma remove_node_rep:
  assumes rep: "cache_rep s (xs @ (p, d) # ys)"
  obtains l t where "Remove (dll s) p = Some (d, l)" and "timers s (chd_timer d) = Some t"
    and "timer_arg t = chd_timer d"
    and "cache_rep (s\<lparr>dll := l, hash_to_node := (hash_to_node s)(chd_key d := None),
           num_entries := num_entries s - 1, timers := (timers s)(chd_timer d := None),
           tasks := tasks s @ [\<lparr>task_arg = chd_timer d, task_timeout = False\<rparr>]\<rparr>) (xs @ ys)"
proof -
  let ?e = "chd_timer d"
  have lr: "list_rep s (xs @ (p, d) # ys)" and tr: "timers_rep s (xs @ (p, d) # ys)"
    using rep by (simp_all add: cache_rep_def)
  from lr have "dll_inv (dll s) (map fst xs @ p # map fst ys)" by (simp add: list_rep_def)
  then obtain d' l where l: "dat (dll_heap (dll s)) p = Some d'" "Remove (dll s) p = Some (d', l)"
    "dll_inv l (map fst xs @ map fst ys)" "dat (dll_heap l) = (dat (dll_heap (dll s)))(p := None)"
    by (rule Remove_correct)
  with lr have d': "d' = d" by (auto simp: list_rep_def)
  from lr have np: "p \<notin> fst ` set (xs @ ys)" by (auto simp: list_rep_def dll_inv_def)
  obtain t where t: "timers s ?e = Some t" "timer_arg t = ?e"
    by (rule timers_rep_live [OF tr, of p d]) simp
  let ?s' = "s\<lparr>dll := l, hash_to_node := (hash_to_node s)(chd_key d := None),
           num_entries := num_entries s - 1, timers := (timers s)(?e := None),
           tasks := tasks s @ [\<lparr>task_arg = ?e, task_timeout = False\<rparr>]\<rparr>"
  have "(hash_to_node s)(chd_key d := None) = key_map (xs @ ys)"
    using lr key_map_delete [of xs "(p, d)" ys] by (simp add: list_rep_def)
  with lr l np have "list_rep ?s' (xs @ ys)"
    by (auto simp: list_rep_def image_iff)
  moreover have "timers_rep ?s' (xs @ ys)"
  proof -
    have live: "task_arg u \<noteq> ?e" if "u \<in> set (tasks s)" "\<not> task_timeout u" for u
      using queue_ok_live [of "dom (timers s)" "tasks s" u] tr that t by (auto simp: timers_rep_def)
    have "queue_ok (dom (timers s) - {?e}) (tasks s)"
      using tr by (auto simp: timers_rep_def intro: queue_ok_mono)
    moreover have "?e \<in> dom (expiry_data s)" using tr by (auto simp: timers_rep_def)
    moreover have "?e \<notin> entry_timer ` set (xs @ ys)" using tr by (auto simp: timers_rep_def)
    then have "entry_timer ` set (xs @ (p, d) # ys) - {?e} = entry_timer ` set (xs @ ys)" by auto
    ultimately show ?thesis using tr live
      by (auto simp: timers_rep_def image_iff)
  qed
  ultimately show ?thesis using l t d' by (intro that [of l t]) (auto simp: cache_rep_def)
qed

lemma new_entry_rep:
  fixes s :: "('k, 'v) cache" and v :: 'v
  assumes rep: "cache_rep s es" and new: "hash_to_node s k = None"
  defines "a \<equiv> fresh_handle s"
  defines "d \<equiv> \<lparr>chd_key = k, chd_value = v, chd_timer = a\<rparr>"
  obtains p l where "InsertAtFront (dll s) d = Some (p, l)"
    and "cache_rep (s\<lparr>expiry_data := (expiry_data s)(a \<mapsto> k),
           timers := (timers s)(a \<mapsto> \<lparr>timer_arg = a, timer_armed = True\<rparr>),
           fresh_handle := Suc a, dll := l, hash_to_node := (hash_to_node s)(k \<mapsto> p),
           num_entries := num_entries s + 1\<rparr>) ((p, d) # es)"
proof -
  have lr: "list_rep s es" and tr: "timers_rep s es" using rep by (simp_all add: cache_rep_def)
  then have "dll_inv (dll s) (map fst es)" by (simp add: list_rep_def)
  then obtain l where l: "InsertAtFront (dll s) d = Some (dll_fresh (dll s), l)"
    "dll_inv l (dll_fresh (dll s) # map fst es)"
    "dat (dll_heap l) = (dat (dll_heap (dll s)))(dll_fresh (dll s) := Some d)"
    by (rule InsertAtFront_correct)
  let ?p = "dll_fresh (dll s)"
  have np: "?p \<notin> fst ` set es" using l(2) by (auto simp: dll_inv_def)
  have nk: "k \<notin> entry_key ` set es" using list_rep_None [OF lr] new by blast
  let ?s' = "s\<lparr>expiry_data := (expiry_data s)(a \<mapsto> k),
           timers := (timers s)(a \<mapsto> \<lparr>timer_arg = a, timer_armed = True\<rparr>),
           fresh_handle := Suc a, dll := l, hash_to_node := (hash_to_node s)(k \<mapsto> ?p),
           num_entries := num_entries s + 1\<rparr>"
  have "list_rep ?s' ((?p, d) # es)"
    using lr l np nk by (auto simp: list_rep_def d_def image_iff)
  moreover have "timers_rep ?s' ((?p, d) # es)"
  proof -
    have fr: "a \<notin> dom (expiry_data s)" using tr by (auto simp: timers_rep_def a_def)
    then have na: "a \<notin> entry_timer ` set es" using tr by (force simp: timers_rep_def)
    have nt: "a \<notin> task_arg ` set (tasks s)" using fr tr by (auto simp: timers_rep_def)
    have q: "queue_ok (insert a (dom (timers s))) (tasks s)"
      using tr nt by (auto simp: timers_rep_def intro: queue_ok_insert_fresh)
    have lt: "\<forall>b \<in> dom (expiry_data s). b < Suc a" using tr by (auto simp: timers_rep_def a_def less_Suc_eq)
    have ed: "expiry_data s (entry_timer e) = Some (entry_key e)" "entry_timer e \<noteq> a" if "e \<in> set es" for e
      using tr na that by (auto simp: timers_rep_def)
    show ?thesis
      unfolding timers_rep_def using tr na q lt ed
      by (auto simp: timers_rep_def d_def)
  qed
  ultimately show ?thesis using l by (intro that [of ?p l]) (simp_all add: cache_rep_def)
qed

subsection \<open>The abstract LRU list\<close>

definition lru_touch :: "'k \<Rightarrow> ('k \<times> 'v) list \<Rightarrow> ('k \<times> 'v) list" where
  "lru_touch k xs =
     (case map_of xs k of None \<Rightarrow> xs | Some v \<Rightarrow> (k, v) # filter (\<lambda>e. fst e \<noteq> k) xs)"

fun lru_insert_loop :: "int \<Rightarrow> ('k \<times> 'v) list \<Rightarrow> ('k \<times> 'v) list \<Rightarrow> ('k \<times> 'v) list" where
  "lru_insert_loop cap [] xs = xs"
| "lru_insert_loop cap (e # es) xs =
     (if fst e \<in> fst ` set xs then lru_insert_loop cap es (lru_touch (fst e) xs)
      else if int (length (e # xs)) = cap then e # xs
      else lru_insert_loop cap es (e # xs))"

definition lru_insert :: "int \<Rightarrow> ('k \<times> 'v) list \<Rightarrow> ('k \<times> 'v) list \<Rightarrow> ('k \<times> 'v) list" where
  "lru_insert cap es xs =
     lru_insert_loop cap es (take (length xs - nat (int (length xs) + int (length es) - cap)) xs)"

lemma map_fst_content: "map fst (content es) = map entry_key es"
  by (simp add: content_def)

lemma length_content [simp]: "length (content es) = length es"
  by (simp add: content_def)

lemma keys_content: "fst ` set (content es) = entry_key ` set es"
  by (simp add: content_def image_image)

lemma content_take: "content (take n es) = take n (content es)"
  by (simp add: content_def take_map)

lemma content_Nil [simp]: "content [] = []"
  by (simp add: content_def)

lemma content_Cons [simp]: "content (e # es) = (entry_key e, chd_value (snd e)) # content es"
  by (simp add: content_def)

lemma cache_rep_distinct: "cache_rep s es \<Longrightarrow> distinct (map fst (content es))"
  by (simp add: cache_rep_def list_rep_def map_fst_content)

lemma lookup_content:
  assumes "cache_rep s es"
  shows "hash_to_node s k = None \<longleftrightarrow> k \<notin> fst ` set (content es)"
  using list_rep_None [of s es k] assms by (simp add: cache_rep_def keys_content)

lemma lru_touch_split:
  assumes "distinct (map fst (xs @ (k, v) # ys))"
  shows "lru_touch k (xs @ (k, v) # ys) = (k, v) # xs @ ys"
    and "map_of (xs @ (k, v) # ys) k = Some v"
proof -
  from assms have "k \<notin> fst ` set xs" "k \<notin> fst ` set ys" by auto
  then have f: "filter (\<lambda>e. fst e \<noteq> k) xs = xs" "filter (\<lambda>e. fst e \<noteq> k) ys = ys"
    by (auto simp: filter_id_conv)
  show m: "map_of (xs @ (k, v) # ys) k = Some v"
    by (rule map_of_is_SomeI [OF assms]) simp
  show "lru_touch k (xs @ (k, v) # ys) = (k, v) # xs @ ys"
    unfolding lru_touch_def m by (simp add: f)
qed

lemma map_of_filter_key: "map_of (filter (\<lambda>e. fst e \<noteq> k) xs) = (map_of xs)(k := None)"
  by (induction xs) (auto simp: fun_eq_iff)

lemma lru_touch_map_of: "map_of (lru_touch k xs) = map_of xs"
  by (auto simp: lru_touch_def map_of_filter_key fun_eq_iff split: option.split)

text \<open>A hit: the node moves to the front, in the heap and in the abstract list.\<close>

lemma touch_content:
  assumes rep: "cache_rep s es" and hit: "hash_to_node s k = Some p"
  obtains l n d es' where "MoveToFront (dll s) p = Some l" and "dll_heap l p = Some n"
    and "node_data n = Some d" and "(p, d) \<in> set es" and "cache_rep (s\<lparr>dll := l\<rparr>) es'"
    and "content es' = lru_touch k (content es)" and "map_of (content es) k = Some (chd_value d)"
proof -
  from rep have "list_rep s es" by (simp add: cache_rep_def)
  then obtain xs d ys where es: "es = xs @ (p, d) # ys" and k: "chd_key d = k"
    using hit by (rule list_rep_split)
  from rep have "cache_rep s (xs @ (p, d) # ys)" by (simp add: es)
  then obtain l n where l: "MoveToFront (dll s) p = Some l"
    "cache_rep (s\<lparr>dll := l\<rparr>) ((p, d) # xs @ ys)" "dll_heap l p = Some n" "node_data n = Some d"
    by (rule touch_rep)
  have c: "content es = content xs @ (k, chd_value d) # content ys"
    and c': "content ((p, d) # xs @ ys) = (k, chd_value d) # content xs @ content ys"
    by (simp_all add: content_def es k)
  have dist: "distinct (map fst (content xs @ (k, chd_value d) # content ys))"
    using cache_rep_distinct [OF rep] by (simp only: c)
  show ?thesis
    by (rule that [OF l(1,3,4) _ l(2)])
       (simp_all only: c c' lru_touch_split [OF dist], simp add: es)
qed

text \<open>Removing the node \<open>p\<close> is the same composite step in \<open>Evict\<close> and in the expiry closure.\<close>

lemma remove_node_content:
  assumes rep: "cache_rep s (xs @ (p, d) # ys)"
  obtains s' where "remove_node p (s\<lparr>num_entries := num_entries s - 1\<rparr>) = Some s'"
    and "cache_rep (s'\<lparr>hash_to_node := (hash_to_node s')(chd_key d := None)\<rparr>) (xs @ ys)"
    and "capacity s' = capacity s" and "hash_to_node s' = hash_to_node s"
    and "remove_node p (s\<lparr>hash_to_node := (hash_to_node s)(chd_key d := None)\<rparr>) =
      Some (s'\<lparr>num_entries := num_entries s, hash_to_node := (hash_to_node s)(chd_key d := None)\<rparr>)"
    and "num_entries s' = num_entries s - 1"
proof -
  obtain l t where r: "Remove (dll s) p = Some (d, l)" "timers s (chd_timer d) = Some t"
    "timer_arg t = chd_timer d"
    "cache_rep (s\<lparr>dll := l, hash_to_node := (hash_to_node s)(chd_key d := None),
       num_entries := num_entries s - 1, timers := (timers s)(chd_timer d := None),
       tasks := tasks s @ [\<lparr>task_arg = chd_timer d, task_timeout = False\<rparr>]\<rparr>) (xs @ ys)"
    by (rule remove_node_rep [OF rep])
  let ?s' = "s\<lparr>dll := l, num_entries := num_entries s - 1,
       timers := (timers s)(chd_timer d := None),
       tasks := tasks s @ [\<lparr>task_arg = chd_timer d, task_timeout = False\<rparr>]\<rparr>"
  have eq: "s\<lparr>dll := l, hash_to_node := (hash_to_node s)(chd_key d := None),
       num_entries := num_entries s - 1, timers := (timers s)(chd_timer d := None),
       tasks := tasks s @ [\<lparr>task_arg = chd_timer d, task_timeout = False\<rparr>]\<rparr>
     = ?s'\<lparr>hash_to_node := (hash_to_node s)(chd_key d := None)\<rparr>"
    by (cases s) simp
  show ?thesis
  proof (rule that [of ?s'])
    show "cache_rep (?s'\<lparr>hash_to_node := (hash_to_node ?s')(chd_key d := None)\<rparr>) (xs @ ys)"
      using r(4) eq by simp
    show "remove_node p (s\<lparr>num_entries := num_entries s - 1\<rparr>) = Some ?s'"
      using r(1-3) by (cases s) (simp add: remove_node_def destroy_event_def EntryExpiryCallback_def)
    show "remove_node p (s\<lparr>hash_to_node := (hash_to_node s)(chd_key d := None)\<rparr>) =
      Some (?s'\<lparr>num_entries := num_entries s, hash_to_node := (hash_to_node s)(chd_key d := None)\<rparr>)"
      using r(1-3) by (cases s) (simp add: remove_node_def destroy_event_def EntryExpiryCallback_def)
  qed simp_all
qed

subsection \<open>Refinement of the operations\<close>

lemma Query_loop_content:
  assumes "cache_rep s es"
  shows "\<exists>s' es' r. Query_loop ks found s = Some (r, s') \<and> cache_rep s' es' \<and>
    content es' = fold lru_touch ks (content es) \<and> capacity s' = capacity s \<and>
    num_entries s' = num_entries s \<and>
    r = fold (\<lambda>k m. case map_of (content es) k of None \<Rightarrow> m | Some v \<Rightarrow> try_emplace m k v) ks found"
  using assms
proof (induction ks arbitrary: s es found)
  case Nil
  then show ?case by auto
next
  case (Cons k ks)
  show ?case
  proof (cases "hash_to_node s k")
    case None
    with Cons.prems have "map_of (content es) k = None"
      using lookup_content [OF Cons.prems] by (simp add: map_of_eq_None_iff)
    with None Cons show ?thesis by (simp add: lru_touch_def)
  next
    case (Some p)
    obtain l n d es' where t: "MoveToFront (dll s) p = Some l" "dll_heap l p = Some n"
      "node_data n = Some d" "cache_rep (s\<lparr>dll := l\<rparr>) es'"
      "content es' = lru_touch k (content es)" "map_of (content es) k = Some (chd_value d)"
      by (rule touch_content [OF Cons.prems Some])
    have "map_of (content es') = map_of (content es)"
      using t(5,6) by (simp add: lru_touch_map_of)
    then show ?thesis
      using Cons.IH [OF t(4), of "try_emplace found k (chd_value d)"] t Some
      by (simp del: try_emplace_apply)
  qed
qed

lemma Evict_content:
  assumes "cache_rep s es" and "0 \<le> N"
  shows "\<exists>s'. Evict N s = Some (if N \<le> int (length es) then OkStatus else Some Internal, s') \<and>
    cache_rep s' (take (length es - nat N) es) \<and> capacity s' = capacity s"
  using assms
proof (induction "nat N" arbitrary: N s es)
  case 0
  then have "N = 0" by simp
  moreover have "dll_inv (dll s) (map fst es)" using 0 by (simp add: cache_rep_def list_rep_def)
  ultimately show ?case using 0
    by (cases "es = []") (simp_all add: Evict.simps [of 0] Tail_correct)
next
  case (Suc m)
  then have pos: "N > 0" by simp
  have inv: "dll_inv (dll s) (map fst es)" using Suc.prems by (simp add: cache_rep_def list_rep_def)
  show ?case
  proof (cases es rule: rev_cases)
    case Nil
    with pos Suc.prems inv show ?thesis by (simp add: Evict.simps [of N] Tail_correct)
  next
    case (snoc xs e)
    obtain p d where e: "e = (p, d)" by (cases e)
    from Suc.prems snoc e have rep: "cache_rep s (xs @ (p, d) # [])" by simp
    then have "list_rep s (xs @ [(p, d)])" by (simp add: cache_rep_def)
    then obtain n where n: "dll_heap (dll s) p = Some n" "node_data n = Some d"
      by (rule list_rep_node) auto
    obtain s' where r: "cache_rep (s'\<lparr>hash_to_node := (hash_to_node s')(chd_key d := None)\<rparr>) (xs @ [])"
      "capacity s' = capacity s" "hash_to_node s' = hash_to_node s"
      "remove_node p (s\<lparr>hash_to_node := (hash_to_node s)(chd_key d := None)\<rparr>) =
       Some (s'\<lparr>num_entries := num_entries s, hash_to_node := (hash_to_node s)(chd_key d := None)\<rparr>)"
      "num_entries s' = num_entries s - 1"
      by (rule remove_node_content [OF rep])
    let ?s1 = "s'\<lparr>hash_to_node := (hash_to_node s')(chd_key d := None)\<rparr>"
    have "m = nat (N - 1)" and "0 \<le> N - 1" using Suc.hyps(2) pos by simp_all
    then obtain s2 where s2: "Evict (N - 1) ?s1 = Some (if N - 1 \<le> int (length xs) then OkStatus else Some Internal, s2)"
      "cache_rep s2 (take (length xs - nat (N - 1)) xs)" "capacity s2 = capacity ?s1"
      using Suc.hyps(1) [of "N - 1" ?s1 xs] r(1) by auto
    have eq: "?s1 = s'\<lparr>hash_to_node := (hash_to_node s)(chd_key d := None), num_entries := num_entries s - 1\<rparr>"
      using r by (cases s') simp
    have run: "Evict N s = Evict (N - 1) ?s1"
      unfolding eq using inv pos n r snoc e by (subst Evict.simps) (simp add: Tail_correct)
    have "take (length es - nat N) es = take (length xs - nat (N - 1)) xs"
      using snoc pos by (simp add: nat_diff_distrib)
    with s2 run r snoc show ?thesis by (auto simp: algebra_simps)
  qed
qed

lemma Insert_loop_content:
  assumes "cache_rep s es"
  shows "\<exists>s' es'. Insert_loop ents s = Some s' \<and> cache_rep s' es' \<and> capacity s' = capacity s \<and>
    content es' = lru_insert_loop (capacity s) ents (content es)"
  using assms
proof (induction ents arbitrary: s es)
  case Nil
  then show ?case by auto
next
  case (Cons e ents)
  obtain k v where e: "e = (k, v)" by (cases e)
  show ?case
  proof (cases "hash_to_node s k")
    case None
    then have absent: "k \<notin> fst ` set (content es)" using lookup_content [OF Cons.prems] by blast
    let ?a = "fresh_handle s"
    let ?d = "\<lparr>chd_key = k, chd_value = v, chd_timer = ?a\<rparr>"
    obtain p l where r: "InsertAtFront (dll s) ?d = Some (p, l)"
      "cache_rep (s\<lparr>expiry_data := (expiry_data s)(?a \<mapsto> k),
         timers := (timers s)(?a \<mapsto> \<lparr>timer_arg = ?a, timer_armed = True\<rparr>),
         fresh_handle := Suc ?a, dll := l, hash_to_node := (hash_to_node s)(k \<mapsto> p),
         num_entries := num_entries s + 1\<rparr>) ((p, ?d) # es)"
      (is "cache_rep ?s2 _")
      by (rule new_entry_rep [OF Cons.prems None])
    have num: "num_entries ?s2 = int (length (e # content es))"
      using r(2) by (simp add: cache_rep_def list_rep_def)
    have step: "Insert_loop (e # ents) s =
        (if num_entries ?s2 = capacity s then Some ?s2 else Insert_loop ents ?s2)"
      using e None r(1) by (simp add: Let_def)
    have c: "content ((p, ?d) # es) = e # content es" by (simp add: e)
    show ?thesis
    proof (cases "num_entries ?s2 = capacity s")
      case True
      have "lru_insert_loop (capacity s) (e # ents) (content es) = e # content es"
        using True num absent e by simp
      with True r(2) c step show ?thesis by (intro exI [of _ ?s2] exI [of _ "(p, ?d) # es"]) simp
    next
      case False
      have "lru_insert_loop (capacity s) (e # ents) (content es)
          = lru_insert_loop (capacity s) ents (content ((p, ?d) # es))"
        using False num absent e by simp
      then show ?thesis
        using False step Cons.IH [OF r(2)] by simp
    qed
  next
    case (Some p)
    obtain l0 n0 d es0 where t0: "(p, d) \<in> set es"
      by (rule touch_content [OF Cons.prems Some])
    have "list_rep s es" using Cons.prems by (simp add: cache_rep_def)
    then obtain n where n: "dll_heap (dll s) p = Some n" "node_data n = Some d"
      using t0 by (rule list_rep_node)
    obtain s1 where s1: "reset_timer (chd_timer d) s = Some s1" "cache_rep s1 es" "dll s1 = dll s"
      "hash_to_node s1 = hash_to_node s" "capacity s1 = capacity s"
      by (rule reset_timer_rep [OF Cons.prems t0])
    from Some s1 have hit: "hash_to_node s1 k = Some p" by simp
    obtain l es' where t: "MoveToFront (dll s1) p = Some l" "cache_rep (s1\<lparr>dll := l\<rparr>) es'"
      "content es' = lru_touch k (content es)" "map_of (content es) k \<noteq> None"
      by (rule touch_content [OF s1(2) hit]) auto
    have "k \<in> fst ` set (content es)" using t(4) by (metis map_of_eq_None_iff)
    then show ?thesis
      using Cons.IH [OF t(2)] t s1 n Some e by simp
  qed
qed

subsection \<open>Every step keeps the invariant\<close>

lemma Query_content:
  assumes "cache_rep s es"
  obtains s' es' r where "Query ks s = Some (r, s')" and "cache_rep s' es'"
    and "content es' = fold lru_touch ks (content es)" and "capacity s' = capacity s"
    and "num_entries s' = num_entries s"
    and "r = fold (\<lambda>k m. case map_of (content es) k of None \<Rightarrow> m | Some v \<Rightarrow> try_emplace m k v)
               ks Map.empty"
  using Query_loop_content [OF assms, of ks Map.empty] unfolding Query_def by blast

lemma Insert_content:
  assumes rep: "cache_rep s es"
  obtains s' es' where "Insert ents s = Some (OkStatus, s')" and "cache_rep s' es'"
    and "capacity s' = capacity s" and "content es' = lru_insert (capacity s) ents (content es)"
proof -
  let ?over = "num_entries s + int (length ents) - capacity s"
  have num: "num_entries s = int (length es)" using rep by (simp add: cache_rep_def list_rep_def)
  obtain s1 where s1: "(if ?over > 0 then map_option snd (Evict ?over s) else Some s) = Some s1"
    "cache_rep s1 (take (length es - nat ?over) es)" "capacity s1 = capacity s"
  proof (cases "?over > 0")
    case True
    then show ?thesis using Evict_content [OF rep, of ?over] that by auto
  next
    case False
    then show ?thesis using rep that [of s] by simp
  qed
  obtain s' es' where "Insert_loop ents s1 = Some s'" "cache_rep s' es'" "capacity s' = capacity s1"
    "content es' = lru_insert_loop (capacity s1) ents (content (take (length es - nat ?over) es))"
    using Insert_loop_content [OF s1(2), of ents] by blast
  moreover from this s1(1) have "Insert ents s = Some (OkStatus, s')"
    by (simp add: Insert_def Let_def)
  ultimately show ?thesis
    using s1 num by (intro that [of s' es']) (simp_all add: lru_insert_def content_take)
qed

lemma run_task_inv:
  assumes rep: "cache_rep s es" and q: "tasks s = t # ts"
  obtains s' es' where "run_task t (s\<lparr>tasks := ts\<rparr>) = Some s'" and "cache_rep s' es'"
    and "capacity s' = capacity s" and "length es' \<le> length es"
proof -
  have lr: "list_rep s es" and tr: "timers_rep s es" using rep by (simp_all add: cache_rep_def)
  let ?s = "s\<lparr>tasks := ts\<rparr>"
  have lr0: "list_rep ?s es" using lr by (simp add: list_rep_def)
  have tr0: "timers_rep ?s es" using tr q by (auto simp: timers_rep_def)
  from tr q obtain key where key: "expiry_data s (task_arg t) = Some key"
    by (auto simp: timers_rep_def)
  show ?thesis
  proof (cases "task_timeout t")
    case False
    let ?s' = "?s\<lparr>expiry_data := (expiry_data s)(task_arg t := None)\<rparr>"
    have dead: "task_arg t \<notin> entry_timer ` set es" "task_arg t \<notin> task_arg ` set ts"
      using tr q False by (auto simp: timers_rep_def)
    have "timers_rep ?s' es"
      using tr0 dead by (auto simp: timers_rep_def image_iff)
    moreover have "list_rep ?s' es" using lr by (simp add: list_rep_def)
    ultimately show ?thesis
      using False key by (intro that [of ?s' es]) (simp_all add: run_task_def cache_rep_def)
  next
    case True
    show ?thesis
    proof (cases "hash_to_node s key")
      case None
      with True key lr0 tr0 show ?thesis
        by (intro that [of ?s es]) (simp_all add: run_task_def cache_rep_def)
    next
      case (Some p)
      then obtain xs d ys where es: "es = xs @ (p, d) # ys" and k: "chd_key d = key"
        using lr by (auto elim: list_rep_split)
      have "cache_rep ?s (xs @ (p, d) # ys)" using lr0 tr0 es by (simp add: cache_rep_def)
      then obtain s' where "remove_node p (?s\<lparr>num_entries := num_entries ?s - 1\<rparr>) = Some s'"
        "cache_rep (s'\<lparr>hash_to_node := (hash_to_node s')(chd_key d := None)\<rparr>) (xs @ ys)"
        "capacity s' = capacity ?s"
        by (rule remove_node_content)
      with True key Some k es show ?thesis
        by (intro that [of "s'\<lparr>hash_to_node := (hash_to_node s')(chd_key d := None)\<rparr>" "xs @ ys"])
           (simp_all add: run_task_def)
    qed
  qed
qed

lemma fire_timer_inv:
  assumes rep: "cache_rep s es" and f: "fire_timer e s = Some s'"
  shows "cache_rep s' es" and "capacity s' = capacity s"
proof -
  from f obtain t where t: "timers s e = Some t" and
    s': "s' = EntryExpiryCallback True (timer_arg t)
           (s\<lparr>timers := (timers s)(e \<mapsto> t\<lparr>timer_armed := False\<rparr>)\<rparr>)"
    by (auto simp: fire_timer_def bind_Some_iff split: if_splits)
  have lr: "list_rep s' es" using rep by (simp add: s' EntryExpiryCallback_def cache_rep_def list_rep_def)
  have tr: "timers_rep s es" using rep by (simp add: cache_rep_def)
  have dom: "dom ((timers s)(e \<mapsto> t\<lparr>timer_armed := False\<rparr>)) = dom (timers s)" using t by auto
  have e: "timer_arg t = e" "e \<in> dom (timers s)" using tr t by (auto simp: timers_rep_def)
  have "queue_ok (dom (timers s)) (tasks s)" using tr unfolding timers_rep_def by blast
  then have "task_arg u \<noteq> e" if "u \<in> set (tasks s)" "\<not> task_timeout u" for u
    using queue_ok_live [of "dom (timers s)" "tasks s" u] that e(2) by blast
  moreover have "e \<in> dom (expiry_data s)" using tr e by (auto simp: timers_rep_def)
  ultimately have "timers_rep s' es"
    using tr e dom by (auto simp: s' EntryExpiryCallback_def timers_rep_def)
  with lr show "cache_rep s' es" by (simp add: cache_rep_def)
  show "capacity s' = capacity s" by (simp add: s' EntryExpiryCallback_def)
qed

lemma lru_touch_keys: "fst ` set (lru_touch k xs) = fst ` set xs"
  using lru_touch_map_of [of k xs] by (metis dom_map_of_conv_image_fst)

lemma lru_touch_distinct:
  "distinct (map fst xs) \<Longrightarrow> distinct (map fst (lru_touch k xs))"
  by (auto simp: lru_touch_def distinct_map_filter split: option.split)

lemma lru_touch_length:
  assumes "distinct (map fst xs)"
  shows "length (lru_touch k xs) = length xs"
proof -
  have "card (fst ` set (lru_touch k xs)) = card (fst ` set xs)" by (simp only: lru_touch_keys)
  then show ?thesis
    using lru_touch_distinct [OF assms, of k] assms
    by (metis distinct_card length_map list.set_map)
qed

lemma lru_insert_loop_bound:
  "distinct (map fst xs) \<Longrightarrow> int (length xs) < cap \<Longrightarrow> int (length (lru_insert_loop cap es xs)) \<le> cap"
proof (induction es arbitrary: xs)
  case Nil
  then show ?case by simp
next
  case (Cons e es)
  then show ?case by (auto simp: lru_touch_length lru_touch_distinct)
qed

lemma lru_insert_bound:
  assumes "distinct (map fst xs)" and "0 < cap" and "int (length xs) \<le> cap"
  shows "int (length (lru_insert cap es xs)) \<le> cap"
proof (cases "es = []")
  case True
  then show ?thesis using assms by (simp add: lru_insert_def)
next
  case False
  then have "0 < length es" by simp
  then have "int (length (take (length xs - nat (int (length xs) + int (length es) - cap)) xs)) < cap"
    using assms by (simp, arith)
  then show ?thesis
    unfolding lru_insert_def using assms by (intro lru_insert_loop_bound) (auto simp: distinct_take take_map [symmetric])
qed

lemma lru_insert_loop_keys:
  "distinct (map fst xs) \<Longrightarrow> int (length xs) + int (length es) \<le> cap \<Longrightarrow>
   fst ` set (lru_insert_loop cap es xs) = fst ` set es \<union> fst ` set xs"
proof (induction es arbitrary: xs)
  case Nil
  then show ?case by simp
next
  case (Cons e es)
  show ?case
  proof (cases "fst e \<in> fst ` set xs")
    case True
    have "fst ` set (lru_insert_loop cap es (lru_touch (fst e) xs)) = fst ` set es \<union> fst ` set xs"
      using Cons by (simp add: lru_touch_length lru_touch_distinct lru_touch_keys)
    with True show ?thesis by auto
  next
    case False
    show ?thesis
    proof (cases "int (length (e # xs)) = cap")
      case True
      have "int (length xs) + (int (length es) + 1) \<le> cap" using Cons.prems by simp
      with True have "int (length es) \<le> 0" unfolding list.size by linarith
      then have "es = []" by simp
      with True False show ?thesis by simp
    next
      case neq: False
      have "fst ` set (lru_insert_loop cap es (e # xs)) = fst ` set es \<union> fst ` set (e # xs)"
        using Cons.prems False by (intro Cons.IH) auto
      with neq False show ?thesis by auto
    qed
  qed
qed

lemma fold_lru_touch_keys: "fst ` set (fold lru_touch ks xs) = fst ` set xs"
  by (induction ks arbitrary: xs) (auto simp: lru_touch_keys)

lemma lru_insert_loop_keys_subset:
  "fst ` set (lru_insert_loop cap es xs) \<subseteq> fst ` set es \<union> fst ` set xs"
proof (induction es arbitrary: xs)
  case Nil
  then show ?case by simp
next
  case (Cons e es)
  show ?case
    using Cons [of "lru_touch (fst e) xs"] Cons [of "e # xs"] by (auto simp: lru_touch_keys)
qed

lemma lru_insert_keys: "fst ` set (lru_insert cap es xs) \<subseteq> fst ` set xs \<union> fst ` set es"
  using lru_insert_loop_keys_subset [of cap es] set_take_subset
  unfolding lru_insert_def by fast

text \<open>What the query loop collects.\<close>

lemma fold_found:
  "fold (\<lambda>k m. case f k of None \<Rightarrow> m | Some v \<Rightarrow> try_emplace m k v) ks found =
     (\<lambda>k. case found k of None \<Rightarrow> if k \<in> set ks then f k else None | Some v \<Rightarrow> Some v)"
proof (induction ks arbitrary: found)
  case Nil
  show ?case by (auto simp: fun_eq_iff split: option.split)
next
  case (Cons k ks)
  show ?case
    by (cases "f k") (auto simp: Cons fun_eq_iff split: option.split)
qed

lemma cache_step_inv:
  assumes "cache_step s t" and "cache_inv s"
  shows "cache_inv t \<and> capacity t = capacity s \<and>
    (0 < capacity s \<and> num_entries s \<le> capacity s \<longrightarrow> num_entries t \<le> capacity t)"
proof -
  from assms(2) obtain es where rep: "cache_rep s es" by (auto simp: cache_inv_def)
  have num: "num_entries u = int (length fs)" if "cache_rep u fs" for u :: "('a, 'b) cache" and fs
    using that by (simp add: cache_rep_def list_rep_def)
  from assms(1) show ?thesis
  proof cases
    case (query keys r)
    obtain s' es' r' where q: "Query keys s = Some (r', s')" "cache_rep s' es'" "capacity s' = capacity s"
      "num_entries s' = num_entries s"
      by (rule Query_content [OF rep])
    with query have "s' = t" by simp
    with q show ?thesis by (auto simp: cache_inv_def)
  next
    case (insert ents st)
    obtain s' es' where i: "Insert ents s = Some (OkStatus, s')" "cache_rep s' es'"
      "capacity s' = capacity s" "content es' = lru_insert (capacity s) ents (content es)"
      by (rule Insert_content [OF rep])
    with insert have t: "s' = t" by simp
    have "int (length (content es')) \<le> capacity s" if "0 < capacity s" "num_entries s \<le> capacity s"
      using lru_insert_bound [OF cache_rep_distinct [OF rep] that(1), of ents] that num [OF rep]
      unfolding i(4) by simp
    then have "num_entries t \<le> capacity s" if "0 < capacity s" "num_entries s \<le> capacity s"
      using that num [OF i(2)] t by simp
    with i t show ?thesis by (auto simp: cache_inv_def)
  next
    case (fire e)
    with rep have "cache_rep t es" "capacity t = capacity s" using fire_timer_inv by blast+
    with num [OF rep] num show ?thesis by (auto simp: cache_inv_def)
  next
    case (run u ts)
    obtain s' es' where r: "run_task u (s\<lparr>tasks := ts\<rparr>) = Some s'" "cache_rep s' es'"
      "capacity s' = capacity s" "length es' \<le> length es"
      by (rule run_task_inv [OF rep run(1)])
    with run have "s' = t" by simp
    with r num [OF rep] num [OF r(2)] show ?thesis by (auto simp: cache_inv_def)
  qed
qed

lemma cache_reachable_inv_bound:
  "cache_reachable cap s \<Longrightarrow>
   cache_inv s \<and> capacity s = cap \<and> (0 < cap \<longrightarrow> num_entries s \<le> capacity s)"
proof (induction rule: cache_reachable.induct)
  case start
  show ?case using cache_new_rep by (auto simp: cache_inv_def) (auto simp: cache_new_def)
next
  case (step s t)
  then show ?case using cache_step_inv [of s t] by auto
qed

lemma zero_capacity_insert:
  fixes ents :: "('k \<times> 'v) list"
  assumes "distinct (map fst ents)"
  shows "\<exists>s. Insert ents (cache_new 0) = Some (OkStatus, s) \<and> num_entries s = int (length ents)"
proof -
  have loop: "length (lru_insert_loop 0 es xs) = length es + length xs"
    if "distinct (map fst es)" "fst ` set es \<inter> fst ` set xs = {}"
    for es xs :: "('k \<times> 'v) list"
    using that by (induction es arbitrary: xs) auto
  obtain s es where i: "Insert ents (cache_new 0) = Some (OkStatus, s)" "cache_rep s es"
    "content es = lru_insert 0 ents []"
    by (rule Insert_content [OF cache_new_rep, of ents 0]) simp
  have "length (content es) = length ents"
    unfolding i(3) lru_insert_def by (simp add: loop assms)
  then have "num_entries s = int (length ents)"
    using i(2) by (simp add: cache_rep_def list_rep_def)
  with i(1) show ?thesis by blast
qed

subsection \<open>Properties\<close>

text \<open>C19. An insertion never runs into an invalid pointer and reports OK, and its effect on the
  cached entries, in recency order, is that of the abstract LRU list: the overflow is evicted
  from the back, present keys move to the front with their value unchanged, new entries are put
  in front, and the batch stops when the cache is full.\<close>

theorem Insert_refines_lru:
  assumes "cache_rep s es"
  shows "\<exists>s' es'. Insert ents s = Some (OkStatus, s') \<and> cache_rep s' es' \<and>
    capacity s' = capacity s \<and> content es' = lru_insert (capacity s) ents (content es)"
  by (rule Insert_content [OF assms, of ents]) blast

theorem Insert_refines_lru_witness:
  "cache_rep (cache_new 2 :: (string, nat) cache) [] \<and>
   (\<exists>s es. Insert [(''a'', 5::nat), (''b'', 6), (''c'', 7)] (cache_new 2) = Some (OkStatus, s) \<and>
      cache_rep s es \<and> content es = [(''b'', 6), (''a'', 5)])"
  using Insert_refines_lru [OF cache_new_rep, of "[(''a'', 5::nat), (''b'', 6), (''c'', 7)]" 2]
    cache_new_rep [of 2, where 'a = string and 'b = nat]
  by (auto simp: lru_insert_def)





text \<open>A cache of positive capacity never holds more entries than its capacity.\<close>

theorem cache_capacity_bound:
  assumes "cache_reachable cap s" and "0 < cap"
  shows "num_entries s \<le> cap"
  using cache_reachable_inv_bound [OF assms(1)] assms(2) by simp

theorem cache_capacity_bound_witness:
  "\<exists>s :: (nat, nat) cache. cache_reachable 1 s \<and> num_entries s \<le> 1 \<and> s \<noteq> cache_new 1"
proof -
  let ?ents = "[(1, 5), (2, 6)] :: (nat \<times> nat) list"
  obtain s es where i: "Insert ?ents (cache_new 1) = Some (OkStatus, s)" "cache_rep s es"
    "content es = lru_insert 1 ?ents []"
    by (rule Insert_content [OF cache_new_rep, of ?ents 1]) simp
  have "cache_step (cache_new 1) s" by (rule cache_step.insert [OF _ i(1)]) simp
  then have r: "cache_reachable 1 s" by (rule cache_reachable.step [OF cache_reachable.start])
  have "length (content es) = 1" by (simp add: i(3) lru_insert_def)
  then have "num_entries s = 1" using i(2) by (simp add: cache_rep_def list_rep_def)
  then have "s \<noteq> cache_new 1" by (auto simp: cache_new_def)
  with r cache_capacity_bound [OF r] show ?thesis by auto
qed

text \<open>A cache of capacity zero is not bounded: the loop leaves the batch only when the counter
  equals the capacity, so a batch of distinct new keys is inserted in full.\<close>

theorem zero_capacity_unbounded:
  fixes ents :: "('k \<times> 'v) list"
  assumes "distinct (map fst ents)"
  shows "\<exists>s. Insert ents (cache_new 0) = Some (OkStatus, s) \<and> num_entries s = int (length ents)"
  by (rule zero_capacity_insert [OF assms])

theorem zero_capacity_unbounded_witness:
  "distinct (map fst [(1::nat, 5::nat), (2, 6)]) \<and>
   (\<exists>s. Insert [(1::nat, 5::nat), (2, 6)] (cache_new 0) = Some (OkStatus, s) \<and> num_entries s = 2)"
  using zero_capacity_unbounded [of "[(1::nat, 5::nat), (2, 6)]"] by simp

text \<open>After a batch of at most \<open>capacity\<close> entries every key of the batch is in the cache.\<close>

theorem Insert_batch_present:
  assumes "cache_rep s es" and "int (length ents) \<le> capacity s" and "(k, v) \<in> set ents"
  shows "\<exists>s'. Insert ents s = Some (OkStatus, s') \<and> GetAllEntriesForTesting s' k \<noteq> None"
proof -
  let ?xs = "take (length (content es) - nat (int (length (content es)) + int (length ents) - capacity s)) (content es)"
  obtain s' es' where i: "Insert ents s = Some (OkStatus, s')" "cache_rep s' es'"
    "content es' = lru_insert (capacity s) ents (content es)"
    by (rule Insert_content [OF assms(1)])
  have "int (length ?xs) + int (length ents) \<le> capacity s" using assms(2) by simp
  moreover have "distinct (map fst ?xs)"
    using cache_rep_distinct [OF assms(1)] by (simp add: take_map [symmetric])
  ultimately have "k \<in> fst ` set (content es')"
    unfolding i(3) lru_insert_def using assms(3) by (subst lru_insert_loop_keys) force+
  then obtain p where p: "hash_to_node s' k = Some p" using lookup_content [OF i(2), of k] by auto
  have lr: "list_rep s' es'" using i(2) by (simp add: cache_rep_def)
  obtain d where "(p, d) \<in> set es'" using list_rep_lookup [OF lr] p by blast
  then obtain n where "dll_heap (dll s') p = Some n" "node_data n = Some d"
    by (rule list_rep_node [OF lr])
  with p i(1) show ?thesis by (simp add: GetAllEntriesForTesting_def)
qed

theorem Insert_batch_present_witness:
  "(''b'', 6) \<in> set [(''a'', 5::nat), (''b'', 6)] \<and>
   (\<exists>s'. Insert [(''a'', 5::nat), (''b'', 6)] (cache_new 2) = Some (OkStatus, s') \<and>
      GetAllEntriesForTesting s' ''b'' \<noteq> None)"
  using Insert_batch_present [OF cache_new_rep, of "[(''a'', 5::nat), (''b'', 6)]" 2 "''b''" 6]
  by simp

text \<open>
  Two schedules of the executor, as programs over the operations. In both, the timer of key 1
  fires (its closure is posted) and the entry is evicted before the closure runs. In the second,
  key 1 is inserted again as well.
\<close>

definition evict_after_fire :: "(nat, nat) cache option" where
  "evict_after_fire = do {
     (_, s1) \<leftarrow> Insert [(1, 5)] (cache_new 1);
     s2 \<leftarrow> fire_timer 0 s1;
     (_, s3) \<leftarrow> Insert [(2, 6)] s2;
     Some s3 }"

definition reinsert_after_fire :: "(nat, nat) cache option" where
  "reinsert_after_fire = do {
     s3 \<leftarrow> evict_after_fire;
     (_, s4) \<leftarrow> Insert [(1, 7)] s3;
     Some s4 }"

lemma evict_after_fire_reachable:
  assumes "evict_after_fire = Some s"
  shows "cache_reachable 1 s"
proof -
  from assms obtain st1 s1 s2 st3 where i: "Insert [(1, 5)] (cache_new 1) = Some (st1, s1)"
    and f: "fire_timer 0 s1 = Some s2" and e: "Insert [(2, 6)] s2 = Some (st3, s)"
    by (auto simp: evict_after_fire_def bind_Some_iff)
  have "cache_step (cache_new 1) s1" by (rule cache_step.insert [OF _ i]) simp
  moreover have "cache_step s1 s2" by (rule cache_step.fire [OF f])
  moreover have "cache_step s2 s" by (rule cache_step.insert [OF _ e]) simp
  ultimately show ?thesis by (blast intro: cache_reachable.intros)
qed

lemma reinsert_after_fire_reachable:
  assumes "reinsert_after_fire = Some s"
  shows "cache_reachable 1 s"
proof -
  from assms obtain s3 st4 where "evict_after_fire = Some s3" and e: "Insert [(1, 7)] s3 = Some (st4, s)"
    by (auto simp: reinsert_after_fire_def bind_Some_iff)
  then have "cache_reachable 1 s3" by (simp add: evict_after_fire_reachable)
  moreover have "cache_step s3 s" by (rule cache_step.insert [OF _ e]) simp
  ultimately show ?thesis by (rule cache_reachable.step)
qed

text \<open>The closures rely on being run in the order in which they are posted: an entry whose timer
  has fired and that is then evicted has two closures pending on the same \<^verbatim>\<open>ExpiryEventData\<close>, and
  running the second first frees what the first still reads.\<close>

theorem out_of_order_closures_use_after_free:
  "\<exists>(s :: (nat, nat) cache) t u s'. cache_reachable 1 s \<and> tasks s = [t, u] \<and>
     run_task u (s\<lparr>tasks := [t]\<rparr>) = Some s' \<and> tasks s' = [t] \<and>
     run_task t (s'\<lparr>tasks := []\<rparr>) = None"
proof -
  have "case evict_after_fire of None \<Rightarrow> False | Some s \<Rightarrow>
      tasks s = [\<lparr>task_arg = 0, task_timeout = True\<rparr>, \<lparr>task_arg = 0, task_timeout = False\<rparr>] \<and>
      (case run_task \<lparr>task_arg = 0, task_timeout = False\<rparr>
              (s\<lparr>tasks := [\<lparr>task_arg = 0, task_timeout = True\<rparr>]\<rparr>) of
         None \<Rightarrow> False
       | Some s' \<Rightarrow> tasks s' = [\<lparr>task_arg = 0, task_timeout = True\<rparr>] \<and>
           Option.is_none (run_task \<lparr>task_arg = 0, task_timeout = True\<rparr> (s'\<lparr>tasks := []\<rparr>)))"
    by code_simp
  then obtain s s' where "evict_after_fire = Some s"
    "tasks s = [\<lparr>task_arg = 0, task_timeout = True\<rparr>, \<lparr>task_arg = 0, task_timeout = False\<rparr>]"
    "run_task \<lparr>task_arg = 0, task_timeout = False\<rparr>
       (s\<lparr>tasks := [\<lparr>task_arg = 0, task_timeout = True\<rparr>]\<rparr>) = Some s'"
    "tasks s' = [\<lparr>task_arg = 0, task_timeout = True\<rparr>]"
    "run_task \<lparr>task_arg = 0, task_timeout = True\<rparr> (s'\<lparr>tasks := []\<rparr>) = None"
    by (auto simp: Option.is_none_def split: option.splits)
  with evict_after_fire_reachable show ?thesis by blast
qed

text \<open>The expiry closure removes by key and not by entry: a closure left over from an evicted
  entry removes a newer entry of the same key whose own timer is still running.\<close>

theorem stale_closure_removes_fresh_entry:
  "\<exists>(s :: (nat, nat) cache) t ts s'. cache_reachable 1 s \<and> tasks s = t # ts \<and> GetAllEntriesForTesting s 1 = Some 7 \<and>
     map_option timer_armed (timers s 2) = Some True \<and> task_arg t \<noteq> 2 \<and>
     run_task t (s\<lparr>tasks := ts\<rparr>) = Some s' \<and> GetAllEntriesForTesting s' 1 = None"
proof -
  have "case reinsert_after_fire of None \<Rightarrow> False | Some s \<Rightarrow>
      (case tasks s of [] \<Rightarrow> False | t # ts \<Rightarrow>
         GetAllEntriesForTesting s 1 = Some 7 \<and> map_option timer_armed (timers s 2) = Some True \<and>
         task_arg t \<noteq> 2 \<and>
         (case run_task t (s\<lparr>tasks := ts\<rparr>) of None \<Rightarrow> False
          | Some s' \<Rightarrow> Option.is_none (GetAllEntriesForTesting s' 1)))"
    by code_simp
  then obtain s t ts s' where "reinsert_after_fire = Some s" "tasks s = t # ts"
    "GetAllEntriesForTesting s 1 = Some 7" "map_option timer_armed (timers s 2) = Some True"
    "task_arg t \<noteq> 2" "run_task t (s\<lparr>tasks := ts\<rparr>) = Some s'" "GetAllEntriesForTesting s' 1 = None"
    by (auto simp: Option.is_none_def split: option.splits list.splits)
  with reinsert_after_fire_reachable show ?thesis by blast
qed

end
