(* ===== verification/KAnonCacheManager.thy ===== *)
theory KAnonCacheManager
  imports Cache Complex_Main
begin

text \<open>
  \<^verbatim>\<open>KAnonCacheManager\<close> of \<^verbatim>\<open>services/seller_frontend_service/k_anon/k_anon_cache_manager.cc\<close>: it
  resolves the k-anonymity of hashes from two vectors of sharded caches and asks the
  k-anonymity service about the rest. A hash is the string of its bytes. A hash set is the list
  of its elements in the order in which the code visits them. The caches are used through
  \<^verbatim>\<open>CacheInterface\<close> only, whose two functions are arguments of the definitions; the locale
  states what the manager relies on, and the cache of the previous theory provides it. Metrics
  and logging are left out.
\<close>

type_synonym hash = string

subsection \<open>Sharding\<close>

text \<open>\<^verbatim>\<open>absl::little_endian::Load32\<close> reads four bytes: \<open>None\<close> when there are fewer.\<close>

fun Load32 :: "hash \<Rightarrow> nat option" where
  "Load32 (a # b # c # d # _) =
     Some (of_char a + 256 * (of_char b + 256 * (of_char c + 256 * of_char d)))"
| "Load32 _ = None"

definition GetShardIndex :: "hash \<Rightarrow> nat \<Rightarrow> nat option" where
  "GetShardIndex h num_shards = do { n \<leftarrow> Load32 h; Some (n mod num_shards) }"

fun MapHash_loop :: "hash list \<Rightarrow> nat \<Rightarrow> hash list list \<Rightarrow> hash list list option" where
  "MapHash_loop [] num_shards mapped = Some mapped"
| "MapHash_loop (h # hs) num_shards mapped = do {
     i \<leftarrow> GetShardIndex h num_shards;
     (if i < length mapped
      then MapHash_loop hs num_shards (mapped[i := List.insert h (mapped ! i)])
      else None) }"

definition MapHashToShardedCache :: "hash list \<Rightarrow> nat \<Rightarrow> hash list list option" where
  "MapHashToShardedCache hashes num_shards =
     MapHash_loop hashes num_shards (replicate num_shards [])"

text \<open>
  \<open>MapToSet\<close> lists the keys of a query result in the order of the keys that were queried, which
  are the only ones a cache returns.
\<close>

definition MapToSet :: "hash list \<Rightarrow> (hash \<rightharpoonup> string) \<Rightarrow> hash list" where
  "MapToSet keys found = filter (\<lambda>k. found k \<noteq> None) keys"

definition SetToMap :: "hash list \<Rightarrow> (hash \<times> string) list" where
  "SetToMap hashes = map (\<lambda>s. (s, [])) hashes"

type_synonym 'c query_fun = "hash list \<Rightarrow> 'c \<Rightarrow> ((hash \<rightharpoonup> string) \<times> 'c) option"
type_synonym 'c insert_fun = "(hash \<times> string) list \<Rightarrow> 'c \<Rightarrow> (status \<times> 'c) option"

fun Query_shards :: "'c query_fun \<Rightarrow> 'c list \<Rightarrow> hash list list \<Rightarrow> (hash list \<times> 'c list) option" where
  "Query_shards qry cs [] = Some ([], cs)"
| "Query_shards qry [] (m # ms) = None"
| "Query_shards qry (c # cs) (m # ms) = do {
     (found, c') \<leftarrow> qry m c;
     (rest, cs') \<leftarrow> Query_shards qry cs ms;
     Some (MapToSet m found @ rest, c' # cs') }"

definition QueryShardedCaches ::
    "'c query_fun \<Rightarrow> 'c list \<Rightarrow> nat \<Rightarrow> hash list \<Rightarrow> (hash list \<times> 'c list) option" where
  "QueryShardedCaches qry caches num_shards hashes =
     (if num_shards = 1 then Query_shards qry caches [hashes]
      else do {
        mapped \<leftarrow> MapHashToShardedCache hashes num_shards;
        Query_shards qry caches mapped })"

text \<open>A status that is not OK is only logged.\<close>

fun Insert_shards :: "'c insert_fun \<Rightarrow> 'c list \<Rightarrow> hash list list \<Rightarrow> 'c list option" where
  "Insert_shards ins cs [] = Some cs"
| "Insert_shards ins [] (m # ms) = None"
| "Insert_shards ins (c # cs) (m # ms) = do {
     (st, c') \<leftarrow> ins (SetToMap m) c;
     cs' \<leftarrow> Insert_shards ins cs ms;
     Some (c' # cs') }"

definition InsertShardedCaches ::
    "'c insert_fun \<Rightarrow> 'c list \<Rightarrow> nat \<Rightarrow> hash list \<Rightarrow> 'c list option" where
  "InsertShardedCaches ins caches num_shards hashes =
     (if num_shards = 1 then Insert_shards ins caches [hashes]
      else do {
        mapped \<leftarrow> MapHashToShardedCache hashes num_shards;
        Insert_shards ins caches mapped })"

subsection \<open>The manager\<close>

record 'c manager =
  k_anon_caches :: "'c list"
  non_k_anon_caches :: "'c list"
  num_k_anon_shards :: nat
  num_non_k_anon_shards :: nat
  enable_k_anon_cache :: bool

text \<open>
  What a request ends in: the callback has been called, or a query of the service is under way
  with what its completion captured.
\<close>

datatype outcome =
    Resolved "hash list"
  | Querying "hash list" "hash list"  \<comment> \<open>the unresolved hashes and the resolved k-anonymous ones\<close>

text \<open>\<^verbatim>\<open>ValidateHashesResponse\<close>: the typed sets of k-anonymous hashes.\<close>

type_synonym k_anonymous_sets = "(string \<times> hash list) list"

definition AreKAnonymous ::
    "'c query_fun \<Rightarrow> hash list \<Rightarrow> 'c manager \<Rightarrow> (outcome \<times> 'c manager) option" where
  "AreKAnonymous qry hashes m =
     (if \<not> enable_k_anon_cache m then Some (Querying hashes [], m)
      else do {
        (k_anon, kcs) \<leftarrow> QueryShardedCaches qry (k_anon_caches m) (num_k_anon_shards m) hashes;
        (non_k_anon, ncs) \<leftarrow>
          QueryShardedCaches qry (non_k_anon_caches m) (num_non_k_anon_shards m) hashes;
        let m1 = m\<lparr>k_anon_caches := kcs, non_k_anon_caches := ncs\<rparr>;
        let unresolved = filter (\<lambda>h. h \<notin> set k_anon \<and> h \<notin> set non_k_anon) hashes;
        Some (if unresolved = [] then Resolved k_anon else Querying unresolved k_anon, m1) })"

text \<open>The hashes of the sets of the requested type; other sets are skipped.\<close>

fun resolved_hashes :: "string \<Rightarrow> k_anonymous_sets \<Rightarrow> hash list" where
  "resolved_hashes set_type [] = []"
| "resolved_hashes set_type ((ty, hs) # rest) =
     (if ty \<noteq> set_type then resolved_hashes set_type rest
      else hs @ resolved_hashes set_type rest)"

text \<open>\<open>on_done_execute\<close> of \<^verbatim>\<open>QueryKAnonClient\<close>: the argument of the callback and the manager.\<close>

definition QueryKAnonClient_done ::
    "'c insert_fun \<Rightarrow> hash list \<Rightarrow> string \<Rightarrow> hash list \<Rightarrow> status_code + k_anonymous_sets \<Rightarrow>
     'c manager \<Rightarrow> (hash list \<times> 'c manager) option" where
  "QueryKAnonClient_done ins unresolved set_type resolved_k_anon response m =
     (case response of
        Inl _ \<Rightarrow> Some (resolved_k_anon, m)
      | Inr sets \<Rightarrow>
          if sets = [] then Some (resolved_k_anon, m)
          else
            let resolved = remdups (resolved_hashes set_type sets @ resolved_k_anon) in
            if \<not> enable_k_anon_cache m then Some (resolved, m)
            else do {
              kcs \<leftarrow> InsertShardedCaches ins (k_anon_caches m) (num_k_anon_shards m) resolved;
              let non_k_anon = filter (\<lambda>h. h \<notin> set resolved) unresolved;
              ncs \<leftarrow> InsertShardedCaches ins (non_k_anon_caches m) (num_non_k_anon_shards m)
                       non_k_anon;
              Some (resolved, m\<lparr>k_anon_caches := kcs, non_k_anon_caches := ncs\<rparr>) })"

subsection \<open>Construction\<close>

text \<open>
  The capacity of a shard: \<open>total_num_hash\<close> times the fraction of the ratio, per shard, rounded
  half away from zero. The doubles of the source are exact rationals here.
\<close>

definition std_round :: "rat \<Rightarrow> int" where
  "std_round x = (if x < 0 then - \<lfloor>- x + 1 / 2\<rfloor> else \<lfloor>x + 1 / 2\<rfloor>)"

definition k_anon_cache_capacity :: "int \<Rightarrow> rat \<Rightarrow> nat \<Rightarrow> int" where
  "k_anon_cache_capacity total_num_hash expected_ratio shards =
     std_round (of_int total_num_hash * (expected_ratio / (expected_ratio + 1)) / of_nat shards)"

definition non_k_anon_cache_capacity :: "int \<Rightarrow> rat \<Rightarrow> nat \<Rightarrow> int" where
  "non_k_anon_cache_capacity total_num_hash expected_ratio shards =
     std_round (of_int total_num_hash * (1 / (expected_ratio + 1)) / of_nat shards)"

text \<open>The constructor CHECKs that both shard counts are positive: \<open>None\<close> is the abort.\<close>

definition manager_new :: "int \<Rightarrow> rat \<Rightarrow> nat \<Rightarrow> nat \<Rightarrow> bool \<Rightarrow> (hash, string) cache manager option" where
  "manager_new total_num_hash expected_ratio k_shards non_k_shards enable =
     (if \<not> enable then
        Some \<lparr>k_anon_caches = [], non_k_anon_caches = [], num_k_anon_shards = k_shards,
              num_non_k_anon_shards = non_k_shards, enable_k_anon_cache = False\<rparr>
      else if k_shards = 0 \<or> non_k_shards = 0 then None
      else Some
        \<lparr>k_anon_caches = replicate k_shards
           (cache_new (k_anon_cache_capacity total_num_hash expected_ratio k_shards)),
         non_k_anon_caches = replicate non_k_shards
           (cache_new (non_k_anon_cache_capacity total_num_hash expected_ratio non_k_shards)),
         num_k_anon_shards = k_shards, num_non_k_anon_shards = non_k_shards,
         enable_k_anon_cache = True\<rparr>)"

subsection \<open>What the manager relies on\<close>

text \<open>
  The contract of \<^verbatim>\<open>CacheInterface\<close>: on a well-formed cache both operations return, a query
  finds exactly the queried keys that are present and does not change which keys are present,
  and an insertion adds no key that was not inserted.
\<close>

locale cache_interface =
  fixes qry :: "'c query_fun"
    and ins :: "'c insert_fun"
    and keys :: "'c \<Rightarrow> hash set"
    and ok :: "'c \<Rightarrow> bool"
  assumes query_ok: "ok c \<Longrightarrow> \<exists>found c'. qry ks c = Some (found, c') \<and> ok c' \<and> keys c' = keys c \<and>
            dom found = set ks \<inter> keys c"
    and insert_ok: "ok c \<Longrightarrow> \<exists>st c'. ins es c = Some (st, c') \<and> ok c' \<and>
            keys c' \<subseteq> keys c \<union> fst ` set es"
begin

definition all_ok :: "'c list \<Rightarrow> bool" where
  "all_ok cs \<longleftrightarrow> (\<forall>c \<in> set cs. ok c)"

definition held :: "'c list \<Rightarrow> hash set" where
  "held cs = (\<Union>c \<in> set cs. keys c)"

lemma all_ok_Cons [simp]: "all_ok (c # cs) \<longleftrightarrow> ok c \<and> all_ok cs"
  by (simp add: all_ok_def)

lemma held_Cons [simp]: "held (c # cs) = keys c \<union> held cs"
  by (simp add: held_def)

lemma Query_shards_ok:
  assumes "all_ok cs" and "length ms \<le> length cs"
  shows "\<exists>found cs'. Query_shards qry cs ms = Some (found, cs') \<and> all_ok cs' \<and>
    length cs' = length cs \<and> held cs' = held cs \<and> set found \<subseteq> \<Union> (set ` set ms) \<inter> held cs"
  using assms
proof (induction ms arbitrary: cs)
  case Nil
  then show ?case by simp
next
  case (Cons m ms)
  then obtain c cs0 where cs: "cs = c # cs0" by (cases cs) auto
  with Cons.prems have "ok c" "all_ok cs0" "length ms \<le> length cs0" by auto
  moreover obtain found c' where "qry m c = Some (found, c')" "ok c'" "keys c' = keys c"
    "dom found = set m \<inter> keys c"
    using query_ok [OF \<open>ok c\<close>] by blast
  moreover obtain rest cs' where "Query_shards qry cs0 ms = Some (rest, cs')" "all_ok cs'"
    "length cs' = length cs0" "held cs' = held cs0" "set rest \<subseteq> \<Union> (set ` set ms) \<inter> held cs0"
    using Cons.IH [OF \<open>all_ok cs0\<close> \<open>length ms \<le> length cs0\<close>] by blast
  moreover have "set (MapToSet m found) = dom found"
    using \<open>dom found = set m \<inter> keys c\<close> by (auto simp: MapToSet_def)
  ultimately show ?case using cs by auto
qed

lemma Insert_shards_ok:
  assumes "all_ok cs" and "length ms \<le> length cs"
  shows "\<exists>cs'. Insert_shards ins cs ms = Some cs' \<and> all_ok cs' \<and> length cs' = length cs \<and>
    held cs' \<subseteq> held cs \<union> \<Union> (set ` set ms)"
  using assms
proof (induction ms arbitrary: cs)
  case Nil
  then show ?case by simp
next
  case (Cons m ms)
  then obtain c cs0 where cs: "cs = c # cs0" by (cases cs) auto
  with Cons.prems have "ok c" "all_ok cs0" "length ms \<le> length cs0" by auto
  moreover obtain st c' where "ins (SetToMap m) c = Some (st, c')" "ok c'"
    "keys c' \<subseteq> keys c \<union> fst ` set (SetToMap m)"
    using insert_ok [OF \<open>ok c\<close>] by blast
  moreover have "fst ` set (SetToMap m) = set m" by (simp add: SetToMap_def image_image)
  moreover obtain cs' where "Insert_shards ins cs0 ms = Some cs'" "all_ok cs'"
    "length cs' = length cs0" "held cs' \<subseteq> held cs0 \<union> \<Union> (set ` set ms)"
    using Cons.IH [OF \<open>all_ok cs0\<close> \<open>length ms \<le> length cs0\<close>] by blast
  ultimately show ?case using cs by auto
qed

end

subsection \<open>Sharding never loses or invents a hash\<close>

lemma GetShardIndex_total:
  assumes "4 \<le> length h" and "0 < n"
  obtains i where "GetShardIndex h n = Some i" and "i < n"
proof -
  obtain a b c d rest where "h = a # b # c # d # rest"
    using assms(1) by (cases h rule: Load32.cases) auto
  with assms(2) that show ?thesis by (simp add: GetShardIndex_def)
qed

lemma MapHash_loop_ok:
  assumes "\<forall>h \<in> set hashes. 4 \<le> length h" and "length mapped = n" and "0 < n"
  shows "\<exists>ms. MapHash_loop hashes n mapped = Some ms \<and> length ms = n \<and>
    (\<forall>i < n. set (ms ! i) = {h \<in> set hashes. GetShardIndex h n = Some i} \<union> set (mapped ! i))"
  using assms
proof (induction hashes arbitrary: mapped)
  case Nil
  then show ?case by simp
next
  case (Cons h hs)
  then obtain i where i: "GetShardIndex h n = Some i" "i < n"
    by (auto elim: GetShardIndex_total)
  let ?m = "mapped[i := List.insert h (mapped ! i)]"
  obtain ms where "MapHash_loop hs n ?m = Some ms" "length ms = n"
    "\<forall>j < n. set (ms ! j) = {h \<in> set hs. GetShardIndex h n = Some j} \<union> set (?m ! j)"
    using Cons.IH [of ?m] Cons.prems by (auto simp del: nth_list_update)
  then show ?case
    using i Cons.prems(2) by (auto simp: nth_list_update)
qed

lemma MapHashToShardedCache_ok:
  assumes "\<forall>h \<in> set hashes. 4 \<le> length h" and "0 < n"
  obtains ms where "MapHashToShardedCache hashes n = Some ms" and "length ms = n"
    and "\<Union> (set ` set ms) = set hashes"
    and "\<forall>i < n. set (ms ! i) = {h \<in> set hashes. GetShardIndex h n = Some i}"
proof -
  obtain ms where ms: "MapHashToShardedCache hashes n = Some ms" "length ms = n"
    "\<forall>i < n. set (ms ! i) = {h \<in> set hashes. GetShardIndex h n = Some i}"
    using MapHash_loop_ok [OF assms(1) _ assms(2), of "replicate n []"]
    by (auto simp: MapHashToShardedCache_def)
  have "\<exists>i < n. h \<in> set (ms ! i)" if h: "h \<in> set hashes" for h
  proof -
    obtain i where "GetShardIndex h n = Some i" "i < n"
      by (rule GetShardIndex_total [of h n]) (use h assms in auto)
    with h ms(3) show ?thesis by blast
  qed
  moreover have "\<Union> (set ` set ms) = (\<Union>i<n. set (ms ! i))"
    unfolding set_conv_nth [of ms] ms(2) by auto
  moreover have "h \<in> set (ms ! i) \<longleftrightarrow> h \<in> set hashes \<and> GetShardIndex h n = Some i" if "i < n" for h i
    using ms(3) that by simp
  ultimately have "\<Union> (set ` set ms) = set hashes" by blast
  with ms that show ?thesis by blast
qed

subsection \<open>The manager under a truthful service\<close>

text \<open>
  What the manager knows when it answers or asks: an answer is exact, and the k-anonymous ones
  of the requested hashes are those already resolved and those among the unresolved.
\<close>

definition answer_ok :: "(hash \<Rightarrow> bool) \<Rightarrow> hash list \<Rightarrow> outcome \<Rightarrow> bool" where
  "answer_ok anon hashes out =
     (case out of
        Resolved r \<Rightarrow> {h \<in> set hashes. anon h} = set r
      | Querying us r \<Rightarrow> set us \<subseteq> set hashes \<and> set r \<subseteq> {h \<in> set hashes. anon h} \<and>
          {h \<in> set hashes. anon h} = set r \<union> {h \<in> set us. anon h})"

context cache_interface
begin

definition manager_ok :: "(hash \<Rightarrow> bool) \<Rightarrow> 'c manager \<Rightarrow> bool" where
  "manager_ok anon m \<longleftrightarrow>
     (enable_k_anon_cache m \<longrightarrow>
        0 < num_k_anon_shards m \<and> num_k_anon_shards m = length (k_anon_caches m) \<and>
        0 < num_non_k_anon_shards m \<and> num_non_k_anon_shards m = length (non_k_anon_caches m)) \<and>
     all_ok (k_anon_caches m) \<and> all_ok (non_k_anon_caches m) \<and>
     (\<forall>h \<in> held (k_anon_caches m). anon h) \<and> (\<forall>h \<in> held (non_k_anon_caches m). \<not> anon h)"

lemma QueryShardedCaches_ok:
  assumes "all_ok cs" and "n = length cs" and "0 < n" and "\<forall>h \<in> set hashes. 4 \<le> length h"
  obtains found cs' where "QueryShardedCaches qry cs n hashes = Some (found, cs')"
    and "all_ok cs'" and "length cs' = length cs" and "held cs' = held cs"
    and "set found \<subseteq> set hashes \<inter> held cs"
proof (cases "n = 1")
  case True
  with assms that show ?thesis
    using Query_shards_ok [of cs "[hashes]"] by (auto simp: QueryShardedCaches_def)
next
  case False
  obtain ms where ms: "MapHashToShardedCache hashes n = Some ms" "length ms = n"
    "\<Union> (set ` set ms) = set hashes"
    by (rule MapHashToShardedCache_ok [OF assms(4,3)])
  obtain found cs' where "Query_shards qry cs ms = Some (found, cs')" "all_ok cs'"
    "length cs' = length cs" "held cs' = held cs" "set found \<subseteq> set hashes \<inter> held cs"
    using Query_shards_ok [OF assms(1), of ms] ms assms(2) by auto
  with False ms that show ?thesis by (simp add: QueryShardedCaches_def)
qed

lemma InsertShardedCaches_ok:
  assumes "all_ok cs" and "n = length cs" and "0 < n" and "\<forall>h \<in> set hashes. 4 \<le> length h"
  obtains cs' where "InsertShardedCaches ins cs n hashes = Some cs'"
    and "all_ok cs'" and "length cs' = length cs" and "held cs' \<subseteq> held cs \<union> set hashes"
proof (cases "n = 1")
  case True
  with assms that show ?thesis
    using Insert_shards_ok [of cs "[hashes]"] by (auto simp: InsertShardedCaches_def)
next
  case False
  obtain ms where ms: "MapHashToShardedCache hashes n = Some ms" "length ms = n"
    "\<Union> (set ` set ms) = set hashes"
    by (rule MapHashToShardedCache_ok [OF assms(4,3)])
  obtain cs' where "Insert_shards ins cs ms = Some cs'" "all_ok cs'"
    "length cs' = length cs" "held cs' \<subseteq> held cs \<union> set hashes"
    using Insert_shards_ok [OF assms(1), of ms] ms assms(2) by auto
  with False ms that show ?thesis by (simp add: InsertShardedCaches_def)
qed

lemma AreKAnonymous_ok:
  assumes ok: "manager_ok anon m" and len: "\<forall>h \<in> set hashes. 4 \<le> length h"
  obtains out m' where "AreKAnonymous qry hashes m = Some (out, m')" and "manager_ok anon m'"
    and "answer_ok anon hashes out"
proof (cases "enable_k_anon_cache m")
  case False
  show ?thesis
    by (rule that [of "Querying hashes []" m])
       (use False ok in \<open>auto simp: AreKAnonymous_def answer_ok_def\<close>)
next
  case True
  note ok' = ok [unfolded manager_ok_def]
  obtain kf kcs where k: "QueryShardedCaches qry (k_anon_caches m) (num_k_anon_shards m) hashes = Some (kf, kcs)"
    "all_ok kcs" "length kcs = length (k_anon_caches m)" "held kcs = held (k_anon_caches m)"
    "set kf \<subseteq> set hashes \<inter> held (k_anon_caches m)"
    using ok' True len by (auto elim: QueryShardedCaches_ok [of "k_anon_caches m" "num_k_anon_shards m" hashes])
  obtain nf ncs where n: "QueryShardedCaches qry (non_k_anon_caches m) (num_non_k_anon_shards m) hashes = Some (nf, ncs)"
    "all_ok ncs" "length ncs = length (non_k_anon_caches m)" "held ncs = held (non_k_anon_caches m)"
    "set nf \<subseteq> set hashes \<inter> held (non_k_anon_caches m)"
    using ok' True len by (auto elim: QueryShardedCaches_ok [of "non_k_anon_caches m" "num_non_k_anon_shards m" hashes])
  let ?m = "m\<lparr>k_anon_caches := kcs, non_k_anon_caches := ncs\<rparr>"
  let ?us = "filter (\<lambda>h. h \<notin> set kf \<and> h \<notin> set nf) hashes"
  let ?out = "if ?us = [] then Resolved kf else Querying ?us kf"
  have run: "AreKAnonymous qry hashes m = Some (?out, ?m)"
    using True k(1) n(1) by (simp add: AreKAnonymous_def Let_def)
  have mok: "manager_ok anon ?m" using ok' k n by (auto simp: manager_ok_def)
  have sub: "set kf \<subseteq> {h \<in> set hashes. anon h}" "\<forall>h \<in> set nf. \<not> anon h"
    using k(5) n(5) ok' by blast+
  then have eq: "{h \<in> set hashes. anon h} = set kf \<union> {h \<in> set ?us. anon h}" by auto
  have "answer_ok anon hashes ?out"
  proof (cases "?us = []")
    case True
    have "{h \<in> set hashes. anon h} = set kf" using eq unfolding True by simp
    moreover have "?out = Resolved kf" using True by (rule if_P)
    ultimately show ?thesis by (simp only: answer_ok_def outcome.case)
  next
    case False
    have "set ?us \<subseteq> set hashes" by simp
    with False sub(1) eq show ?thesis by (simp only: answer_ok_def if_False outcome.case simp_thms)
  qed
  with run mok show ?thesis by (rule that)
qed

lemma QueryKAnonClient_done_ok:
  assumes ok: "manager_ok anon m" and lu: "\<forall>h \<in> set us. 4 \<le> length h"
    and lr: "\<forall>h \<in> set r. 4 \<le> length h \<and> anon h"
    and truth: "set (resolved_hashes ty sets) = {h \<in> set us. anon h}"
  obtains m' out where "QueryKAnonClient_done ins us ty r (Inr sets) m = Some (out, m')"
    and "manager_ok anon m'" and "set out = set r \<union> {h \<in> set us. anon h}"
proof -
  let ?res = "remdups (resolved_hashes ty sets @ r)"
  have res: "set ?res = set r \<union> {h \<in> set us. anon h}" using truth by auto
  consider "sets = []" | "sets \<noteq> []" "\<not> enable_k_anon_cache m" | "sets \<noteq> []" "enable_k_anon_cache m"
    by blast
  then show ?thesis
  proof cases
    case 1
    with truth have "{h \<in> set us. anon h} = {}" by simp
    with 1 ok show ?thesis
      by (intro that [of r m]) (auto simp: QueryKAnonClient_done_def)
  next
    case 2
    with ok res show ?thesis by (intro that [of ?res m]) (auto simp: QueryKAnonClient_done_def Let_def)
  next
    case 3
    note ok' = ok [unfolded manager_ok_def]
    obtain kcs where k: "InsertShardedCaches ins (k_anon_caches m) (num_k_anon_shards m) ?res = Some kcs"
      "all_ok kcs" "length kcs = length (k_anon_caches m)" "held kcs \<subseteq> held (k_anon_caches m) \<union> set ?res"
    proof (rule InsertShardedCaches_ok [of "k_anon_caches m" "num_k_anon_shards m" ?res])
      show "\<forall>h \<in> set ?res. 4 \<le> length h" unfolding res using lu lr by auto
    qed (use ok' 3 in blast)+
    let ?non = "filter (\<lambda>h. h \<notin> set ?res) us"
    obtain ncs where n: "InsertShardedCaches ins (non_k_anon_caches m) (num_non_k_anon_shards m) ?non = Some ncs"
      "all_ok ncs" "length ncs = length (non_k_anon_caches m)" "held ncs \<subseteq> held (non_k_anon_caches m) \<union> set ?non"
    proof (rule InsertShardedCaches_ok [of "non_k_anon_caches m" "num_non_k_anon_shards m" ?non])
      show "\<forall>h \<in> set ?non. 4 \<le> length h" using lu by auto
    qed (use ok' 3 in blast)+
    have "\<forall>h \<in> held kcs. anon h" using k(4) ok' lr unfolding res by blast
    moreover have "\<forall>h \<in> held ncs. \<not> anon h" using n(4) ok' unfolding set_filter res by blast
    ultimately have "manager_ok anon (m\<lparr>k_anon_caches := kcs, non_k_anon_caches := ncs\<rparr>)"
      using ok' k n by (auto simp: manager_ok_def)
    moreover have "QueryKAnonClient_done ins us ty r (Inr sets) m =
        Some (?res, m\<lparr>k_anon_caches := kcs, non_k_anon_caches := ncs\<rparr>)"
      using 3 k(1) n(1) by (simp add: QueryKAnonClient_done_def Let_def)
    ultimately show ?thesis using res by (intro that)
  qed
qed

end

subsection \<open>The expiring cache provides the interface\<close>

definition cache_keys :: "(hash, string) cache \<Rightarrow> hash set" where
  "cache_keys s = dom (hash_to_node s)"

lemma cache_keys_content: "cache_rep s es \<Longrightarrow> cache_keys s = fst ` set (content es)"
  using lookup_content [of s es] unfolding cache_keys_def dom_def by (auto simp del: not_None_eq)

interpretation kc: cache_interface Query Insert cache_keys cache_inv
proof unfold_locales
  fix c :: "(hash, string) cache" and ks
  assume "cache_inv c"
  then obtain es where rep: "cache_rep c es" by (auto simp: cache_inv_def)
  obtain c' es' r where q: "Query ks c = Some (r, c')" "cache_rep c' es'"
    "content es' = fold lru_touch ks (content es)"
    "r = fold (\<lambda>k m. case map_of (content es) k of None \<Rightarrow> m | Some v \<Rightarrow> try_emplace m k v)
           ks Map.empty"
    by (rule Query_content [OF rep])
  have "cache_keys c' = cache_keys c"
    using cache_keys_content [OF rep] cache_keys_content [OF q(2)]
    by (simp add: q(3) fold_lru_touch_keys)
  moreover have "dom r = set ks \<inter> cache_keys c"
    using cache_keys_content [OF rep] q(4)
    by (auto simp: fold_found map_of_eq_None_iff dom_def split: if_splits)
      (metis map_of_eq_None_iff not_None_eq fst_conv image_eqI)+
  ultimately show "\<exists>found c'. Query ks c = Some (found, c') \<and> cache_inv c' \<and>
      cache_keys c' = cache_keys c \<and> dom found = set ks \<inter> cache_keys c"
    using q(1,2) by (auto simp: cache_inv_def)
next
  fix c :: "(hash, string) cache" and ents
  assume "cache_inv c"
  then obtain es where rep: "cache_rep c es" by (auto simp: cache_inv_def)
  obtain c' es' where i: "Insert ents c = Some (OkStatus, c')" "cache_rep c' es'"
    "content es' = lru_insert (capacity c) ents (content es)"
    by (rule Insert_content [OF rep])
  have "cache_keys c' \<subseteq> cache_keys c \<union> fst ` set ents"
    using lru_insert_keys [of "capacity c" ents "content es"]
    by (simp add: cache_keys_content [OF rep] cache_keys_content [OF i(2)] i(3))
  with i(1,2) show "\<exists>st c'. Insert ents c = Some (st, c') \<and> cache_inv c' \<and>
      cache_keys c' \<subseteq> cache_keys c \<union> fst ` set ents"
    by (auto simp: cache_inv_def)
qed

subsection \<open>Properties\<close>

text \<open>
  The invariant of the manager with the code's caches, for a predicate \<open>anon\<close> that tells which
  hashes the service considers k-anonymous: the shard counts match the vectors, every cache is
  well formed, and what is cached agrees with \<open>anon\<close>.
\<close>

definition manager_inv :: "(hash \<Rightarrow> bool) \<Rightarrow> (hash, string) cache manager \<Rightarrow> bool" where
  "manager_inv anon m \<longleftrightarrow>
     (enable_k_anon_cache m \<longrightarrow>
        0 < num_k_anon_shards m \<and> num_k_anon_shards m = length (k_anon_caches m) \<and>
        0 < num_non_k_anon_shards m \<and> num_non_k_anon_shards m = length (non_k_anon_caches m)) \<and>
     (\<forall>c \<in> set (k_anon_caches m). cache_inv c \<and> (\<forall>h \<in> cache_keys c. anon h)) \<and>
     (\<forall>c \<in> set (non_k_anon_caches m). cache_inv c \<and> (\<forall>h \<in> cache_keys c. \<not> anon h))"

lemma manager_inv_ok: "manager_inv anon m \<longleftrightarrow> kc.manager_ok anon m"
  by (auto simp: manager_inv_def kc.manager_ok_def kc.all_ok_def kc.held_def)

lemma manager_new_ok:
  assumes "manager_new tot ratio ks ns enable = Some m"
  shows "manager_inv anon m"
proof -
  have "cache_inv (cache_new cap :: (hash, string) cache)" for cap
    using cache_new_rep by (auto simp: cache_inv_def)
  moreover have "cache_keys (cache_new cap) = {}" for cap
    by (simp add: cache_keys_def cache_new_def)
  ultimately show ?thesis
    using assms by (auto simp: manager_new_def manager_inv_def split: if_splits)
qed

text \<open>C25. Under a service that answers a query with exactly the k-anonymous ones of the hashes it is
  asked about, a request is answered with exactly the k-anonymous ones of its hashes, whether the
  caches resolve all of them or the service is asked, and whatever other requests did to the
  caches meanwhile; the caches keep agreeing with the service.\<close>

theorem AreKAnonymous_answers_service:
  assumes inv: "manager_inv anon m" and len: "\<forall>h \<in> set hashes. 4 \<le> length h"
    and truthful: "\<And>us. set (resolved_hashes ty (service us)) = {h \<in> set us. anon h}"
  shows "\<exists>out m1. AreKAnonymous Query hashes m = Some (out, m1) \<and> manager_inv anon m1 \<and>
    (case out of
       Resolved r \<Rightarrow> set r = {h \<in> set hashes. anon h}
     | Querying us r \<Rightarrow>
         (\<forall>m2. manager_inv anon m2 \<longrightarrow>
            (\<exists>ans m3. QueryKAnonClient_done Insert us ty r (Inr (service us)) m2 = Some (ans, m3) \<and>
               set ans = {h \<in> set hashes. anon h} \<and> manager_inv anon m3)))"
proof -
  obtain out m1 where run: "AreKAnonymous Query hashes m = Some (out, m1)" "kc.manager_ok anon m1"
    "answer_ok anon hashes out"
    by (rule kc.AreKAnonymous_ok [OF inv [unfolded manager_inv_ok] len])
  have "\<exists>ans m3. QueryKAnonClient_done Insert us ty r (Inr (service us)) m2 = Some (ans, m3) \<and>
      set ans = {h \<in> set hashes. anon h} \<and> manager_inv anon m3"
    if out: "out = Querying us r" and m2: "manager_inv anon m2" for us r m2
  proof -
    have q: "set us \<subseteq> set hashes" "set r \<subseteq> {h \<in> set hashes. anon h}"
      "{h \<in> set hashes. anon h} = set r \<union> {h \<in> set us. anon h}"
      using run(3) unfolding out answer_ok_def by simp_all
    obtain m3 ans where "QueryKAnonClient_done Insert us ty r (Inr (service us)) m2 = Some (ans, m3)"
      "kc.manager_ok anon m3" "set ans = set r \<union> {h \<in> set us. anon h}"
    proof (rule kc.QueryKAnonClient_done_ok [OF m2 [unfolded manager_inv_ok], of us r ty "service us"])
      show "\<forall>h \<in> set us. 4 \<le> length h" using q len by blast
      show "\<forall>h \<in> set r. 4 \<le> length h \<and> anon h" using q len by blast
      show "set (resolved_hashes ty (service us)) = {h \<in> set us. anon h}" by (rule truthful)
    qed
    with q(3) show ?thesis unfolding manager_inv_ok by blast
  qed
  note answered = this
  show ?thesis
  proof (intro exI conjI)
    show "AreKAnonymous Query hashes m = Some (out, m1)" by (rule run(1))
    show "manager_inv anon m1" unfolding manager_inv_ok by (rule run(2))
  next
    show "case out of Resolved r \<Rightarrow> set r = {h \<in> set hashes. anon h} | Querying us r \<Rightarrow>
         (\<forall>m2. manager_inv anon m2 \<longrightarrow>
            (\<exists>ans m3. QueryKAnonClient_done Insert us ty r (Inr (service us)) m2 = Some (ans, m3) \<and>
               set ans = {h \<in> set hashes. anon h} \<and> manager_inv anon m3))"
    proof (cases out)
      case (Resolved r)
      then show ?thesis using run(3) by (simp only: answer_ok_def outcome.case)
    next
      case (Querying us r)
      show ?thesis using answered [OF Querying] unfolding Querying outcome.case by blast
    qed
  qed
qed

theorem AreKAnonymous_answers_service_witness:
  "\<exists>m out m1. manager_new 10 1 2 2 True = Some m \<and>
     AreKAnonymous Query [''aaaa'', ''bbbb''] m = Some (out, m1) \<and>
     manager_inv (\<lambda>h. h = ''aaaa'') m1 \<and>
     (\<forall>us r. out = Querying us r \<longrightarrow>
        (\<exists>ans m3. QueryKAnonClient_done Insert us ''t'' r
             (Inr [(''t'', filter (\<lambda>h. h = ''aaaa'') us)]) m1 = Some (ans, m3) \<and>
           set ans = {''aaaa''}))"
proof -
  obtain m where m: "manager_new 10 1 2 2 True = Some m" by (simp add: manager_new_def)
  have "\<exists>out m1. AreKAnonymous Query [''aaaa'', ''bbbb''] m = Some (out, m1) \<and>
      manager_inv (\<lambda>h. h = ''aaaa'') m1 \<and>
      (case out of
         Resolved r \<Rightarrow> set r = {h \<in> set [''aaaa'', ''bbbb'']. h = ''aaaa''}
       | Querying us r \<Rightarrow>
           (\<forall>m2. manager_inv (\<lambda>h. h = ''aaaa'') m2 \<longrightarrow>
              (\<exists>ans m3. QueryKAnonClient_done Insert us ''t'' r
                   (Inr ((\<lambda>us. [(''t'', filter (\<lambda>h. h = ''aaaa'') us)]) us)) m2 = Some (ans, m3) \<and>
                 set ans = {h \<in> set [''aaaa'', ''bbbb'']. h = ''aaaa''} \<and>
                 manager_inv (\<lambda>h. h = ''aaaa'') m3)))"
    by (rule AreKAnonymous_answers_service [OF manager_new_ok [OF m]]) auto
  then obtain out m1 where run: "AreKAnonymous Query [''aaaa'', ''bbbb''] m = Some (out, m1)"
    and inv: "manager_inv (\<lambda>h. h = ''aaaa'') m1"
    and ans: "case out of
         Resolved r \<Rightarrow> set r = {h \<in> set [''aaaa'', ''bbbb'']. h = ''aaaa''}
       | Querying us r \<Rightarrow>
           (\<forall>m2. manager_inv (\<lambda>h. h = ''aaaa'') m2 \<longrightarrow>
              (\<exists>ans m3. QueryKAnonClient_done Insert us ''t'' r
                   (Inr ((\<lambda>us. [(''t'', filter (\<lambda>h. h = ''aaaa'') us)]) us)) m2 = Some (ans, m3) \<and>
                 set ans = {h \<in> set [''aaaa'', ''bbbb'']. h = ''aaaa''} \<and>
                 manager_inv (\<lambda>h. h = ''aaaa'') m3))"
    by blast
  have one: "{h \<in> set [''aaaa'', ''bbbb'']. h = ''aaaa''} = {''aaaa''}" by auto
  have "\<exists>ans m3. QueryKAnonClient_done Insert us ''t'' r
             (Inr [(''t'', filter (\<lambda>h. h = ''aaaa'') us)]) m1 = Some (ans, m3) \<and>
           set ans = {''aaaa''}" if out: "out = Querying us r" for us r
    using ans inv unfolding out outcome.case one by blast
  with m run inv show ?thesis by blast
qed

text \<open>If the query of the service fails, the request is answered with the hashes the cache
  already knew to be k-anonymous, and nothing is cached.\<close>

theorem AreKAnonymous_service_error:
  assumes inv: "manager_inv anon m" and len: "\<forall>h \<in> set hashes. 4 \<le> length h"
    and run: "AreKAnonymous Query hashes m = Some (Querying us r, m1)"
  shows "QueryKAnonClient_done Insert us ty r (Inl e) m2 = Some (r, m2) \<and>
    set r \<subseteq> {h \<in> set hashes. anon h}"
proof -
  obtain out m' where "AreKAnonymous Query hashes m = Some (out, m')" "kc.manager_ok anon m'"
    "answer_ok anon hashes out"
    by (rule kc.AreKAnonymous_ok [OF inv [unfolded manager_inv_ok] len])
  with run show ?thesis by (simp add: QueryKAnonClient_done_def answer_ok_def)
qed

theorem AreKAnonymous_service_error_witness:
  "\<exists>m. manager_new 10 1 2 2 False = Some m \<and>
     AreKAnonymous Query [''aaaa''] m = Some (Querying [''aaaa''] [], m) \<and>
     QueryKAnonClient_done Insert [''aaaa''] ''t'' [] (Inl Unavailable) m = Some ([], m)"
proof -
  obtain m where m: "manager_new 10 1 2 2 False = Some m" by (simp add: manager_new_def)
  then have run: "AreKAnonymous Query [''aaaa''] m = Some (Querying [''aaaa''] [], m)"
    by (auto simp: manager_new_def AreKAnonymous_def)
  have "QueryKAnonClient_done Insert [''aaaa''] ''t'' [] (Inl Unavailable) m = Some ([], m) \<and>
      set [] \<subseteq> {h \<in> set [''aaaa'']. h = ''aaaa''}"
    by (rule AreKAnonymous_service_error [OF manager_new_ok [OF m] _ run]) simp
  with m run show ?thesis by blast
qed

text \<open>Sharding partitions the hashes: every hash of at least four bytes lands in exactly the shard
  that its first four bytes select, and the shards hold nothing else.\<close>

theorem MapHashToShardedCache_partition:
  assumes "\<forall>h \<in> set hashes. 4 \<le> length h" and "0 < n"
  shows "\<exists>ms. MapHashToShardedCache hashes n = Some ms \<and> length ms = n \<and>
    (\<forall>h \<in> set hashes. \<exists>!i. i < n \<and> h \<in> set (ms ! i)) \<and>
    \<Union> (set ` set ms) = set hashes"
proof -
  obtain ms where ms: "MapHashToShardedCache hashes n = Some ms" "length ms = n"
    "\<Union> (set ` set ms) = set hashes"
    "\<forall>i < n. set (ms ! i) = {h \<in> set hashes. GetShardIndex h n = Some i}"
    by (rule MapHashToShardedCache_ok [OF assms])
  have "\<exists>!i. i < n \<and> h \<in> set (ms ! i)" if h: "h \<in> set hashes" for h
  proof -
    obtain i where i: "GetShardIndex h n = Some i" "i < n"
      by (rule GetShardIndex_total [of h n]) (use h assms in auto)
    have idx: "h \<in> set (ms ! j) \<longleftrightarrow> GetShardIndex h n = Some j" if "j < n" for j
      using ms(4) h that by simp
    show ?thesis
    proof (rule ex1I [of _ i])
      show "i < n \<and> h \<in> set (ms ! i)" using i idx [OF i(2)] by simp
    next
      fix j
      assume j: "j < n \<and> h \<in> set (ms ! j)"
      then have "GetShardIndex h n = Some j" using idx [of j] by simp
      with i(1) show "j = i" by simp
    qed
  qed
  with ms(1-3) show ?thesis by (intro exI conjI ballI)
qed

theorem MapHashToShardedCache_partition_witness:
  "\<exists>ms. MapHashToShardedCache [''aaaa'', ''babc''] 2 = Some ms \<and> length ms = 2 \<and>
     \<Union> (set ` set ms) = {''aaaa'', ''babc''}"
  using MapHashToShardedCache_partition [of "[''aaaa'', ''babc'']" 2] by auto

text \<open>A hash budget below half an entry per shard rounds the shard capacity to zero, and a cache
  of capacity zero takes a batch of any size: the smallest budgets give the largest caches.\<close>

theorem small_budget_unbounded_shards:
  assumes "0 \<le> tot" and "0 < ratio" and "0 < shards"
    and small: "of_int tot * (ratio / (ratio + 1)) / of_nat shards < (1 / 2 :: rat)"
    and "distinct (map fst ents)"
  shows "k_anon_cache_capacity tot ratio shards = 0 \<and>
    (\<exists>s :: (hash, string) cache. Insert ents (cache_new (k_anon_cache_capacity tot ratio shards)) =
       Some (OkStatus, s) \<and> num_entries s = int (length ents))"
proof -
  have round: "std_round x = 0" if "0 \<le> x" "x < 1 / 2" for x :: rat
    using that by (simp add: std_round_def floor_eq_iff)
  have "0 \<le> of_int tot * (ratio / (ratio + 1)) / of_nat shards"
    using assms(1-3) by simp
  with small have cap: "k_anon_cache_capacity tot ratio shards = 0"
    unfolding k_anon_cache_capacity_def by (intro round)
  show ?thesis unfolding cap using zero_capacity_insert [OF assms(5)] by blast
qed

theorem small_budget_unbounded_shards_witness:
  "k_anon_cache_capacity 1 1 3 = 0 \<and>
   (\<exists>s :: (hash, string) cache.
      Insert [(''aaaa'', []), (''bbbb'', [])] (cache_new (k_anon_cache_capacity 1 1 3)) = Some (OkStatus, s) \<and>
      num_entries s = 2)"
  using small_budget_unbounded_shards [of 1 1 3 "[(''aaaa'', []), (''bbbb'', [])]"] by auto

end
