(* ===== verification/Json.thy ===== *)
theory Json
  imports Prelude Complex_Main
begin

text \<open>
  JSON documents as \<^verbatim>\<open>rapidjson::Value\<close> has them (members of an object keep their order and may
  repeat a key), the accessors the services use, and decimal printing. An accessor applied to a
  value of the wrong kind violates a \<^verbatim>\<open>RAPIDJSON_ASSERT\<close>: it is \<open>None\<close>. (A debug build aborts there;
  an optimised build compiles the assertion out, and the access is undefined behaviour.)

  Floating point numbers are rationals: rounding, infinities and NaN are outside the model.
\<close>

datatype json =
    JNull
  | JBool bool
  | JInt int
  | JDouble rat
  | JString string
  | JArray "json list"
  | JObject "(string \<times> json) list"

primrec IsObject :: "json \<Rightarrow> bool" where
  "IsObject JNull = False"
| "IsObject (JBool b) = False"
| "IsObject (JInt i) = False"
| "IsObject (JDouble d) = False"
| "IsObject (JString s) = False"
| "IsObject (JArray xs) = False"
| "IsObject (JObject ms) = True"

definition IsNumber :: "json \<Rightarrow> bool" where
  "IsNumber j = (case j of JInt _ \<Rightarrow> True | JDouble _ \<Rightarrow> True | _ \<Rightarrow> False)"

definition IsString :: "json \<Rightarrow> bool" where
  "IsString j = (case j of JString _ \<Rightarrow> True | _ \<Rightarrow> False)"

definition IsBool :: "json \<Rightarrow> bool" where
  "IsBool j = (case j of JBool _ \<Rightarrow> True | _ \<Rightarrow> False)"

definition IsArray :: "json \<Rightarrow> bool" where
  "IsArray j = (case j of JArray _ \<Rightarrow> True | _ \<Rightarrow> False)"

text \<open>The members of an object; the first member of a name is the one that is found.\<close>

definition Members :: "json \<Rightarrow> (string \<times> json) list option" where
  "Members j = (case j of JObject ms \<Rightarrow> Some ms | _ \<Rightarrow> None)"

definition FindMember :: "json \<Rightarrow> string \<Rightarrow> json option option" where
  "FindMember j k = map_option (\<lambda>ms. map_of ms k) (Members j)"

definition AddMember :: "json \<Rightarrow> string \<Rightarrow> json \<Rightarrow> json option" where
  "AddMember j k v = map_option (\<lambda>ms. JObject (ms @ [(k, v)])) (Members j)"

definition GetDouble :: "json \<Rightarrow> rat option" where
  "GetDouble j = (case j of JInt i \<Rightarrow> Some (of_int i) | JDouble d \<Rightarrow> Some d | _ \<Rightarrow> None)"

definition GetString :: "json \<Rightarrow> string option" where
  "GetString j = (case j of JString s \<Rightarrow> Some s | _ \<Rightarrow> None)"

definition GetBool :: "json \<Rightarrow> bool option" where
  "GetBool j = (case j of JBool b \<Rightarrow> Some b | _ \<Rightarrow> None)"

definition GetArray :: "json \<Rightarrow> json list option" where
  "GetArray j = (case j of JArray xs \<Rightarrow> Some xs | _ \<Rightarrow> None)"

text \<open>
  A member of the right kind, and nothing otherwise: the pattern
  \<^verbatim>\<open>it != MemberEnd() && it->value.IsX()\<close> followed by \<^verbatim>\<open>it->value.GetX()\<close>.
\<close>

definition member_number :: "json \<Rightarrow> string \<Rightarrow> rat option option" where
  "member_number j k = map_option (\<lambda>r. r \<bind> GetDouble) (FindMember j k)"

definition member_string :: "json \<Rightarrow> string \<Rightarrow> string option option" where
  "member_string j k = map_option (\<lambda>r. r \<bind> GetString) (FindMember j k)"

definition member_bool :: "json \<Rightarrow> string \<Rightarrow> bool option option" where
  "member_bool j k = map_option (\<lambda>r. r \<bind> GetBool) (FindMember j k)"

named_theorems json_simps \<open>kinds and accessors of JSON values\<close>

lemma IsObject_cases [json_simps]: "IsObject j \<longleftrightarrow> (\<exists>ms. j = JObject ms)"
  by (cases j) simp_all

lemma IsNumber_GetDouble [json_simps]: "IsNumber j \<longleftrightarrow> GetDouble j \<noteq> None"
  by (cases j) (simp_all add: IsNumber_def GetDouble_def)

lemma IsString_GetString [json_simps]: "IsString j \<longleftrightarrow> GetString j \<noteq> None"
  by (cases j) (simp_all add: IsString_def GetString_def)

lemma FindMember_object [json_simps, simp]: "FindMember (JObject ms) k = Some (map_of ms k)"
  by (simp add: FindMember_def Members_def)

lemma FindMember_None_iff [json_simps]: "FindMember j k = None \<longleftrightarrow> \<not> IsObject j"
  by (cases j) (simp_all add: FindMember_def Members_def)

lemma member_number_object [simp]: "member_number (JObject ms) k = Some (map_of ms k \<bind> GetDouble)"
  by (simp add: member_number_def)

lemma member_string_object [simp]: "member_string (JObject ms) k = Some (map_of ms k \<bind> GetString)"
  by (simp add: member_string_def)

lemma member_bool_object [simp]: "member_bool (JObject ms) k = Some (map_of ms k \<bind> GetBool)"
  by (simp add: member_bool_def)

lemma AddMember_object [simp]: "AddMember (JObject ms) k v = Some (JObject (ms @ [(k, v)]))"
  by (simp add: AddMember_def Members_def)

text \<open>A number that is an object member is a number and not an object.\<close>

lemma GetDouble_not_object: "IsNumber j \<Longrightarrow> \<not> IsObject j"
  by (cases j) (simp_all add: IsNumber_def)

subsection \<open>Checked members\<close>

text \<open>
  \<^verbatim>\<open>GetStringMember\<close> and its kin of \<^verbatim>\<open>services/common/util/json_util.h\<close>: a missing member or one of
  another kind is an \<open>InvalidArgument\<close> status.
\<close>

definition checked_member :: "json \<Rightarrow> string \<Rightarrow> (json \<Rightarrow> 'a option) \<Rightarrow> 'a result" where
  "checked_member j k get = map_option (\<lambda>m. case m \<bind> get of
     None \<Rightarrow> Inl InvalidArgument | Some x \<Rightarrow> Inr x) (FindMember j k)"

definition GetInt :: "json \<Rightarrow> int option" where
  "GetInt j = (case j of JInt i \<Rightarrow> if - (2 ^ 31) \<le> i \<and> i < 2 ^ 31 then Some i else None | _ \<Rightarrow> None)"

definition GetInt64 :: "json \<Rightarrow> int option" where
  "GetInt64 j = (case j of JInt i \<Rightarrow> if - (2 ^ 63) \<le> i \<and> i < 2 ^ 63 then Some i else None | _ \<Rightarrow> None)"

definition GetUint64 :: "json \<Rightarrow> int option" where
  "GetUint64 j = (case j of JInt i \<Rightarrow> if 0 \<le> i \<and> i < 2 ^ 64 then Some i else None | _ \<Rightarrow> None)"

definition GetStringMember :: "json \<Rightarrow> string \<Rightarrow> bool \<Rightarrow> string result" where
  "GetStringMember j k is_empty_ok =
     checked_member j k (\<lambda>v. GetString v \<bind> (\<lambda>s. if s = [] \<and> \<not> is_empty_ok then None else Some s))"

definition GetArrayMember :: "json \<Rightarrow> string \<Rightarrow> json list result" where
  "GetArrayMember j k = checked_member j k GetArray"

definition GetIntMember :: "json \<Rightarrow> string \<Rightarrow> int result" where
  "GetIntMember j k = checked_member j k GetInt"

definition GetDoubleMember :: "json \<Rightarrow> string \<Rightarrow> rat result" where
  "GetDoubleMember j k = checked_member j k GetDouble"

definition GetBoolMember :: "json \<Rightarrow> string \<Rightarrow> bool result" where
  "GetBoolMember j k = checked_member j k GetBool"

lemma checked_member_object [simp]:
  "checked_member (JObject ms) k get =
     Some (case map_of ms k \<bind> get of None \<Rightarrow> Inl InvalidArgument | Some x \<Rightarrow> Inr x)"
  by (simp add: checked_member_def)

text \<open>Members, or a status, but never a violated assertion: the value is an object.\<close>

lemma checked_member_defined: "IsObject j \<Longrightarrow> checked_member j k get \<noteq> None"
  by (cases j) simp_all

text \<open>\<^verbatim>\<open>PS_ASSIGN_IF_PRESENT\<close>: a member of the right kind replaces the value it is assigned to.\<close>

definition assign_if_present :: "(json \<Rightarrow> 'a option) \<Rightarrow> json \<Rightarrow> string \<Rightarrow> 'a \<Rightarrow> 'a option" where
  "assign_if_present get j k x =
     map_option (\<lambda>m. case m \<bind> get of None \<Rightarrow> x | Some y \<Rightarrow> y) (FindMember j k)"

definition GetUint :: "json \<Rightarrow> int option" where
  "GetUint j = (case j of JInt i \<Rightarrow> if 0 \<le> i \<and> i < 2 ^ 32 then Some i else None | _ \<Rightarrow> None)"

subsection \<open>Decimal printing\<close>

definition digit :: "nat \<Rightarrow> char" where
  "digit n = char_of (48 + n)"

fun string_of_nat :: "nat \<Rightarrow> string" where
  "string_of_nat n = (if n < 10 then [digit n] else string_of_nat (n div 10) @ [digit (n mod 10)])"

declare string_of_nat.simps [simp del]

definition string_of_int :: "int \<Rightarrow> string" where
  "string_of_int i = (if i < 0 then CHR ''-'' # string_of_nat (nat (- i)) else string_of_nat (nat i))"

text \<open>
  The \<^verbatim>\<open>%.nf\<close> conversion: the decimal with \<open>n\<close> digits after the point that is nearest, ties to
  the even digit.
\<close>

definition round_half_even :: "rat \<Rightarrow> int" where
  "round_half_even x = (let f = \<lfloor>x\<rfloor>; d = x - of_int f in
     if d < 1 / 2 then f else if d > 1 / 2 then f + 1 else if even f then f else f + 1)"

definition pad_zeros :: "nat \<Rightarrow> string \<Rightarrow> string" where
  "pad_zeros n s = replicate (n - length s) (CHR ''0'') @ s"

definition format_fixed :: "nat \<Rightarrow> rat \<Rightarrow> string" where
  "format_fixed n x =
     (let m = nat (round_half_even (\<bar>x\<bar> * 10 ^ n));
          digits = string_of_nat (m div 10 ^ n) @
                   (if n = 0 then [] else CHR ''.'' # pad_zeros n (string_of_nat (m mod 10 ^ n)))
      in if x < 0 then CHR ''-'' # digits else digits)"

abbreviation string_of_bool :: "bool \<Rightarrow> string" where
  "string_of_bool b \<equiv> (if b then ''true'' else ''false'')"

subsection \<open>Narrowing of integers\<close>

text \<open>Conversion of a wider signed integer to \<^verbatim>\<open>int\<close> keeps the low 32 bits.\<close>

definition to_int32 :: "int \<Rightarrow> int" where
  "to_int32 x = (x + 2 ^ 31) mod 2 ^ 32 - 2 ^ 31"

lemma to_int32_id: "- (2 ^ 31) \<le> x \<Longrightarrow> x < 2 ^ 31 \<Longrightarrow> to_int32 x = x"
  by (simp add: to_int32_def)

text \<open>Signed arithmetic that overflows, and conversion of a float out of range, are undefined.\<close>

definition int32_or_undefined :: "int \<Rightarrow> int option" where
  "int32_or_undefined i = (if - (2 ^ 31) \<le> i \<and> i < 2 ^ 31 then Some i else None)"

text \<open>Conversion of a float to \<^verbatim>\<open>int\<close> drops the fraction (the value is in range).\<close>

definition truncate_to_int :: "rat \<Rightarrow> int" where
  "truncate_to_int x = (if x < 0 then \<lceil>x\<rceil> else \<lfloor>x\<rfloor>)"

lemma truncate_of_int [simp]: "truncate_to_int (of_int i) = i"
  by (simp add: truncate_to_int_def)

lemma round_half_even_of_int [simp]: "round_half_even (of_int i) = i"
  by (simp add: round_half_even_def)

lemma round_half_even_error: "\<bar>of_int (round_half_even x) - x\<bar> \<le> 1 / 2"
proof -
  have "of_int \<lfloor>x\<rfloor> \<le> x" and "x < of_int \<lfloor>x\<rfloor> + 1" by linarith+
  then show ?thesis by (auto simp: round_half_even_def Let_def)
qed

end
