(* ===== verification/AuctionTypes.thy ===== *)
theory AuctionTypes
  imports Json "HOL-Library.Word"
begin

text \<open>
  The messages of \<^verbatim>\<open>api/bidding_auction_servers.proto\<close> and the structs of the auction service that
  the auction components exchange. An \<open>optional\<close> field is an option, a \<open>repeated\<close> field a list, a
  map that is only looked up a partial map and a map that is iterated an association list in
  iteration order. Fields nobody reads are left out.
\<close>

datatype SellerRejectionReason =
    SELLER_REJECTION_REASON_NOT_AVAILABLE
  | INVALID_BID
  | BID_BELOW_AUCTION_FLOOR
  | PENDING_APPROVAL_BY_EXCHANGE
  | DISAPPROVED_BY_EXCHANGE
  | BLOCKED_BY_PUBLISHER
  | LANGUAGE_EXCLUSIONS
  | CATEGORY_EXCLUSIONS
  | DID_NOT_MEET_THE_KANONYMITY_THRESHOLD
  | BID_FROM_GENERATE_BID_FAILED_CURRENCY_CHECK
  | BID_FROM_SCORE_AD_FAILED_CURRENCY_CHECK

text \<open>The numbers of the enum.\<close>

fun rejection_reason_number :: "SellerRejectionReason \<Rightarrow> int" where
  "rejection_reason_number SELLER_REJECTION_REASON_NOT_AVAILABLE = 0"
| "rejection_reason_number INVALID_BID = 1"
| "rejection_reason_number BID_BELOW_AUCTION_FLOOR = 2"
| "rejection_reason_number PENDING_APPROVAL_BY_EXCHANGE = 3"
| "rejection_reason_number DISAPPROVED_BY_EXCHANGE = 4"
| "rejection_reason_number BLOCKED_BY_PUBLISHER = 5"
| "rejection_reason_number LANGUAGE_EXCLUSIONS = 6"
| "rejection_reason_number CATEGORY_EXCLUSIONS = 7"
| "rejection_reason_number DID_NOT_MEET_THE_KANONYMITY_THRESHOLD = 8"
| "rejection_reason_number BID_FROM_GENERATE_BID_FAILED_CURRENCY_CHECK = 9"
| "rejection_reason_number BID_FROM_SCORE_AD_FAILED_CURRENCY_CHECK = 10"

datatype AuctionScope =
    AUCTION_SCOPE_SINGLE_SELLER
  | AUCTION_SCOPE_DEVICE_COMPONENT_MULTI_SELLER
  | AUCTION_SCOPE_SERVER_COMPONENT_MULTI_SELLER
  | AUCTION_SCOPE_SERVER_TOP_LEVEL_SELLER

datatype AdType =
    AD_TYPE_UNKNOWN
  | AD_TYPE_PROTECTED_AUDIENCE_AD
  | AD_TYPE_PROTECTED_APP_SIGNALS_AD

subsection \<open>Reporting messages\<close>

record DebugReportUrls =
  auction_debug_win_url :: string
  auction_debug_loss_url :: string

record ReportingUrls =
  reporting_url :: string
  interaction_reporting_urls :: "string \<rightharpoonup> string"

definition no_urls :: ReportingUrls where
  "no_urls = \<lparr>reporting_url = [], interaction_reporting_urls = Map.empty\<rparr>"

record WinReportingUrls =
  buyer_reporting_urls :: ReportingUrls
  component_seller_reporting_urls :: ReportingUrls
  top_level_seller_reporting_urls :: ReportingUrls

definition no_win_urls :: WinReportingUrls where
  "no_win_urls = \<lparr>buyer_reporting_urls = no_urls, component_seller_reporting_urls = no_urls,
     top_level_seller_reporting_urls = no_urls\<rparr>"

text \<open>\<^verbatim>\<open>for (auto& [event, url] : src) dst->try_emplace(event, url)\<close>\<close>

definition emplace_urls :: "(string \<rightharpoonup> string) \<Rightarrow> (string \<rightharpoonup> string) \<Rightarrow> (string \<rightharpoonup> string)" where
  "emplace_urls src dst = src ++ dst"

record KAnonJoinCandidate =
  ad_render_url_hash :: string
  ad_component_render_urls_hash :: "string list"
  reporting_id_hash :: string

text \<open>
  The messages of the Private Aggregation API (\<^verbatim>\<open>api/udf/generate_bid.proto\<close>). A \<open>oneof\<close> is a
  datatype with a constructor for the unset case.
\<close>

datatype BaseValue =
    BASE_VALUE_UNSPECIFIED
  | BASE_VALUE_WINNING_BID
  | BASE_VALUE_HIGHEST_SCORING_OTHER_BID
  | BASE_VALUE_SCRIPT_RUN_TIME
  | BASE_VALUE_SIGNALS_FETCH_TIME
  | BASE_VALUE_BID_REJECTION_REASON

datatype EventType =
    EVENT_TYPE_UNSPECIFIED
  | EVENT_TYPE_WIN
  | EVENT_TYPE_LOSS
  | EVENT_TYPE_ALWAYS
  | EVENT_TYPE_CUSTOM

record SignalValue =
  sv_base_value :: BaseValue
  sv_scale :: rat
  sv_offset :: int

record BucketOffset =
  bo_value :: "64 word list"
  is_negative :: bool

record SignalBucket =
  sb_base_value :: BaseValue
  sb_scale :: rat
  sb_offset :: BucketOffset

datatype PrivateAggregationBucket =
    Bucket_not_set
  | Bucket_128_bit "64 word list"
  | Signal_bucket SignalBucket

datatype PrivateAggregationValue =
    Value_not_set
  | Int_value int
  | Extended_value SignalValue

record PrivateAggregationEvent =
  event_type :: EventType
  event_name :: string

record PrivateAggregateContribution =
  pac_bucket :: PrivateAggregationBucket
  pac_value :: PrivateAggregationValue
  pac_event :: "PrivateAggregationEvent option"
  pac_ig_idx :: int

record PrivateAggregateReportingResponse =
  contributions :: "PrivateAggregateContribution list"
  adtech_origin :: string

record AdRejectionReason =
  arr_interest_group_name :: string
  arr_interest_group_owner :: string
  rejection_reason :: SellerRejectionReason

subsection \<open>Scored ads\<close>

record AdScore =
  desirability :: rat
  render :: string
  component_renders :: "string list"
  interest_group_name :: string
  buyer_bid :: rat
  interest_group_owner :: string
  ad_metadata :: string
  allow_component_auction :: bool
  bid :: rat
  win_reporting_urls :: WinReportingUrls
  debug_report_urls :: "DebugReportUrls option"
  ig_owner_highest_scoring_other_bids_map :: "(string \<times> rat list) list"
  ad_rejection_reasons :: "AdRejectionReason list"
  ad_type :: AdType
  incoming_bid_in_seller_currency :: rat
  bid_currency :: string
  buyer_bid_currency :: string
  buyer_reporting_id :: "string option"
  buyer_and_seller_reporting_id :: "string option"
  interest_group_origin :: string
  top_level_contributions :: "PrivateAggregateReportingResponse list"
  selected_buyer_and_seller_reporting_id :: "string option"
  k_anon_join_candidate :: "KAnonJoinCandidate option"
  seller :: string

definition default_AdScore :: AdScore where
  "default_AdScore = \<lparr>desirability = 0, render = [], component_renders = [],
     interest_group_name = [], buyer_bid = 0, interest_group_owner = [], ad_metadata = [],
     allow_component_auction = False, bid = 0, win_reporting_urls = no_win_urls,
     debug_report_urls = None, ig_owner_highest_scoring_other_bids_map = [],
     ad_rejection_reasons = [], ad_type = AD_TYPE_UNKNOWN, incoming_bid_in_seller_currency = 0,
     bid_currency = [], buyer_bid_currency = [], buyer_reporting_id = None,
     buyer_and_seller_reporting_id = None, interest_group_origin = [],
     top_level_contributions = [], selected_buyer_and_seller_reporting_id = None,
     k_anon_join_candidate = None, seller = []\<rparr>"

subsection \<open>Bids and component auction results\<close>

record AdWithBidMetadata =
  awb_ad :: "string + json"  \<comment> \<open>a string value, or a struct value\<close>
  awb_bid :: rat
  awb_render :: string
  ad_components :: "string list"
  awb_interest_group_name :: string
  awb_interest_group_owner :: string
  join_count :: int
  recency :: int
  modeling_signals :: int
  ad_cost :: rat
  awb_bid_currency :: string
  awb_interest_group_origin :: string
  awb_buyer_reporting_id :: "string option"
  awb_buyer_and_seller_reporting_id :: "string option"
  awb_selected_buyer_and_seller_reporting_id :: "string option"
  k_anon_status :: bool
  data_version :: nat
  interest_group_idx :: int

definition default_AdWithBidMetadata :: AdWithBidMetadata where
  "default_AdWithBidMetadata = \<lparr>awb_ad = Inl [], awb_bid = 0, awb_render = [], ad_components = [],
     awb_interest_group_name = [], awb_interest_group_owner = [], join_count = 0, recency = 0,
     modeling_signals = 0, ad_cost = 0, awb_bid_currency = [], awb_interest_group_origin = [],
     awb_buyer_reporting_id = None, awb_buyer_and_seller_reporting_id = None,
     awb_selected_buyer_and_seller_reporting_id = None, k_anon_status = False, data_version = 0,
     interest_group_idx = 0\<rparr>"

record ProtectedAppSignalsAdWithBidMetadata =
  pas_ad :: "string + json"
  pas_bid :: rat
  pas_render :: string
  pas_ad_cost :: rat
  pas_owner :: string
  pas_bid_currency :: string
  pas_egress_payload :: string
  pas_temporary_unlimited_egress_payload :: string
  pas_k_anon_status :: bool

definition default_PASAdWithBidMetadata :: ProtectedAppSignalsAdWithBidMetadata where
  "default_PASAdWithBidMetadata = \<lparr>pas_ad = Inl [], pas_bid = 0, pas_render = [], pas_ad_cost = 0,
     pas_owner = [], pas_bid_currency = [], pas_egress_payload = [],
     pas_temporary_unlimited_egress_payload = [], pas_k_anon_status = False\<rparr>"

record GhostWinnerForTopLevelAuction =
  gw_ad_render_url :: string
  gw_ad_component_render_urls :: "string list"
  gw_modified_bid :: rat
  gw_bid_currency :: string
  gw_ad_metadata :: string

record KAnonGhostWinner =
  gw_k_anon_join_candidates :: KAnonJoinCandidate
  gw_owner :: string
  gw_ig_name :: string
  ghost_winner_for_top_level_auction :: "GhostWinnerForTopLevelAuction option"

record AuctionResult =
  ad_render_url :: string
  ad_component_render_urls :: "string list"
  ar_interest_group_name :: string
  ar_interest_group_owner :: string
  ar_bid :: rat
  is_chaff :: bool
  ar_win_reporting_urls :: WinReportingUrls
  ar_ad_type :: AdType
  ar_ad_metadata :: string
  ar_bid_currency :: string
  ciphertext_generation_id :: string
  component_seller :: string
  ar_buyer_reporting_id :: string
  ar_buyer_and_seller_reporting_id :: string
  k_anon_winner_join_candidates :: KAnonJoinCandidate
  k_anon_ghost_winners :: "KAnonGhostWinner list"

record ScoreAdsRawRequest =
  ad_bids :: "AdWithBidMetadata list"
  seller_signals :: string
  auction_signals :: string
  scoring_signals :: string
  publisher_hostname :: string
  req_enable_debug_reporting :: bool
  per_buyer_signals :: "string \<rightharpoonup> string"
  protected_app_signals_ad_bids :: "ProtectedAppSignalsAdWithBidMetadata list"
  req_seller :: string
  top_level_seller :: string
  seller_currency :: string
  component_auction_results :: "AuctionResult list"
  num_allowed_ghost_winners :: int
  enforce_kanon :: bool
  seller_data_version :: nat
  score_ad_version :: string

record ScoreAdsRawResponse =
  ad_score :: AdScore
  ghost_winning_ad_scores :: "AdScore list"

definition empty_request :: ScoreAdsRawRequest where
  "empty_request = \<lparr>ad_bids = [], seller_signals = [], auction_signals = [], scoring_signals = [],
     publisher_hostname = [], req_enable_debug_reporting = False, per_buyer_signals = Map.empty,
     protected_app_signals_ad_bids = [], req_seller = [], top_level_seller = [],
     seller_currency = [], component_auction_results = [], num_allowed_ghost_winners = 0,
     enforce_kanon = False, seller_data_version = 0, score_ad_version = []\<rparr>"

definition empty_response :: ScoreAdsRawResponse where
  "empty_response = \<lparr>ad_score = default_AdScore, ghost_winning_ad_scores = []\<rparr>"

subsection \<open>Scope of an auction\<close>

definition IsComponentAuction :: "AuctionScope \<Rightarrow> bool" where
  "IsComponentAuction s \<longleftrightarrow>
     s = AUCTION_SCOPE_DEVICE_COMPONENT_MULTI_SELLER \<or> s = AUCTION_SCOPE_SERVER_COMPONENT_MULTI_SELLER"

text \<open>The scope the auction server derives from its request.\<close>

definition GetAuctionScope :: "ScoreAdsRawRequest \<Rightarrow> AuctionScope" where
  "GetAuctionScope request =
     (if top_level_seller request \<noteq> [] then AUCTION_SCOPE_DEVICE_COMPONENT_MULTI_SELLER
      else if component_auction_results request \<noteq> [] then AUCTION_SCOPE_SERVER_TOP_LEVEL_SELLER
      else AUCTION_SCOPE_SINGLE_SELLER)"

text \<open>The scope the seller front end derives from the ad request.\<close>

datatype EncryptionCloudPlatform =
    ENCRYPTION_CLOUD_PLATFORM_UNSPECIFIED
  | ENCRYPTION_CLOUD_PLATFORM_GCP
  | ENCRYPTION_CLOUD_PLATFORM_AWS

definition GetAuctionScope_SelectAd ::
    "string \<Rightarrow> EncryptionCloudPlatform \<Rightarrow> nat \<Rightarrow> AuctionScope" where
  "GetAuctionScope_SelectAd tls platform num_component_results =
     (if tls \<noteq> [] then
        (case platform of
           ENCRYPTION_CLOUD_PLATFORM_GCP \<Rightarrow> AUCTION_SCOPE_SERVER_COMPONENT_MULTI_SELLER
         | ENCRYPTION_CLOUD_PLATFORM_AWS \<Rightarrow> AUCTION_SCOPE_SERVER_COMPONENT_MULTI_SELLER
         | _ \<Rightarrow> AUCTION_SCOPE_DEVICE_COMPONENT_MULTI_SELLER)
      else if num_component_results > 0 then AUCTION_SCOPE_SERVER_TOP_LEVEL_SELLER
      else AUCTION_SCOPE_SINGLE_SELLER)"

lemma IsComponentAuction_simps [simp]:
  "IsComponentAuction AUCTION_SCOPE_DEVICE_COMPONENT_MULTI_SELLER"
  "IsComponentAuction AUCTION_SCOPE_SERVER_COMPONENT_MULTI_SELLER"
  "\<not> IsComponentAuction AUCTION_SCOPE_SINGLE_SELLER"
  "\<not> IsComponentAuction AUCTION_SCOPE_SERVER_TOP_LEVEL_SELLER"
  by (simp_all add: IsComponentAuction_def)

text \<open>The auction server never sees a server component auction as such.\<close>

lemma GetAuctionScope_not_server_component:
  "GetAuctionScope r \<noteq> AUCTION_SCOPE_SERVER_COMPONENT_MULTI_SELLER"
  by (simp add: GetAuctionScope_def)

lemma GetAuctionScope_component:
  "IsComponentAuction (GetAuctionScope r) \<longleftrightarrow> top_level_seller r \<noteq> []"
  by (simp add: GetAuctionScope_def)

end
