(* ===== verification/ReportingUtil.thy ===== *)
theory ReportingUtil
  imports AuctionTypes
begin

text \<open>
  \<^verbatim>\<open>services/common/util/reporting_util.cc\<close>: the signals of a finished auction
  (\<^verbatim>\<open>PostAuctionSignals\<close>), what a debug report may say about them, rejection reasons and their
  strings, and the feature flags handed to the seller's code. \<^verbatim>\<open>absl::StrReplaceAll\<close> is a parameter.
\<close>

abbreviation kUnknownBidCurrencyCode :: string where
  "kUnknownBidCurrencyCode \<equiv> ''???''"

type_synonym rejection_map = "string \<rightharpoonup> (string \<rightharpoonup> SellerRejectionReason)"

record PostAuctionSignals =
  winning_ig_name :: string
  winning_ig_owner :: string
  winning_bid :: rat
  winning_bid_currency :: string
  winning_bid_in_seller_currency :: rat
  sig_seller_currency :: string
  sig_seller_data_version :: nat
  highest_scoring_other_bid :: rat
  highest_scoring_other_bid_currency :: string
  highest_scoring_other_bid_ig_owner :: string
  has_highest_scoring_other_bid :: bool
  winning_score :: rat
  winning_ad_render_url :: string
  rejection_reason_map :: rejection_map
  made_highest_scoring_other_bid :: bool

definition GeneratePostAuctionSignalsForTopLevelSeller :: "AdScore option \<Rightarrow> PostAuctionSignals" where
  "GeneratePostAuctionSignalsForTopLevelSeller winning_ad_score =
     (case winning_ad_score of
        None \<Rightarrow> \<lparr>winning_ig_name = [], winning_ig_owner = [], winning_bid = 0,
                 winning_bid_currency = kUnknownBidCurrencyCode,
                 winning_bid_in_seller_currency = 0,
                 sig_seller_currency = kUnknownBidCurrencyCode, sig_seller_data_version = 0,
                 highest_scoring_other_bid = 0,
                 highest_scoring_other_bid_currency = kUnknownBidCurrencyCode,
                 highest_scoring_other_bid_ig_owner = [], has_highest_scoring_other_bid = False,
                 winning_score = 0, winning_ad_render_url = [],
                 rejection_reason_map = Map.empty, made_highest_scoring_other_bid = False\<rparr>
      | Some w \<Rightarrow> \<lparr>winning_ig_name = interest_group_name w,
                   winning_ig_owner = interest_group_owner w,
                   winning_bid = buyer_bid w,
                   winning_bid_currency = kUnknownBidCurrencyCode,
                   winning_bid_in_seller_currency = 0,
                   sig_seller_currency = kUnknownBidCurrencyCode, sig_seller_data_version = 0,
                   highest_scoring_other_bid = 0,
                   highest_scoring_other_bid_currency = kUnknownBidCurrencyCode,
                   highest_scoring_other_bid_ig_owner = [], has_highest_scoring_other_bid = False,
                   winning_score = desirability w, winning_ad_render_url = render w,
                   rejection_reason_map = Map.empty, made_highest_scoring_other_bid = False\<rparr>)"

text \<open>The loop that groups the rejection reasons by interest group owner and name.\<close>

fun group_rejections :: "AdRejectionReason list \<Rightarrow> rejection_map \<Rightarrow> rejection_map" where
  "group_rejections [] m = m"
| "group_rejections (r # rs) m = group_rejections rs
     (case m (arr_interest_group_owner r) of
        Some names \<Rightarrow> m(arr_interest_group_owner r \<mapsto>
                         try_emplace names (arr_interest_group_name r) (rejection_reason r))
      | None \<Rightarrow> m(arr_interest_group_owner r \<mapsto>
                   [arr_interest_group_name r \<mapsto> rejection_reason r]))"

text \<open>
  The second highest bid: the first entry of the map, when it holds a value, gives the owner and
  the bid.
\<close>

definition second_highest :: "(string \<times> rat list) list \<Rightarrow> (string \<times> rat) option" where
  "second_highest m = (case m of (owner, b # _) # _ \<Rightarrow> Some (owner, b) | _ \<Rightarrow> None)"

definition GeneratePostAuctionSignals ::
    "AdScore option \<Rightarrow> string \<Rightarrow> nat \<Rightarrow> PostAuctionSignals" where
  "GeneratePostAuctionSignals winning_ad_score currency version =
     (case winning_ad_score of
        None \<Rightarrow> \<lparr>winning_ig_name = [], winning_ig_owner = [], winning_bid = 0,
                 winning_bid_currency = kUnknownBidCurrencyCode,
                 winning_bid_in_seller_currency = 0,
                 sig_seller_currency = currency, sig_seller_data_version = version,
                 highest_scoring_other_bid = 0,
                 highest_scoring_other_bid_currency = kUnknownBidCurrencyCode,
                 highest_scoring_other_bid_ig_owner = [], has_highest_scoring_other_bid = False,
                 winning_score = 0, winning_ad_render_url = [],
                 rejection_reason_map = Map.empty, made_highest_scoring_other_bid = False\<rparr>
      | Some w \<Rightarrow>
         (let other_bids = ig_owner_highest_scoring_other_bids_map w;
              second = second_highest other_bids
          in \<lparr>winning_ig_name = interest_group_name w,
              winning_ig_owner = interest_group_owner w,
              winning_bid = buyer_bid w,
              winning_bid_currency =
                (if buyer_bid_currency w = [] then kUnknownBidCurrencyCode else buyer_bid_currency w),
              winning_bid_in_seller_currency = incoming_bid_in_seller_currency w,
              sig_seller_currency = currency, sig_seller_data_version = version,
              highest_scoring_other_bid = (case second of Some (_, b) \<Rightarrow> b | None \<Rightarrow> 0),
              highest_scoring_other_bid_currency =
                (if currency = [] then kUnknownBidCurrencyCode else currency),
              highest_scoring_other_bid_ig_owner =
                (case second of Some (owner, _) \<Rightarrow> owner | None \<Rightarrow> []),
              has_highest_scoring_other_bid = (second \<noteq> None),
              winning_score = desirability w, winning_ad_render_url = render w,
              rejection_reason_map = group_rejections (ad_rejection_reasons w) Map.empty,
              made_highest_scoring_other_bid =
                (length other_bids = 1 \<and> interest_group_owner w \<in> fst ` set other_bids)\<rparr>))"

subsection \<open>Rejection reasons\<close>

definition ToSellerRejectionReason :: "string \<Rightarrow> SellerRejectionReason" where
  "ToSellerRejectionReason s =
     (if s = [] then SELLER_REJECTION_REASON_NOT_AVAILABLE
      else if s = ''invalid-bid'' then INVALID_BID
      else if s = ''bid-below-auction-floor'' then BID_BELOW_AUCTION_FLOOR
      else if s = ''pending-approval-by-exchange'' then PENDING_APPROVAL_BY_EXCHANGE
      else if s = ''disapproved-by-exchange'' then DISAPPROVED_BY_EXCHANGE
      else if s = ''blocked-by-publisher'' then BLOCKED_BY_PUBLISHER
      else if s = ''language-exclusions'' then LANGUAGE_EXCLUSIONS
      else if s = ''category-exclusions'' then CATEGORY_EXCLUSIONS
      else if s = ''bid-from-gen-bid-failed-currency-check''
        then BID_FROM_GENERATE_BID_FAILED_CURRENCY_CHECK
      else if s = ''bid-from-score-ad-failed-currency-check''
        then BID_FROM_SCORE_AD_FAILED_CURRENCY_CHECK
      else if s = ''did-not-meet-the-kanonymity-threshold''
        then DID_NOT_MEET_THE_KANONYMITY_THRESHOLD
      else SELLER_REJECTION_REASON_NOT_AVAILABLE)"

fun ToSellerRejectionReasonString :: "SellerRejectionReason \<Rightarrow> string" where
  "ToSellerRejectionReasonString INVALID_BID = ''invalid-bid''"
| "ToSellerRejectionReasonString BID_BELOW_AUCTION_FLOOR = ''bid-below-auction-floor''"
| "ToSellerRejectionReasonString PENDING_APPROVAL_BY_EXCHANGE = ''pending-approval-by-exchange''"
| "ToSellerRejectionReasonString DISAPPROVED_BY_EXCHANGE = ''disapproved-by-exchange''"
| "ToSellerRejectionReasonString BLOCKED_BY_PUBLISHER = ''blocked-by-publisher''"
| "ToSellerRejectionReasonString LANGUAGE_EXCLUSIONS = ''language-exclusions''"
| "ToSellerRejectionReasonString CATEGORY_EXCLUSIONS = ''category-exclusions''"
| "ToSellerRejectionReasonString BID_FROM_GENERATE_BID_FAILED_CURRENCY_CHECK =
     ''bid-from-gen-bid-failed-currency-check''"
| "ToSellerRejectionReasonString BID_FROM_SCORE_AD_FAILED_CURRENCY_CHECK =
     ''bid-from-score-ad-failed-currency-check''"
| "ToSellerRejectionReasonString DID_NOT_MEET_THE_KANONYMITY_THRESHOLD =
     ''did-not-meet-the-kanonymity-threshold''"
| "ToSellerRejectionReasonString SELLER_REJECTION_REASON_NOT_AVAILABLE = ''not-available''"

subsection \<open>Debug reports\<close>

record DebugReportingPlaceholder =
  dp_winning_bid :: rat
  dp_winning_bid_currency :: string
  dp_made_winning_bid :: bool
  dp_highest_scoring_other_bid :: rat
  dp_highest_scoring_other_bid_currency :: string
  dp_made_highest_scoring_other_bid :: bool
  dp_rejection_reason :: SellerRejectionReason

definition GetPlaceholderDataForInterestGroup ::
    "string \<Rightarrow> string \<Rightarrow> PostAuctionSignals \<Rightarrow> DebugReportingPlaceholder" where
  "GetPlaceholderDataForInterestGroup owner name signals =
     (let codes = (if sig_seller_currency signals \<noteq> [] then sig_seller_currency signals
                   else kUnknownBidCurrencyCode)
      in \<lparr>dp_winning_bid =
            (if sig_seller_currency signals \<noteq> [] then winning_bid_in_seller_currency signals
             else winning_bid signals),
          dp_winning_bid_currency = codes,
          dp_made_winning_bid = (owner = winning_ig_owner signals),
          dp_highest_scoring_other_bid = highest_scoring_other_bid signals,
          dp_highest_scoring_other_bid_currency = codes,
          dp_made_highest_scoring_other_bid =
            (has_highest_scoring_other_bid signals \<and>
             owner = highest_scoring_other_bid_ig_owner signals),
          dp_rejection_reason =
            (case rejection_reason_map signals owner of
               Some names \<Rightarrow> (case names name of Some r \<Rightarrow> r
                               | None \<Rightarrow> SELLER_REJECTION_REASON_NOT_AVAILABLE)
             | None \<Rightarrow> SELLER_REJECTION_REASON_NOT_AVAILABLE)\<rparr>)"

text \<open>The replacements handed to \<^verbatim>\<open>absl::StrReplaceAll\<close>, in the order they are pushed.\<close>

definition debug_replacements ::
    "DebugReportingPlaceholder \<Rightarrow> bool \<Rightarrow> (string \<times> string) list" where
  "debug_replacements p is_winning_interest_group =
     [(''${winningBid}'', format_fixed 2 (dp_winning_bid p)),
      (''${winningBidCurrency}'', dp_winning_bid_currency p),
      (''${madeWinningBid}'', string_of_bool (dp_made_winning_bid p)),
      (''${rejectReason}'', ToSellerRejectionReasonString (dp_rejection_reason p)),
      (''${highestScoringOtherBid}'', ''0.00''),
      (''${highestScoringOtherBidCurrency}'', dp_highest_scoring_other_bid_currency p),
      (''${madeHighestScoringOtherBid}'', ''false'')] @
     (if is_winning_interest_group then
        [(''${highestScoringOtherBid}'', format_fixed 2 (dp_highest_scoring_other_bid p)),
         (''${madeHighestScoringOtherBid}'', string_of_bool (dp_made_highest_scoring_other_bid p))]
      else [])"

type_synonym str_replace_all = "string \<Rightarrow> (string \<times> string) list \<Rightarrow> string"

definition CreateDebugReportingUrlForInterestGroup ::
    "str_replace_all \<Rightarrow> string \<Rightarrow> DebugReportingPlaceholder \<Rightarrow> bool \<Rightarrow> string" where
  "CreateDebugReportingUrlForInterestGroup StrReplaceAll debug_url p is_winning_interest_group =
     StrReplaceAll debug_url (debug_replacements p is_winning_interest_group)"

record HTTPRequest =
  http_url :: string
  http_headers :: "string list"

definition CreateDebugReportingHttpRequest ::
    "str_replace_all \<Rightarrow> string \<Rightarrow> DebugReportingPlaceholder \<Rightarrow> bool \<Rightarrow> HTTPRequest" where
  "CreateDebugReportingHttpRequest StrReplaceAll url p is_winning_interest_group =
     \<lparr>http_url = CreateDebugReportingUrlForInterestGroup StrReplaceAll url p is_winning_interest_group,
      http_headers = []\<rparr>"

subsection \<open>Feature flags\<close>

definition AppendFeatureFlagValue :: "string \<Rightarrow> string \<Rightarrow> bool \<Rightarrow> string" where
  "AppendFeatureFlagValue feature_flags feature_name is_feature_enabled =
     feature_flags @ [CHR 0x22] @ feature_name @ [CHR 0x22] @ '': '' @ string_of_bool is_feature_enabled"

definition GetFeatureFlagJson :: "bool \<Rightarrow> bool \<Rightarrow> string" where
  "GetFeatureFlagJson enable_logging enable_debug_url_generation =
     AppendFeatureFlagValue
       (AppendFeatureFlagValue ''{'' ''enable_logging'' enable_logging @ '','')
       ''enable_debug_url_generation'' enable_debug_url_generation @ ''}''"

subsection \<open>Lookup in the grouped rejection reasons\<close>

definition lookup_rejection :: "rejection_map \<Rightarrow> string \<Rightarrow> string \<Rightarrow> SellerRejectionReason option" where
  "lookup_rejection m owner name = m owner \<bind> (\<lambda>names. names name)"

definition rejections_of :: "AdRejectionReason list \<Rightarrow> ((string \<times> string) \<times> SellerRejectionReason) list" where
  "rejections_of rs = List.map (\<lambda>r. ((arr_interest_group_owner r, arr_interest_group_name r), rejection_reason r)) rs"

lemma lookup_rejection_step:
  "lookup_rejection
     (case m owner of
        Some names \<Rightarrow> m(owner \<mapsto> try_emplace names name r)
      | None \<Rightarrow> m(owner \<mapsto> [name \<mapsto> r])) owner' name' =
   (case lookup_rejection m owner' name' of Some r' \<Rightarrow> Some r'
    | None \<Rightarrow> if owner' = owner \<and> name' = name then Some r else None)"
  by (cases "m owner") (auto simp: lookup_rejection_def split: option.splits)

lemma group_rejections_lookup:
  "lookup_rejection (group_rejections rs m) owner name =
     (case lookup_rejection m owner name of Some r \<Rightarrow> Some r
      | None \<Rightarrow> map_of (rejections_of rs) (owner, name))"
  by (induction rs arbitrary: m)
    (simp_all add: rejections_of_def lookup_rejection_step split: option.split)

lemma placeholder_rejection:
  "dp_rejection_reason (GetPlaceholderDataForInterestGroup owner name signals) =
     (case lookup_rejection (rejection_reason_map signals) owner name of Some r \<Rightarrow> r
      | None \<Rightarrow> SELLER_REJECTION_REASON_NOT_AVAILABLE)"
  by (simp add: GetPlaceholderDataForInterestGroup_def lookup_rejection_def Let_def split: option.split)

text \<open>Every rejection reason survives being printed and parsed, and a string that parses to a
  reason other than the default is the string of that reason.\<close>

theorem rejection_reason_roundtrip:
  "ToSellerRejectionReason (ToSellerRejectionReasonString r) = r \<and>
   (ToSellerRejectionReason s = SELLER_REJECTION_REASON_NOT_AVAILABLE \<or>
    ToSellerRejectionReasonString (ToSellerRejectionReason s) = s)"
proof (rule conjI)
  show "ToSellerRejectionReason (ToSellerRejectionReasonString r) = r"
    by (cases r) (simp_all add: ToSellerRejectionReason_def)
  show "ToSellerRejectionReason s = SELLER_REJECTION_REASON_NOT_AVAILABLE \<or>
    ToSellerRejectionReasonString (ToSellerRejectionReason s) = s"
    by (simp add: ToSellerRejectionReason_def)
qed

text \<open>The debug report of an interest group names the first rejection reason the seller gave for
  it, and no reason when the seller gave none.\<close>

theorem debug_report_rejection_reason:
  "dp_rejection_reason (GetPlaceholderDataForInterestGroup owner name
     (GeneratePostAuctionSignals (Some w) currency version)) =
   (case map_of (rejections_of (ad_rejection_reasons w)) (owner, name) of Some r \<Rightarrow> r
    | None \<Rightarrow> SELLER_REJECTION_REASON_NOT_AVAILABLE)"
  by (simp add: placeholder_rejection GeneratePostAuctionSignals_def Let_def group_rejections_lookup)
    (simp add: lookup_rejection_def)

text \<open>C35. Only the winner learns about the second highest bid: the debug report of an interest group
  that did not win is the same whatever the highest scoring other bids of the auction were.\<close>

theorem loser_report_hides_other_bids:
  "CreateDebugReportingHttpRequest StrReplaceAll url
     (GetPlaceholderDataForInterestGroup owner name
        (GeneratePostAuctionSignals (Some (w\<lparr>ig_owner_highest_scoring_other_bids_map := m\<rparr>)) currency version))
     False =
   CreateDebugReportingHttpRequest StrReplaceAll url
     (GetPlaceholderDataForInterestGroup owner name
        (GeneratePostAuctionSignals (Some w) currency version))
     False"
  by (simp add: CreateDebugReportingHttpRequest_def CreateDebugReportingUrlForInterestGroup_def
      debug_replacements_def GetPlaceholderDataForInterestGroup_def GeneratePostAuctionSignals_def
      Let_def)

end
