(* ===== verification/Transcoding.thy ===== *)
theory Transcoding
  imports Prelude "HOL-Library.Word"
begin

text \<open>
  Framing of the payloads between the front ends (\<^verbatim>\<open>services/common/chaffing/transcoding_utils.h\<close>) and
  their compression (\<^verbatim>\<open>services/common/compression\<close>). Gzip and the serialisation of messages are
  parameters.
\<close>

type_synonym byte = "8 word"

datatype CompressionType = kUncompressed | kGzip

definition ToCompressionType :: "int \<Rightarrow> status_code + CompressionType" where
  "ToCompressionType num = (if num = 0 then Inr kUncompressed else if num = 1 then Inr kGzip else Inl InvalidArgument)"

definition compression_number :: "CompressionType \<Rightarrow> nat" where
  "compression_number t = (case t of kUncompressed \<Rightarrow> 0 | kGzip \<Rightarrow> 1)"

record gzip =
  GzipCompress :: "byte list \<Rightarrow> status_code + byte list"
  GzipDecompress :: "byte list \<Rightarrow> status_code + byte list"

definition Compress :: "gzip \<Rightarrow> byte list \<Rightarrow> CompressionType \<Rightarrow> status_code + byte list" where
  "Compress z uncompressed t = (case t of kUncompressed \<Rightarrow> Inr uncompressed | kGzip \<Rightarrow> GzipCompress z uncompressed)"

definition Decompress :: "gzip \<Rightarrow> byte list \<Rightarrow> CompressionType \<Rightarrow> status_code + byte list" where
  "Decompress z compressed t = (case t of kUncompressed \<Rightarrow> Inr compressed | kGzip \<Rightarrow> GzipDecompress z compressed)"

definition kTotalMetadataSizeBytes :: nat where
  "kTotalMetadataSizeBytes = 5"

subsection \<open>Readers and writers\<close>

text \<open>Integers are written in network order. A write past the end fails and is ignored.\<close>

definition uint32_bytes :: "32 word \<Rightarrow> byte list" where
  "uint32_bytes w = [ucast (drop_bit 24 w), ucast (drop_bit 16 w), ucast (drop_bit 8 w), ucast w]"

definition uint32_of_bytes :: "byte list \<Rightarrow> 32 word" where
  "uint32_of_bytes bs = foldl (\<lambda>w b. or (push_bit 8 w) (ucast b)) 0 bs"

definition ReadUInt8 :: "byte list \<Rightarrow> (byte \<times> byte list) option" where
  "ReadUInt8 bs = (case bs of [] \<Rightarrow> None | b # rest \<Rightarrow> Some (b, rest))"

definition ReadUInt32 :: "byte list \<Rightarrow> (32 word \<times> byte list) option" where
  "ReadUInt32 bs = (if length bs < 4 then None else Some (uint32_of_bytes (take 4 bs), drop 4 bs))"

definition ReadStringPiece :: "nat \<Rightarrow> byte list \<Rightarrow> (byte list \<times> byte list) option" where
  "ReadStringPiece n bs = (if length bs < n then None else Some (take n bs, drop n bs))"

subsection \<open>Payloads\<close>

definition EncodeAndCompressGetBidsPayload ::
    "gzip \<Rightarrow> byte list \<Rightarrow> CompressionType \<Rightarrow> nat \<Rightarrow> status_code + byte list" where
  "EncodeAndCompressGetBidsPayload z serialized t padded_request_size =
     (case Compress z serialized t of
        Inl e \<Rightarrow> Inl e
      | Inr compressed \<Rightarrow>
          Inr ([of_nat (compression_number t)] @ uint32_bytes (of_nat (length compressed)) @ compressed @
            replicate (max (length compressed) padded_request_size - length compressed) 0))"

record 'p DecodedGetBidsPayload =
  payload_version :: byte
  payload_compression_type :: CompressionType
  payload_length :: "32 word"
  get_bids_proto :: 'p

text \<open>The version is masked but not shifted.\<close>

definition DecodeGetBidsPayload ::
    "gzip \<Rightarrow> (byte list \<Rightarrow> 'p option) \<Rightarrow> byte list \<Rightarrow> status_code + 'p DecodedGetBidsPayload" where
  "DecodeGetBidsPayload z parse encoded_payload =
     (case ReadUInt8 encoded_payload of
        None \<Rightarrow> Inl InvalidArgument
      | Some (first_byte, rest1) \<Rightarrow>
     (case ReadUInt32 rest1 of
        None \<Rightarrow> Inl InvalidArgument
      | Some (n, rest2) \<Rightarrow>
     (case ReadStringPiece (unat n) rest2 of
        None \<Rightarrow> Inl InvalidArgument
      | Some (payload, rest3) \<Rightarrow>
     (case ToCompressionType (uint (and first_byte 15)) of
        Inl e \<Rightarrow> Inl e
      | Inr t \<Rightarrow>
     (case Decompress z payload t of
        Inl e \<Rightarrow> Inl e
      | Inr decompressed \<Rightarrow>
     (case parse decompressed of
        None \<Rightarrow> Inl InvalidArgument
      | Some p \<Rightarrow> Inr \<lparr>payload_version = and first_byte 240, payload_compression_type = t, payload_length = n,
          get_bids_proto = p\<rparr>))))))"

subsection \<open>The round trip\<close>

lemma uint32_of_bytes_uint32_bytes [simp]: "uint32_of_bytes (uint32_bytes w) = w"
proof (rule bit_word_eqI)
  fix n assume "n < LENGTH(32)"
  then have "n < 8 \<or> (8 \<le> n \<and> n < 16) \<or> (16 \<le> n \<and> n < 24) \<or> (24 \<le> n \<and> n < 32)" by auto
  then show "bit (uint32_of_bytes (uint32_bytes w)) n = bit w n"
    by (auto simp: uint32_of_bytes_def uint32_bytes_def bit_or_iff bit_push_bit_iff bit_unsigned_iff bit_drop_bit_eq)
qed

lemma length_uint32_bytes [simp]: "length (uint32_bytes w) = 4"
  by (simp add: uint32_bytes_def)

lemma ReadUInt32_bytes [simp]: "ReadUInt32 (uint32_bytes w @ rest) = Some (w, rest)"
  by (simp add: ReadUInt32_def)



end
