(* ===== verification/DispatchMessages.thy ===== *)
theory DispatchMessages
  imports Transcoding
begin

text \<open>
  What the reactors exchange with libraries: requests to and answers of the sandbox that runs the ad
  techs' code, and the result of decrypting a request.
\<close>

record DispatchRequest =
  req_id :: string
  version_string :: string
  handler_name :: string
  inputs :: "string list"
  tags :: "(string \<times> string) list"

record DispatchResponse =
  resp_id :: string
  resp :: string

record HpkeDecryptResponse =
  hpke_payload :: "byte list"
  hpke_secret :: string

end
