(* ===== verification/ScoreAdsProto.thy ===== *)
theory ScoreAdsProto
  imports ReportingUtil DispatchMessages
begin

text \<open>
  \<^verbatim>\<open>services/auction_service/utils/proto_utils.cc\<close>: the trusted scoring signals of each ad, the bid
  metadata and the request for the seller's \<^verbatim>\<open>scoreAd\<close> code, and the reading of its answer. The
  JSON parser and printer and \<^verbatim>\<open>MessageToJsonString\<close> are parameters. A document that was moved from
  is \<open>JNull\<close>; a violated \<^verbatim>\<open>RAPIDJSON_ASSERT\<close> is \<open>None\<close>.
\<close>

abbreviation kAdComponentRenderUrlsProperty :: string where
  "kAdComponentRenderUrlsProperty \<equiv> ''adComponentRenderUrls''"
abbreviation kRenderUrlsPropertyForKVResponse :: string where
  "kRenderUrlsPropertyForKVResponse \<equiv> ''renderUrls''"
abbreviation kRenderUrlsPropertyForScoreAd :: string where
  "kRenderUrlsPropertyForScoreAd \<equiv> ''renderUrl''"
abbreviation kTopLevelSellerFieldPropertyForScoreAd :: string where
  "kTopLevelSellerFieldPropertyForScoreAd \<equiv> ''topLevelSeller''"
abbreviation kComponentSellerFieldPropertyForScoreAd :: string where
  "kComponentSellerFieldPropertyForScoreAd \<equiv> ''componentSeller''"
abbreviation kAuctionDebugLossUrlPropertyForScoreAd :: string where
  "kAuctionDebugLossUrlPropertyForScoreAd \<equiv> ''auctionDebugLossUrl''"
abbreviation kAuctionDebugWinUrlPropertyForScoreAd :: string where
  "kAuctionDebugWinUrlPropertyForScoreAd \<equiv> ''auctionDebugWinUrl''"
abbreviation kRejectReasonPropertyForScoreAd :: string where
  "kRejectReasonPropertyForScoreAd \<equiv> ''rejectReason''"
abbreviation kDesirabilityPropertyForScoreAd :: string where
  "kDesirabilityPropertyForScoreAd \<equiv> ''desirability''"
abbreviation kAllowComponentAuctionPropertyForScoreAd :: string where
  "kAllowComponentAuctionPropertyForScoreAd \<equiv> ''allowComponentAuction''"
abbreviation kBidCurrencyPropertyForScoreAd :: string where
  "kBidCurrencyPropertyForScoreAd \<equiv> ''bidCurrency''"
abbreviation kSellerDataVersionPropertyForScoreAd :: string where
  "kSellerDataVersionPropertyForScoreAd \<equiv> ''dataVersion''"
abbreviation kAdMetadataForComponentAuction :: string where
  "kAdMetadataForComponentAuction \<equiv> ''ad''"
abbreviation kModifiedBidForComponentAuction :: string where
  "kModifiedBidForComponentAuction \<equiv> ''bid''"
abbreviation kIncomingBidInSellerCurrency :: string where
  "kIncomingBidInSellerCurrency \<equiv> ''incomingBidInSellerCurrency''"
abbreviation kDebugReportUrlsPropertyForScoreAd :: string where
  "kDebugReportUrlsPropertyForScoreAd \<equiv> ''debugReportUrls''"
abbreviation kIGOwnerPropertyForScoreAd :: string where
  "kIGOwnerPropertyForScoreAd \<equiv> ''interestGroupOwner''"
abbreviation kTopWindowHostnamePropertyForScoreAd :: string where
  "kTopWindowHostnamePropertyForScoreAd \<equiv> ''topWindowHostname''"
abbreviation kBuyerReportingIdForScoreAd :: string where
  "kBuyerReportingIdForScoreAd \<equiv> ''buyerReportingId''"
abbreviation kBuyerAndSellerReportingIdForScoreAd :: string where
  "kBuyerAndSellerReportingIdForScoreAd \<equiv> ''buyerAndSellerReportingId''"
abbreviation kSelectedBuyerAndSellerReportingIdForScoreAd :: string where
  "kSelectedBuyerAndSellerReportingIdForScoreAd \<equiv> ''selectedBuyerAndSellerReportingId''"
abbreviation kNullScoringSignalsJson :: string where
  "kNullScoringSignalsJson \<equiv> ''null''"

subsection \<open>Trusted scoring signals\<close>

type_synonym signals = "string \<rightharpoonup> json"

definition BuildAdScoringSignalsMap :: "json \<Rightarrow> signals option" where
  "BuildAdScoringSignalsMap v = map_option
     (\<lambda>ms. foldl (\<lambda>m (url, s). try_emplace m url (JObject [(url, s)])) Map.empty ms) (Members v)"

fun FindSharedComponentUrls_loop ::
    "string list \<Rightarrow> (string \<rightharpoonup> nat) \<Rightarrow> string set \<Rightarrow> string set" where
  "FindSharedComponentUrls_loop [] occurrences multiple = multiple"
| "FindSharedComponentUrls_loop (url # urls) occurrences multiple =
     (let n = (case occurrences url of None \<Rightarrow> 1 | Some k \<Rightarrow> k + 1)
      in FindSharedComponentUrls_loop urls (occurrences(url \<mapsto> n))
           (if n > 1 then insert url multiple else multiple))"

definition FindSharedComponentUrls :: "AdWithBidMetadata list \<Rightarrow> string set" where
  "FindSharedComponentUrls ads =
     FindSharedComponentUrls_loop (concat (List.map ad_components ads)) Map.empty {}"

text \<open>
  The loop over the components of one ad. It yields the members of the component object, the
  remaining signals (a document that is not shared is moved out) and the number of signals added.
\<close>

fun AddComponentSignals_loop ::
    "string list \<Rightarrow> string set \<Rightarrow> signals \<Rightarrow> (string \<times> json) list \<Rightarrow> nat \<Rightarrow>
     (status_code + ((string \<times> json) list \<times> signals \<times> nat)) option" where
  "AddComponentSignals_loop [] shared sigs members added = Some (Inr (members, sigs, added))"
| "AddComponentSignals_loop (url # urls) shared sigs members added =
     (case sigs url of
        None \<Rightarrow> AddComponentSignals_loop urls shared sigs members added
      | Some doc \<Rightarrow> do {
          found \<leftarrow> FindMember doc url;
          case found of
            None \<Rightarrow> Some (Inl Internal)
          | Some v \<Rightarrow> AddComponentSignals_loop urls shared
              (if url \<in> shared then sigs else sigs(url \<mapsto> JNull)) (members @ [(url, v)]) (added + 1)
        })"

definition AddComponentSignals ::
    "AdWithBidMetadata \<Rightarrow> string set \<Rightarrow> signals \<Rightarrow> (status_code + (json \<times> signals \<times> nat)) option" where
  "AddComponentSignals ad_with_bid shared component_signals = do {
     r \<leftarrow> AddComponentSignals_loop (ad_components ad_with_bid) shared component_signals [] 0;
     Some (case r of
       Inl e \<Rightarrow> Inl e
     | Inr (members, sigs, added) \<Rightarrow>
         Inr (JObject [(kAdComponentRenderUrlsProperty, JObject members)], sigs, added)) }"

text \<open>The loop over the ads: component signals, render URL signals, combined signals.\<close>

fun CombineSignals_loop ::
    "AdWithBidMetadata list \<Rightarrow> string set \<Rightarrow> signals \<Rightarrow> signals \<Rightarrow> signals \<Rightarrow>
     (status_code + (signals \<times> signals)) option" where
  "CombineSignals_loop [] shared component_signals render_url_signals combined =
     Some (Inr (render_url_signals, combined))"
| "CombineSignals_loop (ad # ads) shared component_signals render_url_signals combined = do {
     r \<leftarrow> AddComponentSignals ad shared component_signals;
     case r of
       Inl e \<Rightarrow> Some (Inl e)
     | Inr (doc, component_signals', added) \<Rightarrow>
         (case render_url_signals (awb_render ad) of
            Some v \<Rightarrow> do {
              doc' \<leftarrow> AddMember doc kRenderUrlsPropertyForScoreAd v;
              CombineSignals_loop ads shared component_signals'
                (render_url_signals(awb_render ad \<mapsto> JNull)) (try_emplace combined (awb_render ad) doc') }
          | None \<Rightarrow>
              CombineSignals_loop ads shared component_signals' render_url_signals
                (if added > 0 then try_emplace combined (awb_render ad) doc else combined)) }"

fun MayPopulateScoringSignalsForProtectedAppSignals ::
    "ProtectedAppSignalsAdWithBidMetadata list \<Rightarrow> signals \<Rightarrow> signals \<Rightarrow> signals" where
  "MayPopulateScoringSignalsForProtectedAppSignals [] render_url_signals combined = combined"
| "MayPopulateScoringSignalsForProtectedAppSignals (ad # ads) render_url_signals combined =
     (case render_url_signals (pas_render ad) of
        None \<Rightarrow> MayPopulateScoringSignalsForProtectedAppSignals ads render_url_signals combined
      | Some v \<Rightarrow> MayPopulateScoringSignalsForProtectedAppSignals ads
          (render_url_signals(pas_render ad \<mapsto> JNull))
          (try_emplace combined (pas_render ad) (JObject [(kRenderUrlsPropertyForScoreAd, v)])))"

text \<open>\<open>parse\<close> is \<^verbatim>\<open>rapidjson::Document::Parse\<close> (nothing on a parse error), \<open>write\<close> its writer.\<close>

definition BuildTrustedScoringSignals ::
    "(string \<Rightarrow> json option) \<Rightarrow> (json \<Rightarrow> string) \<Rightarrow> ScoreAdsRawRequest \<Rightarrow> bool \<Rightarrow>
     (status_code + (string \<rightharpoonup> string)) option" where
  "BuildTrustedScoringSignals parse write raw_request require_scoring_signals_for_scoring =
     (if scoring_signals raw_request = [] then Some (Inl InvalidArgument)
      else case parse (scoring_signals raw_request) of
        None \<Rightarrow> Some (Inl InvalidArgument)
      | Some doc \<Rightarrow>
          if \<not> IsObject doc then Some (Inl InvalidArgument)
          else do {
            render_urls \<leftarrow> FindMember doc kRenderUrlsPropertyForKVResponse;
            if require_scoring_signals_for_scoring \<and> render_urls = None then Some (Inl InvalidArgument)
            else do {
              render_url_signals \<leftarrow> (case render_urls of None \<Rightarrow> Some Map.empty
                                     | Some v \<Rightarrow> BuildAdScoringSignalsMap v);
              component_urls \<leftarrow> FindMember doc kAdComponentRenderUrlsProperty;
              component_signals \<leftarrow> (case component_urls of None \<Rightarrow> Some Map.empty
                                    | Some v \<Rightarrow> BuildAdScoringSignalsMap v);
              r \<leftarrow> CombineSignals_loop (ad_bids raw_request)
                    (FindSharedComponentUrls (ad_bids raw_request))
                    component_signals render_url_signals Map.empty;
              Some (case r of
                Inl e \<Rightarrow> Inl e
              | Inr (render_url_signals', combined) \<Rightarrow>
                  Inr (map_option write \<circ> MayPopulateScoringSignalsForProtectedAppSignals
                         (protected_app_signals_ad_bids raw_request) render_url_signals' combined)) } })"

subsection \<open>Bid metadata and auction configuration\<close>

record ReportingIdsParamForBidMetadata =
  rid_buyer_reporting_id :: "string option"
  rid_buyer_and_seller_reporting_id :: "string option"
  rid_selected_buyer_and_seller_reporting_id :: "string option"

definition no_reporting_ids :: ReportingIdsParamForBidMetadata where
  "no_reporting_ids = \<lparr>rid_buyer_reporting_id = None, rid_buyer_and_seller_reporting_id = None,
     rid_selected_buyer_and_seller_reporting_id = None\<rparr>"

abbreviation quoted :: "string \<Rightarrow> string" where
  "quoted s \<equiv> [CHR 0x22] @ s @ [CHR 0x22]"

text \<open>\<^verbatim>\<open>"key":"value",\<close>\<close>

definition string_field :: "string \<Rightarrow> string \<Rightarrow> string" where
  "string_field key v = quoted key @ '':'' @ quoted v @ '',''"

fun comma_quoted :: "string list \<Rightarrow> string" where
  "comma_quoted [] = []"
| "comma_quoted [u] = quoted u"
| "comma_quoted (u # us) = quoted u @ '','' @ comma_quoted us"

definition MakeOpenBidMetadataJson ::
    "string \<Rightarrow> string \<Rightarrow> string list \<Rightarrow> string \<Rightarrow> nat \<Rightarrow>
     ReportingIdsParamForBidMetadata \<Rightarrow> string" where
  "MakeOpenBidMetadataJson hostname owner component_urls currency version ids =
     ''{'' @
     (if owner \<noteq> [] then string_field kIGOwnerPropertyForScoreAd owner else []) @
     (if hostname \<noteq> [] then string_field kTopWindowHostnamePropertyForScoreAd hostname else []) @
     (if component_urls \<noteq> []
      then quoted ''adComponents'' @ '':['' @ comma_quoted component_urls @ ''],'' else []) @
     (if currency \<noteq> [] then string_field kBidCurrencyPropertyForScoreAd currency
      else string_field kBidCurrencyPropertyForScoreAd kUnknownBidCurrencyCode) @
     (if version > 0 then quoted kSellerDataVersionPropertyForScoreAd @ '':'' @ string_of_nat version @ '',''
      else []) @
     (case rid_buyer_reporting_id ids of
        Some i \<Rightarrow> string_field kBuyerReportingIdForScoreAd i | None \<Rightarrow> []) @
     (case rid_buyer_and_seller_reporting_id ids of
        Some i \<Rightarrow> string_field kBuyerAndSellerReportingIdForScoreAd i | None \<Rightarrow> []) @
     (case rid_selected_buyer_and_seller_reporting_id ids of
        Some i \<Rightarrow> string_field kSelectedBuyerAndSellerReportingIdForScoreAd i | None \<Rightarrow> [])"

definition MakeBidMetadata ::
    "string \<Rightarrow> string \<Rightarrow> string \<Rightarrow> string list \<Rightarrow> string \<Rightarrow> string \<Rightarrow> nat \<Rightarrow>
     ReportingIdsParamForBidMetadata \<Rightarrow> string" where
  "MakeBidMetadata hostname owner render_url component_urls tls currency version ids =
     MakeOpenBidMetadataJson hostname owner component_urls currency version ids @
     (if tls \<noteq> [] then string_field kTopLevelSellerFieldPropertyForScoreAd tls else []) @
     quoted kRenderUrlsPropertyForScoreAd @ '':'' @ quoted render_url @ ''}''"

definition MakeBidMetadataForTopLevelAuction ::
    "string \<Rightarrow> string \<Rightarrow> string \<Rightarrow> string list \<Rightarrow> string \<Rightarrow> string \<Rightarrow> nat \<Rightarrow> string" where
  "MakeBidMetadataForTopLevelAuction hostname owner render_url component_urls cseller currency version =
     MakeOpenBidMetadataJson hostname owner component_urls currency version no_reporting_ids @
     string_field kComponentSellerFieldPropertyForScoreAd cseller @
     quoted kRenderUrlsPropertyForScoreAd @ '':'' @ quoted render_url @ ''}''"

definition BuildAuctionConfig :: "ScoreAdsRawRequest \<Rightarrow> string" where
  "BuildAuctionConfig raw_request =
     ''{'' @ quoted ''auctionSignals'' @ '': '' @
     (if auction_signals raw_request = [] then quoted [] else auction_signals raw_request) @ '', '' @
     quoted ''sellerSignals'' @ '': '' @
     (if seller_signals raw_request = [] then quoted [] else seller_signals raw_request) @ ''}''"

subsection \<open>The answer of \<^verbatim>\<open>scoreAd\<close>\<close>

text \<open>
  \<^verbatim>\<open>MayVlogAdTechCodeLogs\<close> only logs. A member \<open>response\<close> that is neither an object nor a number
  leaves the null document.
\<close>

definition ParseAndGetScoreAdResponseJson :: "json \<Rightarrow> json option" where
  "ParseAndGetScoreAdResponseJson wrapper = do {
     found \<leftarrow> FindMember wrapper ''response'';
     Some (case found of
       Some v \<Rightarrow> (if IsObject v then v else case GetDouble v of Some d \<Rightarrow> JDouble d | None \<Rightarrow> JNull)
     | None \<Rightarrow> JNull) }"

definition BuildAdRejectionReason ::
    "string \<Rightarrow> string \<Rightarrow> SellerRejectionReason \<Rightarrow> AdRejectionReason" where
  "BuildAdRejectionReason owner name reason =
     \<lparr>arr_interest_group_name = name, arr_interest_group_owner = owner, rejection_reason = reason\<rparr>"

definition ParseAdRejectionReason :: "json \<Rightarrow> string \<Rightarrow> string \<Rightarrow> AdRejectionReason option option" where
  "ParseAdRejectionReason score_ad_resp owner name = do {
     reason \<leftarrow> member_string score_ad_resp kRejectReasonPropertyForScoreAd;
     Some (map_option (\<lambda>s. BuildAdRejectionReason owner name (ToSellerRejectionReason s)) reason) }"

text \<open>
  The caps arrive as \<^verbatim>\<open>int\<close>: the total cap and the running total are narrowed from 64 bits.
\<close>

definition GetDebugUrlIfInLimit :: "string \<Rightarrow> json \<Rightarrow> int \<Rightarrow> int \<Rightarrow> int \<Rightarrow> string option" where
  "GetDebugUrlIfInLimit url_type debug_reporting_urls max_url max_all current_all = do {
     url \<leftarrow> member_string debug_reporting_urls url_type;
     Some (case url of
       None \<Rightarrow> []
     | Some debug_url \<Rightarrow>
         (if int (length debug_url) \<le> max_url \<and>
             int (length debug_url) + to_int32 current_all \<le> to_int32 max_all
          then debug_url else [])) }"

text \<open>
  The component auction fields of an answer. The printed metadata of an ad that is an object may
  fail to serialise.
\<close>

definition ParseComponentAuctionFields ::
    "(json \<Rightarrow> status_code + string) \<Rightarrow> json \<Rightarrow> AdScore \<Rightarrow> (status_code + AdScore) option" where
  "ParseComponentAuctionFields SerializeJsonDoc score_ad_resp ad = do {
     allow \<leftarrow> member_bool score_ad_resp kAllowComponentAuctionPropertyForScoreAd;
     metadata \<leftarrow> FindMember score_ad_resp kAdMetadataForComponentAuction;
     modified_bid \<leftarrow> member_number score_ad_resp kModifiedBidForComponentAuction;
     currency \<leftarrow> member_string score_ad_resp kBidCurrencyPropertyForScoreAd;
     let ad1 = (case allow of Some b \<Rightarrow> ad\<lparr>allow_component_auction := b\<rparr> | None \<Rightarrow> ad);
         printed = (case metadata of
             Some (JString m) \<Rightarrow> Inr (Some (quoted m))
           | Some (JObject ms) \<Rightarrow> (case SerializeJsonDoc (JObject ms) of
                 Inl e \<Rightarrow> Inl e | Inr t \<Rightarrow> Inr (Some t))
           | _ \<Rightarrow> Inr None)
     in Some (case printed of
          Inl e \<Rightarrow> Inl e
        | Inr m \<Rightarrow>
           (let ad2 = (case m of Some t \<Rightarrow> ad1\<lparr>ad_metadata := t\<rparr> | None \<Rightarrow> ad1);
                ad3 = (case modified_bid of Some b \<Rightarrow> ad2\<lparr>bid := b\<rparr> | None \<Rightarrow> ad2)
            in Inr (case currency of Some c \<Rightarrow> ad3\<lparr>bid_currency := c\<rparr> | None \<Rightarrow> ad3))) }"

text \<open>
  The result carries the running total of debug URL characters, which the code updates through
  a reference.
\<close>

definition ScoreAdResponseJsonToProto ::
    "(json \<Rightarrow> status_code + string) \<Rightarrow> json \<Rightarrow> int \<Rightarrow> int \<Rightarrow> bool \<Rightarrow> int \<Rightarrow>
     (status_code + (AdScore \<times> int)) option" where
  "ScoreAdResponseJsonToProto SerializeJsonDoc score_ad_resp max_url max_all device_component_auction
     current_all =
     (case GetDouble score_ad_resp of
        Some d \<Rightarrow> Some (Inr (default_AdScore\<lparr>desirability := d\<rparr>, current_all))
      | None \<Rightarrow> do {
          des \<leftarrow> member_number score_ad_resp kDesirabilityPropertyForScoreAd;
          incoming \<leftarrow> member_number score_ad_resp kIncomingBidInSellerCurrency;
          let ad1 = default_AdScore\<lparr>desirability := (case des of Some d \<Rightarrow> d | None \<Rightarrow> 0)\<rparr>;
              ad2 = (case incoming of Some b \<Rightarrow> ad1\<lparr>incoming_bid_in_seller_currency := b\<rparr>
                     | None \<Rightarrow> ad1)
          in do {
            component \<leftarrow> (if device_component_auction
                          then ParseComponentAuctionFields SerializeJsonDoc score_ad_resp ad2
                          else Some (Inr ad2));
            case component of
              Inl e \<Rightarrow> Some (Inl e)
            | Inr ad3 \<Rightarrow> do {
                urls \<leftarrow> FindMember score_ad_resp kDebugReportUrlsPropertyForScoreAd;
                case urls of
                  None \<Rightarrow> Some (Inr (ad3, current_all))
                | Some debug_urls \<Rightarrow> do {
                    win \<leftarrow> GetDebugUrlIfInLimit kAuctionDebugWinUrlPropertyForScoreAd debug_urls
                            max_url max_all current_all;
                    let current1 = current_all + int (length win) in do {
                      loss \<leftarrow> GetDebugUrlIfInLimit kAuctionDebugLossUrlPropertyForScoreAd debug_urls
                               max_url max_all current1;
                      Some (Inr (ad3\<lparr>debug_report_urls :=
                                  Some \<lparr>auction_debug_win_url = win, auction_debug_loss_url = loss\<rparr>\<rparr>,
                                 current1 + int (length loss))) } } } } })"

subsection \<open>Requests for \<^verbatim>\<open>scoreAd\<close>\<close>

definition BuildScoreAdRequest ::
    "string \<Rightarrow> string \<Rightarrow> string \<Rightarrow> rat \<Rightarrow> string \<Rightarrow> string \<Rightarrow> bool \<Rightarrow> bool \<Rightarrow> string \<Rightarrow> DispatchRequest" where
  "BuildScoreAdRequest url ad_metadata_json sigs ad_bid auction_config bid_metadata
     enable_adtech_code_logging enable_debug_reporting code_version =
     \<lparr>req_id = url, version_string = code_version, handler_name = ''scoreAdEntryFunction'',
      inputs = [ad_metadata_json, format_fixed 6 ad_bid, auction_config, sigs, bid_metadata, ''{}'',
                GetFeatureFlagJson enable_adtech_code_logging enable_debug_reporting],
      tags = []\<rparr>"

text \<open>The overload for an ad: its metadata is printed first, which may fail.\<close>

definition BuildScoreAdRequest_ad ::
    "(json \<Rightarrow> status_code + string) \<Rightarrow> (string + json) \<Rightarrow> string \<Rightarrow> rat \<Rightarrow> string \<Rightarrow> string \<Rightarrow> bool \<Rightarrow>
     bool \<Rightarrow> string \<Rightarrow> string \<Rightarrow> status_code + DispatchRequest" where
  "BuildScoreAdRequest_ad MessageToJsonString ad url ad_bid auction_config sigs
     enable_debug_reporting enable_adtech_code_logging bid_metadata code_version =
     (case (case ad of Inl s \<Rightarrow> Inr s | Inr struct \<Rightarrow> MessageToJsonString struct) of
        Inl e \<Rightarrow> Inl e
      | Inr ad_object_json \<Rightarrow> Inr (BuildScoreAdRequest url ad_object_json sigs ad_bid auction_config
          bid_metadata enable_adtech_code_logging enable_debug_reporting code_version))"

subsection \<open>Component auction results as bids\<close>

text \<open>Each mapping also yields the message it was made from, without the strings it took.\<close>

definition MapAuctionResultToAdWithBidMetadata ::
    "AuctionResult \<Rightarrow> bool \<Rightarrow> AdWithBidMetadata \<times> AuctionResult" where
  "MapAuctionResultToAdWithBidMetadata r status =
     (default_AdWithBidMetadata\<lparr>awb_bid := ar_bid r, awb_render := ad_render_url r,
        ad_components := ad_component_render_urls r,
        awb_interest_group_name := ar_interest_group_name r,
        awb_interest_group_owner := ar_interest_group_owner r,
        awb_bid_currency := ar_bid_currency r, k_anon_status := status\<rparr>,
      r\<lparr>ad_render_url := [], ad_component_render_urls := [], ar_interest_group_name := [],
        ar_interest_group_owner := [], ar_bid_currency := []\<rparr>)"

definition MapAuctionResultToProtectedAppSignalsAdWithBidMetadata ::
    "AuctionResult \<Rightarrow> bool \<Rightarrow> ProtectedAppSignalsAdWithBidMetadata \<times> AuctionResult" where
  "MapAuctionResultToProtectedAppSignalsAdWithBidMetadata r status =
     (default_PASAdWithBidMetadata\<lparr>pas_bid := ar_bid r, pas_render := ad_render_url r,
        pas_owner := ar_interest_group_owner r, pas_bid_currency := ar_bid_currency r,
        pas_k_anon_status := status\<rparr>,
      r\<lparr>ad_render_url := [], ar_interest_group_owner := [], ar_bid_currency := []\<rparr>)"

definition MapKAnonGhostWinnerToAdWithBidMetadata ::
    "string \<Rightarrow> string \<Rightarrow> GhostWinnerForTopLevelAuction \<Rightarrow> AdWithBidMetadata" where
  "MapKAnonGhostWinnerToAdWithBidMetadata owner ig_name g =
     default_AdWithBidMetadata\<lparr>awb_bid := gw_modified_bid g, awb_render := gw_ad_render_url g,
        ad_components := gw_ad_component_render_urls g, awb_interest_group_name := ig_name,
        awb_interest_group_owner := owner, awb_bid_currency := gw_bid_currency g,
        k_anon_status := False\<rparr>"


subsection \<open>What the trusted scoring signals of an ad are\<close>

text \<open>
  The documents under their URLs, as \<open>BuildAdScoringSignalsMap\<close> wraps them, and the signals of an
  ad without any moving of documents: the members of its components that have signals and the
  member of its render URL.
\<close>

definition wrap_signals :: "(string \<rightharpoonup> json) \<Rightarrow> signals" where
  "wrap_signals orig = (\<lambda>u. map_option (\<lambda>v. JObject [(u, v)]) (orig u))"

definition component_members :: "(string \<rightharpoonup> json) \<Rightarrow> string list \<Rightarrow> (string \<times> json) list" where
  "component_members orig urls = concat (List.map (\<lambda>u. case orig u of Some v \<Rightarrow> [(u, v)] | None \<Rightarrow> []) urls)"

definition signals_of_ad :: "(string \<rightharpoonup> json) \<Rightarrow> (string \<rightharpoonup> json) \<Rightarrow> AdWithBidMetadata \<Rightarrow> json option" where
  "signals_of_ad components renders ad =
     (let ms = component_members components (ad_components ad)
      in case renders (awb_render ad) of
           Some v \<Rightarrow> Some (JObject [(kAdComponentRenderUrlsProperty, JObject ms),
                             (kRenderUrlsPropertyForScoreAd, JObject [(awb_render ad, v)])])
         | None \<Rightarrow> (if ms = [] then None
                    else Some (JObject [(kAdComponentRenderUrlsProperty, JObject ms)])))"

definition ad_entries ::
    "(string \<rightharpoonup> json) \<Rightarrow> (string \<rightharpoonup> json) \<Rightarrow> AdWithBidMetadata list \<Rightarrow> (string \<times> json) list" where
  "ad_entries components renders ads = concat (List.map (\<lambda>ad.
     case signals_of_ad components renders ad of Some d \<Rightarrow> [(awb_render ad, d)] | None \<Rightarrow> []) ads)"

definition pas_entries ::
    "(string \<rightharpoonup> json) \<Rightarrow> ProtectedAppSignalsAdWithBidMetadata list \<Rightarrow> (string \<times> json) list" where
  "pas_entries renders ads = concat (List.map (\<lambda>ad.
     case renders (pas_render ad) of
       Some v \<Rightarrow> [(pas_render ad, JObject [(kRenderUrlsPropertyForScoreAd, JObject [(pas_render ad, v)])])]
     | None \<Rightarrow> []) ads)"

lemma foldl_wrap:
  "foldl (\<lambda>m (url, s). try_emplace m url (JObject [(url, s)])) m ms =
     (\<lambda>u. case m u of Some d \<Rightarrow> Some d | None \<Rightarrow> wrap_signals (map_of ms) u)"
  by (induction ms arbitrary: m) (auto simp: wrap_signals_def fun_eq_iff split: option.split)

lemma BuildAdScoringSignalsMap_object:
  "BuildAdScoringSignalsMap (JObject ms) = Some (wrap_signals (map_of ms))"
  by (simp add: BuildAdScoringSignalsMap_def Members_def foldl_wrap)

lemma component_members_Cons:
  "component_members orig (u # us) =
     (case orig u of Some v \<Rightarrow> [(u, v)] | None \<Rightarrow> []) @ component_members orig us"
  by (simp add: component_members_def)

lemma component_members_Nil [simp]: "component_members orig [] = []"
  by (simp add: component_members_def)

text \<open>A component that is not shared occurs at most once.\<close>

lemma FindSharedComponentUrls_loop_notin:
  assumes "u \<notin> FindSharedComponentUrls_loop urls occ multiple"
  shows "u \<notin> multiple \<and>
    (u \<in> set urls \<longrightarrow> (case occ u of None \<Rightarrow> 0 | Some k \<Rightarrow> k) + count_list urls u \<le> 1)"
  using assms
proof (induction urls arbitrary: occ multiple)
  case Nil
  then show ?case by simp
next
  case (Cons url urls)
  let ?n = "(case occ url of None \<Rightarrow> 1 | Some k \<Rightarrow> k + 1)"
  from Cons.prems have "u \<notin> FindSharedComponentUrls_loop urls (occ(url \<mapsto> ?n))
      (if ?n > 1 then insert url multiple else multiple)"
    by (simp add: Let_def)
  from Cons.IH [OF this] show ?case
    by (cases "u = url"; cases "u \<in> set urls"; cases "occ url")
      (auto split: if_splits simp: count_notin)
qed

lemma FindSharedComponentUrls_count:
  assumes "u \<notin> FindSharedComponentUrls ads"
  shows "count_list (concat (List.map ad_components ads)) u \<le> 1"
  using FindSharedComponentUrls_loop_notin [OF assms [unfolded FindSharedComponentUrls_def]]
  by (cases "u \<in> set (concat (List.map ad_components ads))") (simp_all only: count_notin, auto)

text \<open>The components of one ad: every signal found is the original one.\<close>

lemma AddComponentSignals_loop_correct:
  assumes "\<forall>u \<in> set urls. sigs u = wrap_signals orig u"
    and "\<forall>u. u \<notin> shared \<longrightarrow> count_list urls u \<le> 1"
  shows "\<exists>sigs'. AddComponentSignals_loop urls shared sigs members n =
      Some (Inr (members @ component_members orig urls, sigs', n + length (component_members orig urls))) \<and>
      (\<forall>u. u \<in> shared \<or> u \<notin> set urls \<longrightarrow> sigs' u = sigs u)"
  using assms
proof (induction urls arbitrary: sigs members n)
  case Nil
  then show ?case by simp
next
  case (Cons url urls)
  have count: "\<forall>u. u \<notin> shared \<longrightarrow> count_list urls u \<le> 1"
    using Cons.prems(2) by (metis count_list.simps(2) le_SucI add_leD1 nat_le_linear le_trans add.commute Suc_eq_plus1)
  show ?case
  proof (cases "orig url")
    case None
    with Cons.prems(1) have "sigs url = None" by (simp add: wrap_signals_def)
    with None Cons.IH [OF _ count, of sigs members n] Cons.prems(1) show ?thesis
      by (auto simp: component_members_Cons)
  next
    case (Some v)
    let ?sigs = "if url \<in> shared then sigs else sigs(url \<mapsto> JNull)"
    from Some Cons.prems(1) have here: "sigs url = Some (JObject [(url, v)])" by (simp add: wrap_signals_def)
    have fresh: "url \<notin> set urls" if "url \<notin> shared"
    proof
      assume "url \<in> set urls"
      then have "count_list urls url \<noteq> 0" by (simp add: count_list_0_iff)
      with Cons.prems(2) that show False by auto
    qed
    have sigs: "\<forall>u \<in> set urls. ?sigs u = wrap_signals orig u"
      using Cons.prems(1) fresh by auto
    from Cons.IH [OF sigs count, of "members @ [(url, v)]" "n + 1"]
    obtain sigs' where run: "AddComponentSignals_loop urls shared ?sigs (members @ [(url, v)]) (n + 1) =
        Some (Inr (members @ component_members orig (url # urls), sigs',
          n + length (component_members orig (url # urls))))"
      and keep: "\<forall>u. u \<in> shared \<or> u \<notin> set urls \<longrightarrow> sigs' u = ?sigs u"
      using Some by (auto simp: component_members_Cons)
    from keep have "\<forall>u. u \<in> shared \<or> u \<notin> set (url # urls) \<longrightarrow> sigs' u = sigs u" by auto
    with run here show ?thesis by (intro exI [of _ sigs']) simp
  qed
qed

lemma AddComponentSignals_correct:
  assumes "\<forall>u \<in> set (ad_components ad). sigs u = wrap_signals orig u"
    and "\<forall>u. u \<notin> shared \<longrightarrow> count_list (ad_components ad) u \<le> 1"
  shows "\<exists>sigs'. AddComponentSignals ad shared sigs =
      Some (Inr (JObject [(kAdComponentRenderUrlsProperty, JObject (component_members orig (ad_components ad)))],
        sigs', length (component_members orig (ad_components ad)))) \<and>
      (\<forall>u. u \<in> shared \<or> u \<notin> set (ad_components ad) \<longrightarrow> sigs' u = sigs u)"
  using AddComponentSignals_loop_correct [OF assms, of "[]" 0]
  by (auto simp: AddComponentSignals_def)

lemma ad_entries_Cons:
  "ad_entries components renders (ad # ads) =
     (case signals_of_ad components renders ad of Some d \<Rightarrow> [(awb_render ad, d)] | None \<Rightarrow> []) @
     ad_entries components renders ads"
  by (simp add: ad_entries_def)

lemma pas_entries_Cons:
  "pas_entries renders (ad # ads) =
     (case renders (pas_render ad) of
       Some v \<Rightarrow> [(pas_render ad, JObject [(kRenderUrlsPropertyForScoreAd, JObject [(pas_render ad, v)])])]
     | None \<Rightarrow> []) @ pas_entries renders ads"
  by (simp add: pas_entries_def)

definition renders_ok :: "(string \<rightharpoonup> json) \<Rightarrow> signals \<Rightarrow> signals \<Rightarrow> bool" where
  "renders_ok renders render_url_signals combined \<longleftrightarrow>
     (\<forall>u. render_url_signals u = wrap_signals renders u \<or>
          render_url_signals u = Some JNull \<and> renders u \<noteq> None \<and> combined u \<noteq> None)"


lemma renders_ok_None: "renders_ok renders rsigs combined \<Longrightarrow> renders u = None \<Longrightarrow> rsigs u = None"
  unfolding renders_ok_def wrap_signals_def by (metis option.simps(8))

lemma option_eta [simp]: "(\<lambda>u. case m u of Some d \<Rightarrow> Some d | None \<Rightarrow> None) = m"
  by (simp add: fun_eq_iff split: option.split)

lemma CombineSignals_loop_correct:
  assumes "\<forall>u \<in> set (concat (List.map ad_components ads)). sigs u = wrap_signals components u"
    and "\<forall>u. u \<notin> shared \<longrightarrow> count_list (concat (List.map ad_components ads)) u \<le> 1"
    and "renders_ok renders rsigs combined"
  shows "\<exists>rsigs'. CombineSignals_loop ads shared sigs rsigs combined =
      Some (Inr (rsigs', (\<lambda>u. case combined u of Some d \<Rightarrow> Some d
                          | None \<Rightarrow> map_of (ad_entries components renders ads) u))) \<and>
    renders_ok renders rsigs' (\<lambda>u. case combined u of Some d \<Rightarrow> Some d
                          | None \<Rightarrow> map_of (ad_entries components renders ads) u)"
  using assms
proof (induction ads arbitrary: sigs rsigs combined)
  case Nil
  then show ?case by (simp add: ad_entries_def cong: option.case_cong)
next
  case (Cons ad ads)
  let ?rest = "concat (List.map ad_components ads)"
  have count: "\<forall>u. u \<notin> shared \<longrightarrow> count_list (ad_components ad) u \<le> 1"
    and count': "\<forall>u. u \<notin> shared \<longrightarrow> count_list ?rest u \<le> 1"
    using Cons.prems(2) by (auto simp: count_list_append intro: le_trans [rotated])
  have here: "\<forall>u \<in> set (ad_components ad). sigs u = wrap_signals components u"
    using Cons.prems(1) by simp
  from AddComponentSignals_correct [OF here count] obtain sigs' where
    add: "AddComponentSignals ad shared sigs =
      Some (Inr (JObject [(kAdComponentRenderUrlsProperty, JObject (component_members components (ad_components ad)))],
        sigs', length (component_members components (ad_components ad))))"
    and keep: "\<forall>u. u \<in> shared \<or> u \<notin> set (ad_components ad) \<longrightarrow> sigs' u = sigs u" by blast
  have sigs': "\<forall>u \<in> set ?rest. sigs' u = wrap_signals components u"
  proof
    fix u assume u: "u \<in> set ?rest"
    have "u \<in> shared \<or> u \<notin> set (ad_components ad)"
    proof (rule ccontr)
      assume "\<not> ?thesis"
      with u have "u \<notin> shared" "count_list (ad_components ad) u \<noteq> 0" "count_list ?rest u \<noteq> 0"
        by (auto simp: count_list_0_iff)
      with Cons.prems(2) show False by (fastforce simp: count_list_append)
    qed
    with keep have "sigs' u = sigs u" by blast
    also have "sigs u = wrap_signals components u" using u Cons.prems(1) by simp
    finally show "sigs' u = wrap_signals components u" .
  qed
  let ?ms = "component_members components (ad_components ad)"
  show ?case
  proof (cases "renders (awb_render ad)")
    case None
    with Cons.prems(3) have r: "rsigs (awb_render ad) = None" by (rule renders_ok_None)
    let ?doc = "JObject [(kAdComponentRenderUrlsProperty, JObject ?ms)]"
    let ?combined = "if length ?ms > 0 then try_emplace combined (awb_render ad) ?doc else combined"
    have ok: "renders_ok renders rsigs ?combined" using Cons.prems(3) by (auto simp: renders_ok_def)
    have eq: "(\<lambda>u. case ?combined u of Some d \<Rightarrow> Some d
                | None \<Rightarrow> map_of (ad_entries components renders ads) u) =
              (\<lambda>u. case combined u of Some d \<Rightarrow> Some d
                | None \<Rightarrow> map_of (ad_entries components renders (ad # ads)) u)"
      using None by (auto simp: fun_eq_iff ad_entries_Cons signals_of_ad_def Let_def split: option.splits)
    from Cons.IH [OF sigs' count' ok] show ?thesis
      using add r by (simp only: eq) simp
  next
    case (Some v)
    from Cons.prems(3) have "rsigs (awb_render ad) = Some (JObject [(awb_render ad, v)]) \<or>
        rsigs (awb_render ad) = Some JNull \<and> combined (awb_render ad) \<noteq> None"
      using Some unfolding renders_ok_def wrap_signals_def by (metis option.simps(9))
    then obtain w where w: "rsigs (awb_render ad) = Some w"
      and moved: "w = JObject [(awb_render ad, v)] \<or> combined (awb_render ad) \<noteq> None" by auto
    let ?doc = "JObject [(kAdComponentRenderUrlsProperty, JObject ?ms), (kRenderUrlsPropertyForScoreAd, w)]"
    let ?combined = "try_emplace combined (awb_render ad) ?doc"
    have ok: "renders_ok renders (rsigs(awb_render ad \<mapsto> JNull)) ?combined"
      using Cons.prems(3) Some by (auto simp: renders_ok_def)
    have eq: "(\<lambda>u. case ?combined u of Some d \<Rightarrow> Some d
                | None \<Rightarrow> map_of (ad_entries components renders ads) u) =
              (\<lambda>u. case combined u of Some d \<Rightarrow> Some d
                | None \<Rightarrow> map_of (ad_entries components renders (ad # ads)) u)"
      using Some moved by (auto simp: fun_eq_iff ad_entries_Cons signals_of_ad_def Let_def split: option.splits)
    have step: "CombineSignals_loop (ad # ads) shared sigs rsigs combined =
        CombineSignals_loop ads shared sigs' (rsigs(awb_render ad \<mapsto> JNull)) ?combined"
      by (simp add: add w)
    from Cons.IH [OF sigs' count' ok] show ?thesis
      by (simp only: eq step)
  qed
qed

lemma MayPopulatePAS_correct:
  assumes "renders_ok renders rsigs combined"
  shows "MayPopulateScoringSignalsForProtectedAppSignals ads rsigs combined =
    (\<lambda>u. case combined u of Some d \<Rightarrow> Some d | None \<Rightarrow> map_of (pas_entries renders ads) u)"
  using assms
proof (induction ads arbitrary: rsigs combined)
  case Nil
  then show ?case by (simp add: pas_entries_def cong: option.case_cong)
next
  case (Cons ad ads)
  show ?case
  proof (cases "renders (pas_render ad)")
    case None
    with Cons.prems have "rsigs (pas_render ad) = None" by (rule renders_ok_None)
    with None Cons.IH [OF Cons.prems] show ?thesis
      by (simp add: pas_entries_Cons cong: option.case_cong)
  next
    case (Some v)
    from Cons.prems have "rsigs (pas_render ad) = Some (JObject [(pas_render ad, v)]) \<or>
        rsigs (pas_render ad) = Some JNull \<and> combined (pas_render ad) \<noteq> None"
      using Some unfolding renders_ok_def wrap_signals_def by (metis option.simps(9))
    then obtain w where w: "rsigs (pas_render ad) = Some w"
      and moved: "w = JObject [(pas_render ad, v)] \<or> combined (pas_render ad) \<noteq> None" by auto
    let ?combined = "try_emplace combined (pas_render ad) (JObject [(kRenderUrlsPropertyForScoreAd, w)])"
    have ok: "renders_ok renders (rsigs(pas_render ad \<mapsto> JNull)) ?combined"
      using Cons.prems Some by (auto simp: renders_ok_def)
    show ?thesis
      using Some w moved by (auto simp: Cons.IH [OF ok] fun_eq_iff pas_entries_Cons split: option.splits)
  qed
qed

text \<open>The members under a key of the trusted signals, and whether they are an object or absent.\<close>

definition signals_under :: "(string \<times> json) list \<Rightarrow> string \<Rightarrow> (string \<rightharpoonup> json)" where
  "signals_under ms key = (case map_of ms key of Some (JObject rs) \<Rightarrow> map_of rs | _ \<Rightarrow> Map.empty)"

definition object_or_absent :: "json option \<Rightarrow> bool" where
  "object_or_absent v = (case v of None \<Rightarrow> True | Some j \<Rightarrow> IsObject j)"

lemma BuildAdScoringSignalsMap_under:
  assumes "object_or_absent (map_of ms key)"
  shows "(case map_of ms key of None \<Rightarrow> Some Map.empty | Some v \<Rightarrow> BuildAdScoringSignalsMap v) =
    Some (wrap_signals (signals_under ms key))"
proof (cases "map_of ms key")
  case None
  then show ?thesis by (simp add: signals_under_def wrap_signals_def fun_eq_iff)
next
  case (Some j)
  with assms obtain rs where "j = JObject rs" by (auto simp: object_or_absent_def IsObject_cases)
  with Some show ?thesis by (simp add: signals_under_def BuildAdScoringSignalsMap_object)
qed

lemma renders_ok_start: "renders_ok renders (wrap_signals renders) Map.empty"
  by (simp add: renders_ok_def)

lemma BuildTrustedScoringSignals_ok:
  assumes "scoring_signals req \<noteq> []" and "parse (scoring_signals req) = Some (JObject ms)"
    and "object_or_absent (map_of ms kRenderUrlsPropertyForKVResponse)"
    and "object_or_absent (map_of ms kAdComponentRenderUrlsProperty)"
    and "require \<longrightarrow> map_of ms kRenderUrlsPropertyForKVResponse \<noteq> None"
  shows "BuildTrustedScoringSignals parse write req require =
    Some (Inr (map_option write \<circ> map_of
      (ad_entries (signals_under ms kAdComponentRenderUrlsProperty)
         (signals_under ms kRenderUrlsPropertyForKVResponse) (ad_bids req) @
       pas_entries (signals_under ms kRenderUrlsPropertyForKVResponse)
         (protected_app_signals_ad_bids req))))"
proof -
  let ?c = "signals_under ms kAdComponentRenderUrlsProperty"
  let ?r = "signals_under ms kRenderUrlsPropertyForKVResponse"
  have start: "\<forall>u \<in> set (concat (List.map ad_components (ad_bids req))). wrap_signals ?c u = wrap_signals ?c u"
    by simp
  have shared: "\<forall>u. u \<notin> FindSharedComponentUrls (ad_bids req) \<longrightarrow>
      count_list (concat (List.map ad_components (ad_bids req))) u \<le> 1"
    using FindSharedComponentUrls_count by blast
  from CombineSignals_loop_correct [OF start shared renders_ok_start [of ?r]]
  obtain rsigs' where run: "CombineSignals_loop (ad_bids req) (FindSharedComponentUrls (ad_bids req))
        (wrap_signals ?c) (wrap_signals ?r) Map.empty =
      Some (Inr (rsigs', map_of (ad_entries ?c ?r (ad_bids req))))"
    and ok: "renders_ok ?r rsigs' (map_of (ad_entries ?c ?r (ad_bids req)))" by auto
  show ?thesis
    using assms(1,2,5) run
    by (simp add: BuildTrustedScoringSignals_def BuildAdScoringSignalsMap_under [OF assms(3)]
        BuildAdScoringSignalsMap_under [OF assms(4)] MayPopulatePAS_correct [OF ok] map_add_def [symmetric]
        map_of_append)
      (simp add: fun_eq_iff map_add_def split: option.split)
qed



text \<open>A request for scoring signals fails only as an invalid argument, and exactly when the
  signals are empty, do not parse to an object, or lack the render URLs that scoring requires.\<close>

theorem BuildTrustedScoringSignals_error:
  assumes "\<And>ms. parse (scoring_signals req) = Some (JObject ms) \<Longrightarrow>
      object_or_absent (map_of ms kRenderUrlsPropertyForKVResponse) \<and>
      object_or_absent (map_of ms kAdComponentRenderUrlsProperty)"
  shows "BuildTrustedScoringSignals parse write req require = Some (Inl e) \<longleftrightarrow>
    e = InvalidArgument \<and>
    (scoring_signals req = [] \<or>
     (\<forall>ms. parse (scoring_signals req) = Some (JObject ms) \<longrightarrow>
        require \<and> map_of ms kRenderUrlsPropertyForKVResponse = None))"
proof (cases "scoring_signals req \<noteq> [] \<and> (\<exists>ms. parse (scoring_signals req) = Some (JObject ms))")
  case False
  then show ?thesis
    by (auto simp: BuildTrustedScoringSignals_def IsObject_cases split: option.split)
next
  case True
  then obtain ms where ms: "scoring_signals req \<noteq> []" "parse (scoring_signals req) = Some (JObject ms)"
    by blast
  show ?thesis
  proof (cases "require \<and> map_of ms kRenderUrlsPropertyForKVResponse = None")
    case True
    with ms show ?thesis by (auto simp: BuildTrustedScoringSignals_def)
  next
    case False
    with ms assms [OF ms(2)] show ?thesis
      by (simp add: BuildTrustedScoringSignals_ok [where ms = ms])
  qed
qed

theorem BuildTrustedScoringSignals_error_witness:
  "BuildTrustedScoringSignals (\<lambda>_. Some (JObject [])) (\<lambda>_. [])
     (empty_request\<lparr>scoring_signals := ''{}''\<rparr>) True = Some (Inl InvalidArgument)"
  by (subst BuildTrustedScoringSignals_error) (simp_all add: object_or_absent_def empty_request_def)

text \<open>Signals whose render URLs are not an object are not rejected as malformed: their members are
  read all the same, against the precondition of the JSON library.\<close>

theorem non_object_render_urls_not_rejected:
  "BuildTrustedScoringSignals (\<lambda>_. Some (JObject [(kRenderUrlsPropertyForKVResponse, JArray [])])) write
     (empty_request\<lparr>scoring_signals := ''{}''\<rparr>) require = None"
  by (simp add: BuildTrustedScoringSignals_def empty_request_def BuildAdScoringSignalsMap_def Members_def)

text \<open>An answer of \<^verbatim>\<open>scoreAd\<close> that is neither an object nor a number is not reported as a bad
  response: it becomes the null document, whose members are then looked up.\<close>

theorem non_object_answer_not_rejected:
  "ParseAndGetScoreAdResponseJson (JObject [(''response'', JString s)]) = Some JNull \<and>
   ScoreAdResponseJsonToProto SerializeJsonDoc JNull max_url max_all component current = None"
  by (simp add: ParseAndGetScoreAdResponseJson_def ScoreAdResponseJsonToProto_def GetDouble_def
      member_number_def FindMember_def Members_def)

end
