(* ===== verification/ScoreAdsReactor.thy ===== *)
theory ScoreAdsReactor
  imports ScoreAdsProto
begin

text \<open>
  The state of \<^verbatim>\<open>ScoreAdsReactor\<close> (\<^verbatim>\<open>services/auction_service/score_ads_reactor.h\<close>), its construction
  from the request and the runtime configuration, and the ways it finishes. A reactor acts on the
  outside only through the actions it records: it finishes the call, hands code to the dispatcher,
  or sends a debug report. A batch the dispatcher accepts leaves its callback pending.
\<close>

subsection \<open>Configuration\<close>

record AuctionServiceRuntimeConfig =
  rc_enable_seller_debug_url_generation :: bool
  rc_roma_timeout_ms :: string
  rc_enable_report_result_url_generation :: bool
  rc_enable_report_win_url_generation :: bool
  rc_enable_protected_app_signals :: bool
  rc_enable_report_win_input_noising :: bool
  rc_max_allowed_size_debug_url_bytes :: int
  rc_max_allowed_size_all_debug_urls_kb :: int
  rc_default_score_ad_version :: string
  rc_use_per_request_udf_versioning :: bool
  rc_enable_seller_and_buyer_udf_isolation :: bool
  rc_enable_private_aggregate_reporting :: bool
  rc_enable_cancellation :: bool
  rc_enable_kanon :: bool
  rc_buyers_with_report_win_enabled :: "string set"
  rc_protected_app_signals_buyers_with_report_win_enabled :: "string set"
  rc_require_scoring_signals_for_scoring :: bool

text \<open>The members that are fixed when the reactor is built.\<close>

record reactor_config =
  enable_cancellation :: bool
  enable_seller_debug_url_generation :: bool
  roma_timeout_ms :: string
  enable_adtech_code_logging :: bool
  enable_report_result_url_generation :: bool
  enable_protected_app_signals :: bool
  enable_private_aggregate_reporting :: bool
  enable_report_win_input_noising :: bool
  max_allowed_size_debug_url_chars :: int
  max_allowed_size_all_debug_urls_chars :: int
  auction_scope :: AuctionScope
  code_version :: string
  enable_report_win_url_generation :: bool
  enable_seller_and_buyer_code_isolation :: bool
  require_scoring_signals_for_scoring :: bool
  enable_enforce_kanon :: bool
  buyers_with_report_win_enabled :: "string set"
  protected_app_signals_buyers_with_report_win_enabled :: "string set"

definition make_config :: "AuctionServiceRuntimeConfig \<Rightarrow> ScoreAdsRawRequest \<Rightarrow> bool \<Rightarrow> reactor_config" where
  "make_config rc req enable_logging =
     \<lparr>enable_cancellation = rc_enable_cancellation rc,
      enable_seller_debug_url_generation = rc_enable_seller_debug_url_generation rc,
      roma_timeout_ms = rc_roma_timeout_ms rc,
      enable_adtech_code_logging = enable_logging,
      enable_report_result_url_generation = rc_enable_report_result_url_generation rc,
      enable_protected_app_signals = rc_enable_protected_app_signals rc,
      enable_private_aggregate_reporting = rc_enable_private_aggregate_reporting rc,
      enable_report_win_input_noising = rc_enable_report_win_input_noising rc,
      max_allowed_size_debug_url_chars = rc_max_allowed_size_debug_url_bytes rc,
      max_allowed_size_all_debug_urls_chars = 1024 * rc_max_allowed_size_all_debug_urls_kb rc,
      auction_scope = GetAuctionScope req,
      code_version = (if rc_use_per_request_udf_versioning rc \<and> score_ad_version req \<noteq> []
                      then score_ad_version req else rc_default_score_ad_version rc),
      enable_report_win_url_generation =
        (rc_enable_report_win_url_generation rc \<and>
         GetAuctionScope req \<noteq> AUCTION_SCOPE_SERVER_TOP_LEVEL_SELLER),
      enable_seller_and_buyer_code_isolation = rc_enable_seller_and_buyer_udf_isolation rc,
      require_scoring_signals_for_scoring = rc_require_scoring_signals_for_scoring rc,
      enable_enforce_kanon = (rc_enable_kanon rc \<and> enforce_kanon req),
      buyers_with_report_win_enabled = rc_buyers_with_report_win_enabled rc,
      protected_app_signals_buyers_with_report_win_enabled =
        rc_protected_app_signals_buyers_with_report_win_enabled rc\<rparr>"

subsection \<open>State\<close>

record ComponentReportingDataInAuctionResult =
  crd_component_seller :: string
  crd_win_reporting_urls :: WinReportingUrls
  crd_buyer_reporting_id :: string
  crd_buyer_and_seller_reporting_id :: string

record BuyerReportingDispatchRequestData =
  br_auction_config :: string
  br_buyer_signals :: string
  br_join_count :: "int option"
  br_recency :: "int option"
  br_modeling_signals :: "int option"
  br_seller :: string
  br_interest_group_name :: string
  br_ad_cost :: rat
  br_buyer_reporting_id :: "string option"
  br_buyer_and_seller_reporting_id :: "string option"
  br_selected_buyer_and_seller_reporting_id :: "string option"
  br_data_version :: nat
  br_made_highest_scoring_other_bid :: bool
  br_buyer_origin :: string
  br_signals_for_winner :: string
  br_winning_ad_render_url :: string
  br_egress_payload :: "string option"
  br_temporary_unlimited_egress_payload :: "string option"
  br_k_anon_status :: string

definition initial_buyer_reporting_data :: BuyerReportingDispatchRequestData where
  "initial_buyer_reporting_data = \<lparr>br_auction_config = [], br_buyer_signals = [],
     br_join_count = None, br_recency = None, br_modeling_signals = None, br_seller = [],
     br_interest_group_name = [], br_ad_cost = 0, br_buyer_reporting_id = None,
     br_buyer_and_seller_reporting_id = None, br_selected_buyer_and_seller_reporting_id = None,
     br_data_version = 0, br_made_highest_scoring_other_bid = False, br_buyer_origin = [],
     br_signals_for_winner = ''null'', br_winning_ad_render_url = [], br_egress_payload = None,
     br_temporary_unlimited_egress_payload = None, br_k_anon_status = ''notCalculated''\<rparr>"

record ReportingDispatchRequestConfig =
  rd_enable_report_win_url_generation :: bool
  rd_enable_protected_app_signals :: bool
  rd_enable_report_win_input_noising :: bool
  rd_enable_adtech_code_logging :: bool
  rd_roma_timeout_ms :: string
  rd_report_result_udf_version :: string

datatype callback =
    ScoreAdsCallback_of bool  \<comment> \<open>captures \<^verbatim>\<open>enable_debug_reporting\<close>\<close>
  | ReportingCallback_of
  | ReportResultCallback_of
  | ReportWinCallback_of

datatype action =
    Finish status
  | Batch "DispatchRequest list"
  | DoReport HTTPRequest

text \<open>
  \<^verbatim>\<open>post_auction_signals_\<close> is not initialised by the constructor: \<open>None\<close> until it is set. Maps that
  are iterated are association lists in iteration order.
\<close>

record reactor =
  cfg :: reactor_config
  raw_request :: ScoreAdsRawRequest
  raw_response :: ScoreAdsRawResponse
  ad_data :: "string \<rightharpoonup> AdWithBidMetadata"
  component_ad_seller :: "string \<rightharpoonup> string"
  ad_k_anon_join_cand :: "string \<rightharpoonup> KAnonJoinCandidate"
  component_level_reporting_data :: "string \<rightharpoonup> ComponentReportingDataInAuctionResult"
  protected_app_signals_ad_data :: "string \<rightharpoonup> ProtectedAppSignalsAdWithBidMetadata"
  ad_scores :: "(string \<times> AdScore) list"
  paapi_contributions_docs :: "(string \<times> json) list"
  ghost_winner_interest_group_data :: "string \<rightharpoonup> string"
  buyer_reporting_data :: BuyerReportingDispatchRequestData
  seller_device_signals :: json
  reporting_config :: ReportingDispatchRequestConfig
  post_auction_signals :: "PostAuctionSignals option"
  winning_ad_dispatch_id :: string
  actions :: "action list"
  pending :: "callback list"

definition ScoreAdsReactor_new ::
    "AuctionServiceRuntimeConfig \<Rightarrow> ScoreAdsRawRequest \<Rightarrow> bool \<Rightarrow> reactor" where
  "ScoreAdsReactor_new rc req enable_logging =
     \<lparr>cfg = make_config rc req enable_logging, raw_request = req, raw_response = empty_response,
      ad_data = Map.empty, component_ad_seller = Map.empty, ad_k_anon_join_cand = Map.empty,
      component_level_reporting_data = Map.empty, protected_app_signals_ad_data = Map.empty,
      ad_scores = [], paapi_contributions_docs = [], ghost_winner_interest_group_data = Map.empty,
      buyer_reporting_data = initial_buyer_reporting_data, seller_device_signals = JNull,
      reporting_config = \<lparr>rd_enable_report_win_url_generation = False,
        rd_enable_protected_app_signals = False, rd_enable_report_win_input_noising = False,
        rd_enable_adtech_code_logging = False, rd_roma_timeout_ms = [],
        rd_report_result_udf_version = []\<rparr>,
      post_auction_signals = None, winning_ad_dispatch_id = [], actions = [], pending = []\<rparr>"

text \<open>\<^verbatim>\<open>emplace\<close> on a map that is iterated.\<close>

definition emplace_list :: "'k \<Rightarrow> 'v \<Rightarrow> ('k \<times> 'v) list \<Rightarrow> ('k \<times> 'v) list" where
  "emplace_list k v m = (if k \<in> fst ` set m then m else m @ [(k, v)])"

lemma map_of_emplace_list [simp]: "map_of (emplace_list k v m) = try_emplace (map_of m) k v"
proof (cases "k \<in> fst ` set m")
  case True
  then obtain w where "map_of m k = Some w" by (metis map_of_eq_None_iff not_Some_eq)
  with True show ?thesis by (simp add: emplace_list_def try_emplace_def)
next
  case False
  then have "map_of m k = None" by (simp add: map_of_eq_None_iff)
  with False show ?thesis
    by (auto simp: emplace_list_def try_emplace_def fun_eq_iff map_add_def split: option.split)
qed

lemma fst_emplace_list [simp]: "fst ` set (emplace_list k v m) = insert k (fst ` set m)"
  by (auto simp: emplace_list_def)

lemma distinct_emplace_list [simp]: "distinct (map fst (emplace_list k v m)) \<longleftrightarrow> distinct (map fst m)"
  by (auto simp: emplace_list_def)

subsection \<open>The world outside\<close>

text \<open>
  The library functions and services a reactor calls: the JSON parser and printers, the dispatcher
  (which accepts or refuses a batch), the encryption of the response, text replacement, the host of
  a URL, whether the code's logs are wanted, a command line flag, and what the noising of a value
  yields for the random numbers drawn in the run (theory \<open>Noiser\<close>; infinite results are left out).
\<close>

record env =
  ParseJsonString :: "string \<Rightarrow> status_code + json"
  SerializeJsonDoc :: "json \<Rightarrow> status_code + string"
  MessageToJsonString :: "json \<Rightarrow> status_code + string"
  RapidjsonParse :: "string \<Rightarrow> json option"
  RapidjsonWrite :: "json \<Rightarrow> string"
  BatchExecute :: "DispatchRequest list \<Rightarrow> status"
  AeadEncrypt :: "ScoreAdsRawResponse \<Rightarrow> status"
  StrReplaceAll :: str_replace_all
  round_to_8_bits :: "rat \<Rightarrow> status_code + rat"
  noise_join_count :: "int \<Rightarrow> status_code + int"
  noise_recency :: "int \<Rightarrow> status_code + int"
  noise_modeling_signals :: "int \<Rightarrow> status_code + int"
  curl_host :: "string \<Rightarrow> status_code + string"
  AllowAnyUdfLogging :: bool
  enable_temporary_unlimited_egress :: bool

subsection \<open>Finishing\<close>

definition act :: "action \<Rightarrow> reactor \<Rightarrow> reactor" where
  "act a s = s\<lparr>actions := actions s @ [a]\<rparr>"

definition FinishWithStatus :: "status \<Rightarrow> reactor \<Rightarrow> reactor" where
  "FinishWithStatus st s = act (Finish st) s"

text \<open>\<^verbatim>\<open>EncryptResponse\<close> of \<^verbatim>\<open>CodeDispatchReactor\<close> finishes the call itself when encryption fails.\<close>

definition EncryptResponse :: "env \<Rightarrow> reactor \<Rightarrow> reactor" where
  "EncryptResponse e s =
     (case AeadEncrypt e (raw_response s) of
        None \<Rightarrow> s
      | Some err \<Rightarrow> act (Finish (Some Internal)) s)"

definition EncryptAndFinishOK :: "env \<Rightarrow> reactor \<Rightarrow> reactor" where
  "EncryptAndFinishOK e s = FinishWithStatus OkStatus (EncryptResponse e s)"

text \<open>A batch: an accepted one leaves its callback pending.\<close>

definition dispatch_batch :: "env \<Rightarrow> DispatchRequest list \<Rightarrow> callback \<Rightarrow> reactor \<Rightarrow> status \<times> reactor" where
  "dispatch_batch e reqs cb s =
     (case BatchExecute e reqs of
        None \<Rightarrow> (OkStatus, (act (Batch reqs) s)\<lparr>pending := pending s @ [cb]\<rparr>)
      | Some err \<Rightarrow> (Some err, s))"

text \<open>How often the call has been finished.\<close>

definition finishes :: "reactor \<Rightarrow> nat" where
  "finishes s = length (filter (\<lambda>a. case a of Finish _ \<Rightarrow> True | _ \<Rightarrow> False) (actions s))"

text \<open>What is left of a call: it is finished or waits for one callback.\<close>

definition obligations :: "reactor \<Rightarrow> nat" where
  "obligations s = finishes s + length (pending s)"

named_theorems reactor_simps \<open>finishing and dispatching\<close>

lemma finishes_act [reactor_simps]:
  "finishes (act (Finish st) s) = finishes s + 1"
  "finishes (act (Batch reqs) s) = finishes s"
  "finishes (act (DoReport r) s) = finishes s"
  by (simp_all add: finishes_def act_def)

lemma pending_act [reactor_simps]: "pending (act a s) = pending s"
  by (simp add: act_def)

lemma obligations_FinishWithStatus [reactor_simps]:
  "obligations (FinishWithStatus st s) = obligations s + 1"
  by (simp add: obligations_def FinishWithStatus_def reactor_simps)

lemma obligations_DoReport [reactor_simps]: "obligations (act (DoReport r) s) = obligations s"
  by (simp add: obligations_def reactor_simps)

lemma obligations_EncryptAndFinishOK [reactor_simps]:
  "AeadEncrypt e (raw_response s) = None \<Longrightarrow> obligations (EncryptAndFinishOK e s) = obligations s + 1"
  by (simp add: EncryptAndFinishOK_def EncryptResponse_def reactor_simps)

lemma obligations_dispatch_batch [reactor_simps]:
  "obligations (snd (dispatch_batch e reqs cb s)) =
     obligations s + (if fst (dispatch_batch e reqs cb s) = OkStatus then 1 else 0)"
  by (simp add: dispatch_batch_def obligations_def reactor_simps finishes_def act_def split: option.split)

end
