(* ===== verification/ScoreAdsDispatch.thy ===== *)
theory ScoreAdsDispatch
  imports ScoreAdsReactor
begin

text \<open>
  The first half of \<^verbatim>\<open>ScoreAdsReactor\<close>: how \<^verbatim>\<open>Execute\<close> turns the bids of a request, or the results of
  component auctions, into dispatch requests, and the maps that remember the ad behind each
  dispatch id. A string or message that is moved out of a component auction result is left empty.
\<close>

abbreviation kRomaTimeoutTag :: string where
  "kRomaTimeoutTag \<equiv> ''IGNORED''"

abbreviation set_timeout_tag :: "reactor \<Rightarrow> DispatchRequest \<Rightarrow> DispatchRequest" where
  "set_timeout_tag s d \<equiv> d\<lparr>tags := [(kRomaTimeoutTag, roma_timeout_ms (cfg s))]\<rparr>"

definition empty_join_candidate :: KAnonJoinCandidate where
  "empty_join_candidate =
     \<lparr>ad_render_url_hash = [], ad_component_render_urls_hash = [], reporting_id_hash = []\<rparr>"

subsection \<open>Top level auctions\<close>

definition GetComponentReportingDataInAuctionResult ::
    "AuctionResult \<Rightarrow> ComponentReportingDataInAuctionResult \<times> AuctionResult" where
  "GetComponentReportingDataInAuctionResult r =
     (\<lparr>crd_component_seller = component_seller r, crd_win_reporting_urls = ar_win_reporting_urls r,
       crd_buyer_reporting_id = ar_buyer_reporting_id r,
       crd_buyer_and_seller_reporting_id = ar_buyer_and_seller_reporting_id r\<rparr>,
      r\<lparr>ar_win_reporting_urls := no_win_urls\<rparr>)"

definition ghost_winner_request ::
    "reactor \<Rightarrow> bool \<Rightarrow> string \<Rightarrow> AuctionResult \<Rightarrow> string \<Rightarrow> GhostWinnerForTopLevelAuction \<Rightarrow> DispatchRequest" where
  "ghost_winner_request s enable_debug_reporting auction_config r owner g =
     BuildScoreAdRequest (gw_ad_render_url g) (gw_ad_metadata g) ''{}'' (gw_modified_bid g) auction_config
       (MakeBidMetadataForTopLevelAuction (publisher_hostname (raw_request s)) owner
          (gw_ad_render_url g) (gw_ad_component_render_urls g) (component_seller r) (gw_bid_currency g)
          (seller_data_version (raw_request s)))
       (enable_adtech_code_logging (cfg s)) enable_debug_reporting (code_version (cfg s))"

fun BuildScoreAdRequestForComponentGhostWinners ::
    "bool \<Rightarrow> string \<Rightarrow> AuctionResult \<Rightarrow> KAnonGhostWinner list \<Rightarrow> DispatchRequest list \<Rightarrow> reactor \<Rightarrow>
     DispatchRequest list \<times> reactor" where
  "BuildScoreAdRequestForComponentGhostWinners debug auction_config r [] reqs s = (reqs, s)"
| "BuildScoreAdRequestForComponentGhostWinners debug auction_config r (gw # gws) reqs s =
     (case ghost_winner_for_top_level_auction gw of
        None \<Rightarrow> BuildScoreAdRequestForComponentGhostWinners debug auction_config r gws reqs s
      | Some g \<Rightarrow>
          (let d = ghost_winner_request s debug auction_config r (gw_owner gw) g in
           if ad_data s (req_id d) \<noteq> None
           then BuildScoreAdRequestForComponentGhostWinners debug auction_config r gws reqs s
           else BuildScoreAdRequestForComponentGhostWinners debug auction_config r gws
                  (reqs @ [set_timeout_tag s d])
                  (s\<lparr>ad_data := (ad_data s)(req_id d \<mapsto>
                       MapKAnonGhostWinnerToAdWithBidMetadata (gw_owner gw) (gw_ig_name gw) g),
                     ad_k_anon_join_cand := try_emplace (ad_k_anon_join_cand s) (req_id d)
                       (gw_k_anon_join_candidates gw)\<rparr>)))"

definition component_winner_request ::
    "reactor \<Rightarrow> bool \<Rightarrow> string \<Rightarrow> AuctionResult \<Rightarrow> DispatchRequest" where
  "component_winner_request s enable_debug_reporting auction_config r =
     BuildScoreAdRequest (ad_render_url r) (ar_ad_metadata r) ''{}'' (ar_bid r) auction_config
       (MakeBidMetadataForTopLevelAuction (publisher_hostname (raw_request s))
          (ar_interest_group_owner r) (ad_render_url r) (ad_component_render_urls r)
          (component_seller r) (ar_bid_currency r) (seller_data_version (raw_request s)))
       (enable_adtech_code_logging (cfg s)) enable_debug_reporting (code_version (cfg s))"

text \<open>
  The ad of a component winner under its dispatch id: the updated maps, the rest of the message,
  and whether the insertion succeeded. \<open>None\<close>: an ad of unknown type.
\<close>

definition insert_component_ad ::
    "string \<Rightarrow> AuctionResult \<Rightarrow> reactor \<Rightarrow> (bool \<times> AuctionResult \<times> reactor) option" where
  "insert_component_ad ad_id r s =
     (case ar_ad_type r of
        AD_TYPE_PROTECTED_AUDIENCE_AD \<Rightarrow>
          (let (ad, r') = MapAuctionResultToAdWithBidMetadata r True
           in Some (ad_data s ad_id = None, r', s\<lparr>ad_data := try_emplace (ad_data s) ad_id ad\<rparr>))
      | AD_TYPE_PROTECTED_APP_SIGNALS_AD \<Rightarrow>
          (let (ad, r') = MapAuctionResultToProtectedAppSignalsAdWithBidMetadata r True
           in Some (protected_app_signals_ad_data s ad_id = None, r',
                s\<lparr>protected_app_signals_ad_data := try_emplace (protected_app_signals_ad_data s) ad_id ad\<rparr>))
      | AD_TYPE_UNKNOWN \<Rightarrow> None)"

definition BuildScoreAdRequestForComponentWinner ::
    "bool \<Rightarrow> string \<Rightarrow> AuctionResult \<Rightarrow> DispatchRequest list \<Rightarrow> reactor \<Rightarrow>
     AuctionResult \<times> DispatchRequest list \<times> reactor" where
  "BuildScoreAdRequestForComponentWinner debug auction_config r reqs s =
     (let d = component_winner_request s debug auction_config r;
          (data, r1) = GetComponentReportingDataInAuctionResult r
      in if component_level_reporting_data s (req_id d) \<noteq> None then (r1, reqs, s)
         else let s1 = s\<lparr>component_level_reporting_data :=
                           (component_level_reporting_data s)(req_id d \<mapsto> data)\<rparr>
              in case insert_component_ad (req_id d) r1 s1 of
                   None \<Rightarrow> (r1, reqs, s1)
                 | Some (inserted, r2, s2) \<Rightarrow>
                     if \<not> inserted then (r2, reqs, s2)
                     else (r2\<lparr>component_seller := (if component_ad_seller s2 (req_id d) = None then []
                                                  else component_seller r2),
                              k_anon_winner_join_candidates :=
                                (if ad_k_anon_join_cand s2 (req_id d) = None then empty_join_candidate
                                 else k_anon_winner_join_candidates r2)\<rparr>,
                           reqs @ [set_timeout_tag s d],
                           s2\<lparr>component_ad_seller :=
                                try_emplace (component_ad_seller s2) (req_id d) (component_seller r2),
                              ad_k_anon_join_cand :=
                                try_emplace (ad_k_anon_join_cand s2) (req_id d)
                                  (k_anon_winner_join_candidates r2)\<rparr>))"

fun PopulateTopLevelAuctionDispatchRequests ::
    "bool \<Rightarrow> string \<Rightarrow> AuctionResult list \<Rightarrow> string \<Rightarrow> DispatchRequest list \<Rightarrow> reactor \<Rightarrow>
     (status_code + DispatchRequest list) \<times> reactor" where
  "PopulateTopLevelAuctionDispatchRequests debug auction_config [] generation_id reqs s = (Inr reqs, s)"
| "PopulateTopLevelAuctionDispatchRequests debug auction_config (r # rs) generation_id reqs s =
     (if is_chaff r \<or> component_seller r = []
      then PopulateTopLevelAuctionDispatchRequests debug auction_config rs generation_id reqs s
      else if generation_id \<noteq> [] \<and> generation_id \<noteq> ciphertext_generation_id r
      then (Inl InvalidArgument, s)
      else
        (let generation_id' = (if generation_id = [] then ciphertext_generation_id r else generation_id);
             (r1, reqs1, s1) = (if ad_render_url r \<noteq> []
               then BuildScoreAdRequestForComponentWinner debug auction_config r reqs s
               else (r, reqs, s));
             (reqs2, s2) = (if enable_enforce_kanon (cfg s1) \<and> k_anon_ghost_winners r1 \<noteq> []
               then BuildScoreAdRequestForComponentGhostWinners debug auction_config r1
                      (k_anon_ghost_winners r1) reqs1 s1
               else (reqs1, s1))
         in PopulateTopLevelAuctionDispatchRequests debug auction_config rs generation_id' reqs2 s2))"

subsection \<open>Single seller and component auctions\<close>

text \<open>
  The scoring signals for a render URL: \<open>None\<close> when the ad is to be skipped. \<open>signals\<close> is the
  nullable map of the code.
\<close>

definition signals_for ::
    "bool \<Rightarrow> (string \<rightharpoonup> string) option \<Rightarrow> string \<Rightarrow> string option" where
  "signals_for required signals url =
     (case signals of
        None \<Rightarrow> Some kNullScoringSignalsJson
      | Some m \<Rightarrow> (case m url of
          None \<Rightarrow> (if required then None else Some kNullScoringSignalsJson)
        | Some t \<Rightarrow> Some t))"

definition pa_request ::
    "env \<Rightarrow> reactor \<Rightarrow> bool \<Rightarrow> string \<Rightarrow> string \<Rightarrow> AdWithBidMetadata \<Rightarrow> status_code + DispatchRequest" where
  "pa_request e s debug auction_config sigs ad =
     BuildScoreAdRequest_ad (MessageToJsonString e) (awb_ad ad) (awb_render ad) (awb_bid ad)
       auction_config sigs debug (enable_adtech_code_logging (cfg s))
       (MakeBidMetadata (publisher_hostname (raw_request s)) (awb_interest_group_owner ad)
          (awb_render ad) (ad_components ad) (top_level_seller (raw_request s)) (awb_bid_currency ad)
          (seller_data_version (raw_request s))
          \<lparr>rid_buyer_reporting_id = awb_buyer_reporting_id ad,
           rid_buyer_and_seller_reporting_id = awb_buyer_and_seller_reporting_id ad,
           rid_selected_buyer_and_seller_reporting_id =
             awb_selected_buyer_and_seller_reporting_id ad\<rparr>)
       (code_version (cfg s))"

text \<open>The loop takes the ads from the back.\<close>

fun PopulatePA_loop ::
    "env \<Rightarrow> bool \<Rightarrow> (string \<rightharpoonup> string) option \<Rightarrow> string \<Rightarrow> AdWithBidMetadata list \<Rightarrow>
     DispatchRequest list \<Rightarrow> reactor \<Rightarrow> DispatchRequest list \<times> reactor" where
  "PopulatePA_loop e debug signals auction_config [] reqs s = (reqs, s)"
| "PopulatePA_loop e debug signals auction_config (ad # ads) reqs s =
     (case signals_for (require_scoring_signals_for_scoring (cfg s)) signals (awb_render ad) of
        None \<Rightarrow> PopulatePA_loop e debug signals auction_config ads reqs s
      | Some sigs \<Rightarrow>
          (case pa_request e s debug auction_config sigs ad of
             Inl err \<Rightarrow> PopulatePA_loop e debug signals auction_config ads reqs s
           | Inr d \<Rightarrow>
               if ad_data s (req_id d) \<noteq> None
               then PopulatePA_loop e debug signals auction_config ads reqs s
               else PopulatePA_loop e debug signals auction_config ads (reqs @ [set_timeout_tag s d])
                      (s\<lparr>ad_data := (ad_data s)(req_id d \<mapsto> ad)\<rparr>)))"

definition PopulateProtectedAudienceDispatchRequests ::
    "env \<Rightarrow> bool \<Rightarrow> (string \<rightharpoonup> string) option \<Rightarrow> string \<Rightarrow> DispatchRequest list \<Rightarrow> reactor \<Rightarrow>
     DispatchRequest list \<times> reactor" where
  "PopulateProtectedAudienceDispatchRequests e debug signals auction_config reqs s =
     (if require_scoring_signals_for_scoring (cfg s) \<and> signals = None then (reqs, s)
      else let ads = ad_bids (raw_request s);
               (reqs', s') = PopulatePA_loop e debug signals auction_config (rev ads) reqs s
           in (reqs', s'\<lparr>raw_request := (raw_request s')\<lparr>ad_bids := []\<rparr>\<rparr>))"

definition pas_request ::
    "env \<Rightarrow> reactor \<Rightarrow> bool \<Rightarrow> string \<Rightarrow> string \<Rightarrow> ProtectedAppSignalsAdWithBidMetadata \<Rightarrow>
     status_code + DispatchRequest" where
  "pas_request e s debug auction_config sigs ad =
     BuildScoreAdRequest_ad (MessageToJsonString e) (pas_ad ad) (pas_render ad) (pas_bid ad)
       auction_config sigs debug (enable_adtech_code_logging (cfg s))
       (MakeBidMetadata (publisher_hostname (raw_request s)) (pas_owner ad) (pas_render ad) []
          (top_level_seller (raw_request s)) (pas_bid_currency ad)
          (seller_data_version (raw_request s)) no_reporting_ids)
       (code_version (cfg s))"

fun PopulatePAS_loop ::
    "env \<Rightarrow> bool \<Rightarrow> (string \<rightharpoonup> string) option \<Rightarrow> string \<Rightarrow> ProtectedAppSignalsAdWithBidMetadata list \<Rightarrow>
     DispatchRequest list \<Rightarrow> reactor \<Rightarrow> DispatchRequest list \<times> reactor" where
  "PopulatePAS_loop e debug signals auction_config [] reqs s = (reqs, s)"
| "PopulatePAS_loop e debug signals auction_config (ad # ads) reqs s =
     (case signals_for (require_scoring_signals_for_scoring (cfg s)) signals (pas_render ad) of
        None \<Rightarrow> PopulatePAS_loop e debug signals auction_config ads reqs s
      | Some sigs \<Rightarrow>
          (case pas_request e s debug auction_config sigs ad of
             Inl err \<Rightarrow> PopulatePAS_loop e debug signals auction_config ads reqs s
           | Inr d \<Rightarrow>
               if protected_app_signals_ad_data s (req_id d) \<noteq> None
               then PopulatePAS_loop e debug signals auction_config ads reqs s
               else PopulatePAS_loop e debug signals auction_config ads (reqs @ [set_timeout_tag s d])
                      (s\<lparr>protected_app_signals_ad_data :=
                           (protected_app_signals_ad_data s)(req_id d \<mapsto> ad)\<rparr>)))"

definition MayPopulateProtectedAppSignalsDispatchRequests ::
    "env \<Rightarrow> bool \<Rightarrow> (string \<rightharpoonup> string) option \<Rightarrow> string \<Rightarrow> DispatchRequest list \<Rightarrow> reactor \<Rightarrow>
     DispatchRequest list \<times> reactor" where
  "MayPopulateProtectedAppSignalsDispatchRequests e debug signals auction_config reqs s =
     (if require_scoring_signals_for_scoring (cfg s) \<and> signals = None then (reqs, s)
      else let ads = protected_app_signals_ad_bids (raw_request s);
               (reqs', s') = PopulatePAS_loop e debug signals auction_config (rev ads) reqs s
           in (reqs', s'\<lparr>raw_request := (raw_request s')\<lparr>protected_app_signals_ad_bids := []\<rparr>\<rparr>))"

subsection \<open>Execute\<close>

text \<open>
  The dispatch requests of a call: \<open>Inl\<close> is the status the call is finished with. \<open>None\<close> is a
  violated precondition of the JSON library.
\<close>

definition collect_requests ::
    "env \<Rightarrow> bool \<Rightarrow> string \<Rightarrow> reactor \<Rightarrow> ((status_code + DispatchRequest list) \<times> reactor) option" where
  "collect_requests e debug auction_config s =
     (if auction_scope (cfg s) = AUCTION_SCOPE_SERVER_TOP_LEVEL_SELLER then
        (if component_auction_results (raw_request s) = [] then Some (Inl Internal, s)
         else Some (PopulateTopLevelAuctionDispatchRequests debug auction_config
                      (component_auction_results (raw_request s)) [] [] s))
      else do {
        signals \<leftarrow> BuildTrustedScoringSignals (RapidjsonParse e) (RapidjsonWrite e) (raw_request s)
                     (require_scoring_signals_for_scoring (cfg s));
        case signals of
          Inl err \<Rightarrow>
            if require_scoring_signals_for_scoring (cfg s) then Some (Inl err, s)
            else Some (let (reqs1, s1) = (if ad_bids (raw_request s) \<noteq> []
                             then PopulateProtectedAudienceDispatchRequests e debug None auction_config [] s
                             else ([], s));
                           (reqs2, s2) = (if protected_app_signals_ad_bids (raw_request s) \<noteq> []
                             then MayPopulateProtectedAppSignalsDispatchRequests e debug None
                                    auction_config reqs1 s1
                             else (reqs1, s1))
                       in (Inr reqs2, s2))
        | Inr m \<Rightarrow>
            Some (let (reqs1, s1) = (if ad_bids (raw_request s) \<noteq> []
                        then PopulateProtectedAudienceDispatchRequests e debug (Some m) auction_config [] s
                        else ([], s));
                      (reqs2, s2) = (if protected_app_signals_ad_bids (raw_request s) \<noteq> []
                        then MayPopulateProtectedAppSignalsDispatchRequests e debug (Some m)
                               auction_config reqs1 s1
                        else (reqs1, s1))
                  in (Inr reqs2, s2)) })"

definition Execute :: "env \<Rightarrow> bool \<Rightarrow> reactor \<Rightarrow> reactor option" where
  "Execute e is_cancelled s =
     (if enable_cancellation (cfg s) \<and> is_cancelled
      then Some (FinishWithStatus (Some Cancelled) s)
      else
        let s1 = (if protected_app_signals_ad_bids (raw_request s) \<noteq> [] \<and>
                     \<not> enable_protected_app_signals (cfg s)
                  then s\<lparr>raw_request := (raw_request s)\<lparr>protected_app_signals_ad_bids := []\<rparr>\<rparr> else s);
            auction_config = BuildAuctionConfig (raw_request s1);
            debug = (enable_seller_debug_url_generation (cfg s1) \<and>
                     req_enable_debug_reporting (raw_request s1))
        in do {
          (r, s2) \<leftarrow> collect_requests e debug auction_config s1;
          Some (case r of
            Inl err \<Rightarrow> FinishWithStatus (Some err) s2
          | Inr [] \<Rightarrow> FinishWithStatus (Some Internal) s2
          | Inr (d # ds) \<Rightarrow>
              (let (st, s3) = dispatch_batch e (d # ds) (ScoreAdsCallback_of debug) s2
               in if st = OkStatus then s3 else FinishWithStatus (Some Unknown) s3)) })"


subsection \<open>Every dispatched request belongs to a known ad\<close>

definition known :: "reactor \<Rightarrow> string \<Rightarrow> bool" where
  "known s i \<longleftrightarrow> ad_data s i \<noteq> None \<or> protected_app_signals_ad_data s i \<noteq> None"

text \<open>What collecting requests leaves alone; known ads stay known.\<close>

definition collecting :: "reactor \<Rightarrow> reactor \<Rightarrow> bool" where
  "collecting s s' \<longleftrightarrow> cfg s' = cfg s \<and> actions s' = actions s \<and> pending s' = pending s \<and>
     raw_response s' = raw_response s \<and> (\<forall>i. known s i \<longrightarrow> known s' i)"

definition dispatched_ok :: "DispatchRequest list \<Rightarrow> reactor \<Rightarrow> bool" where
  "dispatched_ok reqs s \<longleftrightarrow> (\<forall>d \<in> set reqs. known s (req_id d) \<and> tags d = [(kRomaTimeoutTag, roma_timeout_ms (cfg s))])"

lemma collecting_refl [simp]: "collecting s s"
  by (simp add: collecting_def)

lemma collecting_trans: "collecting s t \<Longrightarrow> collecting t u \<Longrightarrow> collecting s u"
  by (simp add: collecting_def)

lemma dispatched_ok_mono: "dispatched_ok reqs s \<Longrightarrow> collecting s s' \<Longrightarrow> dispatched_ok reqs s'"
  by (simp add: dispatched_ok_def collecting_def)

lemma dispatched_ok_snoc:
  "dispatched_ok reqs s \<Longrightarrow> collecting s s' \<Longrightarrow> known s' (req_id d) \<Longrightarrow>
   dispatched_ok (reqs @ [set_timeout_tag s d]) s'"
  using dispatched_ok_mono [of reqs s s'] by (auto simp: dispatched_ok_def collecting_def)

lemma collecting_updates:
  "collecting s (s\<lparr>ad_data := (ad_data s)(i \<mapsto> a)\<rparr>)"
  "collecting s (s\<lparr>protected_app_signals_ad_data := (protected_app_signals_ad_data s)(i \<mapsto> b)\<rparr>)"
  "collecting s (s\<lparr>ad_data := try_emplace (ad_data s) i a\<rparr>)"
  "collecting s (s\<lparr>protected_app_signals_ad_data := try_emplace (protected_app_signals_ad_data s) i b\<rparr>)"
  "collecting s (s\<lparr>component_level_reporting_data := x1\<rparr>)"
  "collecting s (s\<lparr>component_ad_seller := x2\<rparr>)"
  "collecting s (s\<lparr>ad_k_anon_join_cand := x3\<rparr>)"
  "collecting s (s\<lparr>raw_request := x4\<rparr>)"
  by (auto simp: collecting_def known_def)

lemma PopulatePA_loop_ok:
  "PopulatePA_loop e debug signals auction_config ads reqs s = (reqs', s') \<Longrightarrow>
   dispatched_ok reqs s \<Longrightarrow> dispatched_ok reqs' s' \<and> collecting s s'"
proof (induction ads arbitrary: reqs s)
  case Nil
  then show ?case by simp
next
  case (Cons ad ads)
  have new: "dispatched_ok (reqs @ [set_timeout_tag s d]) (s\<lparr>ad_data := (ad_data s)(req_id d \<mapsto> ad)\<rparr>)" for d
    by (rule dispatched_ok_snoc [OF Cons.prems(2) collecting_updates(1)]) (simp add: known_def)
  show ?case
    using Cons.prems Cons.IH [OF _ new] Cons.IH [OF _ Cons.prems(2)]
    by (auto split: option.splits sum.splits if_splits
        intro: collecting_trans [OF collecting_updates(1)])
qed

lemma PopulatePAS_loop_ok:
  "PopulatePAS_loop e debug signals auction_config ads reqs s = (reqs', s') \<Longrightarrow>
   dispatched_ok reqs s \<Longrightarrow> dispatched_ok reqs' s' \<and> collecting s s'"
proof (induction ads arbitrary: reqs s)
  case Nil
  then show ?case by simp
next
  case (Cons ad ads)
  have new: "dispatched_ok (reqs @ [set_timeout_tag s d])
      (s\<lparr>protected_app_signals_ad_data := (protected_app_signals_ad_data s)(req_id d \<mapsto> ad)\<rparr>)" for d
    by (rule dispatched_ok_snoc [OF Cons.prems(2) collecting_updates(2)]) (simp add: known_def)
  show ?case
    using Cons.prems Cons.IH [OF _ new] Cons.IH [OF _ Cons.prems(2)]
    by (auto split: option.splits sum.splits if_splits
        intro: collecting_trans [OF collecting_updates(2)])
qed

lemma PopulateProtectedAudienceDispatchRequests_ok:
  assumes "PopulateProtectedAudienceDispatchRequests e debug signals auction_config reqs s = (reqs', s')"
    and "dispatched_ok reqs s"
  shows "dispatched_ok reqs' s' \<and> collecting s s'"
  using assms PopulatePA_loop_ok [of e debug signals auction_config "rev (ad_bids (raw_request s))" reqs s]
  by (auto simp: PopulateProtectedAudienceDispatchRequests_def Let_def split: prod.splits if_splits
      intro: dispatched_ok_mono [OF _ collecting_updates(8)] collecting_trans [OF _ collecting_updates(8)])

lemma MayPopulateProtectedAppSignalsDispatchRequests_ok:
  assumes "MayPopulateProtectedAppSignalsDispatchRequests e debug signals auction_config reqs s = (reqs', s')"
    and "dispatched_ok reqs s"
  shows "dispatched_ok reqs' s' \<and> collecting s s'"
  using assms PopulatePAS_loop_ok [of e debug signals auction_config
      "rev (protected_app_signals_ad_bids (raw_request s))" reqs s]
  by (auto simp: MayPopulateProtectedAppSignalsDispatchRequests_def Let_def split: prod.splits if_splits
      intro: dispatched_ok_mono [OF _ collecting_updates(8)] collecting_trans [OF _ collecting_updates(8)])

lemma GhostWinners_ok:
  "BuildScoreAdRequestForComponentGhostWinners debug auction_config r gws reqs s = (reqs', s') \<Longrightarrow>
   dispatched_ok reqs s \<Longrightarrow> dispatched_ok reqs' s' \<and> collecting s s'"
proof (induction gws arbitrary: reqs s)
  case Nil
  then show ?case by simp
next
  case (Cons gw gws)
  have step: "collecting s (s\<lparr>ad_data := (ad_data s)(i \<mapsto> a), ad_k_anon_join_cand := x\<rparr>)" for i a x
    by (rule collecting_trans [OF collecting_updates(1) collecting_updates(7)])
  have new: "dispatched_ok (reqs @ [set_timeout_tag s d])
      (s\<lparr>ad_data := (ad_data s)(req_id d \<mapsto> a), ad_k_anon_join_cand := x\<rparr>)" for d a x
    by (rule dispatched_ok_snoc [OF Cons.prems(2) step]) (simp add: known_def)
  show ?case
    using Cons.prems Cons.IH [OF _ new] Cons.IH [OF _ Cons.prems(2)]
    by (auto simp: Let_def split: option.splits if_splits intro: collecting_trans [OF step])
qed

lemma insert_component_ad_ok:
  assumes "insert_component_ad i r s = Some (inserted, r', s')"
  shows "known s' i" and "collecting s s'"
  using assms by (auto simp: insert_component_ad_def known_def Let_def collecting_updates split: AdType.splits prod.splits)

lemma ComponentWinner_ok:
  assumes "BuildScoreAdRequestForComponentWinner debug auction_config r reqs s = (r', reqs', s')"
    and "dispatched_ok reqs s"
  shows "dispatched_ok reqs' s' \<and> collecting s s'"
proof -
  let ?d = "component_winner_request s debug auction_config r"
  obtain data r1 where data: "GetComponentReportingDataInAuctionResult r = (data, r1)"
    by (cases "GetComponentReportingDataInAuctionResult r")
  let ?s1 = "s\<lparr>component_level_reporting_data := (component_level_reporting_data s)(req_id ?d \<mapsto> data)\<rparr>"
  show ?thesis
  proof (cases "component_level_reporting_data s (req_id ?d) \<noteq> None")
    case True
    with assms data show ?thesis by (simp add: BuildScoreAdRequestForComponentWinner_def Let_def)
  next
    case False
    show ?thesis
    proof (cases "insert_component_ad (req_id ?d) r1 ?s1")
      case None
      with False assms data show ?thesis
        by (auto simp: BuildScoreAdRequestForComponentWinner_def Let_def collecting_updates
            intro: dispatched_ok_mono)
    next
      case (Some x)
      then obtain inserted r2 s2 where x: "insert_component_ad (req_id ?d) r1 ?s1 = Some (inserted, r2, s2)"
        by (cases x) auto
      note ok = insert_component_ad_ok [OF x]
      have s2: "collecting s s2" by (rule collecting_trans [OF collecting_updates(5) ok(2)])
      have s3: "collecting s (s2\<lparr>component_ad_seller := y, ad_k_anon_join_cand := z\<rparr>)" for y z
        by (intro collecting_trans [OF s2] collecting_trans [OF collecting_updates(6) collecting_updates(7)])
      have "dispatched_ok (reqs @ [set_timeout_tag s ?d])
          (s2\<lparr>component_ad_seller := y, ad_k_anon_join_cand := z\<rparr>)" for y z
        using ok(1) by (intro dispatched_ok_snoc [OF assms(2) s3]) (simp add: known_def)
      moreover have "dispatched_ok reqs s2" by (rule dispatched_ok_mono [OF assms(2) s2])
      ultimately show ?thesis
        using False assms data x s2 s3
        by (auto simp: BuildScoreAdRequestForComponentWinner_def Let_def split: if_splits)
    qed
  qed
qed


lemma PopulateTopLevel_ok:
  "PopulateTopLevelAuctionDispatchRequests debug auction_config rs g reqs s = (r, s') \<Longrightarrow>
   dispatched_ok reqs s \<Longrightarrow> (case r of Inl _ \<Rightarrow> True | Inr reqs' \<Rightarrow> dispatched_ok reqs' s') \<and> collecting s s'"
proof (induction rs arbitrary: g reqs s)
  case Nil
  then show ?case by auto
next
  case (Cons r0 rs)
  show ?case
  proof (cases "is_chaff r0 \<or> component_seller r0 = []")
    case True
    with Cons show ?thesis by simp
  next
    case False
    note considered = False
    show ?thesis
    proof (cases "g \<noteq> [] \<and> g \<noteq> ciphertext_generation_id r0")
      case True
      with considered Cons.prems show ?thesis by auto
    next
      case False
      obtain r1 reqs1 s1 where w: "(if ad_render_url r0 \<noteq> []
          then BuildScoreAdRequestForComponentWinner debug auction_config r0 reqs s
          else (r0, reqs, s)) = (r1, reqs1, s1)" by (metis prod_cases3)
      obtain reqs2 s2 where gh: "(if enable_enforce_kanon (cfg s1) \<and> k_anon_ghost_winners r1 \<noteq> []
          then BuildScoreAdRequestForComponentGhostWinners debug auction_config r1
                 (k_anon_ghost_winners r1) reqs1 s1
          else (reqs1, s1)) = (reqs2, s2)" by (metis surj_pair)
      have 1: "dispatched_ok reqs1 s1 \<and> collecting s s1"
        using w Cons.prems(2) ComponentWinner_ok by (auto split: if_splits)
      have 2: "dispatched_ok reqs2 s2 \<and> collecting s1 s2"
        using gh 1 GhostWinners_ok by (auto split: if_splits)
      have "PopulateTopLevelAuctionDispatchRequests debug auction_config rs
          (if g = [] then ciphertext_generation_id r0 else g) reqs2 s2 = (r, s')"
        using Cons.prems(1) considered False w gh by (simp add: Let_def split: if_splits)
      from Cons.IH [OF this] 1 2 show ?thesis by (auto intro: collecting_trans)
    qed
  qed
qed

lemma collect_single_ok:
  assumes "(let (reqs1, s1) = (if a then PopulateProtectedAudienceDispatchRequests e debug m c [] s else ([], s));
                (reqs2, s2) = (if b then MayPopulateProtectedAppSignalsDispatchRequests e debug m c reqs1 s1
                               else (reqs1, s1))
            in (Inr reqs2, s2)) = (r, s')"
  shows "(case r of Inl _ \<Rightarrow> True | Inr reqs \<Rightarrow> dispatched_ok reqs s') \<and> collecting s s'"
proof -
  obtain reqs1 s1 where 1: "(if a then PopulateProtectedAudienceDispatchRequests e debug m c [] s else ([], s)) =
      (reqs1, s1)" by (metis surj_pair)
  have ok1: "dispatched_ok reqs1 s1 \<and> collecting s s1"
    using 1 PopulateProtectedAudienceDispatchRequests_ok [of e debug m c "[]" s reqs1 s1]
    by (auto simp: dispatched_ok_def split: if_splits)
  obtain reqs2 s2 where 2: "(if b then MayPopulateProtectedAppSignalsDispatchRequests e debug m c reqs1 s1
      else (reqs1, s1)) = (reqs2, s2)" by (metis surj_pair)
  have ok2: "dispatched_ok reqs2 s2 \<and> collecting s1 s2"
    using 2 ok1 MayPopulateProtectedAppSignalsDispatchRequests_ok [of e debug m c reqs1 s1 reqs2 s2]
    by (auto split: if_splits)
  from assms have "r = Inr reqs2" "s' = s2"
    unfolding 1 2 Let_def prod.case by auto
  with ok1 ok2 show ?thesis by (auto intro: collecting_trans)
qed

lemma collect_requests_ok:
  assumes "collect_requests e debug auction_config s = Some (r, s')"
  shows "(case r of Inl _ \<Rightarrow> True | Inr reqs \<Rightarrow> dispatched_ok reqs s') \<and> collecting s s'"
proof (cases "auction_scope (cfg s) = AUCTION_SCOPE_SERVER_TOP_LEVEL_SELLER")
  case True
  with assms show ?thesis
    using PopulateTopLevel_ok [of debug auction_config "component_auction_results (raw_request s)" "[]" "[]" s r s']
    by (auto simp: collect_requests_def dispatched_ok_def split: if_splits)
next
  case False
  with assms obtain sig where sig: "BuildTrustedScoringSignals (RapidjsonParse e) (RapidjsonWrite e)
      (raw_request s) (require_scoring_signals_for_scoring (cfg s)) = Some sig"
    by (auto simp: collect_requests_def bind_Some_iff)
  show ?thesis
  proof (cases sig)
    case (Inl err)
    show ?thesis
    proof (cases "require_scoring_signals_for_scoring (cfg s)")
      case True
      with assms False sig Inl show ?thesis by (auto simp: collect_requests_def)
    next
      case unrequired: False
      show ?thesis
        by (rule collect_single_ok) (use assms False sig Inl unrequired in \<open>simp add: collect_requests_def\<close>)
    qed
  next
    case (Inr m)
    show ?thesis
      by (rule collect_single_ok) (use assms False sig Inr in \<open>simp add: collect_requests_def\<close>)
  qed
qed

lemma Execute_cases:
  assumes "Execute e is_cancelled s = Some s'"
  shows "(\<exists>s2 st. collecting s s2 \<and> st \<noteq> OkStatus \<and> s' = FinishWithStatus st s2) \<or>
    (\<exists>s2 reqs debug. collecting s s2 \<and> dispatched_ok reqs s2 \<and> reqs \<noteq> [] \<and> BatchExecute e reqs = None \<and>
       s' = (act (Batch reqs) s2)\<lparr>pending := pending s2 @ [ScoreAdsCallback_of debug]\<rparr>)"
proof (cases "enable_cancellation (cfg s) \<and> is_cancelled")
  case True
  with assms have "s' = FinishWithStatus (Some Cancelled) s" by (simp add: Execute_def)
  then show ?thesis by (auto intro!: exI [of _ s])
next
  case False
  define s1 where "s1 = (if protected_app_signals_ad_bids (raw_request s) \<noteq> [] \<and>
      \<not> enable_protected_app_signals (cfg s)
      then s\<lparr>raw_request := (raw_request s)\<lparr>protected_app_signals_ad_bids := []\<rparr>\<rparr> else s)"
  define debug where "debug = (enable_seller_debug_url_generation (cfg s1) \<and>
      req_enable_debug_reporting (raw_request s1))"
  have c1: "collecting s s1" by (simp add: s1_def collecting_updates)
  from assms False obtain r s2 where
    collect: "collect_requests e debug (BuildAuctionConfig (raw_request s1)) s1 = Some (r, s2)"
    and s': "s' = (case r of
        Inl err \<Rightarrow> FinishWithStatus (Some err) s2
      | Inr [] \<Rightarrow> FinishWithStatus (Some Internal) s2
      | Inr (d # ds) \<Rightarrow>
          (let (st, s3) = dispatch_batch e (d # ds) (ScoreAdsCallback_of debug) s2
           in if st = OkStatus then s3 else FinishWithStatus (Some Unknown) s3))"
    unfolding Execute_def s1_def [symmetric] Let_def debug_def [symmetric]
    by (auto simp: bind_Some_iff)
  note ok = collect_requests_ok [OF collect]
  from c1 ok have c2: "collecting s s2" by (blast intro: collecting_trans)
  show ?thesis
  proof (cases r)
    case (Inl err)
    with s' c2 show ?thesis by auto
  next
    case (Inr reqs)
    show ?thesis
    proof (cases "reqs = [] \<or> BatchExecute e reqs \<noteq> None")
      case True
      with s' Inr have "\<exists>st. st \<noteq> OkStatus \<and> s' = FinishWithStatus st s2"
        by (auto simp: dispatch_batch_def split: list.splits)
      with c2 show ?thesis by blast
    next
      case False
      with s' Inr have "s' = act (Batch reqs) s2\<lparr>pending := pending s2 @ [ScoreAdsCallback_of debug]\<rparr>"
        by (auto simp: dispatch_batch_def split: list.splits)
      moreover have "dispatched_ok reqs s2" "reqs \<noteq> []" "BatchExecute e reqs = None"
        using False Inr ok by simp_all
      ultimately show ?thesis using c2 by blast
    qed
  qed
qed


subsection \<open>Properties\<close>

lemma collecting_new:
  assumes "collecting (ScoreAdsReactor_new rc req enable_logging) s"
  shows "actions s = []" and "pending s = []"
  using assms by (simp_all add: collecting_def ScoreAdsReactor_new_def)

text \<open>\<^verbatim>\<open>Execute\<close> answers a call or starts it, never both and never neither: either it finishes the
  call once, with an error, or it has one accepted batch whose callback is pending; and every
  request of the batch is for an ad the reactor remembers under its dispatch id and carries the
  configured timeout.\<close>

theorem Execute_finishes_or_dispatches:
  assumes "Execute e is_cancelled (ScoreAdsReactor_new rc req enable_logging) = Some s'"
  shows "(\<exists>st. st \<noteq> OkStatus \<and> actions s' = [Finish st] \<and> pending s' = []) \<or>
    (\<exists>reqs debug. actions s' = [Batch reqs] \<and> pending s' = [ScoreAdsCallback_of debug] \<and> reqs \<noteq> [] \<and>
       BatchExecute e reqs = OkStatus \<and>
       (\<forall>d \<in> set reqs. (ad_data s' (req_id d) \<noteq> None \<or> protected_app_signals_ad_data s' (req_id d) \<noteq> None) \<and>
          tags d = [(kRomaTimeoutTag, rc_roma_timeout_ms rc)]))"
  using Execute_cases [OF assms]
proof (elim disjE exE conjE)
  fix s2 st
  assume c: "collecting (ScoreAdsReactor_new rc req enable_logging) s2"
    and "st \<noteq> OkStatus" "s' = FinishWithStatus st s2"
  with collecting_new [OF c] show ?thesis
    by (auto simp: FinishWithStatus_def act_def)
next
  fix s2 reqs debug
  assume c: "collecting (ScoreAdsReactor_new rc req enable_logging) s2" and ok: "dispatched_ok reqs s2"
    and reqs: "reqs \<noteq> []" "BatchExecute e reqs = None"
    and s': "s' = act (Batch reqs) s2\<lparr>pending := pending s2 @ [ScoreAdsCallback_of debug]\<rparr>"
  have "roma_timeout_ms (cfg s2) = rc_roma_timeout_ms rc"
    using c by (simp add: collecting_def ScoreAdsReactor_new_def make_config_def)
  with collecting_new [OF c] ok reqs s' show ?thesis
    by (auto simp: act_def dispatched_ok_def known_def)
qed

definition sample_env :: env where
  "sample_env = \<lparr>ParseJsonString = (\<lambda>_. Inl InvalidArgument), SerializeJsonDoc = (\<lambda>_. Inr []),
     MessageToJsonString = (\<lambda>_. Inr []),
     RapidjsonParse = (\<lambda>_. Some (JObject [(kRenderUrlsPropertyForKVResponse, JObject [(''r'', JInt 1)])])),
     RapidjsonWrite = (\<lambda>_. ''{}''), BatchExecute = (\<lambda>_. None), AeadEncrypt = (\<lambda>_. None),
     StrReplaceAll = (\<lambda>s _. s), round_to_8_bits = Inr, noise_join_count = Inr, noise_recency = Inr,
     noise_modeling_signals = Inr, curl_host = Inr, AllowAnyUdfLogging = False,
     enable_temporary_unlimited_egress = False\<rparr>"

definition sample_rc :: AuctionServiceRuntimeConfig where
  "sample_rc = \<lparr>rc_enable_seller_debug_url_generation = True, rc_roma_timeout_ms = ''10000'',
     rc_enable_report_result_url_generation = True, rc_enable_report_win_url_generation = True,
     rc_enable_protected_app_signals = True, rc_enable_report_win_input_noising = False,
     rc_max_allowed_size_debug_url_bytes = 65536, rc_max_allowed_size_all_debug_urls_kb = 3000,
     rc_default_score_ad_version = ''v1'', rc_use_per_request_udf_versioning = False,
     rc_enable_seller_and_buyer_udf_isolation = True, rc_enable_private_aggregate_reporting = True,
     rc_enable_cancellation = True, rc_enable_kanon = True, rc_buyers_with_report_win_enabled = {},
     rc_protected_app_signals_buyers_with_report_win_enabled = {},
     rc_require_scoring_signals_for_scoring = True\<rparr>"

definition sample_request :: ScoreAdsRawRequest where
  "sample_request = empty_request\<lparr>scoring_signals := ''{}'',
     ad_bids := [default_AdWithBidMetadata\<lparr>awb_bid := 1, awb_render := ''r''\<rparr>]\<rparr>"

lemma sample_execute:
  "map_option (\<lambda>s. map (\<lambda>a. case a of Batch reqs \<Rightarrow> map req_id reqs | _ \<Rightarrow> []) (actions s))
     (Execute sample_env False (ScoreAdsReactor_new sample_rc sample_request False)) = Some [[''r'']]"
  by (simp add: Execute_def Let_def collect_requests_def ScoreAdsReactor_new_def sample_request_def
      sample_rc_def make_config_def GetAuctionScope_def empty_request_def sample_env_def
      BuildTrustedScoringSignals_def FindSharedComponentUrls_def
      BuildAdScoringSignalsMap_object default_AdWithBidMetadata_def AddComponentSignals_def wrap_signals_def
      PopulateProtectedAudienceDispatchRequests_def signals_for_def pa_request_def
      BuildScoreAdRequest_ad_def BuildScoreAdRequest_def dispatch_batch_def act_def)

theorem Execute_finishes_or_dispatches_witness:
  "\<exists>s'. Execute sample_env False (ScoreAdsReactor_new sample_rc sample_request False) = Some s' \<and>
    (actions s' \<noteq> [] \<and> length (actions s') = 1)"
proof -
  obtain s' where s': "Execute sample_env False (ScoreAdsReactor_new sample_rc sample_request False) = Some s'"
    using sample_execute by (metis map_option_eq_Some)
  from Execute_finishes_or_dispatches [OF s'] s' show ?thesis by auto
qed


text \<open>
  The generation ids the top level auction compares: those of the component results that are not
  chaff and name their seller.
\<close>

definition generation_ids :: "AuctionResult list \<Rightarrow> string list" where
  "generation_ids rs =
     map ciphertext_generation_id (filter (\<lambda>r. \<not> is_chaff r \<and> component_seller r \<noteq> []) rs)"

fun ids_agree :: "string \<Rightarrow> string list \<Rightarrow> bool" where
  "ids_agree g [] \<longleftrightarrow> True"
| "ids_agree g (h # hs) \<longleftrightarrow> (if g = [] then ids_agree h hs else h = g \<and> ids_agree g hs)"

lemma ids_agree_nonempty: "g \<noteq> [] \<Longrightarrow> ids_agree g hs \<longleftrightarrow> (\<forall>h \<in> set hs. h = g)"
  by (induction hs) auto

lemma ids_agree_empty:
  "ids_agree [] hs \<longleftrightarrow> (case dropWhile (\<lambda>g. g = []) hs of [] \<Rightarrow> True | g # gs \<Rightarrow> set gs \<subseteq> {g})"
proof (induction hs)
  case Nil
  then show ?case by simp
next
  case (Cons h hs)
  then show ?case by (cases "h = []") (auto simp: ids_agree_nonempty)
qed

lemma PopulateTopLevel_generation:
  "fst (PopulateTopLevelAuctionDispatchRequests debug auction_config rs g reqs s) = Inl err \<longleftrightarrow>
     err = InvalidArgument \<and> \<not> ids_agree g (generation_ids rs)"
  by (induction rs arbitrary: g reqs s) (auto simp: generation_ids_def Let_def split: prod.split)

text \<open>A top level auction is refused, as an invalid argument, exactly when the generation ids of
  the component results disagree: after the first id that is not empty every later one must be
  equal to it.\<close>

theorem top_level_generation_ids:
  "fst (PopulateTopLevelAuctionDispatchRequests debug auction_config rs [] [] s) = Inl err \<longleftrightarrow>
     err = InvalidArgument \<and>
     \<not> (case dropWhile (\<lambda>g. g = []) (generation_ids rs) of [] \<Rightarrow> True | g # gs \<Rightarrow> set gs \<subseteq> {g})"
  by (simp add: PopulateTopLevel_generation ids_agree_empty)

text \<open>When scoring signals are required, every dispatched bid has them.\<close>

lemma PopulatePA_loop_signals:
  "PopulatePA_loop e debug (Some m) auction_config ads reqs s = (reqs', s') \<Longrightarrow>
   require_scoring_signals_for_scoring (cfg s) \<Longrightarrow>
   (\<forall>d \<in> set reqs. m (req_id d) = Some (inputs d ! 3)) \<Longrightarrow>
   (\<forall>d \<in> set reqs'. m (req_id d) = Some (inputs d ! 3)) \<and> cfg s' = cfg s \<and> raw_request s' = raw_request s"
proof (induction ads arbitrary: reqs s)
  case Nil
  then show ?case by simp
next
  case (Cons ad ads)
  have new: "m (req_id d) = Some (inputs d ! 3)"
    if "m (awb_render ad) = Some sigs" "pa_request e s debug auction_config sigs ad = Inr d" for sigs d
    using that by (auto simp: pa_request_def BuildScoreAdRequest_ad_def BuildScoreAdRequest_def split: sum.splits)
  show ?case
    using Cons.prems Cons.IH [of "reqs @ [set_timeout_tag s d]" "s\<lparr>ad_data := (ad_data s)(req_id d \<mapsto> ad)\<rparr>" for d]
      Cons.IH [of reqs s]
    by (auto simp: signals_for_def ball_Un new split: option.splits sum.splits if_splits)
qed

lemma PopulatePAS_loop_signals:
  "PopulatePAS_loop e debug (Some m) auction_config ads reqs s = (reqs', s') \<Longrightarrow>
   require_scoring_signals_for_scoring (cfg s) \<Longrightarrow>
   (\<forall>d \<in> set reqs. m (req_id d) = Some (inputs d ! 3)) \<Longrightarrow>
   (\<forall>d \<in> set reqs'. m (req_id d) = Some (inputs d ! 3)) \<and> cfg s' = cfg s \<and> raw_request s' = raw_request s"
proof (induction ads arbitrary: reqs s)
  case Nil
  then show ?case by simp
next
  case (Cons ad ads)
  have new: "m (req_id d) = Some (inputs d ! 3)"
    if "m (pas_render ad) = Some sigs" "pas_request e s debug auction_config sigs ad = Inr d" for sigs d
    using that by (auto simp: pas_request_def BuildScoreAdRequest_ad_def BuildScoreAdRequest_def split: sum.splits)
  show ?case
    using Cons.prems Cons.IH [of "reqs @ [set_timeout_tag s d]"
        "s\<lparr>protected_app_signals_ad_data := (protected_app_signals_ad_data s)(req_id d \<mapsto> ad)\<rparr>" for d]
      Cons.IH [of reqs s]
    by (auto simp: signals_for_def ball_Un new split: option.splits sum.splits if_splits)
qed


lemma PopulateProtectedAudience_signals:
  assumes "PopulateProtectedAudienceDispatchRequests e debug (Some m) auction_config reqs s = (reqs', s')"
    and "require_scoring_signals_for_scoring (cfg s)" and "\<forall>d \<in> set reqs. m (req_id d) = Some (inputs d ! 3)"
  shows "(\<forall>d \<in> set reqs'. m (req_id d) = Some (inputs d ! 3)) \<and> cfg s' = cfg s"
proof -
  obtain reqs1 s1 where loop:
    "PopulatePA_loop e debug (Some m) auction_config (rev (ad_bids (raw_request s))) reqs s = (reqs1, s1)"
    by (metis surj_pair)
  with assms(1) have "reqs' = reqs1" "cfg s' = cfg s1"
    by (simp_all add: PopulateProtectedAudienceDispatchRequests_def) auto
  with PopulatePA_loop_signals [OF loop assms(2,3)] show ?thesis by simp
qed

lemma MayPopulatePAS_signals:
  assumes "MayPopulateProtectedAppSignalsDispatchRequests e debug (Some m) auction_config reqs s = (reqs', s')"
    and "require_scoring_signals_for_scoring (cfg s)" and "\<forall>d \<in> set reqs. m (req_id d) = Some (inputs d ! 3)"
  shows "(\<forall>d \<in> set reqs'. m (req_id d) = Some (inputs d ! 3)) \<and> cfg s' = cfg s"
proof -
  obtain reqs1 s1 where loop: "PopulatePAS_loop e debug (Some m) auction_config
      (rev (protected_app_signals_ad_bids (raw_request s))) reqs s = (reqs1, s1)"
    by (metis surj_pair)
  with assms(1) have "reqs' = reqs1" "cfg s' = cfg s1"
    by (simp_all add: MayPopulateProtectedAppSignalsDispatchRequests_def) auto
  with PopulatePAS_loop_signals [OF loop assms(2,3)] show ?thesis by simp
qed

text \<open>When scoring signals are required, a bid without trusted scoring signals is never scored:
  every request of a single seller or component auction carries the signals found for its render
  URL, and the whole call is refused when the signals cannot be read.\<close>

theorem required_signals_present:
  assumes "collect_requests e debug auction_config s = Some (Inr reqs, s')"
    and "auction_scope (cfg s) \<noteq> AUCTION_SCOPE_SERVER_TOP_LEVEL_SELLER"
    and "require_scoring_signals_for_scoring (cfg s)"
  shows "\<exists>m. BuildTrustedScoringSignals (RapidjsonParse e) (RapidjsonWrite e) (raw_request s) True =
      Some (Inr m) \<and> (\<forall>d \<in> set reqs. m (req_id d) = Some (inputs d ! 3))"
proof -
  from assms obtain sg where sg: "BuildTrustedScoringSignals (RapidjsonParse e) (RapidjsonWrite e)
      (raw_request s) True = Some sg"
    by (auto simp: collect_requests_def bind_Some_iff)
  with assms obtain m where m: "BuildTrustedScoringSignals (RapidjsonParse e) (RapidjsonWrite e)
      (raw_request s) True = Some (Inr m)"
    by (cases sg) (auto simp: collect_requests_def)
  obtain reqs1 s1 where 1: "(if ad_bids (raw_request s) \<noteq> []
      then PopulateProtectedAudienceDispatchRequests e debug (Some m) auction_config [] s else ([], s)) =
      (reqs1, s1)" by (metis surj_pair)
  have ok1: "(\<forall>d \<in> set reqs1. m (req_id d) = Some (inputs d ! 3)) \<and> cfg s1 = cfg s"
    using 1 assms(3) PopulateProtectedAudience_signals [of e debug m auction_config "[]" s reqs1 s1]
    by (auto split: if_splits)
  have 2: "(if protected_app_signals_ad_bids (raw_request s) \<noteq> []
      then MayPopulateProtectedAppSignalsDispatchRequests e debug (Some m) auction_config reqs1 s1
      else (reqs1, s1)) = (reqs, s')"
    using assms m 1 by (auto simp: collect_requests_def Let_def split: prod.splits if_splits)
  have "\<forall>d \<in> set reqs. m (req_id d) = Some (inputs d ! 3)"
    using 2 ok1 assms(3) MayPopulatePAS_signals [of e debug m auction_config reqs1 s1 reqs s']
    by (auto split: if_splits)
  with m show ?thesis by blast
qed

lemma sample_collect:
  "\<exists>d s'. collect_requests sample_env False [] (ScoreAdsReactor_new sample_rc sample_request False) =
     Some (Inr [d], s') \<and> req_id d = ''r'' \<and> inputs d ! 3 = ''{}''"
  by (simp add: Let_def collect_requests_def ScoreAdsReactor_new_def sample_request_def
      sample_rc_def make_config_def GetAuctionScope_def empty_request_def sample_env_def
      BuildTrustedScoringSignals_def FindSharedComponentUrls_def
      BuildAdScoringSignalsMap_object default_AdWithBidMetadata_def AddComponentSignals_def wrap_signals_def
      PopulateProtectedAudienceDispatchRequests_def signals_for_def pa_request_def
      BuildScoreAdRequest_ad_def BuildScoreAdRequest_def)

theorem required_signals_present_witness:
  "\<exists>m. BuildTrustedScoringSignals (RapidjsonParse sample_env) (RapidjsonWrite sample_env)
      sample_request True = Some (Inr m) \<and> m ''r'' = Some ''{}''"
proof -
  let ?s = "ScoreAdsReactor_new sample_rc sample_request False"
  obtain d s' where d: "collect_requests sample_env False [] ?s = Some (Inr [d], s')"
    "req_id d = ''r''" "inputs d ! 3 = ''{}''" using sample_collect by blast
  have "auction_scope (cfg ?s) \<noteq> AUCTION_SCOPE_SERVER_TOP_LEVEL_SELLER"
    "require_scoring_signals_for_scoring (cfg ?s)" "raw_request ?s = sample_request"
    by (simp_all add: ScoreAdsReactor_new_def make_config_def sample_rc_def sample_request_def
        GetAuctionScope_def empty_request_def)
  with required_signals_present [OF d(1)] d(2,3) show ?thesis by auto
qed

text \<open>
  A component result with a winner and a ghost winner, in a top level auction that enforces
  k-anonymity.
\<close>

definition component_result :: "string \<Rightarrow> AuctionResult" where
  "component_result cseller = \<lparr>ad_render_url = ''winner'', ad_component_render_urls = [],
     ar_interest_group_name = ''ig'', ar_interest_group_owner = ''buyer'', ar_bid = 1,
     is_chaff = False, ar_win_reporting_urls = no_win_urls, ar_ad_type = AD_TYPE_PROTECTED_AUDIENCE_AD,
     ar_ad_metadata = [], ar_bid_currency = [], ciphertext_generation_id = ''g'',
     component_seller = cseller, ar_buyer_reporting_id = [], ar_buyer_and_seller_reporting_id = [],
     k_anon_winner_join_candidates = empty_join_candidate,
     k_anon_ghost_winners =
       [\<lparr>gw_k_anon_join_candidates = empty_join_candidate, gw_owner = ''other'', gw_ig_name = ''ig2'',
         ghost_winner_for_top_level_auction = Some \<lparr>gw_ad_render_url = ''ghost'',
           gw_ad_component_render_urls = [], gw_modified_bid = 2, gw_bid_currency = [],
           gw_ad_metadata = []\<rparr>\<rparr>]\<rparr>"

text \<open>A ghost winner of a component auction that also has a winner is scored without its seller:
  building the winner's request moves the component seller out of the message, so the bid metadata
  of the ghost winner names an empty component seller, whatever the seller was.\<close>

theorem ghost_winner_component_seller_lost:
  assumes "cseller \<noteq> []" and "enforce_kanon req" and "component_auction_results req = [component_result cseller]"
    and "top_level_seller req = []" and "rc_enable_kanon rc"
  shows "\<exists>d1 d2 s'. PopulateTopLevelAuctionDispatchRequests False config (component_auction_results req) [] []
      (ScoreAdsReactor_new rc req False) = (Inr [d1, d2], s') \<and>
    inputs d1 ! 4 = MakeBidMetadataForTopLevelAuction (publisher_hostname req) ''buyer'' ''winner'' []
      cseller [] (seller_data_version req) \<and>
    inputs d2 ! 4 = MakeBidMetadataForTopLevelAuction (publisher_hostname req) ''other'' ''ghost'' []
      [] [] (seller_data_version req)"
  using assms
  by (simp add: component_result_def ScoreAdsReactor_new_def make_config_def Let_def
      BuildScoreAdRequestForComponentWinner_def component_winner_request_def BuildScoreAdRequest_def
      GetComponentReportingDataInAuctionResult_def insert_component_ad_def
      MapAuctionResultToAdWithBidMetadata_def ghost_winner_request_def)

theorem ghost_winner_component_seller_lost_witness:
  "\<exists>d1 d2 s'. PopulateTopLevelAuctionDispatchRequests False [] [component_result ''seller''] [] []
      (ScoreAdsReactor_new sample_rc (empty_request\<lparr>enforce_kanon := True,
         component_auction_results := [component_result ''seller'']\<rparr>) False) = (Inr [d1, d2], s') \<and>
    inputs d2 ! 4 = MakeBidMetadataForTopLevelAuction [] ''other'' ''ghost'' [] [] [] 0"
proof -
  let ?req = "empty_request\<lparr>enforce_kanon := True, component_auction_results := [component_result ''seller'']\<rparr>"
  have req: "enforce_kanon ?req" "component_auction_results ?req = [component_result ''seller'']"
    "top_level_seller ?req = []" "publisher_hostname ?req = []" "seller_data_version ?req = 0"
    by (simp_all add: empty_request_def)
  have rc: "rc_enable_kanon sample_rc" by (simp add: sample_rc_def)
  from ghost_winner_component_seller_lost [OF _ req(1,2,3) rc, of "[]"]
  show ?thesis unfolding req(2,4,5) by blast
qed

text \<open>Bids of the two kinds may share a dispatch id: a protected audience bid and an app signals bid
  with one render URL are both dispatched, under the same id, and the answer for either is then
  attributed to the protected audience bid.\<close>

theorem shared_dispatch_id:
  assumes "awb_render ad = url" and "pas_render pas = url" and "awb_ad ad = Inl a" and "pas_ad pas = Inl b"
    and "ad_data s = Map.empty" and "protected_app_signals_ad_data s = Map.empty"
    and "\<not> require_scoring_signals_for_scoring (cfg s)"
  shows "\<exists>d1 d2 s1 s2. PopulatePA_loop e debug None config [ad] [] s = ([d1], s1) \<and>
    PopulatePAS_loop e debug None config [pas] [d1] s1 = ([d1, d2], s2) \<and>
    req_id d1 = url \<and> req_id d2 = url \<and>
    ad_data s2 url = Some ad \<and> protected_app_signals_ad_data s2 url = Some pas"
  using assms
  by (simp add: signals_for_def pa_request_def pas_request_def BuildScoreAdRequest_ad_def BuildScoreAdRequest_def)

theorem shared_dispatch_id_witness:
  "\<exists>d1 d2 s1 s2. PopulatePA_loop sample_env False None [] [default_AdWithBidMetadata] []
      (ScoreAdsReactor_new (sample_rc\<lparr>rc_require_scoring_signals_for_scoring := False\<rparr>) empty_request False) =
      ([d1], s1) \<and>
    PopulatePAS_loop sample_env False None [] [default_PASAdWithBidMetadata] [d1] s1 = ([d1, d2], s2) \<and>
    req_id d1 = [] \<and> req_id d2 = []"
proof -
  let ?s = "ScoreAdsReactor_new (sample_rc\<lparr>rc_require_scoring_signals_for_scoring := False\<rparr>) empty_request False"
  have ads: "awb_render default_AdWithBidMetadata = []" "pas_render default_PASAdWithBidMetadata = []"
    "awb_ad default_AdWithBidMetadata = Inl []" "pas_ad default_PASAdWithBidMetadata = Inl []"
    by (simp_all add: default_AdWithBidMetadata_def default_PASAdWithBidMetadata_def)
  have s: "ad_data ?s = Map.empty" "protected_app_signals_ad_data ?s = Map.empty"
    "\<not> require_scoring_signals_for_scoring (cfg ?s)"
    by (simp_all add: ScoreAdsReactor_new_def make_config_def)
  from shared_dispatch_id [OF ads s, of sample_env False "[]"] show ?thesis by blast
qed

end
