(* ===== verification/StdSort.thy ===== *)
theory StdSort
  imports Prelude "HOL-Library.Multiset" "HOL-Library.Sublist"
begin

text \<open>
  The contract of \<^verbatim>\<open>std::sort\<close> and an instance of it. A comparator that is a strict weak order is
  what the standard demands; the result is then a permutation in which no element compares before
  an earlier one. Nothing is promised about the order of equivalent elements.
\<close>

definition strict_weak :: "('a \<Rightarrow> 'a \<Rightarrow> bool) \<Rightarrow> bool" where
  "strict_weak before \<longleftrightarrow>
     (\<forall>a b. before a b \<longrightarrow> \<not> before b a) \<and>
     (\<forall>a b c. \<not> before a b \<longrightarrow> \<not> before b c \<longrightarrow> \<not> before a c)"

lemma strict_weak_asym: "strict_weak before \<Longrightarrow> before a b \<Longrightarrow> \<not> before b a"
  unfolding strict_weak_def by blast

lemma strict_weak_negtrans:
  "strict_weak before \<Longrightarrow> \<not> before a b \<Longrightarrow> \<not> before b c \<Longrightarrow> \<not> before a c"
  unfolding strict_weak_def by blast

text \<open>A comparator by a key in a linear order is one.\<close>

lemma strict_weak_key: "strict_weak (\<lambda>a b. (key b :: 'k :: linorder) < key a)"
  by (auto simp: strict_weak_def)

locale std_sorted =
  fixes before :: "'a \<Rightarrow> 'a \<Rightarrow> bool" and srt :: "'a list \<Rightarrow> 'a list"
  assumes permutes: "mset (srt xs) = mset xs"
    and ordered: "sorted_wrt (\<lambda>a b. \<not> before b a) (srt xs)"
begin

lemma set_sorted [simp]: "set (srt xs) = set xs"
  using permutes by (metis set_mset_mset)

lemma length_sorted [simp]: "length (srt xs) = length xs"
  using permutes by (metis size_mset)

lemma ordered_nth: "i < j \<Longrightarrow> j < length xs \<Longrightarrow> \<not> before (srt xs ! j) (srt xs ! i)"
  using ordered [of xs] by (simp add: sorted_wrt_iff_nth_less)

text \<open>The first element with a property comes before no other one with it.\<close>

lemma first_is_best:
  assumes "i < length xs" and "\<forall>j < i. \<not> P (srt xs ! j)" and "x \<in> set xs" and "P x"
  shows "\<not> before x (srt xs ! i) \<or> x = srt xs ! i"
proof -
  from assms(3) obtain j where j: "j < length xs" "x = srt xs ! j"
    by (metis in_set_conv_nth set_sorted length_sorted)
  with assms(2,4) have "\<not> j < i" by blast
  then show ?thesis using j ordered_nth [of i j xs] by (cases "i = j") auto
qed

end

subsection \<open>Subsequences\<close>

lemma subseq_set: "subseq xs ys \<Longrightarrow> set xs \<subseteq> set ys"
  by (induction rule: list_emb.induct) auto

lemma subseq_distinct: "subseq xs ys \<Longrightarrow> distinct ys \<Longrightarrow> distinct xs"
  by (induction rule: list_emb.induct) (auto dest: subseq_set)

subsection \<open>Insertion sort\<close>

fun insert_by :: "('a \<Rightarrow> 'a \<Rightarrow> bool) \<Rightarrow> 'a \<Rightarrow> 'a list \<Rightarrow> 'a list" where
  "insert_by before x [] = [x]"
| "insert_by before x (y # ys) = (if before y x then y # insert_by before x ys else x # y # ys)"

fun sort_by :: "('a \<Rightarrow> 'a \<Rightarrow> bool) \<Rightarrow> 'a list \<Rightarrow> 'a list" where
  "sort_by before [] = []"
| "sort_by before (x # xs) = insert_by before x (sort_by before xs)"

lemma mset_insert_by [simp]: "mset (insert_by before x xs) = add_mset x (mset xs)"
  by (induction xs) auto

lemma mset_sort_by [simp]: "mset (sort_by before xs) = mset xs"
  by (induction xs) auto

lemma set_insert_by [simp]: "set (insert_by before x xs) = insert x (set xs)"
  by (induction xs) auto

lemma sorted_insert_by:
  assumes "strict_weak before" and "sorted_wrt (\<lambda>a b. \<not> before b a) xs"
  shows "sorted_wrt (\<lambda>a b. \<not> before b a) (insert_by before x xs)"
  using assms(2)
proof (induction xs)
  case Nil
  then show ?case by simp
next
  case (Cons y ys)
  show ?case
  proof (cases "before y x")
    case True
    with assms(1) have "\<not> before x y" by (rule strict_weak_asym)
    moreover have "sorted_wrt (\<lambda>a b. \<not> before b a) (insert_by before x ys)" using Cons by simp
    ultimately show ?thesis using True Cons.prems by simp
  next
    case False
    have "\<not> before z x" if "z \<in> set ys" for z
    proof -
      from that Cons.prems have "\<not> before z y" by simp
      from strict_weak_negtrans [OF assms(1) this False] show ?thesis .
    qed
    with False Cons.prems show ?thesis by simp
  qed
qed

lemma std_sorted_sort_by:
  assumes "strict_weak before"
  shows "std_sorted before (sort_by before)"
proof
  fix xs
  show "mset (sort_by before xs) = mset xs" by simp
  show "sorted_wrt (\<lambda>a b. \<not> before b a) (sort_by before xs)"
    by (induction xs) (simp_all add: sorted_insert_by [OF assms])
qed

end
