(* ===== verification/ScoreAdsWinner.thy ===== *)
theory ScoreAdsWinner
  imports ScoreAdsDispatch StdSort
begin

text \<open>
  The second half of \<^verbatim>\<open>ScoreAdsReactor\<close>: the answers of the seller's code are parsed into scored ads
  (\<^verbatim>\<open>CollectValidRomaResponses\<close>), rejected ads are dropped, the winner and the ghost winners are
  chosen (\<^verbatim>\<open>FindWinningAd\<close>) and the second highest bids are collected. \<^verbatim>\<open>std::sort\<close> is a parameter
  with its contract; \<^verbatim>\<open>std::sample\<close> is selection sampling over a stream of random numbers.
\<close>

subsection \<open>Answers of the seller's code\<close>

record ScoredAdData =
  sad_ad_score :: AdScore
  response_json :: json
  protected_audience_ad_with_bid :: "AdWithBidMetadata option"
  protected_app_signals_ad_with_bid :: "ProtectedAppSignalsAdWithBidMetadata option"
  sad_id :: string
  sad_k_anon_status :: bool

definition DebugReportUrlsLength :: "AdScore \<Rightarrow> int" where
  "DebugReportUrlsLength ad =
     (case debug_report_urls ad of
        None \<Rightarrow> 0
      | Some urls \<Rightarrow> int (length (auction_debug_win_url urls)) + int (length (auction_debug_loss_url urls)))"

record ScoringAdWithBidMetadata =
  sm_buyer_bid :: rat
  sm_ad_with_bid_currency :: string
  sm_interest_group_name :: string
  sm_interest_group_owner :: string
  sm_interest_group_origin :: string
  sm_k_anon_status :: bool
  sm_ad_type :: AdType

definition GetScoringDataFromAd :: "AdWithBidMetadata \<Rightarrow> ScoringAdWithBidMetadata" where
  "GetScoringDataFromAd ad =
     \<lparr>sm_buyer_bid = awb_bid ad, sm_ad_with_bid_currency = awb_bid_currency ad,
      sm_interest_group_name = awb_interest_group_name ad,
      sm_interest_group_owner = awb_interest_group_owner ad,
      sm_interest_group_origin = awb_interest_group_origin ad,
      sm_k_anon_status = k_anon_status ad, sm_ad_type = AD_TYPE_PROTECTED_AUDIENCE_AD\<rparr>"

definition GetScoringDataFromAd_pas :: "ProtectedAppSignalsAdWithBidMetadata \<Rightarrow> ScoringAdWithBidMetadata" where
  "GetScoringDataFromAd_pas ad =
     \<lparr>sm_buyer_bid = pas_bid ad, sm_ad_with_bid_currency = pas_bid_currency ad,
      sm_interest_group_name = [], sm_interest_group_owner = pas_owner ad,
      sm_interest_group_origin = [], sm_k_anon_status = pas_k_anon_status ad,
      sm_ad_type = AD_TYPE_PROTECTED_APP_SIGNALS_AD\<rparr>"

text \<open>\<open>None\<close>: neither pointer is set, and the second one would be dereferenced.\<close>

definition PopulateAdScoreData :: "ScoredAdData \<Rightarrow> (ScoringAdWithBidMetadata \<times> ScoredAdData) option" where
  "PopulateAdScoreData parsed_ad = do {
     m \<leftarrow> (case protected_audience_ad_with_bid parsed_ad of
            Some ad \<Rightarrow> Some (GetScoringDataFromAd ad)
          | None \<Rightarrow> map_option GetScoringDataFromAd_pas (protected_app_signals_ad_with_bid parsed_ad));
     Some (m, parsed_ad\<lparr>sad_ad_score := (sad_ad_score parsed_ad)
       \<lparr>interest_group_name := sm_interest_group_name m,
        interest_group_owner := sm_interest_group_owner m,
        interest_group_origin := sm_interest_group_origin m,
        ad_type := sm_ad_type m, buyer_bid := sm_buyer_bid m,
        buyer_bid_currency := sm_ad_with_bid_currency m\<rparr>\<rparr>) }"

definition FindScoredAdType ::
    "reactor \<Rightarrow> string \<Rightarrow> AdWithBidMetadata option \<times> ProtectedAppSignalsAdWithBidMetadata option" where
  "FindScoredAdType s response_id =
     (case ad_data s response_id of
        Some ad \<Rightarrow> (Some ad, None)
      | None \<Rightarrow> (None, protected_app_signals_ad_data s response_id))"

text \<open>The join candidate is moved out of the map.\<close>

definition MayAddKAnonJoinCandidate :: "string \<Rightarrow> AdScore \<Rightarrow> reactor \<Rightarrow> AdScore \<times> reactor" where
  "MayAddKAnonJoinCandidate request_id ad s =
     (if auction_scope (cfg s) \<noteq> AUCTION_SCOPE_SERVER_TOP_LEVEL_SELLER then (ad, s)
      else case ad_k_anon_join_cand s request_id of
        None \<Rightarrow> (ad, s)
      | Some c \<Rightarrow> (ad\<lparr>k_anon_join_candidate := Some c\<rparr>,
          s\<lparr>ad_k_anon_join_cand := (ad_k_anon_join_cand s)(request_id \<mapsto> empty_join_candidate)\<rparr>))"

text \<open>
  One answer: the scored ad (none when the answer is skipped), the running total of debug URL
  characters and the state.
\<close>

definition CollectValidRomaResponse ::
    "env \<Rightarrow> status_code + DispatchResponse \<Rightarrow> int \<Rightarrow> reactor \<Rightarrow> (ScoredAdData option \<times> int \<times> reactor) option" where
  "CollectValidRomaResponse e response current s =
     (case response of
        Inl err \<Rightarrow> Some (None, current, s)
      | Inr r \<Rightarrow>
          (let (pa, pas) = FindScoredAdType s (resp_id r) in
           if pa = None \<and> pas = None then Some (None, current, s)
           else case ParseJsonString e (resp r) of
             Inl err \<Rightarrow> Some (None, current, s)
           | Inr wrapper \<Rightarrow> do {
               answer \<leftarrow> ParseAndGetScoreAdResponseJson wrapper;
               parsed \<leftarrow> ScoreAdResponseJsonToProto (SerializeJsonDoc e) answer
                 (max_allowed_size_debug_url_chars (cfg s)) (max_allowed_size_all_debug_urls_chars (cfg s))
                 (IsComponentAuction (auction_scope (cfg s))) current;
               case parsed of
                 Inl err \<Rightarrow> Some (None, current, s)
               | Inr (ad, current1) \<Rightarrow>
                   (let (ad1, s1) = MayAddKAnonJoinCandidate (resp_id r) ad s in do {
                      contributions \<leftarrow> (if enable_private_aggregate_reporting (cfg s1)
                        then FindMember wrapper ''paapiContributions'' else Some None);
                      let s2 = (case contributions of
                            Some (JObject ms) \<Rightarrow> s1\<lparr>paapi_contributions_docs :=
                              emplace_list (resp_id r) (JObject ms) (paapi_contributions_docs s1)\<rparr>
                          | _ \<Rightarrow> s1);
                          current2 = current1 + DebugReportUrlsLength ad1
                      in do {
                        (m, scored) \<leftarrow> PopulateAdScoreData
                          \<lparr>sad_ad_score = ad1, response_json = answer,
                           protected_audience_ad_with_bid = pa, protected_app_signals_ad_with_bid = pas,
                           sad_id = resp_id r, sad_k_anon_status = False\<rparr>;
                        Some (Some (scored\<lparr>sad_k_anon_status :=
                                \<not> enable_enforce_kanon (cfg s2) \<or> sm_k_anon_status m\<rparr>),
                              current2, s2) } }) }))"

fun CollectValidRomaResponses_loop ::
    "env \<Rightarrow> (status_code + DispatchResponse) list \<Rightarrow> int \<Rightarrow> reactor \<Rightarrow> (ScoredAdData list \<times> reactor) option" where
  "CollectValidRomaResponses_loop e [] current s = Some ([], s)"
| "CollectValidRomaResponses_loop e (r # rs) current s = do {
     (ad, current', s') \<leftarrow> CollectValidRomaResponse e r current s;
     (ads, s'') \<leftarrow> CollectValidRomaResponses_loop e rs current' s';
     Some ((case ad of Some a \<Rightarrow> a # ads | None \<Rightarrow> ads), s'') }"

definition CollectValidRomaResponses ::
    "env \<Rightarrow> (status_code + DispatchResponse) list \<Rightarrow> reactor \<Rightarrow> (ScoredAdData list \<times> reactor) option" where
  "CollectValidRomaResponses e responses s = CollectValidRomaResponses_loop e responses 0 s"

subsection \<open>Rejections\<close>

definition kCurrencyFloatComparisonEpsilon :: rat where
  "kCurrencyFloatComparisonEpsilon = 1 / 100000"

definition IsIncomingBidInSellerCurrencyIllegallyModified :: "string \<Rightarrow> string \<Rightarrow> rat \<Rightarrow> rat \<Rightarrow> bool" where
  "IsIncomingBidInSellerCurrencyIllegallyModified currency ad_with_bid_currency incoming buyer \<longleftrightarrow>
     currency \<noteq> [] \<and> ad_with_bid_currency \<noteq> [] \<and> currency = ad_with_bid_currency \<and>
     incoming > kCurrencyFloatComparisonEpsilon \<and> \<bar>incoming - buyer\<bar> > kCurrencyFloatComparisonEpsilon"

definition IsBidCurrencyMismatched :: "AuctionScope \<Rightarrow> string \<Rightarrow> rat \<Rightarrow> string \<Rightarrow> bool" where
  "IsBidCurrencyMismatched scope currency modified_bid modified_bid_currency \<longleftrightarrow>
     IsComponentAuction scope \<and> currency \<noteq> [] \<and> modified_bid > 0 \<and> modified_bid_currency \<noteq> [] \<and>
     modified_bid_currency \<noteq> currency"

definition CheckAndUpdateModifiedBid :: "AuctionScope \<Rightarrow> rat \<Rightarrow> string \<Rightarrow> AdScore \<Rightarrow> AdScore" where
  "CheckAndUpdateModifiedBid scope buyer ad_with_bid_currency ad =
     (if IsComponentAuction scope \<and> bid ad \<le> 0 \<and> buyer > 0
      then ad\<lparr>bid := buyer, bid_currency := ad_with_bid_currency\<rparr> else ad)"

definition GetAdRejectionReason :: "reactor \<Rightarrow> json \<Rightarrow> AdScore \<Rightarrow> AdRejectionReason option option" where
  "GetAdRejectionReason s answer ad = do {
     parsed \<leftarrow> (if IsNumber answer then Some None
                else ParseAdRejectionReason answer (interest_group_owner ad) (interest_group_name ad));
     Some (
       if IsBidCurrencyMismatched (auction_scope (cfg s)) (seller_currency (raw_request s)) (bid ad) (bid_currency ad)
       then Some (BuildAdRejectionReason (interest_group_owner ad) (interest_group_name ad)
                    BID_FROM_SCORE_AD_FAILED_CURRENCY_CHECK)
       else if IsIncomingBidInSellerCurrencyIllegallyModified (seller_currency (raw_request s))
                 (buyer_bid_currency ad) (incoming_bid_in_seller_currency ad) (buyer_bid ad)
       then Some (BuildAdRejectionReason (interest_group_owner ad) (interest_group_name ad) INVALID_BID)
       else if desirability ad \<le> 0
       then Some (BuildAdRejectionReason (interest_group_owner ad) (interest_group_name ad)
                    SELLER_REJECTION_REASON_NOT_AVAILABLE)
       else parsed) }"

subsection \<open>Choice of winners\<close>

record ScoringData =
  winner_index :: int
  seller_rejected_bid_count :: nat
  score_ad_map :: "(rat \<times> nat list) list"
  sd_ad_rejection_reasons :: "AdRejectionReason list"
  winner_cand_indices :: "nat list"
  ghost_winner_cand_indices :: "nat list"
  ghost_winner_indices :: "nat list"

definition initial_ScoringData :: ScoringData where
  "initial_ScoringData = \<lparr>winner_index = -1, seller_rejected_bid_count = 0, score_ad_map = [],
     sd_ad_rejection_reasons = [], winner_cand_indices = [], ghost_winner_cand_indices = [],
     ghost_winner_indices = []\<rparr>"

text \<open>\<^verbatim>\<open>operator>\<close> of \<^verbatim>\<open>ScoredAdData\<close>.\<close>

definition scored_greater :: "ScoredAdData \<Rightarrow> ScoredAdData \<Rightarrow> bool" where
  "scored_greater a b \<longleftrightarrow>
     (if desirability (sad_ad_score a) > desirability (sad_ad_score b) then True
      else if desirability (sad_ad_score a) = desirability (sad_ad_score b) then
        (if buyer_bid (sad_ad_score a) > buyer_bid (sad_ad_score b) then True
         else if buyer_bid (sad_ad_score a) = buyer_bid (sad_ad_score b)
         then sad_k_anon_status a \<and> \<not> sad_k_anon_status b
         else False)
      else False)"

text \<open>
  \<^verbatim>\<open>std::sample\<close> of a range with a known length: each element is taken with the probability that
  the number still needed stands to the number still left. The \<open>i\<close>-th random number below \<open>n\<close> is
  \<open>rnd i mod n\<close>.
\<close>

fun std_sample :: "(nat \<Rightarrow> nat) \<Rightarrow> 'a list \<Rightarrow> nat \<Rightarrow> 'a list" where
  "std_sample rnd [] k = []"
| "std_sample rnd (x # xs) k =
     (if rnd 0 mod Suc (length xs) < k then x # std_sample (\<lambda>i. rnd (Suc i)) xs (k - 1)
      else std_sample (\<lambda>i. rnd (Suc i)) xs k)"

definition ChooseRandomElements :: "(nat \<Rightarrow> nat) \<Rightarrow> nat list \<Rightarrow> nat \<Rightarrow> nat list" where
  "ChooseRandomElements rnd to_sample_from num_elements_to_get = std_sample rnd to_sample_from num_elements_to_get"

text \<open>\<open>max_ghost_winners\<close> is a \<^verbatim>\<open>size_t\<close>: a negative limit of the request becomes a huge one.\<close>

definition to_size_t :: "int \<Rightarrow> nat" where
  "to_size_t i = nat (i mod 2 ^ 64)"

definition ChooseWinnerAndGhostWinners ::
    "(nat \<Rightarrow> nat) \<Rightarrow> (nat \<Rightarrow> nat) \<Rightarrow> nat \<Rightarrow> ScoringData \<Rightarrow> ScoringData" where
  "ChooseWinnerAndGhostWinners rnd_winner rnd_ghost max_ghost_winners d =
     (let d1 = (if winner_cand_indices d \<noteq> []
                then d\<lparr>winner_index := int (ChooseRandomElements rnd_winner (winner_cand_indices d) 1 ! 0)\<rparr>
                else d);
          cands = ghost_winner_cand_indices d1
      in if cands = [] then d1
         else if length cands < max_ghost_winners then d1\<lparr>ghost_winner_indices := cands\<rparr>
         else d1\<lparr>ghost_winner_indices :=
                   ChooseRandomElements rnd_ghost cands (min max_ghost_winners (length cands))\<rparr>)"

text \<open>
  The loop that drops the ads that cannot win: a dropped ad is swapped with the last ad still to be
  looked at. \<open>n_left\<close> is the \<^verbatim>\<open>end\<close> of the code.
\<close>

definition swap :: "nat \<Rightarrow> nat \<Rightarrow> 'a list \<Rightarrow> 'a list" where
  "swap i j xs = xs[i := xs ! j, j := xs ! i]"

function FilterAds_loop ::
    "reactor \<Rightarrow> ScoringData \<Rightarrow> ScoredAdData list \<Rightarrow> nat \<Rightarrow> nat \<Rightarrow>
     (reactor \<times> ScoringData \<times> ScoredAdData list) option" where
  "FilterAds_loop s d ads index n_left =
     (if index < n_left then
        (let ad = ads ! index;
             s1 = s\<lparr>ad_scores := emplace_list (sad_id ad) (sad_ad_score ad) (ad_scores s)\<rparr>;
             score = CheckAndUpdateModifiedBid (auction_scope (cfg s)) (buyer_bid (sad_ad_score ad))
                       (buyer_bid_currency (sad_ad_score ad)) (sad_ad_score ad);
             ads1 = ads[index := ad\<lparr>sad_ad_score := score\<rparr>]
         in case GetAdRejectionReason s1 (response_json ad) score of
              None \<Rightarrow> None
            | Some reason \<Rightarrow>
                if (case reason of Some r \<Rightarrow> rejection_reason r \<noteq> SELLER_REJECTION_REASON_NOT_AVAILABLE
                    | None \<Rightarrow> False)
                then FilterAds_loop s1
                       (d\<lparr>seller_rejected_bid_count := seller_rejected_bid_count d + 1,
                          sd_ad_rejection_reasons := sd_ad_rejection_reasons d @ [the reason]\<rparr>)
                       (swap index (n_left - 1) ads1) index (n_left - 1)
                else if auction_scope (cfg s) = AUCTION_SCOPE_DEVICE_COMPONENT_MULTI_SELLER \<and>
                        \<not> allow_component_auction score
                then FilterAds_loop s1 d (swap index (n_left - 1) ads1) index (n_left - 1)
                else FilterAds_loop s1 d ads1 (Suc index) n_left)
      else Some (s, d, take n_left ads))"
  by pat_completeness auto
termination
  by (relation "measure (\<lambda>(s, d, ads, index, n_left). n_left - index)") auto

declare FilterAds_loop.simps [simp del]

text \<open>The desirability is handed over as an \<^verbatim>\<open>int\<close>.\<close>

definition AddIfCandsEmptyOrHasEqLastDesirability ::
    "nat \<Rightarrow> int \<Rightarrow> ScoredAdData list \<Rightarrow> nat list \<Rightarrow> nat list" where
  "AddIfCandsEmptyOrHasEqLastDesirability ind_to_add des parsed_ads cands =
     (if cands = [] \<or> desirability (sad_ad_score (parsed_ads ! last cands)) = of_int des
      then cands @ [ind_to_add] else cands)"

definition cand_step ::
    "nat \<Rightarrow> ScoredAdData list \<times> nat list \<times> nat list \<Rightarrow> ScoredAdData list \<times> nat list \<times> nat list" where
  "cand_step ind st =
     (case st of (ads, winners, ghosts) \<Rightarrow>
        (let ad = ads ! ind; des = desirability (sad_ad_score ad) in
         if des \<le> 0 then (ads, winners, ghosts)
         else if sad_k_anon_status ad
         then (ads, AddIfCandsEmptyOrHasEqLastDesirability ind (truncate_to_int des) ads winners, ghosts)
         else if winners = []
         then (let ads1 = ads[ind := ad\<lparr>sad_ad_score := (sad_ad_score ad)\<lparr>debug_report_urls := None\<rparr>\<rparr>]
               in (ads1, winners,
                   AddIfCandsEmptyOrHasEqLastDesirability ind (truncate_to_int des) ads1 ghosts))
         else (ads, winners, ghosts)))"

text \<open>\<^verbatim>\<open>score_ad_map[score].push_back(ind)\<close>\<close>

fun push_back_at :: "'k \<Rightarrow> 'v \<Rightarrow> ('k \<times> 'v list) list \<Rightarrow> ('k \<times> 'v list) list" where
  "push_back_at k v [] = [(k, [v])]"
| "push_back_at k v ((k', vs) # m) = (if k' = k then (k', vs @ [v]) # m else (k', vs) # push_back_at k v m)"

definition score_map :: "ScoredAdData list \<Rightarrow> nat list \<Rightarrow> (rat \<times> nat list) list" where
  "score_map ads ghosts = fold (\<lambda>ind m. if ind \<in> set ghosts then m
     else push_back_at (desirability (sad_ad_score (ads ! ind))) ind m) [0..<length ads] []"

type_synonym ad_sort = "ScoredAdData list \<Rightarrow> ScoredAdData list"

definition FindWinningAd ::
    "ad_sort \<Rightarrow> (nat \<Rightarrow> nat) \<Rightarrow> (nat \<Rightarrow> nat) \<Rightarrow> ScoredAdData list \<Rightarrow> reactor \<Rightarrow>
     (ScoringData \<times> ScoredAdData list \<times> reactor) option" where
  "FindWinningAd std_sort rnd_winner rnd_ghost parsed_ads s = do {
     (s1, d1, kept) \<leftarrow> FilterAds_loop s initial_ScoringData parsed_ads 0 (length parsed_ads);
     let sorted_ads = std_sort kept;
         (ads, winners, ghosts) = fold cand_step [0..<length sorted_ads] (sorted_ads, [], []);
         d2 = ChooseWinnerAndGhostWinners rnd_winner rnd_ghost
                (to_size_t (num_allowed_ghost_winners (raw_request s1)))
                (d1\<lparr>winner_cand_indices := winners, ghost_winner_cand_indices := ghosts\<rparr>)
     in Some (d2\<lparr>score_ad_map := score_map ads ghosts\<rparr>, ads, s1) }"


subsection \<open>Sampling\<close>

lemma length_std_sample: "length (std_sample rnd xs k) = min k (length xs)"
proof (induction xs arbitrary: rnd k)
  case Nil
  then show ?case by simp
next
  case (Cons x xs)
  have "rnd 0 mod Suc (length xs) \<le> length xs" using mod_less_divisor by (simp add: less_Suc_eq_le)
  then have "rnd 0 mod Suc (length xs) < k \<or> k \<le> length xs" by linarith
  then show ?case by (auto simp: Cons.IH min_def)
qed

lemma subseq_std_sample: "subseq (std_sample rnd xs k) xs"
  by (induction xs arbitrary: rnd k) auto

lemma set_std_sample: "set (std_sample rnd xs k) \<subseteq> set xs"
  using subseq_std_sample by (rule subseq_set)

text \<open>\<open>sampling\<close>: what choosing at random promises its client.\<close>

locale sampling =
  fixes pick :: "nat list \<Rightarrow> nat \<Rightarrow> nat list"
  assumes pick_length: "length (pick xs k) = min k (length xs)"
    and pick_subseq: "subseq (pick xs k) xs"
begin

lemma pick_one: "xs \<noteq> [] \<Longrightarrow> \<exists>x. pick xs 1 = [x] \<and> x \<in> set xs"
proof -
  assume "xs \<noteq> []"
  then have "length (pick xs 1) = 1" by (cases xs) (simp_all add: pick_length)
  then obtain x where x: "pick xs 1 = [x]" by (metis One_nat_def length_0_conv length_Suc_conv)
  then have "subseq [x] xs" using pick_subseq [of xs 1] by simp
  with x subseq_set [of "[x]" xs] show ?thesis by simp
qed

lemma pick_set: "set (pick xs k) \<subseteq> set xs"
  using pick_subseq by (rule subseq_set)

lemma pick_distinct: "distinct xs \<Longrightarrow> distinct (pick xs k)"
  using pick_subseq subseq_distinct by blast

end

interpretation sample: sampling "ChooseRandomElements rnd" for rnd
  by unfold_locales (simp_all add: ChooseRandomElements_def length_std_sample subseq_std_sample)

lemma strict_weak_scored_greater: "strict_weak scored_greater"
  by (auto simp: strict_weak_def scored_greater_def split: if_splits)

interpretation ads_sort: std_sorted scored_greater "sort_by scored_greater"
  by (rule std_sorted_sort_by [OF strict_weak_scored_greater])

subsection \<open>Dropping ads\<close>

definition updated :: "reactor \<Rightarrow> ScoredAdData \<Rightarrow> ScoredAdData" where
  "updated s ad = ad\<lparr>sad_ad_score := CheckAndUpdateModifiedBid (auction_scope (cfg s))
     (buyer_bid (sad_ad_score ad)) (buyer_bid_currency (sad_ad_score ad)) (sad_ad_score ad)\<rparr>"

definition reason_of :: "reactor \<Rightarrow> ScoredAdData \<Rightarrow> AdRejectionReason option option" where
  "reason_of s ad = GetAdRejectionReason s (response_json ad) (sad_ad_score (updated s ad))"

definition rejected :: "reactor \<Rightarrow> ScoredAdData \<Rightarrow> bool" where
  "rejected s ad \<longleftrightarrow> (case reason_of s ad of
     Some (Some r) \<Rightarrow> rejection_reason r \<noteq> SELLER_REJECTION_REASON_NOT_AVAILABLE | _ \<Rightarrow> False)"

definition barred :: "reactor \<Rightarrow> ScoredAdData \<Rightarrow> bool" where
  "barred s ad \<longleftrightarrow> auction_scope (cfg s) = AUCTION_SCOPE_DEVICE_COMPONENT_MULTI_SELLER \<and>
     \<not> allow_component_auction (sad_ad_score ad)"

definition dropped :: "reactor \<Rightarrow> ScoredAdData \<Rightarrow> bool" where
  "dropped s ad \<longleftrightarrow> rejected s ad \<or> barred s ad"

lemma allow_component_auction_updated [simp]:
  "allow_component_auction (CheckAndUpdateModifiedBid scope b c ad) = allow_component_auction ad"
  by (simp add: CheckAndUpdateModifiedBid_def)

lemma GetAdRejectionReason_cong:
  "cfg s' = cfg s \<Longrightarrow> raw_request s' = raw_request s \<Longrightarrow>
   GetAdRejectionReason s' answer ad = GetAdRejectionReason s answer ad"
  by (simp add: GetAdRejectionReason_def)

text \<open>One round of the loop.\<close>

definition record_score :: "ScoredAdData \<Rightarrow> reactor \<Rightarrow> reactor" where
  "record_score ad s = s\<lparr>ad_scores := emplace_list (sad_id ad) (sad_ad_score ad) (ad_scores s)\<rparr>"

definition add_rejection :: "AdRejectionReason \<Rightarrow> ScoringData \<Rightarrow> ScoringData" where
  "add_rejection r d = d\<lparr>seller_rejected_bid_count := seller_rejected_bid_count d + 1,
     sd_ad_rejection_reasons := sd_ad_rejection_reasons d @ [r]\<rparr>"

lemma FilterAds_loop_step:
  "FilterAds_loop s d ads index n_left =
     (if index < n_left then
        (let ad = ads ! index; s1 = record_score ad s; ads1 = ads[index := updated s ad] in
         case reason_of s ad of
           None \<Rightarrow> None
         | Some reason \<Rightarrow>
             if rejected s ad
             then FilterAds_loop s1 (add_rejection (the reason) d) (swap index (n_left - 1) ads1) index (n_left - 1)
             else if barred s ad
             then FilterAds_loop s1 d (swap index (n_left - 1) ads1) index (n_left - 1)
             else FilterAds_loop s1 d ads1 (Suc index) n_left)
      else Some (s, d, take n_left ads))"
proof (cases "reason_of s (ads ! index)")
  case None
  then show ?thesis
    by (subst FilterAds_loop.simps)
      (simp add: Let_def reason_of_def updated_def GetAdRejectionReason_cong [of "s\<lparr>ad_scores := x\<rparr>" s for x])
next
  case (Some reason)
  then show ?thesis
    by (subst FilterAds_loop.simps)
      (simp add: Let_def reason_of_def updated_def GetAdRejectionReason_cong [of "s\<lparr>ad_scores := x\<rparr>" s for x]
        rejected_def barred_def record_score_def add_rejection_def split: option.split)
qed

lemma after_record_score [simp]:
  "updated (record_score ad s) = updated s" "reason_of (record_score ad s) = reason_of s"
  "rejected (record_score ad s) = rejected s" "barred (record_score ad s) = barred s"
  "dropped (record_score ad s) = dropped s"
proof -
  show u: "updated (record_score ad s) = updated s" by (simp add: fun_eq_iff updated_def record_score_def)
  show r: "reason_of (record_score ad s) = reason_of s"
    unfolding fun_eq_iff reason_of_def u
    by (intro allI GetAdRejectionReason_cong) (simp_all add: record_score_def)
  show j: "rejected (record_score ad s) = rejected s" by (simp add: fun_eq_iff rejected_def r)
  show b: "barred (record_score ad s) = barred s" by (simp add: fun_eq_iff barred_def record_score_def)
  show "dropped (record_score ad s) = dropped s" by (simp add: fun_eq_iff dropped_def j b)
qed

text \<open>The ads still to be looked at.\<close>

definition middle :: "nat \<Rightarrow> nat \<Rightarrow> 'a list \<Rightarrow> 'a list" where
  "middle index n_left ads = take (n_left - index) (drop index ads)"

lemma middle_Cons:
  "index < n_left \<Longrightarrow> n_left \<le> length ads \<Longrightarrow>
   middle index n_left ads = ads ! index # middle (Suc index) n_left ads"
  by (simp add: middle_def Cons_nth_drop_Suc [symmetric] Suc_diff_Suc [symmetric])


lemma middle_empty [simp]: "middle n n ads = []"
  by (simp add: middle_def)

lemma middle_snoc:
  "index < n_left \<Longrightarrow> n_left \<le> length ads \<Longrightarrow>
   middle index n_left ads = middle index (n_left - 1) ads @ [ads ! (n_left - 1)]"
proof -
  assume a: "index < n_left" "n_left \<le> length ads"
  then obtain k where k: "n_left = Suc k" by (cases n_left) auto
  with a have "Suc k - index = Suc (k - index)" "index \<le> k" "k < length ads" by auto
  with k show ?thesis by (simp add: middle_def take_Suc_conv_app_nth)
qed

lemma middle_cong:
  "length xs = length ys \<Longrightarrow> \<forall>i. index \<le> i \<and> i < n_left \<longrightarrow> xs ! i = ys ! i \<Longrightarrow>
   middle index n_left xs = middle index n_left ys"
  by (rule nth_equalityI) (auto simp: middle_def)

text \<open>Dropping: the ad at \<open>index\<close> leaves the range, whatever it was updated to.\<close>

lemma middle_swap:
  assumes "index < n_left" and "n_left \<le> length ads"
  shows "mset (middle index (n_left - 1) (swap index (n_left - 1) (ads[index := x]))) =
      mset (middle (Suc index) n_left ads)"
proof (cases "index = n_left - 1")
  case True
  with assms show ?thesis by (simp add: middle_def)
next
  case False
  let ?ads2 = "swap index (n_left - 1) (ads[index := x])"
  have len: "length ?ads2 = length ads" by (simp add: swap_def)
  have "middle index (n_left - 1) ?ads2 = ?ads2 ! index # middle (Suc index) (n_left - 1) ?ads2"
    using assms False len by (intro middle_Cons) auto
  moreover have "?ads2 ! index = ads ! (n_left - 1)"
    using assms False by (simp add: swap_def)
  moreover have "middle (Suc index) (n_left - 1) ?ads2 = middle (Suc index) (n_left - 1) ads"
    by (rule middle_cong) (auto simp: swap_def)
  moreover have "middle (Suc index) n_left ads = middle (Suc index) (n_left - 1) ads @ [ads ! (n_left - 1)]"
    using assms False by (intro middle_snoc) auto
  ultimately show ?thesis by simp
qed

lemma take_swap: "index < n_left \<Longrightarrow> take index (swap index (n_left - 1) (ads[index := x])) = take index ads"
  by (simp add: swap_def)

lemma length_swap [simp]: "length (swap i j xs) = length xs"
  by (simp add: swap_def)

text \<open>What the loop does with the ads still to be looked at.\<close>

definition rejections :: "reactor \<Rightarrow> ScoredAdData multiset \<Rightarrow> AdRejectionReason multiset" where
  "rejections s ads = image_mset (\<lambda>ad. the (the (reason_of s ad))) (filter_mset (rejected s) ads)"

definition filter_post ::
    "reactor \<Rightarrow> ScoringData \<Rightarrow> ScoredAdData list \<Rightarrow> ScoredAdData multiset \<Rightarrow>
     reactor \<Rightarrow> ScoringData \<Rightarrow> ScoredAdData list \<Rightarrow> bool" where
  "filter_post s d done_ads todo s' d' kept \<longleftrightarrow>
     mset kept = mset done_ads + image_mset (updated s) (filter_mset (\<lambda>ad. \<not> dropped s ad) todo) \<and>
     mset (sd_ad_rejection_reasons d') = mset (sd_ad_rejection_reasons d) + rejections s todo \<and>
     seller_rejected_bid_count d' = seller_rejected_bid_count d + size (filter_mset (rejected s) todo) \<and>
     (\<exists>n rs. d' = d\<lparr>seller_rejected_bid_count := n, sd_ad_rejection_reasons := rs\<rparr>) \<and>
     (\<exists>m. s' = s\<lparr>ad_scores := m\<rparr>) \<and>
     fst ` set (ad_scores s') = fst ` set (ad_scores s) \<union> sad_id ` set_mset todo"

lemma record_score_ad_scores [simp]:
  "ad_scores (record_score ad s) = emplace_list (sad_id ad) (sad_ad_score ad) (ad_scores s)"
  by (simp add: record_score_def)

lemma record_score_frame: "\<exists>m. record_score ad s = s\<lparr>ad_scores := m\<rparr>"
  by (auto simp: record_score_def)

lemma rejections_cong [simp]: "rejections (record_score ad s) = rejections s"
  by (simp add: fun_eq_iff rejections_def)

lemma filter_post_reject:
  assumes "filter_post (record_score ad s) (add_rejection r d) done_ads todo s' d' kept"
    and "rejected s ad" and "reason_of s ad = Some (Some r)"
  shows "filter_post s d done_ads (add_mset ad todo) s' d' kept"
proof -
  from assms(1) obtain m where "s' = (record_score ad s)\<lparr>ad_scores := m\<rparr>" by (auto simp: filter_post_def)
  then have "\<exists>m. s' = s\<lparr>ad_scores := m\<rparr>" by (auto simp: record_score_def)
  with assms show ?thesis
    by (auto simp: filter_post_def dropped_def rejections_def add_rejection_def)
qed

lemma filter_post_bar:
  assumes "filter_post (record_score ad s) d done_ads todo s' d' kept"
    and "\<not> rejected s ad" and "barred s ad"
  shows "filter_post s d done_ads (add_mset ad todo) s' d' kept"
proof -
  from assms(1) obtain m where "s' = (record_score ad s)\<lparr>ad_scores := m\<rparr>" by (auto simp: filter_post_def)
  then have "\<exists>m. s' = s\<lparr>ad_scores := m\<rparr>" by (auto simp: record_score_def)
  with assms show ?thesis by (auto simp: filter_post_def dropped_def rejections_def)
qed

lemma filter_post_keep:
  assumes "filter_post (record_score ad s) d (done_ads @ [updated s ad]) todo s' d' kept"
    and "\<not> rejected s ad" and "\<not> barred s ad"
  shows "filter_post s d done_ads (add_mset ad todo) s' d' kept"
proof -
  from assms(1) obtain m where "s' = (record_score ad s)\<lparr>ad_scores := m\<rparr>" by (auto simp: filter_post_def)
  then have "\<exists>m. s' = s\<lparr>ad_scores := m\<rparr>" by (auto simp: record_score_def)
  with assms show ?thesis by (auto simp: filter_post_def dropped_def rejections_def)
qed

lemma filter_post_refl: "filter_post s d kept {#} s d kept"
proof -
  have "d = d\<lparr>seller_rejected_bid_count := seller_rejected_bid_count d,
      sd_ad_rejection_reasons := sd_ad_rejection_reasons d\<rparr>" by simp
  moreover have "s = s\<lparr>ad_scores := ad_scores s\<rparr>" by simp
  ultimately show ?thesis unfolding filter_post_def rejections_def by fastforce
qed

lemma FilterAds_loop_correct:
  assumes "index \<le> n_left" and "n_left \<le> length ads"
    and "\<forall>ad \<in> set (middle index n_left ads). reason_of s ad \<noteq> None"
  shows "\<exists>s' d' kept. FilterAds_loop s d ads index n_left = Some (s', d', kept) \<and>
    filter_post s d (take index ads) (mset (middle index n_left ads)) s' d' kept"
  using assms
proof (induction "n_left - index" arbitrary: s d ads index n_left)
  case 0
  then have "index = n_left" by simp
  then show ?case by (subst FilterAds_loop_step) (simp add: filter_post_refl)
next
  case (Suc k)
  then have lt: "index < n_left" by simp
  let ?ad = "ads ! index"
  let ?s1 = "record_score ?ad s" and ?ads1 = "ads[index := updated s ?ad]"
  let ?ads2 = "swap index (n_left - 1) ?ads1"
  have mid: "mset (middle index n_left ads) = add_mset ?ad (mset (middle (Suc index) n_left ads))"
    using middle_Cons [OF lt Suc.prems(2)] by simp
  with Suc.prems(3) obtain reason where reason: "reason_of s ?ad = Some reason"
    and rest: "\<forall>ad \<in> set (middle (Suc index) n_left ads). reason_of s ad \<noteq> None"
    using middle_Cons [OF lt Suc.prems(2)] by auto
  have swapped: "mset (middle index (n_left - 1) ?ads2) = mset (middle (Suc index) n_left ads)"
    using lt Suc.prems(2) by (rule middle_swap)
  have drop: "\<exists>s' d' kept. FilterAds_loop ?s1 d1 ?ads2 index (n_left - 1) = Some (s', d', kept) \<and>
      filter_post ?s1 d1 (take index ads) (mset (middle (Suc index) n_left ads)) s' d' kept" for d1
    using Suc.hyps(1) [of "n_left - 1" index ?ads2 ?s1 d1] Suc.hyps(2) Suc.prems(2) lt rest swapped
      take_swap [OF lt, of ads "updated s ?ad"] mset_eq_setD [OF swapped] by simp
  show ?case
  proof (cases "rejected s ?ad")
    case True
    with reason obtain r where r: "reason = Some r" by (auto simp: rejected_def split: option.splits)
    from drop [of "add_rejection r d"] obtain s' d' kept where
      run: "FilterAds_loop ?s1 (add_rejection r d) ?ads2 index (n_left - 1) = Some (s', d', kept)"
      and post: "filter_post ?s1 (add_rejection r d) (take index ads) (mset (middle (Suc index) n_left ads)) s' d' kept"
      by blast
    have "FilterAds_loop s d ads index n_left = Some (s', d', kept)"
      using lt reason True r run by (subst FilterAds_loop_step) (simp add: Let_def)
    with filter_post_reject [OF post True] reason r mid show ?thesis by simp
  next
    case not_rejected: False
    show ?thesis
    proof (cases "barred s ?ad")
      case True
      from drop [of d] obtain s' d' kept where
        run: "FilterAds_loop ?s1 d ?ads2 index (n_left - 1) = Some (s', d', kept)"
        and post: "filter_post ?s1 d (take index ads) (mset (middle (Suc index) n_left ads)) s' d' kept"
        by blast
      have "FilterAds_loop s d ads index n_left = Some (s', d', kept)"
        using lt reason not_rejected True run by (subst FilterAds_loop_step) (simp add: Let_def)
      with filter_post_bar [OF post not_rejected True] mid show ?thesis by simp
    next
      case False
      have same: "middle (Suc index) n_left ?ads1 = middle (Suc index) n_left ads"
        by (rule middle_cong) auto
      have tk: "take (Suc index) ?ads1 = take index ads @ [updated s ?ad]"
        using lt Suc.prems(2) by (simp add: take_Suc_conv_app_nth)
      have k: "k = n_left - Suc index" using Suc.hyps(2) by simp
      have "\<exists>s' d' kept. FilterAds_loop ?s1 d ?ads1 (Suc index) n_left = Some (s', d', kept) \<and>
          filter_post ?s1 d (take index ads @ [updated s ?ad]) (mset (middle (Suc index) n_left ads)) s' d' kept"
        using Suc.hyps(1) [OF k, of ?ads1 ?s1 d] Suc.prems(2) lt rest same tk by simp
      then obtain s' d' kept where
        run: "FilterAds_loop ?s1 d ?ads1 (Suc index) n_left = Some (s', d', kept)"
        and post: "filter_post ?s1 d (take index ads @ [updated s ?ad]) (mset (middle (Suc index) n_left ads)) s' d' kept"
        by blast
      have "FilterAds_loop s d ads index n_left = Some (s', d', kept)"
        using lt reason not_rejected False run by (subst FilterAds_loop_step) (simp add: Let_def)
      with filter_post_keep [OF post not_rejected False] mid show ?thesis by simp
    qed
  qed
qed

end
