(* ===== verification/ScoreAdsCandidates.thy ===== *)
theory ScoreAdsCandidates
  imports ScoreAdsWinner
begin

text \<open>
  What \<^verbatim>\<open>FindWinningAd\<close> returns: the candidates for winning and for being ghost winners, the choice
  among them, and the debug URL budget of the collected answers.
\<close>

subsection \<open>Candidates\<close>

abbreviation des :: "ScoredAdData \<Rightarrow> rat" where
  "des ad \<equiv> desirability (sad_ad_score ad)"

text \<open>The ads that compete for winning, and those that compete for being ghost winners.\<close>

definition contender :: "ScoredAdData \<Rightarrow> bool" where
  "contender ad \<longleftrightarrow> sad_k_anon_status ad \<and> des ad > 0"

definition ghost_contender :: "ScoredAdData \<Rightarrow> bool" where
  "ghost_contender ad \<longleftrightarrow> \<not> sad_k_anon_status ad \<and> des ad > 0"

definition without_debug_urls :: "ScoredAdData \<Rightarrow> ScoredAdData" where
  "without_debug_urls ad = ad\<lparr>sad_ad_score := (sad_ad_score ad)\<lparr>debug_report_urls := None\<rparr>\<rparr>"

lemma without_debug_urls_simps [simp]:
  "des (without_debug_urls ad) = des ad"
  "buyer_bid (sad_ad_score (without_debug_urls ad)) = buyer_bid (sad_ad_score ad)"
  "sad_k_anon_status (without_debug_urls ad) = sad_k_anon_status ad"
  "sad_id (without_debug_urls ad) = sad_id ad"
  "without_debug_urls (without_debug_urls ad) = without_debug_urls ad"
  by (simp_all add: without_debug_urls_def)

text \<open>
  \<open>is\<close> are indices below \<open>k\<close> in ascending order, the first one with the property \<open>P\<close> and further ones
  with the same value.
\<close>

definition firsts :: "(nat \<Rightarrow> bool) \<Rightarrow> nat \<Rightarrow> (nat \<Rightarrow> rat) \<Rightarrow> nat list \<Rightarrow> bool" where
  "firsts P k f is \<longleftrightarrow> (\<forall>i \<in> set is. i < k \<and> P i) \<and> (\<exists>c. f ` set is \<subseteq> {c}) \<and> sorted_wrt (<) is \<and>
     (\<forall>j < k. P j \<longrightarrow> is \<noteq> [] \<and> hd is \<le> j)"

lemma firsts_Nil: "firsts P 0 f []"
  by (simp add: firsts_def)

lemma firsts_skip: "firsts P k f is \<Longrightarrow> \<not> P k \<or> is \<noteq> [] \<Longrightarrow> firsts P (Suc k) f is"
  unfolding firsts_def by (auto simp: less_Suc_eq dest: hd_in_set intro: less_imp_le)

lemma firsts_add:
  assumes "firsts P k f is" and "P k" and "is = [] \<or> f (last is) = f k"
  shows "firsts P (Suc k) f (is @ [k])"
proof (cases "is = []")
  case True
  with assms(1,2) show ?thesis by (auto simp: firsts_def less_Suc_eq)
next
  case False
  from assms(1) obtain c where c: "f ` set is \<subseteq> {c}" by (auto simp: firsts_def)
  with False assms(3) have "f k = c" using last_in_set by fastforce
  with c have "f ` set (is @ [k]) \<subseteq> {c}" by auto
  moreover have "hd is \<le> k" using assms(1) False by (auto simp: firsts_def intro: less_imp_le)
  ultimately show ?thesis using assms(1,2) False
    unfolding firsts_def by (intro conjI) (auto simp: less_Suc_eq sorted_wrt_append)
qed

lemma truncate_eq: "0 < d \<Longrightarrow> d \<le> c \<Longrightarrow> c = of_int (truncate_to_int d) \<Longrightarrow> c = d"
  using of_int_floor_le [of d] by (simp add: truncate_to_int_def)

lemma AddIfCands_firsts:
  assumes "firsts P k f cands" and "P k" and "\<forall>i \<in> set cands. des (ads ! i) = f i \<and> f k \<le> f i"
    and "d = f k" and "0 < d"
  shows "firsts P (Suc k) f (AddIfCandsEmptyOrHasEqLastDesirability k (truncate_to_int d) ads cands)"
proof (cases "cands = [] \<or> des (ads ! last cands) = of_int (truncate_to_int d)")
  case False
  then show ?thesis
    using firsts_skip [OF assms(1)] by (simp add: AddIfCandsEmptyOrHasEqLastDesirability_def)
next
  case True
  have "cands = [] \<or> f (last cands) = f k"
  proof (cases "cands = []")
    case False
    with assms(3) have "des (ads ! last cands) = f (last cands)" "f k \<le> f (last cands)" by auto
    with True False truncate_eq [OF assms(5)] assms(4) show ?thesis by simp
  qed simp
  from firsts_add [OF assms(1,2) this] True show ?thesis
    by (simp add: AddIfCandsEmptyOrHasEqLastDesirability_def)
qed


text \<open>
  After \<open>k\<close> rounds, the debug URLs of the ghost contenders before the first contender are cleared.
\<close>

definition ghost_place :: "ScoredAdData list \<Rightarrow> nat \<Rightarrow> bool" where
  "ghost_place xs i \<longleftrightarrow> ghost_contender (xs ! i) \<and> (\<forall>j < i. \<not> contender (xs ! j))"

definition marked :: "ScoredAdData list \<Rightarrow> nat \<Rightarrow> ScoredAdData list" where
  "marked xs k = map (\<lambda>i. if i < k \<and> ghost_place xs i then without_debug_urls (xs ! i) else xs ! i)
     [0..<length xs]"

lemma length_marked [simp]: "length (marked xs k) = length xs"
  by (simp add: marked_def)

lemma marked_0 [simp]: "marked xs 0 = xs"
  by (simp add: marked_def map_nth)

lemma marked_nth:
  "i < length xs \<Longrightarrow>
   marked xs k ! i = (if i < k \<and> ghost_place xs i then without_debug_urls (xs ! i) else xs ! i)"
  by (simp add: marked_def)

lemma marked_fields:
  assumes "i < length xs"
  shows "des (marked xs k ! i) = des (xs ! i)"
    and "sad_k_anon_status (marked xs k ! i) = sad_k_anon_status (xs ! i)"
    and "sad_id (marked xs k ! i) = sad_id (xs ! i)"
  using assms by (simp_all add: marked_nth)

lemma marked_Suc:
  assumes "k < length xs"
  shows "marked xs (Suc k) = (if ghost_place xs k then (marked xs k)[k := without_debug_urls (xs ! k)] else marked xs k)"
  using assms by (auto intro!: nth_equalityI simp: marked_nth nth_list_update less_Suc_eq)

definition descending :: "ScoredAdData list \<Rightarrow> bool" where
  "descending xs \<longleftrightarrow> (\<forall>i j. i \<le> j \<and> j < length xs \<longrightarrow> des (xs ! j) \<le> des (xs ! i))"

definition cand_inv :: "ScoredAdData list \<Rightarrow> nat \<Rightarrow> ScoredAdData list \<times> nat list \<times> nat list \<Rightarrow> bool" where
  "cand_inv xs k st \<longleftrightarrow> (case st of (ads, winners, ghosts) \<Rightarrow>
     ads = marked xs k \<and>
     firsts (\<lambda>i. contender (xs ! i)) k (\<lambda>i. des (xs ! i)) winners \<and>
     firsts (ghost_place xs) k (\<lambda>i. des (xs ! i)) ghosts)"

lemma firsts_bounds:
  assumes "descending xs" and "firsts P k (\<lambda>i. des (xs ! i)) cands" and "k < length xs"
  shows "\<forall>i \<in> set cands. des (marked xs k' ! i) = des (xs ! i) \<and> des (xs ! k) \<le> des (xs ! i)"
proof
  fix i assume "i \<in> set cands"
  with assms(2) have "i < k" by (auto simp: firsts_def)
  with assms(1,3) show "des (marked xs k' ! i) = des (xs ! i) \<and> des (xs ! k) \<le> des (xs ! i)"
    by (auto simp: marked_fields descending_def)
qed

lemma firsts_Nil_iff: "firsts P k f is \<Longrightarrow> is = [] \<longleftrightarrow> (\<forall>j < k. \<not> P j)"
  unfolding firsts_def by (cases "is") auto

lemma cand_inv_step:
  assumes inv: "cand_inv xs k (ads, winners, ghosts)" and k: "k < length xs" and desc: "descending xs"
  shows "cand_inv xs (Suc k) (cand_step k (ads, winners, ghosts))"
proof -
  let ?f = "\<lambda>i. des (xs ! i)"
  from inv have ads: "ads = marked xs k" and w: "firsts (\<lambda>i. contender (xs ! i)) k ?f winners"
    and g: "firsts (ghost_place xs) k ?f ghosts" by (simp_all add: cand_inv_def)
  have adk: "ads ! k = xs ! k" using k by (simp add: ads marked_nth)
  have none: "winners = [] \<longleftrightarrow> (\<forall>j < k. \<not> contender (xs ! j))" by (rule firsts_Nil_iff [OF w])
  consider (skip) "\<not> contender (xs ! k)" "\<not> ghost_place xs k"
    | (win) "contender (xs ! k)" | (ghost) "ghost_place xs k" by blast
  then show ?thesis
  proof cases
    case skip
    then have "cand_step k (ads, winners, ghosts) = (ads, winners, ghosts)"
      using adk none by (auto simp: cand_step_def contender_def ghost_contender_def ghost_place_def Let_def)
    with skip show ?thesis using k firsts_skip [OF w] firsts_skip [OF g]
      by (simp add: cand_inv_def ads marked_Suc)
  next
    case win
    then have no_ghost: "\<not> ghost_place xs k" by (simp add: contender_def ghost_contender_def ghost_place_def)
    have "firsts (\<lambda>i. contender (xs ! i)) (Suc k) ?f
        (AddIfCandsEmptyOrHasEqLastDesirability k (truncate_to_int (des (xs ! k))) ads winners)"
      using w win firsts_bounds [OF desc w k, of k]
      by (intro AddIfCands_firsts) (simp_all add: ads contender_def)
    with win no_ghost adk k firsts_skip [OF g] show ?thesis
      by (simp add: cand_inv_def cand_step_def ads marked_Suc Let_def contender_def)
  next
    case ghost
    then have no_win: "\<not> contender (xs ! k)" by (simp add: contender_def ghost_contender_def ghost_place_def)
    have ads1: "ads[k := (xs ! k)\<lparr>sad_ad_score := (sad_ad_score (xs ! k))\<lparr>debug_report_urls := None\<rparr>\<rparr>] = marked xs (Suc k)"
      using ghost k by (simp add: ads marked_Suc without_debug_urls_def)
    have "firsts (ghost_place xs) (Suc k) ?f
        (AddIfCandsEmptyOrHasEqLastDesirability k (truncate_to_int (des (xs ! k))) (marked xs (Suc k)) ghosts)"
      using g ghost firsts_bounds [OF desc g k, of "Suc k"]
      by (intro AddIfCands_firsts) (simp_all add: ghost_place_def ghost_contender_def)
    with ghost no_win adk none ads1 firsts_skip [OF w] show ?thesis
      by (simp add: cand_inv_def cand_step_def Let_def ghost_place_def ghost_contender_def)
  qed
qed

lemma cand_inv_fold:
  assumes "descending xs" and "k \<le> length xs"
  shows "cand_inv xs k (fold cand_step [0..<k] (xs, [], []))"
  using assms(2)
proof (induction k)
  case 0
  show ?case by (simp add: cand_inv_def firsts_Nil)
next
  case (Suc k)
  obtain ads winners ghosts where st: "fold cand_step [0..<k] (xs, [], []) = (ads, winners, ghosts)"
    by (cases "fold cand_step [0..<k] (xs, [], [])")
  with Suc have "cand_inv xs k (ads, winners, ghosts)" by simp
  from cand_inv_step [OF this _ assms(1)] Suc.prems st show ?case by simp
qed

subsection \<open>The choice\<close>

lemma ChooseWinner_index:
  "winner_index (ChooseWinnerAndGhostWinners rw rg n d) =
     (if winner_cand_indices d \<noteq> [] then int (ChooseRandomElements rw (winner_cand_indices d) 1 ! 0)
      else winner_index d)"
  by (simp add: ChooseWinnerAndGhostWinners_def Let_def)

lemma ChooseWinner_in_cands:
  assumes "winner_cand_indices d \<noteq> []"
  shows "\<exists>i \<in> set (winner_cand_indices d). winner_index (ChooseWinnerAndGhostWinners rw rg n d) = int i"
proof -
  from sample.pick_one [OF assms] obtain i where
    "ChooseRandomElements rw (winner_cand_indices d) 1 = [i]" "i \<in> set (winner_cand_indices d)" by blast
  with assms show ?thesis by (simp add: ChooseWinner_index)
qed

lemma ChooseGhosts:
  assumes "ghost_winner_indices d = []"
  shows "length (ghost_winner_indices (ChooseWinnerAndGhostWinners rw rg n d)) =
      min n (length (ghost_winner_cand_indices d))"
    and "set (ghost_winner_indices (ChooseWinnerAndGhostWinners rw rg n d)) \<subseteq> set (ghost_winner_cand_indices d)"
    and "distinct (ghost_winner_cand_indices d) \<Longrightarrow>
      distinct (ghost_winner_indices (ChooseWinnerAndGhostWinners rw rg n d))"
  using assms sample.pick_length [of rg "ghost_winner_cand_indices d"] sample.pick_set [of rg "ghost_winner_cand_indices d"]
    sample.pick_distinct [of "ghost_winner_cand_indices d" rg]
  by (auto simp: ChooseWinnerAndGhostWinners_def Let_def)

lemma ChooseWinner_frame:
  "winner_cand_indices (ChooseWinnerAndGhostWinners rw rg n d) = winner_cand_indices d"
  "ghost_winner_cand_indices (ChooseWinnerAndGhostWinners rw rg n d) = ghost_winner_cand_indices d"
  "sd_ad_rejection_reasons (ChooseWinnerAndGhostWinners rw rg n d) = sd_ad_rejection_reasons d"
  "seller_rejected_bid_count (ChooseWinnerAndGhostWinners rw rg n d) = seller_rejected_bid_count d"
  by (simp_all add: ChooseWinnerAndGhostWinners_def Let_def)

lemma updated_fields [simp]:
  "des (updated s ad) = des ad" "buyer_bid (sad_ad_score (updated s ad)) = buyer_bid (sad_ad_score ad)"
  "sad_k_anon_status (updated s ad) = sad_k_anon_status ad" "sad_id (updated s ad) = sad_id ad"
  "contender (updated s ad) = contender ad" "ghost_contender (updated s ad) = ghost_contender ad"
  by (simp_all add: updated_def CheckAndUpdateModifiedBid_def contender_def ghost_contender_def)

text \<open>
  \<open>ranked s ads xs\<close>: \<open>xs\<close> holds the ads that are not dropped, updated, best first.
\<close>

definition ranked :: "reactor \<Rightarrow> ScoredAdData list \<Rightarrow> ScoredAdData list \<Rightarrow> bool" where
  "ranked s parsed_ads xs \<longleftrightarrow>
     mset xs = image_mset (updated s) (filter_mset (\<lambda>ad. \<not> dropped s ad) (mset parsed_ads)) \<and> descending xs"

lemma ranked_nth:
  assumes "ranked s parsed_ads xs" and "i < length xs"
  shows "\<exists>p \<in> set parsed_ads. \<not> dropped s p \<and> xs ! i = updated s p"
proof -
  from assms(2) have "xs ! i \<in># mset xs" by simp
  with assms(1) show ?thesis by (auto simp: ranked_def)
qed

lemma ranked_index:
  assumes "ranked s parsed_ads xs" and "p \<in> set parsed_ads" and "\<not> dropped s p"
  shows "\<exists>i < length xs. xs ! i = updated s p"
proof -
  from assms have "updated s p \<in># mset xs" by (simp add: ranked_def)
  then show ?thesis by (metis in_set_conv_nth set_mset_mset)
qed

lemma sorted_descending:
  assumes "std_sorted scored_greater srt"
  shows "descending (srt xs)"
  unfolding descending_def
proof (intro allI impI)
  fix i j assume a: "i \<le> j \<and> j < length (srt xs)"
  show "des (srt xs ! j) \<le> des (srt xs ! i)"
  proof (cases "i = j")
    case False
    with a have "\<not> scored_greater (srt xs ! j) (srt xs ! i)"
      using std_sorted.ordered_nth [OF assms, of i j xs] std_sorted.length_sorted [OF assms, of xs] by simp
    then show ?thesis by (simp add: scored_greater_def split: if_splits)
  qed simp
qed

lemma FindWinningAd_result:
  assumes srt: "std_sorted scored_greater srt"
    and "\<forall>ad \<in> set parsed_ads. reason_of s ad \<noteq> None"
  obtains d ads s' xs where "FindWinningAd srt rw rg parsed_ads s = Some (d, ads, s')"
    and "ranked s parsed_ads xs" and "ads = marked xs (length xs)"
    and "firsts (\<lambda>i. contender (xs ! i)) (length xs) (\<lambda>i. des (xs ! i)) (winner_cand_indices d)"
    and "firsts (ghost_place xs) (length xs) (\<lambda>i. des (xs ! i)) (ghost_winner_cand_indices d)"
    and "winner_cand_indices d = [] \<Longrightarrow> winner_index d = -1"
    and "winner_cand_indices d \<noteq> [] \<Longrightarrow> \<exists>i \<in> set (winner_cand_indices d). winner_index d = int i"
    and "length (ghost_winner_indices d) =
      min (to_size_t (num_allowed_ghost_winners (raw_request s))) (length (ghost_winner_cand_indices d))"
    and "set (ghost_winner_indices d) \<subseteq> set (ghost_winner_cand_indices d)"
    and "distinct (ghost_winner_cand_indices d) \<Longrightarrow> distinct (ghost_winner_indices d)"
    and "mset (sd_ad_rejection_reasons d) = rejections s (mset parsed_ads)"
    and "seller_rejected_bid_count d = size (filter_mset (rejected s) (mset parsed_ads))"
    and "\<exists>m. s' = s\<lparr>ad_scores := m\<rparr>"
    and "fst ` set (ad_scores s') = fst ` set (ad_scores s) \<union> sad_id ` set parsed_ads"
    and "score_ad_map d = score_map ads (ghost_winner_cand_indices d)"
proof -
  have "middle 0 (length parsed_ads) parsed_ads = parsed_ads" by (simp add: middle_def)
  with FilterAds_loop_correct [of 0 "length parsed_ads" parsed_ads s initial_ScoringData] assms(2)
  obtain s1 d1 kept where run: "FilterAds_loop s initial_ScoringData parsed_ads 0 (length parsed_ads) = Some (s1, d1, kept)"
    and post: "filter_post s initial_ScoringData [] (mset parsed_ads) s1 d1 kept" by auto
  let ?xs = "srt kept"
  obtain ads winners ghosts where st: "fold cand_step [0..<length ?xs] (?xs, [], []) = (ads, winners, ghosts)"
    by (cases "fold cand_step [0..<length ?xs] (?xs, [], [])")
  from srt have "mset ?xs = mset kept" by (simp add: std_sorted_def)
  with post sorted_descending [OF srt] have ranked: "ranked s parsed_ads ?xs"
    by (simp add: ranked_def filter_post_def)
  then have inv: "cand_inv ?xs (length ?xs) (ads, winners, ghosts)"
    using cand_inv_fold [of ?xs "length ?xs"] st by (simp add: ranked_def)
  from post obtain m where s1: "s1 = s\<lparr>ad_scores := m\<rparr>" by (auto simp: filter_post_def)
  from post obtain n rs where d1: "d1 = initial_ScoringData\<lparr>seller_rejected_bid_count := n, sd_ad_rejection_reasons := rs\<rparr>"
    by (auto simp: filter_post_def)
  from post have rej: "mset (sd_ad_rejection_reasons d1) = rejections s (mset parsed_ads)"
    and count: "seller_rejected_bid_count d1 = size (filter_mset (rejected s) (mset parsed_ads))"
    and scores: "fst ` set (ad_scores s1) = fst ` set (ad_scores s) \<union> sad_id ` set_mset (mset parsed_ads)"
    unfolding filter_post_def by (simp_all add: initial_ScoringData_def)
  let ?c = "d1\<lparr>winner_cand_indices := winners, ghost_winner_cand_indices := ghosts\<rparr>"
  let ?n = "to_size_t (num_allowed_ghost_winners (raw_request s))"
  let ?d = "ChooseWinnerAndGhostWinners rw rg ?n ?c\<lparr>score_ad_map := score_map ads ghosts\<rparr>"
  have f: "FindWinningAd srt rw rg parsed_ads s = Some (?d, ads, s1)"
    by (simp add: FindWinningAd_def run st s1)
  have cands: "winner_cand_indices ?d = winners" "ghost_winner_cand_indices ?d = ghosts"
    by (simp_all add: ChooseWinner_frame)
  show thesis
  proof (rule that [OF f ranked])
    show "winner_cand_indices ?d = [] \<Longrightarrow> winner_index ?d = -1"
      by (simp only: cands) (simp add: ChooseWinner_index d1 initial_ScoringData_def)
    show "winner_cand_indices ?d \<noteq> [] \<Longrightarrow> \<exists>i \<in> set (winner_cand_indices ?d). winner_index ?d = int i"
      using ChooseWinner_in_cands [of ?c rw rg ?n] by (simp only: cands) simp
    show "length (ghost_winner_indices ?d) = min ?n (length (ghost_winner_cand_indices ?d))"
      "set (ghost_winner_indices ?d) \<subseteq> set (ghost_winner_cand_indices ?d)"
      "distinct (ghost_winner_cand_indices ?d) \<Longrightarrow> distinct (ghost_winner_indices ?d)"
      using ChooseGhosts [of ?c rw rg ?n] by (simp_all add: ChooseWinner_frame d1 initial_ScoringData_def)
    show "ads = marked ?xs (length ?xs)"
      and "firsts (\<lambda>i. contender (?xs ! i)) (length ?xs) (\<lambda>i. des (?xs ! i)) (winner_cand_indices ?d)"
      and "firsts (ghost_place ?xs) (length ?xs) (\<lambda>i. des (?xs ! i)) (ghost_winner_cand_indices ?d)"
      using inv unfolding cands cand_inv_def by simp_all
    show "mset (sd_ad_rejection_reasons ?d) = rejections s (mset parsed_ads)"
      using rej by (simp add: ChooseWinner_frame)
    show "seller_rejected_bid_count ?d = size (filter_mset (rejected s) (mset parsed_ads))"
      using count by (simp add: ChooseWinner_frame)
    show "\<exists>m. s1 = s\<lparr>ad_scores := m\<rparr>" using s1 by blast
    show "fst ` set (ad_scores s1) = fst ` set (ad_scores s) \<union> sad_id ` set parsed_ads"
      using scores by simp
    show "score_ad_map ?d = score_map ads (ghost_winner_cand_indices ?d)"
      by (simp add: ChooseWinner_frame)
  qed
qed

lemma firsts_best:
  assumes "firsts P k f is" and "i \<in> set is" and "j < k" and "P j"
    and "\<And>i j. i \<le> j \<Longrightarrow> j < k \<Longrightarrow> f j \<le> f i"
  shows "f j \<le> f i"
proof -
  from assms(1) obtain c where c: "f ` set is \<subseteq> {c}" by (auto simp: firsts_def)
  from assms(2) have "hd is \<in> set is" by (cases "is") auto
  with c assms(2) have "f (hd is) = f i" by auto
  moreover have "hd is \<le> j" using assms(1,3,4) by (auto simp: firsts_def)
  ultimately show ?thesis using assms(5) [of "hd is" j] assms(3) by simp
qed

lemma firsts_below: "firsts P k f is \<Longrightarrow> i \<in> set is \<Longrightarrow> i < k \<and> P i"
  by (simp add: firsts_def)

lemma firsts_distinct: "firsts P k f is \<Longrightarrow> distinct is"
  using strict_sorted_iff by (auto simp: firsts_def)




text \<open>Of two ads with the same desirability that may win, the second becomes a candidate only when the
  desirability is an integer: it is compared after a conversion to \<^verbatim>\<open>int\<close>.
\<close>

theorem fractional_desirability_no_tie:
  assumes "contender a" and "contender b" and "des b = des a"
  shows "fold cand_step [0..<2] ([a, b], [], []) =
    ([a, b], if des a = of_int (truncate_to_int (des a)) then [0, 1] else [0], [])"
proof -
  have r: "[0..<2] = [0, 1 :: nat]" by (simp add: upt_rec)
  from assms show ?thesis
    by (simp add: r cand_step_def AddIfCandsEmptyOrHasEqLastDesirability_def contender_def Let_def)
qed

subsection \<open>Instances\<close>

definition sample_scored :: "string \<Rightarrow> rat \<Rightarrow> bool \<Rightarrow> ScoredAdData" where
  "sample_scored i d k = \<lparr>sad_ad_score = default_AdScore\<lparr>desirability := d\<rparr>, response_json = JDouble d,
     protected_audience_ad_with_bid = Some default_AdWithBidMetadata,
     protected_app_signals_ad_with_bid = None, sad_id = i, sad_k_anon_status = k\<rparr>"

definition sample_reactor :: reactor where
  "sample_reactor = ScoreAdsReactor_new sample_rc sample_request False"

lemma reason_of_sample: "reason_of s (sample_scored i d k) \<noteq> None"
  by (simp add: reason_of_def sample_scored_def GetAdRejectionReason_def IsNumber_def)




theorem fractional_desirability_no_tie_witness:
  "fold cand_step [0..<2] ([sample_scored ''1'' (3 / 2) True, sample_scored ''2'' (3 / 2) True], [], []) =
     ([sample_scored ''1'' (3 / 2) True, sample_scored ''2'' (3 / 2) True], [0], [])"
proof -
  have "\<lfloor>3 / 2 :: rat\<rfloor> = 1" by (rule floor_unique) simp_all
  with fractional_desirability_no_tie [of "sample_scored ''1'' (3 / 2) True" "sample_scored ''2'' (3 / 2) True"]
  show ?thesis by (simp add: contender_def sample_scored_def truncate_to_int_def)
qed

end
