(* ===== verification/PrivateAggregation.thy ===== *)
theory PrivateAggregation
  imports AuctionTypes
begin

text \<open>
  Private aggregation in the auction service: the contributions an ad's code returns are parsed
  (\<^verbatim>\<open>private_aggregation_manager.cc\<close>) and their buckets and values computed from the outcome of the
  auction (\<^verbatim>\<open>private_aggregation_post_auction_util.cc\<close>). Buckets are 128 bits wide. \<open>None\<close> is undefined
  behaviour: a violated assertion of the JSON library, a list index or a conversion out of range,
  signed overflow, or a value that was never set.
\<close>

subsection \<open>Computing buckets and values\<close>

record BaseValues =
  bv_winning_bid :: "rat option"  \<comment> \<open>\<open>None\<close>: not initialised, as below\<close>
  bv_highest_scoring_other_bid :: "rat option"
  bv_reject_reason :: "SellerRejectionReason option"

text \<open>The base value of a bucket or value as a number.\<close>

definition base_value_number :: "BaseValues \<Rightarrow> BaseValue \<Rightarrow> rat result" where
  "base_value_number bv b =
     (case b of
        BASE_VALUE_WINNING_BID \<Rightarrow> map_option Inr (bv_winning_bid bv)
      | BASE_VALUE_HIGHEST_SCORING_OTHER_BID \<Rightarrow> map_option Inr (bv_highest_scoring_other_bid bv)
      | BASE_VALUE_BID_REJECTION_REASON \<Rightarrow>
          (case bv_reject_reason bv of
             None \<Rightarrow> Some (Inl InvalidArgument)
           | Some r \<Rightarrow> Some (Inr (of_int (rejection_reason_number r))))
      | _ \<Rightarrow> Some (Inl InvalidArgument))"

definition MakeUint128 :: "64 word \<Rightarrow> 64 word \<Rightarrow> 128 word" where
  "MakeUint128 high low = push_bit 64 (ucast high) + ucast low"

definition Uint128Low64 :: "128 word \<Rightarrow> 64 word" where
  "Uint128Low64 w = ucast w"

definition Uint128High64 :: "128 word \<Rightarrow> 64 word" where
  "Uint128High64 w = ucast (drop_bit 64 w)"

text \<open>Conversions of a number with a fraction; out of range they are undefined.\<close>

definition to_uint64 :: "rat \<Rightarrow> 64 word option" where
  "to_uint64 x = (let i = truncate_to_int x in if 0 \<le> i \<and> i < 2 ^ 64 then Some (of_int i) else None)"

definition GetPrivateAggregationBucketPostAuction ::
    "BaseValues \<Rightarrow> PrivateAggregationBucket \<Rightarrow> 64 word list result" where
  "GetPrivateAggregationBucketPostAuction bv bucket =
     (case bucket of
        Bucket_128_bit bits \<Rightarrow> Some (Inr bits)
      | Bucket_not_set \<Rightarrow> Some (Inl InvalidArgument)
      | Signal_bucket sb \<Rightarrow>
          assign_or_return (base_value_number bv (sb_base_value sb)) (\<lambda>b. do {
            high \<leftarrow> nth_option (bo_value (sb_offset sb)) 1;
            low \<leftarrow> nth_option (bo_value (sb_offset sb)) 0;
            scaled \<leftarrow> to_uint64 (b * sb_scale sb);
            let offset_value = MakeUint128 high low;
                final_value = MakeUint128 0 scaled
            in if is_negative (sb_offset sb) \<and> final_value < offset_value then Some (Inl InvalidArgument)
               else (let final_value' = (if is_negative (sb_offset sb) then final_value - offset_value
                                         else final_value + offset_value)
                     in Some (Inr [Uint128Low64 final_value', Uint128High64 final_value'])) }))"

definition GetPrivateAggregationValuePostAuction :: "BaseValues \<Rightarrow> PrivateAggregationValue \<Rightarrow> int result" where
  "GetPrivateAggregationValuePostAuction bv v =
     (case v of
        Int_value i \<Rightarrow> Some (Inr i)
      | Value_not_set \<Rightarrow> Some (Inl InvalidArgument)
      | Extended_value sv \<Rightarrow>
          assign_or_return (base_value_number bv (sv_base_value sv)) (\<lambda>b. do {
            final_value \<leftarrow> int32_or_undefined (truncate_to_int b);
            scaled \<leftarrow> int32_or_undefined (truncate_to_int (of_int final_value * sv_scale sv));
            final_value' \<leftarrow> int32_or_undefined (scaled + sv_offset sv);
            Some (Inr final_value') }))"

subsection \<open>Parsing contributions\<close>

definition ToBaseValue :: "string \<Rightarrow> BaseValue" where
  "ToBaseValue base_value_str =
     (if base_value_str = [] then BASE_VALUE_UNSPECIFIED
      else if base_value_str = ''BASE_VALUE_WINNING_BID'' then BASE_VALUE_WINNING_BID
      else if base_value_str = ''BASE_VALUE_HIGHEST_SCORING_OTHER_BID'' then BASE_VALUE_HIGHEST_SCORING_OTHER_BID
      else if base_value_str = ''BASE_VALUE_SCRIPT_RUN_TIME'' then BASE_VALUE_SCRIPT_RUN_TIME
      else if base_value_str = ''BASE_VALUE_SIGNALS_FETCH_TIME'' then BASE_VALUE_SIGNALS_FETCH_TIME
      else if base_value_str = ''BASE_VALUE_BID_REJECTION_REASON'' then BASE_VALUE_BID_REJECTION_REASON
      else BASE_VALUE_UNSPECIFIED)"

fun EventTypeToString :: "EventType \<Rightarrow> string" where
  "EventTypeToString EVENT_TYPE_WIN = ''win''"
| "EventTypeToString EVENT_TYPE_LOSS = ''loss''"
| "EventTypeToString EVENT_TYPE_ALWAYS = ''always''"
| "EventTypeToString EVENT_TYPE_CUSTOM = ''custom_events''"
| "EventTypeToString EVENT_TYPE_UNSPECIFIED = ''not-specified''"

definition ParseSignalValue :: "json \<Rightarrow> SignalValue result" where
  "ParseSignalValue j =
     assign_or_return (GetStringMember j ''base_value'' False) (\<lambda>base.
     assign_or_return (GetIntMember j ''offset'') (\<lambda>off.
     assign_or_return (GetDoubleMember j ''scale'') (\<lambda>scale.
       Some (Inr \<lparr>sv_base_value = ToBaseValue base, sv_scale = scale, sv_offset = off\<rparr>))))"

definition ParseBucketOffset :: "json \<Rightarrow> BucketOffset result" where
  "ParseBucketOffset j =
     assign_or_return (GetArrayMember j ''value'') (\<lambda>value_array.
     assign_or_return (GetBoolMember j ''is_negative'') (\<lambda>neg. do {
       low \<leftarrow> nth_option value_array 0 \<bind> GetUint64;
       high \<leftarrow> nth_option value_array 1 \<bind> GetUint64;
       Some (Inr \<lparr>bo_value = [of_int low, of_int high], is_negative = neg\<rparr>) }))"

definition ParseSignalBucket :: "json \<Rightarrow> SignalBucket result" where
  "ParseSignalBucket j = do {
     off_it \<leftarrow> FindMember j ''offset'';
     case off_it of
       None \<Rightarrow> Some (Inl InvalidArgument)
     | Some off_json \<Rightarrow>
         assign_or_return (ParseBucketOffset off_json) (\<lambda>off.
         assign_or_return (GetStringMember j ''base_value'' False) (\<lambda>base.
         assign_or_return (GetDoubleMember j ''scale'') (\<lambda>scale.
           Some (Inr \<lparr>sb_base_value = ToBaseValue base, sb_scale = scale, sb_offset = off\<rparr>)))) }"

text \<open>The value: an \<open>int_value\<close> is narrowed to 32 bits.\<close>

definition ParseContributionValue :: "BaseValues \<Rightarrow> json \<Rightarrow> int result" where
  "ParseContributionValue bv v = do {
     int_it \<leftarrow> FindMember v ''int_value'';
     case int_it \<bind> GetInt64 of
       Some i \<Rightarrow> Some (Inr (to_int32 i))
     | None \<Rightarrow> do {
         ext_it \<leftarrow> FindMember v ''extended_value'';
         case ext_it of
           None \<Rightarrow> Some (Inl InvalidArgument)
         | Some ext \<Rightarrow>
             assign_or_return (or_status (ParseSignalValue ext) InvalidArgument) (\<lambda>sv.
               GetPrivateAggregationValuePostAuction bv (Extended_value sv)) } }"

fun uint64s :: "json list \<Rightarrow> 64 word list option" where
  "uint64s [] = Some []"
| "uint64s (x # xs) = do { i \<leftarrow> GetUint64 x; ws \<leftarrow> uint64s xs; Some (of_int i # ws) }"

text \<open>An empty array of bits leaves the bucket unset.\<close>

definition ParseContributionBucket :: "BaseValues \<Rightarrow> json \<Rightarrow> 64 word list result" where
  "ParseContributionBucket bv b = do {
     signal_it \<leftarrow> FindMember b ''signal_bucket'';
     bits_it \<leftarrow> FindMember b ''bucket_128_bit'';
     assign_or_return
       (case signal_it of
          Some sj \<Rightarrow> assign_or_return (or_status (ParseSignalBucket sj) InvalidArgument)
                      (\<lambda>sb. Some (Inr (Signal_bucket sb)))
        | None \<Rightarrow>
            (case bits_it of
               Some (JObject ms) \<Rightarrow>
                 assign_or_return (or_status (GetArrayMember (JObject ms) ''bucket_128_bits'') InvalidArgument)
                   (\<lambda>bits. do {
                      ws \<leftarrow> uint64s bits;
                      Some (Inr (if ws = [] then Bucket_not_set else Bucket_128_bit ws)) })
             | _ \<Rightarrow> Some (Inl InvalidArgument)))
       (GetPrivateAggregationBucketPostAuction bv) }"

definition ParseAndProcessContribution :: "BaseValues \<Rightarrow> json \<Rightarrow> PrivateAggregateContribution result" where
  "ParseAndProcessContribution bv j = do {
     value_it \<leftarrow> FindMember j ''value'';
     case value_it of
       None \<Rightarrow> Some (Inl InvalidArgument)
     | Some v \<Rightarrow>
         assign_or_return (ParseContributionValue bv v) (\<lambda>i. do {
           bucket_it \<leftarrow> FindMember j ''bucket'';
           case bucket_it of
             None \<Rightarrow> Some (Inr \<lparr>pac_bucket = Bucket_not_set, pac_value = Int_value i,
                                pac_event = None, pac_ig_idx = 0\<rparr>)
           | Some b \<Rightarrow>
               assign_or_return (ParseContributionBucket bv b) (\<lambda>bits.
                 Some (Inr \<lparr>pac_bucket = Bucket_128_bit bits, pac_value = Int_value i,
                            pac_event = None, pac_ig_idx = 0\<rparr>)) }) }"

fun ProcessAndAppendContributionsToPaggResponse ::
    "BaseValues \<Rightarrow> json list \<Rightarrow> PrivateAggregateContribution list \<Rightarrow> PrivateAggregateContribution list option" where
  "ProcessAndAppendContributionsToPaggResponse bv [] acc = Some acc"
| "ProcessAndAppendContributionsToPaggResponse bv (x # xs) acc = do {
     c \<leftarrow> ParseAndProcessContribution bv x;
     ProcessAndAppendContributionsToPaggResponse bv xs
       (case c of Inl _ \<Rightarrow> acc | Inr contribution \<Rightarrow> acc @ [contribution]) }"

fun ProcessAndAppendEventContributionsToPaggResponse ::
    "string \<Rightarrow> BaseValues \<Rightarrow> json list \<Rightarrow> PrivateAggregateContribution list \<Rightarrow>
     PrivateAggregateContribution list option" where
  "ProcessAndAppendEventContributionsToPaggResponse name bv [] acc = Some acc"
| "ProcessAndAppendEventContributionsToPaggResponse name bv (x # xs) acc = do {
     c \<leftarrow> ParseAndProcessContribution bv x;
     ProcessAndAppendEventContributionsToPaggResponse name bv xs
       (case c of Inl _ \<Rightarrow> acc
        | Inr contribution \<Rightarrow> acc @ [contribution\<lparr>pac_event :=
            Some \<lparr>event_type = EVENT_TYPE_CUSTOM, event_name = name\<rparr>\<rparr>]) }"

fun custom_events ::
    "BaseValues \<Rightarrow> (string \<times> json) list \<Rightarrow> PrivateAggregateContribution list \<Rightarrow>
     PrivateAggregateContribution list option" where
  "custom_events bv [] acc = Some acc"
| "custom_events bv ((name, value) # ms) acc =
     (case value of
        JArray xs \<Rightarrow> ProcessAndAppendEventContributionsToPaggResponse name bv xs acc \<bind> custom_events bv ms
      | _ \<Rightarrow> custom_events bv ms acc)"

text \<open>
  The contributions for one event type, and the status. A reserved event that is not an array is
  logged, and then read as an array all the same.
\<close>

definition AppendAdEventContributionsToPaggResponse ::
    "EventType \<Rightarrow> json \<Rightarrow> BaseValues \<Rightarrow> PrivateAggregateContribution list \<Rightarrow>
     (status \<times> PrivateAggregateContribution list) option" where
  "AppendAdEventContributionsToPaggResponse event contribs bv acc =
     (if event = EVENT_TYPE_UNSPECIFIED then Some (Some InvalidArgument, acc)
      else do {
        it \<leftarrow> FindMember contribs (EventTypeToString event);
        case it of
          None \<Rightarrow> Some (Some Internal, acc)
        | Some v \<Rightarrow>
            (if event = EVENT_TYPE_CUSTOM
             then do { ms \<leftarrow> Members v; acc' \<leftarrow> custom_events bv ms acc; Some (OkStatus, acc') }
             else do {
               xs \<leftarrow> GetArray v;
               acc' \<leftarrow> ProcessAndAppendContributionsToPaggResponse bv xs acc;
               Some (OkStatus, acc') }) })"

definition HandleContribution ::
    "EventType \<Rightarrow> BaseValues \<Rightarrow> json \<Rightarrow> PrivateAggregateContribution list \<Rightarrow>
     PrivateAggregateContribution list option" where
  "HandleContribution event bv doc acc =
     map_option snd (AppendAdEventContributionsToPaggResponse event doc bv acc)"

definition GetPrivateAggregateReportingResponseForWinner ::
    "BaseValues \<Rightarrow> json \<Rightarrow> PrivateAggregateReportingResponse option" where
  "GetPrivateAggregateReportingResponseForWinner bv doc = do {
     a \<leftarrow> HandleContribution EVENT_TYPE_WIN bv doc [];
     b \<leftarrow> HandleContribution EVENT_TYPE_ALWAYS bv doc a;
     c \<leftarrow> HandleContribution EVENT_TYPE_CUSTOM bv doc b;
     Some \<lparr>contributions = c, adtech_origin = []\<rparr> }"

record PrivateAggregationHandlerMetadata =
  most_desirable_ad_score_id :: string
  md_base_values :: BaseValues
  md_ad_id :: string
  seller_origin :: "string option"

definition HandlePrivateAggregationReporting ::
    "PrivateAggregationHandlerMetadata \<Rightarrow> json \<Rightarrow> AdScore \<Rightarrow> AdScore option" where
  "HandlePrivateAggregationReporting metadata doc ad = do {
     contribs \<leftarrow>
       (if md_ad_id metadata \<noteq> most_desirable_ad_score_id metadata
        then do {
          a \<leftarrow> HandleContribution EVENT_TYPE_LOSS (md_base_values metadata) doc [];
          HandleContribution EVENT_TYPE_ALWAYS (md_base_values metadata) doc a }
        else do {
          a \<leftarrow> HandleContribution EVENT_TYPE_WIN (md_base_values metadata) doc [];
          b \<leftarrow> HandleContribution EVENT_TYPE_ALWAYS (md_base_values metadata) doc a;
          HandleContribution EVENT_TYPE_CUSTOM (md_base_values metadata) doc b });
     Some (ad\<lparr>top_level_contributions := top_level_contributions ad @
       [\<lparr>contributions = contribs,
         adtech_origin = (case seller_origin metadata of None \<Rightarrow> [] | Some o' \<Rightarrow> o')\<rparr>]\<rparr>) }"

subsection \<open>Buckets as numbers\<close>

lemma uint_MakeUint128: "uint (MakeUint128 high low) = uint high * 2 ^ 64 + uint low"
proof -
  have h: "uint high < 2 ^ 64" and l: "uint low < 2 ^ 64"
    using uint_lt2p [of high] uint_lt2p [of low] by simp_all
  have "uint (ucast high :: 128 word) = uint high"
    using h by (simp add: unsigned_ucast_eq take_bit_eq_mod)
  then have "uint (push_bit 64 (ucast high) :: 128 word) = uint high * 2 ^ 64"
    using h by (simp add: push_bit_eq_mult uint_word_ariths)
  moreover have "uint (ucast low :: 128 word) = uint low"
    using l by (simp add: unsigned_ucast_eq take_bit_eq_mod)
  ultimately show ?thesis
    using h l by (simp add: MakeUint128_def uint_word_ariths)
qed

lemma uint_Uint128Low64: "uint (Uint128Low64 w) = uint w mod 2 ^ 64"
  by (simp add: Uint128Low64_def unsigned_ucast_eq take_bit_eq_mod)

lemma uint_Uint128High64: "uint (Uint128High64 w) = uint w div 2 ^ 64"
proof -
  have "uint w div 2 ^ 64 < 2 ^ 64" using uint_lt2p [of w] by (simp add: div_less_iff_less_mult)
  moreover have "0 \<le> uint w div 2 ^ 64" by (simp add: pos_imp_zdiv_nonneg_iff)
  moreover have "uint (drop_bit 64 w) = uint w div 2 ^ 64"
    using uint_div [of w "2 ^ 64"] by (simp add: drop_bit_eq_div uint_word_ariths)
  ultimately show ?thesis
    unfolding Uint128High64_def unsigned_ucast_eq take_bit_eq_mod by (simp add: mod_pos_pos_trivial)
qed

text \<open>The number that the two words of a bucket, the low one first, stand for.\<close>

definition bucket_number :: "64 word list \<Rightarrow> int" where
  "bucket_number ws = (case ws of [low, high] \<Rightarrow> uint high * 2 ^ 64 + uint low | _ \<Rightarrow> -1)"

lemma bucket_number_split: "bucket_number [Uint128Low64 w, Uint128High64 w] = uint w"
  by (simp add: bucket_number_def uint_Uint128Low64 uint_Uint128High64)

text \<open>The base value of a bucket, when it has one.\<close>

lemma to_uint64_floor: "0 \<le> x \<Longrightarrow> x < 2 ^ 64 \<Longrightarrow> to_uint64 x = Some (of_int \<lfloor>x\<rfloor>)"
  by (simp add: to_uint64_def truncate_to_int_def floor_less_iff)

lemma uint_of_floor: "0 \<le> x \<Longrightarrow> x < 2 ^ 64 \<Longrightarrow> uint (of_int \<lfloor>x\<rfloor> :: 64 word) = \<lfloor>x\<rfloor>"
  by (simp add: floor_less_iff unsigned_of_int take_bit_eq_mod)

text \<open>A signal bucket is its base value times the scale, without the fraction, plus its offset modulo
  2^128; with a negative offset it is less the offset, and an error exactly when that would be
  negative. The product has to be a number of 64 bits.
\<close>

theorem signal_bucket_number:
  assumes "base_value_number bv (sb_base_value sb) = Some (Inr b)"
    and "bo_value (sb_offset sb) = [low, high]"
    and "0 \<le> b * sb_scale sb" and "b * sb_scale sb < 2 ^ 64"
  shows "(let v = \<lfloor>b * sb_scale sb\<rfloor>; off = bucket_number (bo_value (sb_offset sb)) in
    \<exists>r. GetPrivateAggregationBucketPostAuction bv (Signal_bucket sb) = Some r \<and>
      (case r of
         Inl e \<Rightarrow> e = InvalidArgument \<and> is_negative (sb_offset sb) \<and> v < off
       | Inr bits \<Rightarrow> length bits = 2 \<and>
           bucket_number bits = (if is_negative (sb_offset sb) then v - off else (v + off) mod 2 ^ 128)))"
proof -
  let ?v = "\<lfloor>b * sb_scale sb\<rfloor>"
  let ?final = "MakeUint128 0 (of_int ?v)" and ?off = "MakeUint128 high low"
  have v: "uint ?final = ?v" by (simp add: uint_MakeUint128 uint_of_floor [OF assms(3,4)])
  have off: "uint ?off = bucket_number (bo_value (sb_offset sb))"
    by (simp add: uint_MakeUint128 bucket_number_def assms(2))
  have less: "?final < ?off \<longleftrightarrow> ?v < bucket_number (bo_value (sb_offset sb))"
    by (simp add: word_less_def v off)
  have sum: "uint (?final + ?off) = (?v + bucket_number (bo_value (sb_offset sb))) mod 2 ^ 128"
    by (simp add: uint_word_ariths v off)
  have diff: "\<not> ?final < ?off \<Longrightarrow> uint (?final - ?off) = ?v - bucket_number (bo_value (sb_offset sb))"
    by (simp add: uint_minus_simple_alt [THEN iffD1] not_less v off)
  have run: "GetPrivateAggregationBucketPostAuction bv (Signal_bucket sb) =
      (if is_negative (sb_offset sb) \<and> ?final < ?off then Some (Inl InvalidArgument)
       else Some (Inr (let w = (if is_negative (sb_offset sb) then ?final - ?off else ?final + ?off)
                       in [Uint128Low64 w, Uint128High64 w])))"
    using to_uint64_floor [OF assms(3,4)]
    by (simp add: GetPrivateAggregationBucketPostAuction_def assms(1,2) nth_option_def Let_def)
  show ?thesis
    using less sum diff by (simp add: run Let_def bucket_number_split)
qed

text \<open>A bucket keeps the fraction of the base value until it is scaled, a value drops it before: with a
  winning bid of 2.5 and a scale of 2, the bucket is 5 and the value is 4.
\<close>

theorem value_truncated_before_scaling:
  "(let bv = \<lparr>bv_winning_bid = Some (5 / 2), bv_highest_scoring_other_bid = Some 0, bv_reject_reason = None\<rparr> in
    GetPrivateAggregationBucketPostAuction bv (Signal_bucket \<lparr>sb_base_value = BASE_VALUE_WINNING_BID,
      sb_scale = 2, sb_offset = \<lparr>bo_value = [0, 0], is_negative = False\<rparr>\<rparr>) = Some (Inr [5, 0]) \<and>
    GetPrivateAggregationValuePostAuction bv (Extended_value \<lparr>sv_base_value = BASE_VALUE_WINNING_BID,
      sv_scale = 2, sv_offset = 0\<rparr>) = Some (Inr 4))"
proof -
  have "\<lfloor>5 / 2 :: rat\<rfloor> = 2" by (rule floor_unique) simp_all
  moreover have "truncate_to_int 5 = 5" "truncate_to_int 4 = 4"
    using truncate_of_int [of 5] truncate_of_int [of 4] by simp_all
  moreover have "Uint128Low64 (MakeUint128 0 5 + MakeUint128 0 0) = 5"
    "Uint128High64 (MakeUint128 0 5 + MakeUint128 0 0) = 0"
    by code_simp+
  ultimately show ?thesis
    by (simp add: GetPrivateAggregationBucketPostAuction_def GetPrivateAggregationValuePostAuction_def
        base_value_number_def nth_option_def to_uint64_def int32_or_undefined_def Let_def truncate_to_int_def)
qed

subsection \<open>Which contributions are reported\<close>

text \<open>The contributions in a list that parse.\<close>

definition parsed_contributions :: "BaseValues \<Rightarrow> json list \<Rightarrow> PrivateAggregateContribution list" where
  "parsed_contributions bv xs =
     concat (map (\<lambda>x. case ParseAndProcessContribution bv x of Some (Inr c) \<Rightarrow> [c] | _ \<Rightarrow> []) xs)"

definition parsed_event_contributions ::
    "BaseValues \<Rightarrow> (string \<times> json list) list \<Rightarrow> PrivateAggregateContribution list" where
  "parsed_event_contributions bv events =
     concat (map (\<lambda>(name, xs). map (pac_event_update
       (\<lambda>_. Some \<lparr>event_type = EVENT_TYPE_CUSTOM, event_name = name\<rparr>)) (parsed_contributions bv xs)) events)"

text \<open>No contribution makes the parser read a value of the wrong kind.\<close>

definition parsable :: "BaseValues \<Rightarrow> json list \<Rightarrow> bool" where
  "parsable bv xs \<longleftrightarrow> (\<forall>x \<in> set xs. ParseAndProcessContribution bv x \<noteq> None)"

lemma ProcessAndAppend_parsed:
  "parsable bv xs \<Longrightarrow> ProcessAndAppendContributionsToPaggResponse bv xs acc = Some (acc @ parsed_contributions bv xs)"
  by (induction xs arbitrary: acc) (auto simp: parsable_def parsed_contributions_def split: sum.splits)

lemma ProcessAndAppendEvent_parsed:
  "parsable bv xs \<Longrightarrow> ProcessAndAppendEventContributionsToPaggResponse name bv xs acc =
     Some (acc @ parsed_event_contributions bv [(name, xs)])"
  by (induction xs arbitrary: acc)
    (auto simp: parsable_def parsed_contributions_def parsed_event_contributions_def split: sum.splits)

lemma custom_events_parsed:
  "\<forall>(name, xs) \<in> set events. parsable bv xs \<Longrightarrow>
   custom_events bv (map (\<lambda>(name, xs). (name, JArray xs)) events) acc =
     Some (acc @ parsed_event_contributions bv events)"
proof (induction events arbitrary: acc)
  case Nil
  then show ?case by (simp add: parsed_event_contributions_def)
next
  case (Cons e events)
  obtain name xs where e: "e = (name, xs)" by (cases e)
  with Cons.prems have "parsable bv xs" and rest: "\<forall>(name, xs) \<in> set events. parsable bv xs" by auto
  then show ?case
    using Cons.IH [OF rest] by (simp add: e ProcessAndAppendEvent_parsed parsed_event_contributions_def)
qed

text \<open>The contributions an answer holds, by event.\<close>

definition contributions_doc ::
    "json list \<Rightarrow> json list \<Rightarrow> json list \<Rightarrow> (string \<times> json list) list \<Rightarrow> json" where
  "contributions_doc win loss always events =
     JObject [(''win'', JArray win), (''loss'', JArray loss), (''always'', JArray always),
       (''custom_events'', JObject (map (\<lambda>(name, xs). (name, JArray xs)) events))]"

lemma HandleContribution_doc:
  "parsable bv win \<Longrightarrow> HandleContribution EVENT_TYPE_WIN bv (contributions_doc win loss always events) acc =
     Some (acc @ parsed_contributions bv win)"
  "parsable bv loss \<Longrightarrow> HandleContribution EVENT_TYPE_LOSS bv (contributions_doc win loss always events) acc =
     Some (acc @ parsed_contributions bv loss)"
  "parsable bv always \<Longrightarrow> HandleContribution EVENT_TYPE_ALWAYS bv (contributions_doc win loss always events) acc =
     Some (acc @ parsed_contributions bv always)"
  "\<forall>(name, xs) \<in> set events. parsable bv xs \<Longrightarrow>
   HandleContribution EVENT_TYPE_CUSTOM bv (contributions_doc win loss always events) acc =
     Some (acc @ parsed_event_contributions bv events)"
  by (simp_all add: HandleContribution_def AppendAdEventContributionsToPaggResponse_def contributions_doc_def
      GetArray_def Members_def ProcessAndAppend_parsed custom_events_parsed)


text \<open>A reserved event whose value is not an array is logged and then read as an array all the same.\<close>

theorem event_not_an_array:
  assumes "event \<noteq> EVENT_TYPE_UNSPECIFIED" and "event \<noteq> EVENT_TYPE_CUSTOM" and "GetArray v = None"
  shows "AppendAdEventContributionsToPaggResponse event (JObject [(EventTypeToString event, v)]) bv acc = None"
  using assms by (simp add: AppendAdEventContributionsToPaggResponse_def)

theorem signal_bucket_number_witness:
  "\<exists>bits. GetPrivateAggregationBucketPostAuction
      \<lparr>bv_winning_bid = Some 10, bv_highest_scoring_other_bid = Some 0, bv_reject_reason = None\<rparr>
      (Signal_bucket \<lparr>sb_base_value = BASE_VALUE_WINNING_BID, sb_scale = 2,
         sb_offset = \<lparr>bo_value = [1, 0], is_negative = True\<rparr>\<rparr>) = Some (Inr bits) \<and> bucket_number bits = 19"
proof -
  let ?sb = "\<lparr>sb_base_value = BASE_VALUE_WINNING_BID, sb_scale = 2,
    sb_offset = \<lparr>bo_value = [1, 0 :: 64 word], is_negative = True\<rparr>\<rparr>"
  let ?bv = "\<lparr>bv_winning_bid = Some 10, bv_highest_scoring_other_bid = Some 0, bv_reject_reason = None\<rparr>"
  have "base_value_number ?bv (sb_base_value ?sb) = Some (Inr 10)" by (simp add: base_value_number_def)
  from signal_bucket_number [OF this, of 1 0] obtain r where
    "GetPrivateAggregationBucketPostAuction ?bv (Signal_bucket ?sb) = Some r"
    "case r of Inl e \<Rightarrow> e = InvalidArgument \<and> is_negative (sb_offset ?sb) \<and> 20 < bucket_number [1, 0]
     | Inr bits \<Rightarrow> length bits = 2 \<and> bucket_number bits = 20 - bucket_number [1, 0]"
    by (fastforce simp: Let_def cong: sum.case_cong)
  then show ?thesis by (cases r) (simp_all add: bucket_number_def [of "[1, 0]"])
qed


theorem event_not_an_array_witness:
  "AppendAdEventContributionsToPaggResponse EVENT_TYPE_WIN (JObject [(''win'', JNull)])
     \<lparr>bv_winning_bid = Some 10, bv_highest_scoring_other_bid = Some 0, bv_reject_reason = None\<rparr> [] = None"
  using event_not_an_array [of EVENT_TYPE_WIN JNull] by (simp add: GetArray_def)

end
