(* ===== verification/Noiser.thy ===== *)
theory Noiser
  imports Json "HOL-Library.Word" "HOL-Library.Log_Nat"
begin

unbundle bit_operations_syntax

text \<open>
  Noising of the values a report reveals (\<^verbatim>\<open>noiser_and_bucketer.cc\<close>): buckets for the join count and
  the recency, a random value in one of a hundred and one cases, and stochastic rounding of floating
  point values. Random numbers are a stream of 64 bit words; \<open>None\<close> in the stream is a failure of the
  generator. An operation returns its result and the rest of the stream; it is \<open>None\<close> where it does
  not return, since it rejects every number it draws, or where its arithmetic is undefined.
\<close>

type_synonym random = "nat \<Rightarrow> 64 word option"

subsection \<open>Random numbers\<close>

definition RandUint64 :: "random \<Rightarrow> (status_code + 64 word) \<times> random" where
  "RandUint64 r = (case r 0 of None \<Rightarrow> Inl Internal | Some w \<Rightarrow> Inr w, \<lambda>i. r (Suc i))"

definition max_acceptable_value :: "64 word \<Rightarrow> 64 word" where
  "max_acceptable_value rng = (- 1 div rng) * rng - 1"

partial_function (option) RandGenerator ::
    "64 word \<Rightarrow> random \<Rightarrow> ((status_code + 64 word) \<times> random) option" where
  "RandGenerator rng r =
     (case RandUint64 r of (res, r') \<Rightarrow>
        (case res of
           Inl e \<Rightarrow> Some (Inl e, r')
         | Inr w \<Rightarrow> if w > max_acceptable_value rng then RandGenerator rng r'
                    else Some (Inr (w mod rng), r')))"

definition RandInt :: "int \<Rightarrow> int \<Rightarrow> random \<Rightarrow> ((status_code + int) \<times> random) option" where
  "RandInt low high r =
     (if low \<ge> high then Some (Inl Internal, r)
      else do {
        diff \<leftarrow> int32_or_undefined (high - low);
        (res, r') \<leftarrow> RandGenerator (of_int diff + 1) r;
        case res of
          Inl e \<Rightarrow> Some (Inl e, r')
        | Inr w \<Rightarrow> do {
            i \<leftarrow> int32_or_undefined (to_int32 (uint w) + low);
            Some (Inr i, r') } })"

subsection \<open>Buckets\<close>

definition BucketJoinCount :: "int \<Rightarrow> int" where
  "BucketJoinCount join_count =
     (let c = (if join_count < 1 then 1 else join_count) in
      if c \<le> 10 then c else if c \<le> 20 then 11 else if c \<le> 30 then 12 else if c \<le> 40 then 13
      else if c \<le> 50 then 14 else if c \<le> 100 then 15 else 16)"

definition BucketRecency :: "int \<Rightarrow> int" where
  "BucketRecency recency =
     (let c = (if recency < 0 then 0 else recency) in
      if c < 10 then c else if c < 15 then 10 else if c < 20 then 11 else if c < 30 then 12
      else if c < 40 then 13 else if c < 50 then 14 else if c < 60 then 15 else if c < 75 then 16
      else if c < 90 then 17 else if c < 105 then 18 else if c < 120 then 19 else if c < 240 then 20
      else if c < 720 then 21 else if c < 1440 then 22 else if c < 2160 then 23
      else if c < 2880 then 24 else if c < 4320 then 25 else if c < 5760 then 26
      else if c < 10080 then 27 else if c < 20160 then 28 else if c < 30240 then 29
      else if c < 40320 then 30 else 31)"

text \<open>\<open>cast\<close> is the conversion to the type of the noised value.\<close>

definition Noise :: "(int \<Rightarrow> int) \<Rightarrow> int \<Rightarrow> int \<Rightarrow> int \<Rightarrow> random \<Rightarrow> ((status_code + int) \<times> random) option" where
  "Noise cast value low high r = do {
     (rand_one_percent_int, r1) \<leftarrow> RandInt 0 100 r;
     case rand_one_percent_int of
       Inl e \<Rightarrow> Some (Inl e, r1)
     | Inr one \<Rightarrow>
         if one = 1
         then do {
           (rand_int, r2) \<leftarrow> RandInt low high r1;
           Some (case rand_int of Inl e \<Rightarrow> Inr value | Inr i \<Rightarrow> Inr (cast i), r2) }
         else Some (Inr value, r1) }"

definition uint8 :: "int \<Rightarrow> int" where
  "uint8 i = i mod 2 ^ 8"

definition uint16 :: "int \<Rightarrow> int" where
  "uint16 i = i mod 2 ^ 16"

text \<open>The masked signals are an \<^verbatim>\<open>int\<close> while they are noised.\<close>

definition NoiseAndMaskModelingSignals :: "int \<Rightarrow> random \<Rightarrow> ((status_code + int) \<times> random) option" where
  "NoiseAndMaskModelingSignals modeling_signals r =
     map_option (apfst (map_sum (\<lambda>e. e) uint16)) (Noise (\<lambda>i. i) (uint16 modeling_signals AND 4095) 0 4095 r)"

definition NoiseAndBucketJoinCount :: "int \<Rightarrow> random \<Rightarrow> ((status_code + int) \<times> random) option" where
  "NoiseAndBucketJoinCount join_count r = Noise uint8 (BucketJoinCount join_count) 1 16 r"

definition NoiseAndBucketRecency :: "int \<Rightarrow> random \<Rightarrow> ((status_code + int) \<times> random) option" where
  "NoiseAndBucketRecency recency r = Noise uint8 (BucketRecency recency) 0 31 r"

subsection \<open>Stochastic rounding\<close>

text \<open>A finite number, or the infinity of a sign. Infinite arguments are outside the model.\<close>

datatype rounded = Finite rat | Infinite bool

text \<open>The exponent \<open>std::frexp\<close> yields: the number is at least half of that power of two, and below it.\<close>

definition frexp_exp :: "rat \<Rightarrow> int" where
  "frexp_exp x =
     (if x = 0 then 0
      else let (a, b) = quotient_of \<bar>x\<bar>; e = bitlen a - bitlen b
           in if \<bar>x\<bar> < 2 powi e then e else e + 1)"

definition RandDouble :: "random \<Rightarrow> (status_code + rat) \<times> random" where
  "RandDouble r = apfst (map_sum (\<lambda>e. e) (\<lambda>w. of_int (uint (w AND (2 ^ 53 - 1))) / 2 ^ 53)) (RandUint64 r)"

definition copysign_1 :: "rat \<Rightarrow> int" where
  "copysign_1 x = (if x < 0 then -1 else 1)"

definition RoundStochasticallyToKBits :: "rat \<Rightarrow> nat \<Rightarrow> random \<Rightarrow> (status_code + rounded) \<times> random" where
  "RoundStochasticallyToKBits x k r =
     (let value_exp = frexp_exp x in
      if value_exp < -128 then (Inr (Finite 0), r)
      else if value_exp > 127 then (Inr (Infinite (x < 0)), r)
      else
        (let precision_scaled_value = x * 2 powi (int k - value_exp);
             truncated_scaled_value = truncate_to_int precision_scaled_value;
             (rand_double, r') = RandDouble r
         in case rand_double of
              Inl e \<Rightarrow> (Inl e, r')
            | Inr d \<Rightarrow>
                if \<bar>precision_scaled_value - of_int truncated_scaled_value\<bar> > d
                then (let noised = truncated_scaled_value + copysign_1 precision_scaled_value in
                      if value_exp = 127 \<and> \<bar>of_int noised * 2 powi (- int k)\<bar> \<ge> (1 :: rat)
                      then (if \<bar>of_int noised * 2 powi (- int k)\<bar> \<noteq> (1 :: rat) then (Inl Internal, r')
                            else (Inr (Infinite (x < 0)), r'))
                      else (Inr (Finite (of_int noised * 2 powi (value_exp - int k))), r'))
                else (Inr (Finite (of_int truncated_scaled_value * 2 powi (value_exp - int k))), r')))"

subsection \<open>Uniform numbers\<close>

lemma RandGenerator_accepted:
  assumes "RandGenerator rng r = Some (Inr v, r')"
  shows "\<exists>i w. r i = Some w \<and> w \<le> max_acceptable_value rng \<and> v = w mod rng"
proof -
  have "\<forall>v r'. y = (Inr v, r') \<longrightarrow> (\<exists>i w. r i = Some w \<and> w \<le> max_acceptable_value rng \<and> v = w mod rng)"
    if "RandGenerator rng r = Some y" for y
    by (rule RandGenerator.raw_induct [OF _ that, where P = "\<lambda>rng r y. \<forall>v r'. y = (Inr v, r') \<longrightarrow>
        (\<exists>i w. r i = Some w \<and> w \<le> max_acceptable_value rng \<and> v = w mod rng)"])
      (fastforce simp: RandUint64_def split: option.splits sum.splits if_splits)
  with assms show ?thesis by blast
qed

lemma RandGenerator_const:
  "(\<exists>r'. RandGenerator rng (\<lambda>_. Some w) = Some (Inr v, r')) \<longleftrightarrow>
     w \<le> max_acceptable_value rng \<and> v = w mod rng"
proof
  assume "\<exists>r'. RandGenerator rng (\<lambda>_. Some w) = Some (Inr v, r')"
  then obtain r' where "RandGenerator rng (\<lambda>_. Some w) = Some (Inr v, r')" by blast
  from RandGenerator_accepted [OF this] show "w \<le> max_acceptable_value rng \<and> v = w mod rng" by auto
next
  assume "w \<le> max_acceptable_value rng \<and> v = w mod rng"
  then show "\<exists>r'. RandGenerator rng (\<lambda>_. Some w) = Some (Inr v, r')"
    by (subst RandGenerator.simps) (auto simp: RandUint64_def leD)
qed

lemma uint_max_acceptable:
  assumes "0 < rng"
  shows "uint (max_acceptable_value rng) = (2 ^ 64 - 1) div uint rng * uint rng - 1"
proof -
  have r: "0 < uint rng" "uint rng < 2 ^ 64"
    using assms uint_lt2p [of rng] by (simp_all add: word_less_def)
  have m: "uint (- 1 :: 64 word) = 2 ^ 64 - 1" by (simp add: unsigned_minus_1_eq_mask mask_eq_exp_minus_1)
  let ?p = "(2 ^ 64 - 1) div uint rng * uint rng"
  have "?p = 2 ^ 64 - 1 - (2 ^ 64 - 1) mod uint rng" by (rule minus_mod_eq_div_mult [symmetric])
  moreover have "0 \<le> (2 ^ 64 - 1) mod uint rng" using r by simp
  ultimately have "?p \<le> 2 ^ 64 - 1" by linarith
  moreover have "1 \<le> (2 ^ 64 - 1) div uint rng" using r zdiv_mono1 [of "uint rng" "2 ^ 64 - 1" "uint rng"] by simp
  then have "uint rng \<le> ?p" using r by (simp add: mult_le_cancel_right1)
  ultimately have p: "0 < ?p" "?p < 2 ^ 64" using r by linarith+
  have "uint (- 1 div rng * rng) = ?p"
    using p(2) p(1) by (simp add: uint_word_ariths uint_div m)
  then show ?thesis using p by (simp add: max_acceptable_value_def uint_word_ariths)
qed

lemma card_residue:
  fixes n q a :: nat
  assumes "a < n"
  shows "card {i. i < q * n \<and> i mod n = a} = q"
proof -
  have "{i. i < q * n \<and> i mod n = a} = (\<lambda>j. j * n + a) ` {..<q}"
  proof (intro equalityI subsetI)
    fix i assume "i \<in> {i. i < q * n \<and> i mod n = a}"
    then have "i div n < q" "i = i div n * n + a"
      by (auto simp: less_mult_imp_div_less)
    then show "i \<in> (\<lambda>j. j * n + a) ` {..<q}" by blast
  next
    fix i assume "i \<in> (\<lambda>j. j * n + a) ` {..<q}"
    then obtain j where j: "j < q" "i = j * n + a" by blast
    then have "i < Suc j * n" using assms by simp
    also have "\<dots> \<le> q * n" using j(1) by (intro mult_le_mono1) simp
    finally show "i \<in> {i. i < q * n \<and> i mod n = a}" using j assms by simp
  qed
  moreover have "inj_on (\<lambda>j. j * n + a) {..<q}" using assms by (auto simp: inj_on_def)
  ultimately show ?thesis by (simp add: card_image)
qed

lemma card_accepted:
  assumes "a < rng"
  shows "card {w :: 64 word. w \<le> max_acceptable_value rng \<and> w mod rng = a} = (2 ^ 64 - 1) div unat rng"
proof -
  have pos: "0 < rng" using assms by (metis word_gt_0 word_not_simps(1))
  let ?q = "(2 ^ 64 - 1) div unat rng"
  have u: "int (unat rng) = uint rng" by simp
  have bound: "w \<le> max_acceptable_value rng \<longleftrightarrow> unat w < ?q * unat rng" for w
  proof -
    have "w \<le> max_acceptable_value rng \<longleftrightarrow> uint w < (2 ^ 64 - 1) div uint rng * uint rng"
      by (simp add: word_le_def uint_max_acceptable [OF pos])
    also have "\<dots> \<longleftrightarrow> int (unat w) < int (?q * unat rng)"
      by (simp add: zdiv_int)
    finally show ?thesis by (simp only: of_nat_less_iff)
  qed
  have "unat ` {w. w \<le> max_acceptable_value rng \<and> w mod rng = a} = {i. i < ?q * unat rng \<and> i mod unat rng = unat a}"
  proof (intro equalityI subsetI)
    fix i assume "i \<in> unat ` {w. w \<le> max_acceptable_value rng \<and> w mod rng = a}"
    then show "i \<in> {i. i < ?q * unat rng \<and> i mod unat rng = unat a}"
      by (auto simp: bound unat_mod_distrib)
  next
    fix i assume i: "i \<in> {i. i < ?q * unat rng \<and> i mod unat rng = unat a}"
    have "?q * unat rng \<le> 2 ^ 64 - 1" by (rule div_times_less_eq_dividend)
    moreover have "i < ?q * unat rng" using i by blast
    ultimately have "i < 2 ^ 64" by linarith
    then have un: "unat (of_nat i :: 64 word) = i" by (simp add: unat_of_nat take_bit_eq_mod)
    then have "(of_nat i :: 64 word) mod rng = a"
      using i by (intro word_unat_eq_iff [THEN iffD2]) (simp add: unat_mod_distrib)
    with i un show "i \<in> unat ` {w. w \<le> max_acceptable_value rng \<and> w mod rng = a}"
      by (intro image_eqI [where x = "of_nat i"]) (simp_all add: bound)
  qed
  moreover have "inj_on unat {w :: 64 word. w \<le> max_acceptable_value rng \<and> w mod rng = a}"
    by (auto simp: inj_on_def word_unat_eq_iff)
  ultimately have "card {w. w \<le> max_acceptable_value rng \<and> w mod rng = a} =
      card {i. i < ?q * unat rng \<and> i mod unat rng = unat a}"
    using card_image [of unat "{w :: 64 word. w \<le> max_acceptable_value rng \<and> w mod rng = a}"] by simp
  also have "\<dots> = ?q" using assms by (intro card_residue) (simp add: word_less_nat_alt)
  finally show ?thesis .
qed

text \<open>C33. \<^verbatim>\<open>RandInt\<close> is uniform on the closed interval: each of its numbers, the upper bound included, is
  the result for the same number of the random words, and no other number ever is.
\<close>

theorem RandInt_uniform:
  assumes "low < high" and "high - low < 2 ^ 31 - 1" and "- (2 ^ 31) \<le> low" and "high < 2 ^ 31"
  shows "card {w. \<exists>r'. RandInt low high (\<lambda>_. Some w) = Some (Inr v, r')} =
    (if low \<le> v \<and> v \<le> high then (2 ^ 64 - 1) div nat (high - low + 1) else 0)"
proof -
  let ?n = "high - low + 1"
  let ?rng = "of_int (high - low) + 1 :: 64 word"
  have rng: "?rng = of_int ?n" by simp
  have un: "uint ?rng = ?n"
    using assms by (simp add: rng unsigned_of_int take_bit_eq_mod del: of_int_add of_int_diff)
  have below: "w mod ?rng < ?rng" for w
  proof -
    have "uint w mod ?n < ?n" using assms(1) by (intro pos_mod_bound) simp
    then show ?thesis by (simp only: word_less_def uint_mod un)
  qed
  have small: "uint u < ?n" if "u < ?rng" for u
    using that un by (simp add: word_less_def)
  have run: "(\<exists>r'. RandInt low high (\<lambda>_. Some w) = Some (Inr v, r')) \<longleftrightarrow>
      (\<exists>u. (\<exists>r'. RandGenerator ?rng (\<lambda>_. Some w) = Some (Inr u, r')) \<and> v = uint u + low)" for w
  proof -
    have cond: "int32_or_undefined (to_int32 (uint u) + low) = Some (uint u + low)"
      if "RandGenerator ?rng (\<lambda>_. Some w) = Some (Inr u, r')" for u r'
    proof -
      from that RandGenerator_const [of ?rng w u] have "u = w mod ?rng" by blast
      then have "u < ?rng" using below by simp
      from small [OF this] have "to_int32 (uint u) = uint u"
        using assms by (intro to_int32_id) (simp_all add: order_trans [OF _ uint_ge_0])
      moreover have "- (2 ^ 31) \<le> uint u + low" using assms(3) uint_ge_0 [of u] by linarith
      ultimately show ?thesis
        using assms small [OF \<open>u < ?rng\<close>] by (simp add: int32_or_undefined_def)
    qed
    have diff: "int32_or_undefined (high - low) = Some (high - low)"
      using assms by (simp add: int32_or_undefined_def)
    show ?thesis
    proof (cases "RandGenerator ?rng (\<lambda>_. Some w)")
      case None
      then show ?thesis using assms(1) by (simp add: RandInt_def diff)
    next
      case (Some p)
      obtain res r' where p: "p = (res, r')" by (cases p)
      show ?thesis
      proof (cases res)
        case (Inl e)
        then show ?thesis using assms(1) Some p by (simp add: RandInt_def diff)
      next
        case (Inr u)
        with Some p have g: "RandGenerator ?rng (\<lambda>_. Some w) = Some (Inr u, r')" by simp
        show ?thesis using assms(1) g cond [OF g] by (auto simp: RandInt_def diff)
      qed
    qed
  qed
  show ?thesis
  proof (cases "low \<le> v \<and> v \<le> high")
    case True
    let ?a = "of_int (v - low) :: 64 word"
    have ua: "uint ?a = v - low"
      using True assms by (simp add: unsigned_of_int take_bit_eq_mod del: of_int_diff)
    have iff: "(\<exists>u. (\<exists>r'. RandGenerator ?rng (\<lambda>_. Some w) = Some (Inr u, r')) \<and> v = uint u + low) \<longleftrightarrow>
        w \<le> max_acceptable_value ?rng \<and> w mod ?rng = ?a" for w
    proof -
      have "w mod ?rng = ?a \<longleftrightarrow> v = uint (w mod ?rng) + low"
        unfolding word_uint_eq_iff [of "w mod ?rng"] ua by auto
      then show ?thesis unfolding RandGenerator_const by blast
    qed
    have "?a < ?rng" using True by (simp add: word_less_def ua un del: of_int_diff)
    from card_accepted [OF this] have "card {w. w \<le> max_acceptable_value ?rng \<and> w mod ?rng = ?a} =
        (2 ^ 64 - 1) div unat ?rng" .
    moreover have "unat ?rng = nat ?n" using un by (metis unat_eq_nat_uint)
    ultimately show ?thesis using True by (simp only: run iff) simp
  next
    case False
    have "\<not> (\<exists>u. (\<exists>r'. RandGenerator ?rng (\<lambda>_. Some w) = Some (Inr u, r')) \<and> v = uint u + low)" for w
    proof
      assume "\<exists>u. (\<exists>r'. RandGenerator ?rng (\<lambda>_. Some w) = Some (Inr u, r')) \<and> v = uint u + low"
      then obtain u where u: "u = w mod ?rng" "v = uint u + low" by (auto simp: RandGenerator_const)
      have "u < ?rng" using below u(1) by simp
      from small [OF this] False u(2) show False by auto
    qed
    then have "{w. \<exists>u. (\<exists>r'. RandGenerator ?rng (\<lambda>_. Some w) = Some (Inr u, r')) \<and> v = uint u + low} = {}" by blast
    then show ?thesis using False by (simp only: run) simp
  qed
qed

subsection \<open>Buckets stay buckets\<close>

lemma BucketJoinCount_range: "1 \<le> BucketJoinCount c \<and> BucketJoinCount c \<le> 16"
  by (simp add: BucketJoinCount_def Let_def)

lemma BucketRecency_range: "0 \<le> BucketRecency c \<and> BucketRecency c \<le> 31"
  by (simp add: BucketRecency_def Let_def)

lemma case_Inr_iff:
  "(case res of Inl e \<Rightarrow> Some (Inl e, r1) | Inr x \<Rightarrow> f x) = Some (Inr v, r') \<longleftrightarrow>
     (\<exists>x. res = Inr x \<and> f x = Some (Inr v, r'))"
  by (cases res) auto

lemma RandInt_range:
  assumes "RandInt low high r = Some (Inr v, r')" and "- (2 ^ 31) \<le> low" and "high < 2 ^ 31"
  shows "low \<le> v \<and> v \<le> high"
proof -
  from assms(1) have lt: "low < high" by (simp add: RandInt_def split: if_splits)
  with assms(1) obtain d u where d: "int32_or_undefined (high - low) = Some d"
    and g: "RandGenerator (of_int d + 1) r = Some (Inr u, r')"
    and v: "int32_or_undefined (to_int32 (uint u) + low) = Some v"
    by (auto simp: RandInt_def monad_simps case_Inr_iff)
  from d have d': "d = high - low" "d < 2 ^ 31" by (auto simp: int32_or_undefined_def split: if_splits)
  have "(of_int d + 1 :: 64 word) = of_int (d + 1)" by simp
  then have n: "uint (of_int d + 1 :: 64 word) = d + 1"
    using lt d' by (simp only:) (simp add: unsigned_of_int take_bit_eq_mod del: of_int_add)
  from RandGenerator_accepted [OF g] obtain w where "u = w mod (of_int d + 1)" by blast
  then have "uint u = uint w mod (d + 1)" by (simp add: uint_mod n)
  then have u: "0 \<le> uint u" "uint u \<le> d"
    using pos_mod_bound [of "d + 1" "uint w"] lt d' by auto
  then have "to_int32 (uint u) = uint u" using d'(2) uint_ge_0 [of u] by (intro to_int32_id) linarith+
  with v have "v = uint u + low" by (auto simp: int32_or_undefined_def split: if_splits)
  with u d' show ?thesis by simp
qed

lemma Noise_range:
  assumes "Noise cast value low high r = Some (Inr v, r')" and "a \<le> value" and "value \<le> b"
    and "\<And>i. low \<le> i \<Longrightarrow> i \<le> high \<Longrightarrow> a \<le> cast i \<and> cast i \<le> b"
    and "- (2 ^ 31) \<le> low" and "high < 2 ^ 31"
  shows "a \<le> v \<and> v \<le> b"
proof -
  from assms(1) obtain one r1 where "RandInt 0 100 r = Some (Inr one, r1)"
    and rest: "(if one = 1 then do { (rand_int, r2) \<leftarrow> RandInt low high r1;
        Some (case rand_int of Inl e \<Rightarrow> Inr value | Inr i \<Rightarrow> Inr (cast i), r2) } else Some (Inr value, r1)) =
      Some (Inr v :: status_code + int, r')"
    by (auto simp: Noise_def monad_simps case_Inr_iff)
  show ?thesis
  proof (cases "one = 1")
    case True
    with rest obtain rand_int where ri: "RandInt low high r1 = Some (rand_int, r')"
      and v: "(case rand_int of Inl e \<Rightarrow> Inr value | Inr i \<Rightarrow> Inr (cast i)) = (Inr v :: status_code + int)"
      by (auto simp: monad_simps)
    show ?thesis
    proof (cases rand_int)
      case (Inl e)
      with v assms show ?thesis by simp
    next
      case (Inr i)
      with ri RandInt_range assms(5,6) have "low \<le> i \<and> i \<le> high" by blast
      with assms(4) have "a \<le> cast i \<and> cast i \<le> b" by blast
      with v Inr show ?thesis by simp
    qed
  next
    case False
    with rest assms show ?thesis by simp
  qed
qed

text \<open>C34. Whatever the random numbers are, a noised join count is one of the 16 buckets, a noised recency one
  of the 32 buckets, and noised modeling signals have 12 bits.
\<close>

theorem noised_values_in_range:
  "(NoiseAndBucketJoinCount c r = Some (Inr v, r') \<longrightarrow> 1 \<le> v \<and> v \<le> 16) \<and>
   (NoiseAndBucketRecency c r = Some (Inr v, r') \<longrightarrow> 0 \<le> v \<and> v \<le> 31) \<and>
   (NoiseAndMaskModelingSignals c r = Some (Inr v, r') \<longrightarrow> 0 \<le> v \<and> v < 2 ^ 12)"
proof (intro conjI impI)
  assume "NoiseAndBucketJoinCount c r = Some (Inr v, r')"
  then have n: "Noise uint8 (BucketJoinCount c) 1 16 r = Some (Inr v, r')"
    by (simp add: NoiseAndBucketJoinCount_def)
  have "1 \<le> v \<and> v \<le> 16"
    by (rule Noise_range [OF n]) (use BucketJoinCount_range [of c] in \<open>auto simp: uint8_def\<close>)
  then show "1 \<le> v" "v \<le> 16" by auto
next
  assume "NoiseAndBucketRecency c r = Some (Inr v, r')"
  then have n: "Noise uint8 (BucketRecency c) 0 31 r = Some (Inr v, r')"
    by (simp add: NoiseAndBucketRecency_def)
  have "0 \<le> v \<and> v \<le> 31"
    by (rule Noise_range [OF n]) (use BucketRecency_range [of c] in \<open>auto simp: uint8_def\<close>)
  then show "0 \<le> v" "v \<le> 31" by auto
next
  assume "NoiseAndMaskModelingSignals c r = Some (Inr v, r')"
  then obtain p where p: "Noise (\<lambda>i. i) (uint16 c AND 4095) 0 4095 r = Some p"
    and "apfst (map_sum (\<lambda>e. e) uint16) p = (Inr v, r')"
    by (auto simp: NoiseAndMaskModelingSignals_def)
  then obtain i where n: "Noise (\<lambda>i. i) (uint16 c AND 4095) 0 4095 r = Some (Inr i, r')" and v: "v = uint16 i"
    by (cases p; cases "fst p") auto
  have m: "uint16 c AND 4095 \<le> 4095" "0 \<le> uint16 c AND 4095"
    using AND_upper2 [of 4095 "uint16 c"] by (simp_all add: uint16_def)
  have "0 \<le> i \<and> i \<le> 4095"
    by (rule Noise_range [OF n]) (use m in auto)
  then show "0 \<le> v" "v < 2 ^ 12" by (auto simp: v uint16_def)
qed

subsection \<open>Rounding to one of two neighbours\<close>

lemma bitlen_powi:
  assumes "0 < i"
  shows "2 powi (bitlen i - 1) \<le> (of_int i :: rat)" and "(of_int i :: rat) < 2 powi bitlen i"
proof -
  have n: "1 \<le> bitlen i" using assms bitlen_nonneg [of i] bitlen_eq_zero_iff [of i] by simp
  have p: "(2 :: rat) powi j = of_int (2 ^ nat j)" if "0 \<le> j" for j
    using that by (simp add: power_int_def)
  show "2 powi (bitlen i - 1) \<le> (of_int i :: rat)" "(of_int i :: rat) < 2 powi bitlen i"
    using bitlen_bounds [OF assms] n by (simp_all add: p del: of_int_power)
qed

lemma frexp_exp_bounds:
  assumes "x \<noteq> 0"
  shows "2 powi (frexp_exp x - 1) \<le> \<bar>x\<bar>" and "\<bar>x\<bar> < 2 powi (frexp_exp x)"
proof -
  obtain a b where ab: "quotient_of \<bar>x\<bar> = (a, b)" by (cases "quotient_of \<bar>x\<bar>")
  then have x: "\<bar>x\<bar> = of_int a / of_int b" and b: "0 < b"
    using quotient_of_div quotient_of_denom_pos by blast+
  from assms have "0 < \<bar>x\<bar>" by simp
  with x b have a: "0 < a" by (simp add: zero_less_divide_iff)
  let ?e = "bitlen a - bitlen b"
  have la: "2 powi (bitlen a - 1) \<le> (of_int a :: rat)" "(of_int a :: rat) < 2 powi bitlen a"
    and lb: "2 powi (bitlen b - 1) \<le> (of_int b :: rat)" "(of_int b :: rat) < 2 powi bitlen b"
    using bitlen_powi [OF a] bitlen_powi [OF b] by auto
  have "2 powi (?e - 1) = (2 powi (bitlen a - 1) / 2 powi bitlen b :: rat)"
    by (simp add: power_int_diff)
  also have "\<dots> \<le> of_int a / of_int b" using la lb a b by (intro frac_le) auto
  finally have lower: "2 powi (?e - 1) \<le> \<bar>x\<bar>" by (simp add: x)
  have "of_int a / of_int b < (2 powi bitlen a / 2 powi (bitlen b - 1) :: rat)"
    using la lb b a by (intro frac_less) auto
  also have "\<dots> = 2 powi (?e + 1)" by (simp add: power_int_diff power_int_add)
  finally have upper: "\<bar>x\<bar> < 2 powi (?e + 1)" by (simp add: x)
  show "2 powi (frexp_exp x - 1) \<le> \<bar>x\<bar>" "\<bar>x\<bar> < 2 powi (frexp_exp x)"
    using lower upper assms by (auto simp: frexp_exp_def ab Let_def)
qed

lemma truncate_bounds:
  "\<bar>of_int (truncate_to_int x)\<bar> \<le> \<bar>x\<bar>" "\<bar>x - of_int (truncate_to_int x)\<bar> < 1"
  "0 \<le> of_int (truncate_to_int x) * x"
proof -
  have f: "of_int \<lfloor>x\<rfloor> \<le> x" "x < of_int \<lfloor>x\<rfloor> + 1" by linarith+
  have c: "x \<le> of_int \<lceil>x\<rceil>" "of_int \<lceil>x\<rceil> < x + 1" by linarith+
  have neg: "x < 0 \<Longrightarrow> \<lceil>x\<rceil> \<le> 0" and pos: "0 \<le> x \<Longrightarrow> 0 \<le> \<lfloor>x\<rfloor>" by (simp_all add: ceiling_le_iff)
  obtain t :: rat where t: "t = of_int (truncate_to_int x)" by blast
  have "if x < 0 then x \<le> t \<and> t < x + 1 \<and> t \<le> 0 else t \<le> x \<and> x < t + 1 \<and> 0 \<le> t"
  proof (cases "x < 0")
    case True
    then have "(of_int \<lceil>x\<rceil> :: rat) \<le> 0" using neg by (simp only: of_int_le_0_iff)
    with True c show ?thesis by (simp only: t truncate_to_int_def if_True simp_thms)
  next
    case False
    then have "0 \<le> (of_int \<lfloor>x\<rfloor> :: rat)" using pos by (simp only: of_int_0_le_iff not_less)
    with False f show ?thesis by (simp only: t truncate_to_int_def if_False simp_thms)
  qed
  then show "\<bar>of_int (truncate_to_int x)\<bar> \<le> \<bar>x\<bar>" "\<bar>x - of_int (truncate_to_int x)\<bar> < 1"
    "0 \<le> of_int (truncate_to_int x) * x"
    unfolding t [symmetric] by (auto simp: abs_if zero_le_mult_iff split: if_splits)
qed

lemma scaled_sign:
  fixes u :: rat
  assumes "0 < u" and "p * u = x"
  shows "0 \<le> y * u * x \<longleftrightarrow> 0 \<le> y * p"
proof -
  have "y * u * x = y * p * (u * u)" using assms(2) by (metis mult.assoc mult.commute)
  moreover have "0 < u * u" using assms(1) by simp
  ultimately show ?thesis using mult_le_cancel_right_pos [of "u * u" 0 "y * p"] by (simp only: mult_zero_left)
qed

lemma RandDouble_range:
  assumes "RandDouble r = (Inr d, r')"
  shows "0 \<le> d \<and> d < 1"
proof -
  from assms obtain w :: "64 word" where d: "d = of_int (uint (w AND (2 ^ 53 - 1))) / 2 ^ 53"
    unfolding RandDouble_def by (cases "RandUint64 r"; cases "fst (RandUint64 r)") (auto simp only: fst_conv apfst_conv map_sum.simps prod.inject sum.inject sum.distinct)
  let ?i = "uint (w AND (2 ^ 53 - 1))"
  have "w AND (2 ^ 53 - 1) = take_bit 53 w" by (simp add: take_bit_eq_mask mask_eq_exp_minus_1)
  then have "?i = take_bit 53 (uint w)" by (simp only: unsigned_take_bit_eq)
  then have "?i = uint w mod 2 ^ 53" by (simp only: take_bit_eq_mod)
  then have "0 \<le> ?i" "?i < 2 ^ 53" by simp_all
  then have "0 \<le> (of_int ?i :: rat)" "(of_int ?i :: rat) < of_int (2 ^ 53)"
    by (simp_all only: of_int_0_le_iff of_int_less_iff)
  then show ?thesis by (simp add: d del: of_int_uint)
qed

text \<open>C32. A number with an exponent from -128 to 126 is rounded to a multiple of the unit its \<open>k\<close> bits leave,
  less than one unit away and not past zero; one that has at most \<open>k\<close> bits is not changed. The only
  error is that of the random number generator.
\<close>

theorem rounded_to_a_neighbour:
  assumes "x \<noteq> 0" and "-128 \<le> frexp_exp x" and "frexp_exp x < 127"
  shows "(let u = 2 powi (frexp_exp x - int k) in
    case fst (RoundStochasticallyToKBits x k r) of
      Inl e \<Rightarrow> r 0 = None
    | Inr (Finite y) \<Rightarrow> (\<exists>n. y = of_int n * u) \<and> \<bar>y - x\<bar> < u \<and> 0 \<le> y * x \<and> ((\<exists>n. x = of_int n * u) \<longrightarrow> y = x)
    | Inr (Infinite s) \<Rightarrow> False)"
proof -
  let ?u = "2 powi (frexp_exp x - int k) :: rat"
  let ?p = "x * 2 powi (int k - frexp_exp x)"
  let ?t = "truncate_to_int ?p"
  have u: "0 < ?u" by simp
  have px: "?p * ?u = x" by (simp add: power_int_diff field_simps)
  have p0: "?p < 0 \<longleftrightarrow> x < 0" by (auto simp: mult_less_0_iff not_less zero_le_power_int [of "2 :: rat", THEN leD])
  obtain rd r' where rd: "RandDouble r = (rd, r')" by (cases "RandDouble r")
  have dist: "\<bar>y * ?u - x\<bar> = \<bar>y - ?p\<bar> * ?u" for y
    using u px by (metis abs_mult abs_of_pos left_diff_distrib)
  have sign: "0 \<le> y * ?u * x \<longleftrightarrow> 0 \<le> y * ?p" for y by (rule scaled_sign [OF u px])
  show ?thesis
  proof (cases rd)
    case (Inl e)
    then have "r 0 = None"
      using rd by (auto simp: RandDouble_def RandUint64_def split: option.splits)
    with rd Inl assms show ?thesis
      by (simp add: RoundStochasticallyToKBits_def Let_def)
  next
    case (Inr d)
    with rd RandDouble_range have d: "0 \<le> d" "d < 1" by blast+
    show ?thesis
    proof (cases "\<bar>?p - of_int ?t\<bar> > d")
      case True
      let ?n = "?t + copysign_1 ?p"
      have run: "fst (RoundStochasticallyToKBits x k r) = Inr (Finite (of_int ?n * ?u))"
        using rd Inr assms True by (simp add: RoundStochasticallyToKBits_def Let_def)
      have ne: "?p \<noteq> of_int ?t" using True d by auto
      have near: "\<bar>of_int ?n - ?p\<bar> < 1" and same: "0 \<le> of_int ?n * ?p"
      proof -
        consider "0 < ?p" | "?p < 0" using assms(1) p0 by (cases "?p < 0") (auto simp: not_less)
        then show "\<bar>of_int ?n - ?p\<bar> < 1" "0 \<le> of_int ?n * ?p"
          using truncate_bounds [of ?p] ne
          by (cases; simp add: copysign_1_def abs_if zero_le_mult_iff split: if_splits; linarith)+
      qed
      have not_mult: "\<nexists>n. x = of_int n * ?u"
      proof
        assume "\<exists>n. x = of_int n * ?u"
        then obtain n where "?p * ?u = of_int n * ?u" using px by metis
        then have "?p = of_int n" using u by simp
        with ne truncate_of_int [of n] show False by metis
      qed
      have "\<bar>of_int ?n - ?p\<bar> * ?u < ?u" using mult_strict_right_mono [OF near u] by (simp only: mult_1_left)
      with same not_mult show ?thesis
        by (simp only: run sum.case rounded.case Let_def dist sign) blast
    next
      case False
      have run: "fst (RoundStochasticallyToKBits x k r) = Inr (Finite (of_int ?t * ?u))"
        using rd Inr assms False by (simp add: RoundStochasticallyToKBits_def Let_def)
      have near: "\<bar>of_int ?t - ?p\<bar> < 1" using truncate_bounds(2) [of ?p] by (simp add: abs_minus_commute)
      have exact: "of_int ?t * ?u = x" if "\<exists>n. x = of_int n * ?u"
      proof -
        from that obtain n where "?p * ?u = of_int n * ?u" using px by metis
        then have "?p = of_int n" using u by simp
        then have "of_int ?t = ?p" by (metis truncate_of_int)
        with px show ?thesis by simp
      qed
      have "\<bar>of_int ?t - ?p\<bar> * ?u < ?u" using mult_strict_right_mono [OF near u] by (simp only: mult_1_left)
      with truncate_bounds(3) [of ?p] exact show ?thesis
        by (simp only: run sum.case rounded.case Let_def dist sign) blast
    qed
  qed
qed

theorem RandInt_uniform_witness:
  "card {w. \<exists>r'. RandInt 0 100 (\<lambda>_. Some w) = Some (Inr 100, r')} = (2 ^ 64 - 1) div 101"
  using RandInt_uniform [of 0 100 100] by simp

theorem noised_values_in_range_witness:
  "NoiseAndBucketJoinCount 75 (\<lambda>_. Some 0) = Some (Inr 15, \<lambda>_. Some 0) \<and> (1 :: int) \<le> 15 \<and> (15 :: int) \<le> 16"
proof -
  have d: "int32_or_undefined 100 = Some 100" by (simp add: int32_or_undefined_def)
  have g: "RandGenerator 101 (\<lambda>_. Some 0) = Some (Inr 0, \<lambda>_. Some 0)"
    by (subst RandGenerator.simps) (simp add: RandUint64_def)
  have "RandInt 0 100 (\<lambda>_. Some 0) = Some (Inr 0, \<lambda>_. Some 0)"
    by (simp add: RandInt_def d g to_int32_def int32_or_undefined_def)
  then have "NoiseAndBucketJoinCount 75 (\<lambda>_. Some 0) = Some (Inr 15, \<lambda>_. Some 0)"
    by (simp add: NoiseAndBucketJoinCount_def Noise_def BucketJoinCount_def)
  with noised_values_in_range [of 75 "\<lambda>_. Some 0" 15 "\<lambda>_. Some 0"] show ?thesis by blast
qed

theorem rounded_to_a_neighbour_witness:
  "case fst (RoundStochasticallyToKBits 1 8 (\<lambda>_. Some 0)) of
     Inl e \<Rightarrow> False | Inr (Finite y) \<Rightarrow> y = 1 | Inr (Infinite s) \<Rightarrow> False"
proof -
  have e: "frexp_exp 1 = 1"
    using frexp_exp_bounds [of 1] by (simp add: frexp_exp_def bitlen_def)
  have u: "(1 :: rat) = of_int 128 * 2 powi (frexp_exp 1 - int 8)" by (simp add: e power_int_def power_divide)
  from rounded_to_a_neighbour [of 1 8 "\<lambda>_. Some 0"] u show ?thesis
    by (auto simp: e Let_def split: sum.splits rounded.splits)
qed

end
