(* ===== verification/JsonMembers.thy ===== *)
theory JsonMembers
  imports Json "HOL-Library.Multiset"
begin

text \<open>
  The members of a JSON object under update: a member is set in place or appended, and removed the way
  the library removes it. Under distinct names this is update and restriction of a map.
\<close>

text \<open>\<^verbatim>\<open>RemoveMember\<close>: the last member takes the place of the first one with the name.\<close>

fun RemoveMember :: "string \<Rightarrow> (string \<times> json) list \<Rightarrow> (string \<times> json) list" where
  "RemoveMember k [] = []"
| "RemoveMember k ((k', v) # ms) =
     (if k' = k then (if ms = [] then [] else List.last ms # butlast ms) else (k', v) # RemoveMember k ms)"

text \<open>The idiom of finding a member, setting it, and adding it if it is not found.\<close>

fun SetMember :: "string \<Rightarrow> json \<Rightarrow> (string \<times> json) list \<Rightarrow> (string \<times> json) list" where
  "SetMember k v [] = [(k, v)]"
| "SetMember k v ((k', w) # ms) = (if k' = k then (k, v) # ms else (k', w) # SetMember k v ms)"

lemma map_of_SetMember [simp]: "map_of (SetMember k v ms) = (map_of ms)(k \<mapsto> v)"
  by (induction k v ms rule: SetMember.induct) auto

lemma keys_SetMember [simp]: "fst ` set (SetMember k v ms) = insert k (fst ` set ms)"
  by (induction k v ms rule: SetMember.induct) auto

lemma distinct_SetMember [simp]: "distinct (map fst ms) \<Longrightarrow> distinct (map fst (SetMember k v ms))"
  by (induction k v ms rule: SetMember.induct) auto

lemma mset_RemoveMember:
  "distinct (map fst ms) \<Longrightarrow> mset (RemoveMember k ms) = filter_mset (\<lambda>m. fst m \<noteq> k) (mset ms)"
proof (induction k ms rule: RemoveMember.induct)
  case (1 k)
  then show ?case by simp
next
  case (2 k k' v ms)
  show ?case
  proof (cases "k' = k")
    case True
    with "2.prems" have rest: "filter_mset (\<lambda>m. fst m \<noteq> k) (mset ms) = mset ms"
      by (auto simp: filter_mset_eq_conv image_iff intro: rev_image_eqI)
    show ?thesis
    proof (cases "ms = []")
      case False
      then have "mset (List.last ms # butlast ms) = mset ms"
        by (metis add_mset_add_single append_butlast_last_id mset.simps mset_append union_commute)
      with True False rest show ?thesis by simp
    qed (use True in simp)
  qed (use 2 in simp)
qed

lemma keys_RemoveMember [simp]:
  assumes "distinct (map fst ms)"
  shows "distinct (map fst (RemoveMember k ms))" and "fst ` set (RemoveMember k ms) = fst ` set ms - {k}"
proof -
  note m = mset_RemoveMember [OF assms, of k]
  have "set (RemoveMember k ms) = {x \<in> set ms. fst x \<noteq> k}"
    using arg_cong [OF m, of set_mset] by simp
  then show "fst ` set (RemoveMember k ms) = fst ` set ms - {k}" by auto
  have "mset (map fst (RemoveMember k ms)) = mset (map fst (filter (\<lambda>x. fst x \<noteq> k) ms))"
    using m by (simp add: mset_filter)
  then have "distinct (map fst (RemoveMember k ms)) \<longleftrightarrow> distinct (map fst (filter (\<lambda>x. fst x \<noteq> k) ms))"
    by (rule mset_eq_imp_distinct_iff)
  with assms show "distinct (map fst (RemoveMember k ms))" by (simp add: distinct_map_filter)
qed

lemma map_of_RemoveMember [simp]:
  assumes "distinct (map fst ms)"
  shows "map_of (RemoveMember k ms) = (map_of ms)(k := None)"
proof -
  have "set (RemoveMember k ms) = {x \<in> set ms. fst x \<noteq> k}"
    using arg_cong [OF mset_RemoveMember [OF assms, of k], of set_mset] by simp
  then have "\<And>x v. map_of (RemoveMember k ms) x = Some v \<longleftrightarrow> ((map_of ms)(k := None)) x = Some v"
    using assms keys_RemoveMember(1) [OF assms, of k] by (simp add: map_of_eq_Some_iff)
  then show ?thesis by (metis ext option.exhaust)
qed

end
