(* ===== verification/ReportingHelper.thy ===== *)
theory ReportingHelper
  imports JsonMembers ScoreAdsDispatch PrivateAggregation
begin

text \<open>
  The reporting helpers of the auction service (\<^verbatim>\<open>services/auction_service/reporting/\<close>): the signals
  handed to the code of the seller (\<^verbatim>\<open>reportResult\<close>) and of the buyer (\<^verbatim>\<open>reportWin\<close>), the requests that
  carry them, and the parsing of the answers. Signals are JSON objects; what the caller dispatches
  is returned as a request.
\<close>

subsection \<open>Data\<close>

record ReportResultResponse =
  report_result_url :: string
  rr_interaction_reporting_urls :: "string \<rightharpoonup> string"
  rr_send_report_to_invoked :: bool
  rr_register_ad_beacon_invoked :: bool
  signals_for_winner :: string
  rr_pagg_response :: PrivateAggregateReportingResponse

definition no_pagg_response :: PrivateAggregateReportingResponse where
  "no_pagg_response = \<lparr>contributions = [], adtech_origin = []\<rparr>"

definition empty_ReportResultResponse :: ReportResultResponse where
  "empty_ReportResultResponse = \<lparr>report_result_url = [], rr_interaction_reporting_urls = Map.empty,
     rr_send_report_to_invoked = False, rr_register_ad_beacon_invoked = False,
     signals_for_winner = [], rr_pagg_response = no_pagg_response\<rparr>"

record ReportWinResponse =
  report_win_url :: string
  rw_interaction_reporting_urls :: "string \<rightharpoonup> string"
  rw_send_report_to_invoked :: bool
  rw_register_ad_beacon_invoked :: bool
  rw_pagg_response :: PrivateAggregateReportingResponse

definition empty_ReportWinResponse :: ReportWinResponse where
  "empty_ReportWinResponse = \<lparr>report_win_url = [], rw_interaction_reporting_urls = Map.empty,
     rw_send_report_to_invoked = False, rw_register_ad_beacon_invoked = False,
     rw_pagg_response = no_pagg_response\<rparr>"

record ReportingResponse =
  report_result_response :: ReportResultResponse
  seller_logs :: "string list"
  seller_error_logs :: "string list"
  seller_warning_logs :: "string list"
  report_win_response :: ReportWinResponse
  buyer_logs :: "string list"
  buyer_error_logs :: "string list"
  buyer_warning_logs :: "string list"

definition empty_ReportingResponse :: ReportingResponse where
  "empty_ReportingResponse = \<lparr>report_result_response = empty_ReportResultResponse, seller_logs = [],
     seller_error_logs = [], seller_warning_logs = [], report_win_response = empty_ReportWinResponse,
     buyer_logs = [], buyer_error_logs = [], buyer_warning_logs = []\<rparr>"

record BuyerReportingMetadata =
  brm_buyer_signals :: string
  brm_join_count :: "int option"
  brm_recency :: "int option"
  brm_modeling_signals :: "int option"
  brm_seller :: string
  brm_interest_group_name :: string
  brm_ad_cost :: rat
  brm_buyer_reporting_id :: string
  brm_data_version :: nat

definition empty_BuyerReportingMetadata :: BuyerReportingMetadata where
  "empty_BuyerReportingMetadata = \<lparr>brm_buyer_signals = [], brm_join_count = None, brm_recency = None,
     brm_modeling_signals = None, brm_seller = [], brm_interest_group_name = [], brm_ad_cost = 0,
     brm_buyer_reporting_id = [], brm_data_version = 0\<rparr>"

record ComponentReportingMetadata =
  crm_top_level_seller :: string
  crm_component_seller :: string
  crm_modified_bid_currency :: string
  crm_modified_bid :: rat

definition empty_ComponentReportingMetadata :: ComponentReportingMetadata where
  "empty_ComponentReportingMetadata = \<lparr>crm_top_level_seller = [], crm_component_seller = [],
     crm_modified_bid_currency = [], crm_modified_bid = 0\<rparr>"

record ReportingDispatchRequestData =
  rdr_handler_name :: string
  rdr_auction_config :: string
  rdr_post_auction_signals :: PostAuctionSignals
  rdr_publisher_hostname :: string
  rdr_buyer_reporting_metadata :: BuyerReportingMetadata
  rdr_component_reporting_metadata :: ComponentReportingMetadata
  rdr_egress_payload :: string
  rdr_temporary_egress_payload :: string

record SellerReportingDispatchRequestData =
  srd_auction_config :: string
  srd_post_auction_signals :: PostAuctionSignals
  srd_publisher_hostname :: string
  srd_component_reporting_metadata :: ComponentReportingMetadata
  srd_buyer_and_seller_reporting_id :: "string option"
  srd_selected_buyer_and_seller_reporting_id :: "string option"

subsection \<open>Parsing\<close>

fun strings_of :: "json list \<Rightarrow> string list option" where
  "strings_of [] = Some []"
| "strings_of (j # js) = do { s \<leftarrow> GetString j; ss \<leftarrow> strings_of js; Some (s # ss) }"

definition ParseLogs :: "json \<Rightarrow> string \<Rightarrow> string list option" where
  "ParseLogs document log_type = do {
     it \<leftarrow> FindMember document log_type;
     case it of None \<Rightarrow> Some [] | Some v \<Rightarrow> GetArray v \<bind> strings_of }"

fun emplace_members :: "(string \<times> json) list \<Rightarrow> (string \<rightharpoonup> string) \<Rightarrow> (string \<rightharpoonup> string) option" where
  "emplace_members [] m = Some m"
| "emplace_members ((k, v) # ms) m = do { url \<leftarrow> GetString v; emplace_members ms (try_emplace m k url) }"

text \<open>
  The interaction reporting URLs of a response object. When there is no such object the members of a
  null value are iterated: there are none (a build with assertions on aborts there).
\<close>

definition interaction_urls :: "json \<Rightarrow> (string \<rightharpoonup> string) option" where
  "interaction_urls response_obj = do {
     urls \<leftarrow> assign_if_present (\<lambda>v. if IsObject v then Some v else None) response_obj
       ''interactionReportingUrls'' JNull;
     emplace_members (case Members urls of None \<Rightarrow> [] | Some ms \<Rightarrow> ms) Map.empty }"

definition ParseAndGetReportingResponse :: "env \<Rightarrow> bool \<Rightarrow> string \<Rightarrow> ReportingResponse result" where
  "ParseAndGetReportingResponse e enable_logging response =
     assign_or_return (Some (ParseJsonString e response)) (\<lambda>document. do {
       result_it \<leftarrow> FindMember document ''reportResultResponse'';
       case result_it of
         None \<Rightarrow> Some (Inr empty_ReportingResponse)
       | Some obj \<Rightarrow> do {
           url \<leftarrow> assign_if_present GetString obj ''reportResultUrl'' [];
           sent \<leftarrow> assign_if_present GetBool obj ''sendReportToInvoked'' False;
           beacon \<leftarrow> assign_if_present GetBool obj ''registerAdBeaconInvoked'' False;
           urls \<leftarrow> interaction_urls obj;
           let logs = (\<lambda>log_type. if enable_logging then ParseLogs document log_type else Some [])
           in do {
             sl \<leftarrow> logs ''sellerLogs'';
             se \<leftarrow> logs ''sellerErrors'';
             sw \<leftarrow> logs ''sellerWarnings'';
             bl \<leftarrow> logs ''buyerLogs'';
             be \<leftarrow> logs ''buyerErrors'';
             bw \<leftarrow> logs ''buyerWarnings'';
             let r = empty_ReportingResponse\<lparr>
                 report_result_response := empty_ReportResultResponse
                   \<lparr>report_result_url := url, rr_send_report_to_invoked := sent,
                    rr_register_ad_beacon_invoked := beacon, rr_interaction_reporting_urls := urls\<rparr>,
                 seller_logs := sl, seller_error_logs := se, seller_warning_logs := sw,
                 buyer_logs := bl, buyer_error_logs := be, buyer_warning_logs := bw\<rparr>
             in do {
               win_it \<leftarrow> FindMember document ''reportWinResponse'';
               case win_it of
                 None \<Rightarrow> Some (Inr r)
               | Some wobj \<Rightarrow> do {
                   wurl \<leftarrow> assign_if_present GetString wobj ''reportWinUrl'' [];
                   wsent \<leftarrow> assign_if_present GetBool wobj ''sendReportToInvoked'' False;
                   wbeacon \<leftarrow> assign_if_present GetBool wobj ''registerAdBeaconInvoked'' False;
                   wurls \<leftarrow> interaction_urls wobj;
                   Some (Inr (r\<lparr>report_win_response := empty_ReportWinResponse
                     \<lparr>report_win_url := wurl, rw_send_report_to_invoked := wsent,
                      rw_register_ad_beacon_invoked := wbeacon, rw_interaction_reporting_urls := wurls\<rparr>\<rparr>)) } } } } })"

text \<open>The log lines that are exported.\<close>

definition HandleUdfLogs :: "env \<Rightarrow> json \<Rightarrow> string \<Rightarrow> string list option" where
  "HandleUdfLogs e document log_type =
     (if \<not> AllowAnyUdfLogging e then Some [] else ParseLogs document log_type)"

definition udf_logs :: "env \<Rightarrow> bool \<Rightarrow> json \<Rightarrow> unit option" where
  "udf_logs e enable document =
     (if enable then do {
        _ \<leftarrow> HandleUdfLogs e document ''logs'';
        _ \<leftarrow> HandleUdfLogs e document ''errors'';
        _ \<leftarrow> HandleUdfLogs e document ''warnings'';
        Some () }
      else Some ())"

text \<open>The private aggregation contributions of an answer of \<^verbatim>\<open>reportResult\<close> or \<^verbatim>\<open>reportWin\<close>.\<close>

definition winner_contributions :: "BaseValues \<Rightarrow> json \<Rightarrow> PrivateAggregateReportingResponse option" where
  "winner_contributions bv document = do {
     it \<leftarrow> FindMember document ''paapiContributions'';
     case it of
       Some (JObject ms) \<Rightarrow> GetPrivateAggregateReportingResponseForWinner bv (JObject ms)
     | _ \<Rightarrow> Some no_pagg_response }"

definition ParseReportResultResponse ::
    "env \<Rightarrow> ReportingDispatchRequestConfig \<Rightarrow> string \<Rightarrow> BaseValues \<Rightarrow> ReportResultResponse result" where
  "ParseReportResultResponse e config response bv =
     assign_or_return (Some (ParseJsonString e response)) (\<lambda>document. do {
       it \<leftarrow> FindMember document ''response'';
       case it of
         None \<Rightarrow> Some (Inl Internal)
       | Some obj \<Rightarrow> do {
           winner_signals \<leftarrow> assign_if_present GetString obj ''signalsForWinner'' [];
           url \<leftarrow> assign_if_present GetString obj ''reportResultUrl'' [];
           urls \<leftarrow> interaction_urls obj;
           _ \<leftarrow> udf_logs e (rd_enable_adtech_code_logging config) document;
           pagg \<leftarrow> winner_contributions bv document;
           Some (Inr (empty_ReportResultResponse
             \<lparr>signals_for_winner :=
                (if winner_signals = [] \<or> winner_signals = ''undefined'' then ''null'' else winner_signals),
              report_result_url := url, rr_interaction_reporting_urls := urls,
              rr_pagg_response := pagg\<rparr>)) } })"

definition ParseReportWinResponse ::
    "env \<Rightarrow> ReportingDispatchRequestConfig \<Rightarrow> string \<Rightarrow> BaseValues \<Rightarrow> ReportWinResponse result" where
  "ParseReportWinResponse e config response bv =
     assign_or_return (Some (ParseJsonString e response)) (\<lambda>document. do {
       it \<leftarrow> FindMember document ''response'';
       case it of
         None \<Rightarrow> Some (Inl Internal)
       | Some obj \<Rightarrow> do {
           url \<leftarrow> assign_if_present GetString obj ''reportWinUrl'' [];
           urls \<leftarrow> interaction_urls obj;
           _ \<leftarrow> udf_logs e (rd_enable_adtech_code_logging config) document;
           pagg \<leftarrow> winner_contributions bv document;
           Some (Inr (empty_ReportWinResponse
             \<lparr>report_win_url := url, rw_interaction_reporting_urls := urls, rw_pagg_response := pagg\<rparr>)) } })"

subsection \<open>Rounding\<close>

definition GetEightBitRoundedValue :: "env \<Rightarrow> rat \<Rightarrow> rat" where
  "GetEightBitRoundedValue e v = (case round_to_8_bits e v of Inl _ \<Rightarrow> -1 | Inr r \<Rightarrow> r)"

definition GetEightBitRoundedValue_noising :: "env \<Rightarrow> bool \<Rightarrow> rat \<Rightarrow> rat" where
  "GetEightBitRoundedValue_noising e enable_noising v =
     (if \<not> enable_noising then v else GetEightBitRoundedValue e v)"

abbreviation opt_member :: "bool \<Rightarrow> string \<Rightarrow> json \<Rightarrow> (string \<times> json) list" where
  "opt_member c k v \<equiv> (if c then [(k, v)] else [])"

text \<open>Members whose value could be rounded.\<close>

definition rounded_member :: "env \<Rightarrow> string \<Rightarrow> rat \<Rightarrow> (string \<times> json) list" where
  "rounded_member e k v = (case round_to_8_bits e v of Inl _ \<Rightarrow> [] | Inr r \<Rightarrow> [(k, JDouble r)])"

subsection \<open>One call for seller and buyer\<close>

definition GetSellerReportingSignals ::
    "env \<Rightarrow> ReportingDispatchRequestData \<Rightarrow> ReportingDispatchRequestConfig \<Rightarrow> status_code + string" where
  "GetSellerReportingSignals e data config =
     (let sigs = rdr_post_auction_signals data; crm = rdr_component_reporting_metadata data;
          rounded = GetEightBitRoundedValue_noising e (rd_enable_report_win_input_noising config);
          b = rounded (winning_bid sigs); d = rounded (winning_score sigs); mb = rounded (crm_modified_bid crm)
      in SerializeJsonDoc e (JObject (
        [(''topWindowHostname'', JString (rdr_publisher_hostname data)),
         (''interestGroupOwner'', JString (winning_ig_owner sigs)),
         (''renderURL'', JString (winning_ad_render_url sigs)),
         (''renderUrl'', JString (winning_ad_render_url sigs))] @
        opt_member (b > -1) ''bid'' (JDouble b) @
        opt_member (winning_bid_currency sigs \<noteq> []) ''bidCurrency'' (JString (winning_bid_currency sigs)) @
        opt_member (sig_seller_data_version sigs > 0) ''dataVersion'' (JInt (int (sig_seller_data_version sigs))) @
        opt_member (highest_scoring_other_bid_currency sigs \<noteq> []) ''highestScoringOtherBidCurrency''
          (JString (highest_scoring_other_bid_currency sigs)) @
        opt_member (d > -1) ''desirability'' (JDouble d) @
        [(''highestScoringOtherBid'', JDouble (highest_scoring_other_bid sigs))] @
        (if crm_top_level_seller crm \<noteq> []
         then [(''topLevelSeller'', JString (crm_top_level_seller crm))] @
              opt_member (mb > -1) ''modifiedBid'' (JDouble mb) @
              opt_member (crm_modified_bid_currency crm \<noteq> []) ''modifiedBidCurrency''
                (JString (crm_modified_bid_currency crm))
         else []) @
        opt_member (crm_component_seller crm \<noteq> []) ''componentSeller'' (JString (crm_component_seller crm)))))"

definition newline :: string where
  "newline = [CHR 0x0A]"

definition double_quote :: string where
  "double_quote = [CHR 0x22]"

definition kDefaultBuyerReportingMetadata :: string where
  "kDefaultBuyerReportingMetadata = newline @ ''        {'' @ newline @ ''          '' @ double_quote @
     ''enableReportWinUrlGeneration'' @ double_quote @ '' : false'' @ newline @ ''        }'' @ newline @ ''        ''"

text \<open>A value that is noised when noising is on; when that fails it is kept as it is.\<close>

definition noised_or_raw :: "bool \<Rightarrow> (int \<Rightarrow> status_code + int) \<Rightarrow> int \<Rightarrow> int" where
  "noised_or_raw enable noise i = (if enable then (case noise i of Inl _ \<Rightarrow> i | Inr j \<Rightarrow> j) else i)"

definition GetBuyerMetadataJson ::
    "env \<Rightarrow> ReportingDispatchRequestConfig \<Rightarrow> ReportingDispatchRequestData \<Rightarrow> string" where
  "GetBuyerMetadataJson e config data =
     (if \<not> rd_enable_report_win_url_generation config then kDefaultBuyerReportingMetadata
      else
        (let m = rdr_buyer_reporting_metadata data; sigs = rdr_post_auction_signals data;
             noising = rd_enable_report_win_input_noising config;
             cost = GetEightBitRoundedValue_noising e noising (brm_ad_cost m)
         in case SerializeJsonDoc e (JObject (
              [(''enableReportWinUrlGeneration'', JBool (rd_enable_report_win_url_generation config)),
               (''enableProtectedAppSignals'', JBool (rd_enable_protected_app_signals config))] @
              (if brm_buyer_signals m \<noteq> []
               then (case ParseJsonString e (brm_buyer_signals m) of
                       Inl _ \<Rightarrow> [] | Inr doc \<Rightarrow> [(''perBuyerSignals'', doc)])
               else []) @
              [(''buyerOrigin'', JString (winning_ig_owner sigs)),
               (''madeHighestScoringOtherBid'', JBool (made_highest_scoring_other_bid sigs))] @
              (case brm_join_count m of None \<Rightarrow> []
               | Some c \<Rightarrow> [(''joinCount'', JInt (noised_or_raw noising (noise_join_count e) c))]) @
              (case brm_recency m of None \<Rightarrow> []
               | Some r \<Rightarrow> [(''recency'', JInt (noised_or_raw noising (noise_recency e) r))]) @
              (case brm_modeling_signals m of None \<Rightarrow> []
               | Some i \<Rightarrow>
                   if noising then (case noise_modeling_signals e i of
                                      Inl _ \<Rightarrow> [] | Inr j \<Rightarrow> [(''modelingSignals'', JInt j)])
                   else [(''modelingSignals'', JInt i)]) @
              opt_member (brm_seller m \<noteq> []) ''seller'' (JString (brm_seller m)) @
              opt_member (cost > -1) ''adCost'' (JDouble cost) @
              (if brm_buyer_reporting_id m \<noteq> []
               then [(''buyerReportingId'', JString (brm_buyer_reporting_id m))]
               else [(''interestGroupName'', JString (brm_interest_group_name m))]) @
              opt_member (brm_data_version m > 0) ''dataVersion'' (JInt (int (brm_data_version m))))) of
            Inl _ \<Rightarrow> kDefaultBuyerReportingMetadata
          | Inr json_string \<Rightarrow> json_string))"

definition GetReportingInput ::
    "env \<Rightarrow> ReportingDispatchRequestConfig \<Rightarrow> ReportingDispatchRequestData \<Rightarrow> string list" where
  "GetReportingInput e config data =
     (case GetSellerReportingSignals e data config of
        Inl _ \<Rightarrow> []
      | Inr sigs \<Rightarrow>
          [rdr_auction_config data, sigs, ''{}'', string_of_bool (rd_enable_adtech_code_logging config),
           GetBuyerMetadataJson e config data] @
          (if rd_enable_protected_app_signals config
           then [double_quote @ rdr_egress_payload data @ double_quote,
                 (if enable_temporary_unlimited_egress e
                  then double_quote @ rdr_temporary_egress_payload data @ double_quote
                  else double_quote @ double_quote)]
           else []))"

definition GetReportingDispatchRequest ::
    "env \<Rightarrow> ReportingDispatchRequestConfig \<Rightarrow> ReportingDispatchRequestData \<Rightarrow> DispatchRequest" where
  "GetReportingDispatchRequest e config data =
     \<lparr>req_id = winning_ad_render_url (rdr_post_auction_signals data), version_string = ''v1'',
      handler_name = rdr_handler_name data, inputs = GetReportingInput e config data, tags = []\<rparr>"

subsection \<open>Separate calls: the seller\<close>

definition GetReportResultInput ::
    "string \<Rightarrow> ReportingDispatchRequestConfig \<Rightarrow> SellerReportingDispatchRequestData \<Rightarrow> string list" where
  "GetReportResultInput device_signals config data =
     [srd_auction_config data, device_signals, ''{}'', string_of_bool (rd_enable_adtech_code_logging config)]"

definition GetReportResultDispatchRequest ::
    "ReportingDispatchRequestConfig \<Rightarrow> SellerReportingDispatchRequestData \<Rightarrow> string \<Rightarrow> DispatchRequest" where
  "GetReportResultDispatchRequest config data device_signals =
     \<lparr>req_id = winning_ad_render_url (srd_post_auction_signals data),
      version_string = rd_report_result_udf_version config, handler_name = ''reportResultEntryFunction'',
      inputs = GetReportResultInput device_signals config data, tags = []\<rparr>"

abbreviation opt_string :: "string \<Rightarrow> string option \<Rightarrow> (string \<times> json) list" where
  "opt_string k v \<equiv> (case v of None \<Rightarrow> [] | Some x \<Rightarrow> [(k, JString x)])"

text \<open>The signals every report of a seller starts with.\<close>

definition page_members :: "SellerReportingDispatchRequestData \<Rightarrow> (string \<times> json) list" where
  "page_members data =
     [(''topWindowHostname'', JString (srd_publisher_hostname data)),
      (''interestGroupOwner'', JString (winning_ig_owner (srd_post_auction_signals data))),
      (''renderURL'', JString (winning_ad_render_url (srd_post_auction_signals data))),
      (''renderUrl'', JString (winning_ad_render_url (srd_post_auction_signals data)))]"

definition GenerateSellerDeviceSignals :: "env \<Rightarrow> SellerReportingDispatchRequestData \<Rightarrow> json" where
  "GenerateSellerDeviceSignals e data =
     (let sigs = srd_post_auction_signals data;
          b = (if winning_bid_in_seller_currency sigs > 0
               then GetEightBitRoundedValue e (winning_bid_in_seller_currency sigs)
               else GetEightBitRoundedValue e (winning_bid sigs));
          d = GetEightBitRoundedValue e (winning_score sigs)
      in JObject (
        page_members data @
        opt_member (b > -1) ''bid'' (JDouble b) @
        opt_member (winning_bid_currency sigs \<noteq> []) ''bidCurrency'' (JString (winning_bid_currency sigs)) @
        opt_member (sig_seller_data_version sigs > 0) ''dataVersion'' (JInt (int (sig_seller_data_version sigs))) @
        opt_member (highest_scoring_other_bid_currency sigs \<noteq> []) ''highestScoringOtherBidCurrency''
          (JString (highest_scoring_other_bid_currency sigs)) @
        opt_member (d > -1) ''desirability'' (JDouble d) @
        [(''highestScoringOtherBid'', JDouble (highest_scoring_other_bid sigs))] @
        opt_string ''selectedBuyerAndSellerReportingId'' (srd_selected_buyer_and_seller_reporting_id data) @
        opt_string ''buyerAndSellerReportingId'' (srd_buyer_and_seller_reporting_id data)))"

definition GenerateSellerDeviceSignalsForComponentAuction ::
    "env \<Rightarrow> SellerReportingDispatchRequestData \<Rightarrow> json option" where
  "GenerateSellerDeviceSignalsForComponentAuction e data = do {
     ms \<leftarrow> Members (GenerateSellerDeviceSignals e data);
     Some (JObject (ms @
       [(''topLevelSeller'', JString (crm_top_level_seller (srd_component_reporting_metadata data)))] @
       rounded_member e ''modifiedBid'' (crm_modified_bid (srd_component_reporting_metadata data)))) }"

text \<open>
  A top level auction: the desirability is rounded by the function that returns -1 on failure, whose
  result is then taken to be a status.
\<close>

definition GenerateSellerDeviceSignalsForTopLevelAuction ::
    "env \<Rightarrow> SellerReportingDispatchRequestData \<Rightarrow> json" where
  "GenerateSellerDeviceSignalsForTopLevelAuction e data =
     (let sigs = srd_post_auction_signals data in
      JObject (page_members data @
        rounded_member e ''bid'' (winning_bid sigs) @
        [(''desirability'', JDouble (GetEightBitRoundedValue e (winning_score sigs)))] @
        [(''componentSeller'', JString (crm_component_seller (srd_component_reporting_metadata data)))]))"

text \<open>The request for \<^verbatim>\<open>reportResult\<close>; what the dispatcher answers is left to the reactor.\<close>

definition report_result_request ::
    "env \<Rightarrow> ReportingDispatchRequestConfig \<Rightarrow> json \<Rightarrow> SellerReportingDispatchRequestData \<Rightarrow>
     status_code + DispatchRequest" where
  "report_result_request e config device_signals data =
     (case SerializeJsonDoc e device_signals of
        Inl err \<Rightarrow> Inl err
      | Inr js \<Rightarrow> Inr ((GetReportResultDispatchRequest config data js)
          \<lparr>tags := [(kRomaTimeoutTag, rd_roma_timeout_ms config)]\<rparr>))"

definition PerformReportResult ::
    "env \<Rightarrow> SellerReportingDispatchRequestData \<Rightarrow> reactor \<Rightarrow> status \<times> reactor" where
  "PerformReportResult e data s =
     (case report_result_request e (reporting_config s) (seller_device_signals s) data of
        Inl err \<Rightarrow> (Some err, s)
      | Inr req \<Rightarrow> dispatch_batch e [req] ReportResultCallback_of s)"

subsection \<open>Separate calls: the buyer\<close>

definition AddKeyValToSellerSignalsIfNotPresent ::
    "string \<Rightarrow> string \<Rightarrow> (string \<times> json) list \<Rightarrow> (string \<times> json) list" where
  "AddKeyValToSellerSignalsIfNotPresent tag v ms =
     (if map_of ms tag \<noteq> None then ms else ms @ [(tag, JString v)])"

definition SetReportingIds ::
    "BuyerReportingDispatchRequestData \<Rightarrow> (string \<times> json) list \<Rightarrow> (string \<times> json) list" where
  "SetReportingIds data ms =
     (case br_selected_buyer_and_seller_reporting_id data of
        Some selected \<Rightarrow>
          (let ms1 = AddKeyValToSellerSignalsIfNotPresent ''selectedBuyerAndSellerReportingId'' selected ms;
               ms2 = (case br_buyer_and_seller_reporting_id data of
                        None \<Rightarrow> ms1
                      | Some i \<Rightarrow> AddKeyValToSellerSignalsIfNotPresent ''buyerAndSellerReportingId'' i ms1)
           in ms2 @ opt_string ''buyerReportingId'' (br_buyer_reporting_id data))
      | None \<Rightarrow>
          (case br_buyer_and_seller_reporting_id data of
             Some i \<Rightarrow> AddKeyValToSellerSignalsIfNotPresent ''buyerAndSellerReportingId'' i ms
           | None \<Rightarrow>
               (case br_buyer_reporting_id data of
                  Some i \<Rightarrow> AddKeyValToSellerSignalsIfNotPresent ''buyerReportingId'' i ms
                | None \<Rightarrow> ms @ [(''interestGroupName'', JString (br_interest_group_name data))])))"

definition noised_member ::
    "string \<Rightarrow> (int \<Rightarrow> status_code + int) \<Rightarrow> int option \<Rightarrow> (string \<times> json) list" where
  "noised_member k noise v =
     (case v of None \<Rightarrow> [] | Some i \<Rightarrow> (case noise i of Inl _ \<Rightarrow> [] | Inr j \<Rightarrow> [(k, JInt j)]))"

text \<open>The members of the buyer's signals, from those of the seller.\<close>

definition buyer_device_members ::
    "env \<Rightarrow> BuyerReportingDispatchRequestData \<Rightarrow> (string \<times> json) list \<Rightarrow> (string \<times> json) list" where
  "buyer_device_members e data ms =
     (let ms1 = RemoveMember ''dataVersion'' (RemoveMember ''modifiedBid'' (RemoveMember ''desirability'' ms));
          ms2 = ms1 @ [(''madeHighestScoringOtherBid'', JBool (br_made_highest_scoring_other_bid data))] @
            noised_member ''joinCount'' (noise_join_count e) (br_join_count data) @
            noised_member ''recency'' (noise_recency e) (br_recency data) @
            noised_member ''modelingSignals'' (noise_modeling_signals e) (br_modeling_signals data) @
            opt_member (br_seller data \<noteq> []) ''seller'' (JString (br_seller data)) @
            rounded_member e ''adCost'' (br_ad_cost data)
      in SetReportingIds data ms2 @
         opt_member (br_data_version data > 0) ''dataVersion'' (JInt (int (br_data_version data))) @
         [(''kAnonStatus'', JString (br_k_anon_status data))])"

definition GenerateBuyerDeviceSignals ::
    "env \<Rightarrow> BuyerReportingDispatchRequestData \<Rightarrow> json \<Rightarrow> ((status_code + string) \<times> json) option" where
  "GenerateBuyerDeviceSignals e data sds = do {
     ms \<leftarrow> Members sds;
     let doc = JObject (buyer_device_members e data ms) in Some (SerializeJsonDoc e doc, doc) }"

definition GetDomainFromUrl :: "env \<Rightarrow> string \<Rightarrow> status_code + string" where
  "GetDomainFromUrl e url = curl_host e url"

datatype AuctionType = kProtectedAudience | kProtectedAppSignals

definition GetBuyerReportWinVersion :: "env \<Rightarrow> string \<Rightarrow> AuctionType \<Rightarrow> status_code + string" where
  "GetBuyerReportWinVersion e buyer_url auction_type =
     (case GetDomainFromUrl e buyer_url of
        Inl err \<Rightarrow> Inl err
      | Inr domain \<Rightarrow> Inr ((case auction_type of
          kProtectedAppSignals \<Rightarrow> ''pas_'' | kProtectedAudience \<Rightarrow> ''pa_'') @ domain))"

definition GetReportWinInput ::
    "string \<Rightarrow> ReportingDispatchRequestConfig \<Rightarrow> BuyerReportingDispatchRequestData \<Rightarrow> string list" where
  "GetReportWinInput device_signals config data =
     [br_auction_config data, br_buyer_signals data, br_signals_for_winner data, device_signals, ''{}'',
      string_of_bool (rd_enable_adtech_code_logging config)]"

definition GetPASReportWinInput ::
    "string \<Rightarrow> ReportingDispatchRequestConfig \<Rightarrow> BuyerReportingDispatchRequestData \<Rightarrow> string list" where
  "GetPASReportWinInput device_signals config data =
     [br_auction_config data, br_buyer_signals data, br_signals_for_winner data, device_signals, ''{}'',
      string_of_bool (rd_enable_adtech_code_logging config),
      (case br_egress_payload data of None \<Rightarrow> [] | Some p \<Rightarrow> p),
      (case br_temporary_unlimited_egress_payload data of None \<Rightarrow> [] | Some p \<Rightarrow> p)]"

definition GetReportWinDispatchRequest ::
    "env \<Rightarrow> ReportingDispatchRequestConfig \<Rightarrow> BuyerReportingDispatchRequestData \<Rightarrow> string \<Rightarrow>
     status_code + DispatchRequest" where
  "GetReportWinDispatchRequest e config data device_signals =
     (case GetBuyerReportWinVersion e (br_buyer_origin data) kProtectedAudience of
        Inl _ \<Rightarrow> Inl Internal
      | Inr version \<Rightarrow> Inr \<lparr>req_id = br_winning_ad_render_url data, version_string = version,
          handler_name = ''reportWinEntryFunction'',
          inputs = GetReportWinInput device_signals config data, tags = []\<rparr>)"

definition GetPASReportWinDispatchRequest ::
    "env \<Rightarrow> ReportingDispatchRequestConfig \<Rightarrow> BuyerReportingDispatchRequestData \<Rightarrow> string \<Rightarrow>
     status_code + DispatchRequest" where
  "GetPASReportWinDispatchRequest e config data device_signals =
     (case GetBuyerReportWinVersion e (br_buyer_origin data) kProtectedAppSignals of
        Inl _ \<Rightarrow> Inl Internal
      | Inr version \<Rightarrow> Inr \<lparr>req_id = br_winning_ad_render_url data, version_string = version,
          handler_name = ''reportWinEntryFunction'',
          inputs = GetPASReportWinInput device_signals config data, tags = []\<rparr>)"

text \<open>
  The dispatch of \<^verbatim>\<open>reportWin\<close>: the device signals of the seller turn into those of the buyer in
  place.
\<close>

definition perform_report_win ::
    "(env \<Rightarrow> ReportingDispatchRequestConfig \<Rightarrow> BuyerReportingDispatchRequestData \<Rightarrow> string \<Rightarrow>
      status_code + DispatchRequest) \<Rightarrow> env \<Rightarrow> reactor \<Rightarrow> (status \<times> reactor) option" where
  "perform_report_win get_request e s = do {
     (js, doc) \<leftarrow> GenerateBuyerDeviceSignals e (buyer_reporting_data s) (seller_device_signals s);
     let s1 = s\<lparr>seller_device_signals := doc\<rparr>
     in case js of
       Inl err \<Rightarrow> Some (Some err, s1)
     | Inr device_signals \<Rightarrow>
         (case get_request e (reporting_config s1) (buyer_reporting_data s1) device_signals of
            Inl err \<Rightarrow> Some (Some err, s1)
          | Inr req \<Rightarrow> Some (dispatch_batch e
              [req\<lparr>tags := [(kRomaTimeoutTag, rd_roma_timeout_ms (reporting_config s1))]\<rparr>]
              ReportWinCallback_of s1)) }"

definition PerformPAReportWin :: "env \<Rightarrow> reactor \<Rightarrow> (status \<times> reactor) option" where
  "PerformPAReportWin = perform_report_win GetReportWinDispatchRequest"

definition PerformPASReportWin :: "env \<Rightarrow> reactor \<Rightarrow> (status \<times> reactor) option" where
  "PerformPASReportWin = perform_report_win GetPASReportWinDispatchRequest"

end
