(* ===== verification/ScoreAdsReporting.thy ===== *)
theory ScoreAdsReporting
  imports ScoreAdsWinner ReportingHelper
begin

text \<open>
  The third part of \<^verbatim>\<open>ScoreAdsReactor\<close>: the response is built from the winner and the ghost winners,
  debug reports are sent, private aggregation contributions collected, and the code of seller and
  buyer is run for their reports. Values moved out of a member that is not read again are left in
  place. \<open>None\<close> is undefined behaviour or a failed check: signals that were never set, an index out
  of range, an absent key.
\<close>

subsection \<open>Updates of the response\<close>

abbreviation update_ad_score :: "(AdScore \<Rightarrow> AdScore) \<Rightarrow> reactor \<Rightarrow> reactor" where
  "update_ad_score f s \<equiv> s\<lparr>raw_response := (raw_response s)\<lparr>ad_score := f (ad_score (raw_response s))\<rparr>\<rparr>"

abbreviation update_urls :: "(WinReportingUrls \<Rightarrow> WinReportingUrls) \<Rightarrow> reactor \<Rightarrow> reactor" where
  "update_urls f \<equiv> update_ad_score (\<lambda>ad. ad\<lparr>win_reporting_urls := f (win_reporting_urls ad)\<rparr>)"

text \<open>A reporting URL is set; interaction URLs are added for events that have none yet.\<close>

definition put_urls :: "string \<Rightarrow> (string \<rightharpoonup> string) \<Rightarrow> ReportingUrls \<Rightarrow> ReportingUrls" where
  "put_urls url events u = \<lparr>reporting_url = url,
     interaction_reporting_urls = emplace_urls events (interaction_reporting_urls u)\<rparr>"

definition put_top_level :: "string \<Rightarrow> (string \<rightharpoonup> string) \<Rightarrow> WinReportingUrls \<Rightarrow> WinReportingUrls" where
  "put_top_level url events w =
     w\<lparr>top_level_seller_reporting_urls := put_urls url events (top_level_seller_reporting_urls w)\<rparr>"

definition put_component :: "string \<Rightarrow> (string \<rightharpoonup> string) \<Rightarrow> WinReportingUrls \<Rightarrow> WinReportingUrls" where
  "put_component url events w =
     w\<lparr>component_seller_reporting_urls := put_urls url events (component_seller_reporting_urls w)\<rparr>"

definition put_buyer :: "string \<Rightarrow> (string \<rightharpoonup> string) \<Rightarrow> WinReportingUrls \<Rightarrow> WinReportingUrls" where
  "put_buyer url events w = w\<lparr>buyer_reporting_urls := put_urls url events (buyer_reporting_urls w)\<rparr>"

definition PopulateComponentReportingUrlsInTopLevelResponse :: "string \<Rightarrow> reactor \<Rightarrow> reactor" where
  "PopulateComponentReportingUrlsInTopLevelResponse dispatch_id s =
     (case component_level_reporting_data s dispatch_id of
        None \<Rightarrow> s
      | Some d \<Rightarrow>
          (let c = component_seller_reporting_urls (crd_win_reporting_urls d);
               b = buyer_reporting_urls (crd_win_reporting_urls d)
           in update_urls (put_buyer (reporting_url b) (interaction_reporting_urls b) \<circ>
                put_component (reporting_url c) (interaction_reporting_urls c)) s))"

definition SetSellerReportingUrlsInResponse :: "ReportResultResponse \<Rightarrow> reactor \<Rightarrow> reactor" where
  "SetSellerReportingUrlsInResponse r =
     update_urls (put_top_level (report_result_url r) (rr_interaction_reporting_urls r))"

definition SetSellerReportingUrlsInResponseForComponentAuction :: "ReportResultResponse \<Rightarrow> reactor \<Rightarrow> reactor" where
  "SetSellerReportingUrlsInResponseForComponentAuction r =
     update_urls (put_component (report_result_url r) (rr_interaction_reporting_urls r))"

definition GetPaggBaseValueWithoutRejectReason :: "PostAuctionSignals \<Rightarrow> BaseValues" where
  "GetPaggBaseValueWithoutRejectReason sigs =
     \<lparr>bv_winning_bid =
        (if winning_bid_in_seller_currency sigs > 0 then Some (winning_bid_in_seller_currency sigs)
         else if winning_bid sigs > 0 then Some (winning_bid sigs)
         else None),
      bv_highest_scoring_other_bid = Some (highest_scoring_other_bid sigs), bv_reject_reason = None\<rparr>"

subsection \<open>Building the response\<close>

definition update_nth :: "nat \<Rightarrow> ('a \<Rightarrow> 'a) \<Rightarrow> 'a list \<Rightarrow> 'a list" where
  "update_nth i f xs = xs[i := f (xs ! i)]"

definition PopulateRelevantFieldsInResponse ::
    "nat \<Rightarrow> ScoredAdData list \<Rightarrow> reactor \<Rightarrow> (ScoredAdData list \<times> reactor) option" where
  "PopulateRelevantFieldsInResponse index parsed_ads s = do {
     parsed_ad \<leftarrow> nth_option parsed_ads index;
     let score = sad_ad_score parsed_ad in do {
       (score1, s1) \<leftarrow> (case FindScoredAdType s (sad_id parsed_ad) of
           (Some ad, _) \<Rightarrow> Some (score\<lparr>render := awb_render ad, component_renders := ad_components ad\<rparr>,
             s\<lparr>ad_data := (ad_data s)(sad_id parsed_ad \<mapsto> ad\<lparr>ad_components := component_renders score\<rparr>)\<rparr>)
         | (None, Some ad) \<Rightarrow> Some (score\<lparr>render := pas_render ad\<rparr>, s)
         | (None, None) \<Rightarrow> None);
       let score2 = (if auction_scope (cfg s) = AUCTION_SCOPE_SERVER_TOP_LEVEL_SELLER
                     then (case component_ad_seller s (sad_id parsed_ad) of
                             None \<Rightarrow> score1 | Some sel \<Rightarrow> score1\<lparr>seller := sel\<rparr>)
                     else score1)
       in Some (parsed_ads[index := parsed_ad\<lparr>sad_ad_score := score2\<rparr>], s1) } }"

definition UpdateHighestScoringOtherBidMap ::
    "rat \<Rightarrow> string \<Rightarrow> (string \<times> rat list) list \<Rightarrow> (string \<times> rat list) list" where
  "UpdateHighestScoringOtherBidMap other_bid owner m = push_back_at owner other_bid m"

text \<open>The bid of an ad and its owner, the bid in the seller's currency when there is one.\<close>

definition other_bid :: "reactor \<Rightarrow> ScoredAdData \<Rightarrow> (rat \<times> string) option" where
  "other_bid s response = do {
     (b, owner) \<leftarrow> (case FindScoredAdType s (sad_id response) of
         (Some ad, _) \<Rightarrow> Some (awb_bid ad, awb_interest_group_owner ad)
       | (None, Some ad) \<Rightarrow> Some (pas_bid ad, pas_owner ad)
       | (None, None) \<Rightarrow> None);
     Some (if seller_currency (raw_request s) \<noteq> []
           then (case map_of (ad_scores s) (sad_id response) of
                   None \<Rightarrow> b | Some score \<Rightarrow> incoming_bid_in_seller_currency score)
           else b, owner) }"

fun other_bids_at_score ::
    "reactor \<Rightarrow> nat \<Rightarrow> ScoredAdData list \<Rightarrow> nat list \<Rightarrow> (string \<times> rat list) list \<Rightarrow> (string \<times> rat list) list option" where
  "other_bids_at_score s winner responses [] m = Some m"
| "other_bids_at_score s winner responses (i # is) m =
     (if i = winner then other_bids_at_score s winner responses is m
      else do {
        r \<leftarrow> nth_option responses i;
        (b, owner) \<leftarrow> other_bid s r;
        other_bids_at_score s winner responses is (UpdateHighestScoringOtherBidMap b owner m) })"

text \<open>The two highest scores; the walk stops at a score of zero.\<close>

fun other_bids_at_scores ::
    "reactor \<Rightarrow> nat \<Rightarrow> ScoredAdData list \<Rightarrow> (rat \<times> nat list) list \<Rightarrow> rat list \<Rightarrow>
     (string \<times> rat list) list \<Rightarrow> (string \<times> rat list) list option" where
  "other_bids_at_scores s winner responses scores [] m = Some m"
| "other_bids_at_scores s winner responses scores (x # xs) m =
     (if x = 0 then Some m
      else do {
        is \<leftarrow> map_of scores x;
        m' \<leftarrow> other_bids_at_score s winner responses is m;
        other_bids_at_scores s winner responses scores xs m' })"

text \<open>The comparator takes its arguments as \<^verbatim>\<open>int\<close>.\<close>

definition int_greater :: "rat \<Rightarrow> rat \<Rightarrow> bool" where
  "int_greater a b \<longleftrightarrow> truncate_to_int a > truncate_to_int b"

definition PopulateHighestScoringOtherBidsData ::
    "(rat list \<Rightarrow> rat list) \<Rightarrow> nat \<Rightarrow> (rat \<times> nat list) list \<Rightarrow> ScoredAdData list \<Rightarrow> reactor \<Rightarrow>
     AdScore \<Rightarrow> AdScore option" where
  "PopulateHighestScoringOtherBidsData std_sort winner scores responses s winning_ad_score =
     (if auction_scope (cfg s) = AUCTION_SCOPE_SERVER_TOP_LEVEL_SELLER then Some winning_ad_score
      else do {
        m \<leftarrow> other_bids_at_scores s winner responses scores (take 2 (std_sort (map fst scores)))
               (ig_owner_highest_scoring_other_bids_map winning_ad_score);
        Some (winning_ad_score\<lparr>ig_owner_highest_scoring_other_bids_map := m\<rparr>) })"

fun AddGhostWinnersToResponse ::
    "nat list \<Rightarrow> ScoredAdData list \<Rightarrow> reactor \<Rightarrow> (ScoredAdData list \<times> reactor) option" where
  "AddGhostWinnersToResponse [] ads s = Some (ads, s)"
| "AddGhostWinnersToResponse (i # is) ads s = do {
     (ads1, s1) \<leftarrow> PopulateRelevantFieldsInResponse i ads s;
     let ghost = sad_ad_score (ads1 ! i);
         s2 = s1\<lparr>ghost_winner_interest_group_data :=
                try_emplace (ghost_winner_interest_group_data s1) (interest_group_owner ghost) (interest_group_name ghost),
              raw_response := (raw_response s1)
                \<lparr>ghost_winning_ad_scores := ghost_winning_ad_scores (raw_response s1) @ [ghost]\<rparr>\<rparr>
     in AddGhostWinnersToResponse is (update_nth i (\<lambda>ad. ad\<lparr>sad_ad_score := default_AdScore\<rparr>) ads1) s2 }"

definition SetPostAuctionSignals :: "reactor \<Rightarrow> reactor" where
  "SetPostAuctionSignals s = s\<lparr>post_auction_signals := Some (
     if auction_scope (cfg s) = AUCTION_SCOPE_SERVER_TOP_LEVEL_SELLER
     then GeneratePostAuctionSignalsForTopLevelSeller (Some (ad_score (raw_response s)))
     else GeneratePostAuctionSignals (Some (ad_score (raw_response s))) (seller_currency (raw_request s))
            (seller_data_version (raw_request s)))\<rparr>"

definition AddWinnerToResponse ::
    "(rat list \<Rightarrow> rat list) \<Rightarrow> nat \<Rightarrow> ScoringData \<Rightarrow> ScoredAdData list \<Rightarrow> reactor \<Rightarrow>
     (ScoredAdData list \<times> reactor) option" where
  "AddWinnerToResponse std_sort winner d ads s = do {
     (ads1, s1) \<leftarrow> PopulateRelevantFieldsInResponse winner ads s;
     winning_ad \<leftarrow> PopulateHighestScoringOtherBidsData std_sort winner (score_ad_map d) ads1 s1
       (sad_ad_score (ads1 ! winner));
     let winning_ad1 = winning_ad\<lparr>ad_rejection_reasons := sd_ad_rejection_reasons d\<rparr>
     in Some (update_nth winner (\<lambda>ad. ad\<lparr>sad_ad_score := default_AdScore\<rparr>) ads1,
              SetPostAuctionSignals (update_ad_score (\<lambda>_. winning_ad1) s1)) }"

subsection \<open>Debug reports\<close>

text \<open>Both URLs of the winner are filled in and returned to the client.\<close>

definition PopulateDebugReportUrlsForComponentAuctionWinner :: "env \<Rightarrow> PostAuctionSignals \<Rightarrow> reactor \<Rightarrow> reactor" where
  "PopulateDebugReportUrlsForComponentAuctionWinner e sigs =
     update_ad_score (\<lambda>ad.
       let p = GetPlaceholderDataForInterestGroup (interest_group_owner ad) (interest_group_name ad) sigs;
           urls = (case debug_report_urls ad of
                     None \<Rightarrow> \<lparr>auction_debug_win_url = [], auction_debug_loss_url = []\<rparr> | Some u \<Rightarrow> u);
           fill = (\<lambda>url. CreateDebugReportingUrlForInterestGroup (StrReplaceAll e) url p True)
       in ad\<lparr>debug_report_urls := Some
            \<lparr>auction_debug_win_url = fill (auction_debug_win_url urls),
             auction_debug_loss_url = fill (auction_debug_loss_url urls)\<rparr>\<rparr>)"

text \<open>
  One scored ad. Strings of signals that were never set are empty; the numbers of such signals are
  undefined, and are read as soon as a report is made.
\<close>

definition debug_report :: "env \<Rightarrow> AdScore \<Rightarrow> reactor \<Rightarrow> reactor option" where
  "debug_report e ad s =
     (case debug_report_urls ad of
        None \<Rightarrow> Some s
      | Some urls \<Rightarrow>
          (let owner = interest_group_owner ad; name = interest_group_name ad;
               is_winning_ig =
                 (owner = (case post_auction_signals s of None \<Rightarrow> [] | Some p \<Rightarrow> winning_ig_owner p) \<and>
                  name = (case post_auction_signals s of None \<Rightarrow> [] | Some p \<Rightarrow> winning_ig_name p));
               url = (if is_winning_ig then auction_debug_win_url urls else auction_debug_loss_url urls)
           in if url = [] then Some s
              else do {
                sigs \<leftarrow> post_auction_signals s;
                Some (if is_winning_ig \<and> IsComponentAuction (auction_scope (cfg s))
                      then PopulateDebugReportUrlsForComponentAuctionWinner e sigs s
                      else act (DoReport (CreateDebugReportingHttpRequest (StrReplaceAll e) url
                             (GetPlaceholderDataForInterestGroup owner name sigs) is_winning_ig)) s) }))"

fun debug_reports :: "env \<Rightarrow> (string \<times> AdScore) list \<Rightarrow> reactor \<Rightarrow> reactor option" where
  "debug_reports e [] s = Some s"
| "debug_reports e ((i, ad) # ads) s = do { s' \<leftarrow> debug_report e ad s; debug_reports e ads s' }"

definition PerformDebugReporting :: "env \<Rightarrow> reactor \<Rightarrow> reactor option" where
  "PerformDebugReporting e s =
     (if auction_scope (cfg s) = AUCTION_SCOPE_SERVER_TOP_LEVEL_SELLER
      then Some (update_ad_score (\<lambda>ad. ad\<lparr>debug_report_urls := None\<rparr>) s)
      else do {
        s1 \<leftarrow> debug_reports e (ad_scores s) s;
        Some (if auction_scope (cfg s) = AUCTION_SCOPE_SINGLE_SELLER
              then update_ad_score (\<lambda>ad. ad\<lparr>debug_report_urls := None\<rparr>) s1 else s1) })"

subsection \<open>Private aggregation\<close>

definition contribution_rejection :: "rejection_map \<Rightarrow> AdWithBidMetadata \<Rightarrow> SellerRejectionReason option" where
  "contribution_rejection m ad =
     (case m (awb_interest_group_owner ad) of None \<Rightarrow> None | Some names \<Rightarrow> names (awb_interest_group_name ad))"

text \<open>The contributions of a ghost winner are skipped when its owner has no rejected ad.\<close>

definition skipped_contribution :: "reactor \<Rightarrow> rejection_map \<Rightarrow> AdWithBidMetadata \<Rightarrow> bool" where
  "skipped_contribution s m ad \<longleftrightarrow> m (awb_interest_group_owner ad) = None \<and>
     ghost_winner_interest_group_data s (awb_interest_group_owner ad) = Some (awb_interest_group_name ad)"

fun pagg_loop :: "string \<Rightarrow> PostAuctionSignals \<Rightarrow> (string \<times> json) list \<Rightarrow> reactor \<Rightarrow> reactor option" where
  "pagg_loop winner sigs [] s = Some s"
| "pagg_loop winner sigs ((i, doc) # docs) s =
     (case ad_data s i of
        None \<Rightarrow> pagg_loop winner sigs docs s
      | Some ad \<Rightarrow>
          if skipped_contribution s (rejection_reason_map sigs) ad then pagg_loop winner sigs docs s
          else do {
            score \<leftarrow> HandlePrivateAggregationReporting
              \<lparr>most_desirable_ad_score_id = winner,
               md_base_values = (GetPaggBaseValueWithoutRejectReason sigs)
                 \<lparr>bv_reject_reason := contribution_rejection (rejection_reason_map sigs) ad\<rparr>,
               md_ad_id = i, seller_origin = Some (req_seller (raw_request s))\<rparr>
              doc (ad_score (raw_response s));
            pagg_loop winner sigs docs (update_ad_score (\<lambda>_. score) s) })"

definition PerformPrivateAggregationReporting :: "string \<Rightarrow> reactor \<Rightarrow> reactor option" where
  "PerformPrivateAggregationReporting winner s = do {
     sigs \<leftarrow> post_auction_signals s;
     pagg_loop winner sigs (paapi_contributions_docs s) s }"

definition SetPrivateAggregationContributionsInResponseForSeller ::
    "PrivateAggregateReportingResponse \<Rightarrow> reactor \<Rightarrow> reactor" where
  "SetPrivateAggregationContributionsInResponseForSeller r s =
     (if contributions r = [] then s
      else update_ad_score (\<lambda>ad. ad\<lparr>top_level_contributions := top_level_contributions ad @
             [r\<lparr>adtech_origin := req_seller (raw_request s)\<rparr>]\<rparr>) s)"

definition SetPrivateAggregationContributionsInResponseForBuyer ::
    "PrivateAggregateReportingResponse \<Rightarrow> reactor \<Rightarrow> reactor" where
  "SetPrivateAggregationContributionsInResponseForBuyer r s =
     (if contributions r = [] then s
      else (let r' = (case ad_data s (winning_ad_dispatch_id s) of
                None \<Rightarrow> r
              | Some ad \<Rightarrow> r\<lparr>contributions := map (pac_ig_idx_update (\<lambda>_. interest_group_idx ad)) (contributions r),
                             adtech_origin := awb_interest_group_owner ad\<rparr>)
            in update_ad_score (\<lambda>ad. ad\<lparr>top_level_contributions := top_level_contributions ad @ [r']\<rparr>) s))"

subsection \<open>Dispatching reports\<close>

definition DispatchReportingRequest :: "env \<Rightarrow> bool \<Rightarrow> ReportingDispatchRequestData \<Rightarrow> reactor \<Rightarrow> reactor" where
  "DispatchReportingRequest e is_cancelled data s =
     (if enable_cancellation (cfg s) \<and> is_cancelled then FinishWithStatus (Some Cancelled) s
      else
        (let config = \<lparr>rd_enable_report_win_url_generation = enable_report_win_url_generation (cfg s),
               rd_enable_protected_app_signals = enable_protected_app_signals (cfg s),
               rd_enable_report_win_input_noising = enable_report_win_input_noising (cfg s),
               rd_enable_adtech_code_logging = enable_adtech_code_logging (cfg s),
               rd_roma_timeout_ms = [], rd_report_result_udf_version = []\<rparr>;
             (st, s1) = dispatch_batch e [set_timeout_tag s (GetReportingDispatchRequest e config data)]
                          ReportingCallback_of s
         in if st = OkStatus then s1 else EncryptAndFinishOK e s1))"

definition DispatchReportingRequestForPA ::
    "env \<Rightarrow> bool \<Rightarrow> string \<Rightarrow> AdScore \<Rightarrow> string \<Rightarrow> BuyerReportingMetadata \<Rightarrow> PostAuctionSignals \<Rightarrow>
     reactor \<Rightarrow> reactor" where
  "DispatchReportingRequestForPA e is_cancelled dispatch_id winner auction_config buyer_metadata sigs s =
     (let component =
        (if IsComponentAuction (auction_scope (cfg s))
         then empty_ComponentReportingMetadata\<lparr>crm_top_level_seller := top_level_seller (raw_request s),
                crm_component_seller := req_seller (raw_request s)\<rparr>
         else if auction_scope (cfg s) = AUCTION_SCOPE_SERVER_TOP_LEVEL_SELLER
         then (case component_level_reporting_data s dispatch_id of
                 None \<Rightarrow> empty_ComponentReportingMetadata
               | Some d \<Rightarrow> empty_ComponentReportingMetadata\<lparr>crm_component_seller := crd_component_seller d\<rparr>)
         else empty_ComponentReportingMetadata)
      in DispatchReportingRequest e is_cancelled
           \<lparr>rdr_handler_name = ''reportingEntryFunction'', rdr_auction_config = auction_config,
            rdr_post_auction_signals = sigs, rdr_publisher_hostname = publisher_hostname (raw_request s),
            rdr_buyer_reporting_metadata = buyer_metadata,
            rdr_component_reporting_metadata = component
              \<lparr>crm_modified_bid := (if bid winner > 0 then bid winner else buyer_bid winner),
               crm_modified_bid_currency := bid_currency winner\<rparr>,
            rdr_egress_payload = [], rdr_temporary_egress_payload = []\<rparr> s)"

definition DispatchReportingRequestForPAS ::
    "env \<Rightarrow> bool \<Rightarrow> string \<Rightarrow> BuyerReportingMetadata \<Rightarrow> PostAuctionSignals \<Rightarrow> string \<Rightarrow> string \<Rightarrow>
     reactor \<Rightarrow> reactor" where
  "DispatchReportingRequestForPAS e is_cancelled auction_config buyer_metadata sigs egress temporary_egress s =
     DispatchReportingRequest e is_cancelled
       \<lparr>rdr_handler_name = ''reportingEntryFunctionProtectedAppSignals'', rdr_auction_config = auction_config,
        rdr_post_auction_signals = sigs, rdr_publisher_hostname = publisher_hostname (raw_request s),
        rdr_buyer_reporting_metadata = buyer_metadata,
        rdr_component_reporting_metadata = empty_ComponentReportingMetadata,
        rdr_egress_payload = egress, rdr_temporary_egress_payload = temporary_egress\<rparr> s"

text \<open>
  One call of the code for seller and buyer. The signals of the winning buyer are looked up with a
  checked access when a buyer report is wanted.
\<close>

definition PerformReporting :: "env \<Rightarrow> bool \<Rightarrow> AdScore \<Rightarrow> string \<Rightarrow> reactor \<Rightarrow> reactor option" where
  "PerformReporting e is_cancelled winner i s = do {
     sigs \<leftarrow> post_auction_signals s;
     case (ad_data s i, protected_app_signals_ad_data s i) of
       (Some ad, _) \<Rightarrow>
         if enable_report_win_url_generation (cfg s)
         then do {
           buyer_signals \<leftarrow> per_buyer_signals (raw_request s) (interest_group_owner winner);
           let reporting_id = (case awb_buyer_reporting_id ad of None \<Rightarrow> [] | Some r \<Rightarrow> r);
               s1 = (if reporting_id \<noteq> []
                     then update_ad_score (\<lambda>a. a\<lparr>buyer_reporting_id := Some reporting_id\<rparr>) s else s)
           in Some (DispatchReportingRequestForPA e is_cancelled i winner (BuildAuctionConfig (raw_request s1))
                \<lparr>brm_buyer_signals = buyer_signals, brm_join_count = Some (join_count ad),
                 brm_recency = Some (recency ad), brm_modeling_signals = Some (modeling_signals ad),
                 brm_seller = req_seller (raw_request s), brm_interest_group_name = interest_group_name winner,
                 brm_ad_cost = ad_cost ad, brm_buyer_reporting_id = reporting_id,
                 brm_data_version = data_version ad\<rparr> sigs s1) }
         else Some (DispatchReportingRequestForPA e is_cancelled i winner (BuildAuctionConfig (raw_request s))
                empty_BuyerReportingMetadata sigs s)
     | (None, Some ad) \<Rightarrow> do {
         buyer_metadata \<leftarrow>
           (if enable_report_win_url_generation (cfg s)
            then do {
              buyer_signals \<leftarrow> per_buyer_signals (raw_request s) (interest_group_owner winner);
              Some (empty_BuyerReportingMetadata\<lparr>brm_buyer_signals := buyer_signals,
                brm_seller := req_seller (raw_request s),
                brm_interest_group_name := interest_group_name winner, brm_ad_cost := pas_ad_cost ad\<rparr>) }
            else Some empty_BuyerReportingMetadata);
         Some (DispatchReportingRequestForPAS e is_cancelled (BuildAuctionConfig (raw_request s)) buyer_metadata
           sigs (pas_egress_payload ad) (pas_temporary_unlimited_egress_payload ad) s) }
     | (None, None) \<Rightarrow> Some (FinishWithStatus (Some Internal) s) }"

definition InitializeBuyerReportingDispatchRequestData ::
    "AdScore \<Rightarrow> PostAuctionSignals \<Rightarrow> reactor \<Rightarrow> reactor" where
  "InitializeBuyerReportingDispatchRequestData winner sigs s =
     s\<lparr>buyer_reporting_data := (buyer_reporting_data s)
       \<lparr>br_buyer_signals := (case per_buyer_signals (raw_request s) (interest_group_owner winner) of
            None \<Rightarrow> br_buyer_signals (buyer_reporting_data s) | Some b \<Rightarrow> b),
        br_seller := req_seller (raw_request s), br_interest_group_name := interest_group_name winner,
        br_buyer_origin := interest_group_owner winner,
        br_made_highest_scoring_other_bid := made_highest_scoring_other_bid sigs\<rparr>\<rparr>"

text \<open>An id the ad has is put into the response and into the data for the buyer's report.\<close>

definition SetReportingIdsInRawResponseAndDispatchRequestData :: "AdWithBidMetadata \<Rightarrow> reactor \<Rightarrow> reactor" where
  "SetReportingIdsInRawResponseAndDispatchRequestData ad s =
     (let over = (\<lambda>new old. case new of None \<Rightarrow> old | Some i \<Rightarrow> Some i);
          b = awb_buyer_reporting_id ad; bs = awb_buyer_and_seller_reporting_id ad;
          sel = awb_selected_buyer_and_seller_reporting_id ad;
          data = buyer_reporting_data s
      in (update_ad_score (\<lambda>a. a\<lparr>buyer_reporting_id := over b (buyer_reporting_id a),
             buyer_and_seller_reporting_id := over bs (buyer_and_seller_reporting_id a),
             selected_buyer_and_seller_reporting_id := over sel (selected_buyer_and_seller_reporting_id a)\<rparr>) s)
         \<lparr>buyer_reporting_data := data\<lparr>br_buyer_reporting_id := over b (br_buyer_reporting_id data),
             br_buyer_and_seller_reporting_id := over bs (br_buyer_and_seller_reporting_id data),
             br_selected_buyer_and_seller_reporting_id := over sel (br_selected_buyer_and_seller_reporting_id data)\<rparr>\<rparr>)"

definition seller_dispatch_data ::
    "PostAuctionSignals \<Rightarrow> ComponentReportingMetadata \<Rightarrow> reactor \<Rightarrow> SellerReportingDispatchRequestData" where
  "seller_dispatch_data sigs component s =
     \<lparr>srd_auction_config = br_auction_config (buyer_reporting_data s), srd_post_auction_signals = sigs,
      srd_publisher_hostname = publisher_hostname (raw_request s), srd_component_reporting_metadata = component,
      srd_buyer_and_seller_reporting_id = br_buyer_and_seller_reporting_id (buyer_reporting_data s),
      srd_selected_buyer_and_seller_reporting_id =
        br_selected_buyer_and_seller_reporting_id (buyer_reporting_data s)\<rparr>"

definition run_report_result :: "env \<Rightarrow> json \<Rightarrow> SellerReportingDispatchRequestData \<Rightarrow> reactor \<Rightarrow> reactor" where
  "run_report_result e device_signals data s =
     (let (st, s1) = PerformReportResult e data (s\<lparr>seller_device_signals := device_signals\<rparr>)
      in if st = OkStatus then s1 else EncryptAndFinishOK e s1)"

definition DispatchReportResultRequest :: "env \<Rightarrow> PostAuctionSignals \<Rightarrow> reactor \<Rightarrow> reactor" where
  "DispatchReportResultRequest e sigs s =
     (let data = seller_dispatch_data sigs empty_ComponentReportingMetadata s
      in run_report_result e (GenerateSellerDeviceSignals e data) data s)"

definition DispatchReportResultRequestForComponentAuction ::
    "env \<Rightarrow> AdScore \<Rightarrow> PostAuctionSignals \<Rightarrow> reactor \<Rightarrow> reactor option" where
  "DispatchReportResultRequestForComponentAuction e winner sigs s =
     (let data = seller_dispatch_data sigs (empty_ComponentReportingMetadata
            \<lparr>crm_top_level_seller := top_level_seller (raw_request s),
             crm_modified_bid := (if bid winner > 0 then bid winner else buyer_bid winner)\<rparr>) s
      in do {
        device_signals \<leftarrow> GenerateSellerDeviceSignalsForComponentAuction e data;
        Some (run_report_result e device_signals data s) })"

definition DispatchReportResultRequestForTopLevelAuction ::
    "env \<Rightarrow> string \<Rightarrow> PostAuctionSignals \<Rightarrow> reactor \<Rightarrow> reactor" where
  "DispatchReportResultRequestForTopLevelAuction e dispatch_id sigs s =
     (let found = component_level_reporting_data s dispatch_id;
          data = \<lparr>srd_auction_config = BuildAuctionConfig (raw_request s), srd_post_auction_signals = sigs,
             srd_publisher_hostname = publisher_hostname (raw_request s),
             srd_component_reporting_metadata =
               (case found of None \<Rightarrow> empty_ComponentReportingMetadata
                | Some d \<Rightarrow> empty_ComponentReportingMetadata\<lparr>crm_component_seller := crd_component_seller d\<rparr>),
             srd_buyer_and_seller_reporting_id = None, srd_selected_buyer_and_seller_reporting_id = None\<rparr>;
          s1 = (case found of
                  None \<Rightarrow> s
                | Some d \<Rightarrow> update_ad_score (\<lambda>a. a\<lparr>buyer_reporting_id := Some (crd_buyer_reporting_id d),
                    buyer_and_seller_reporting_id := Some (crd_buyer_and_seller_reporting_id d)\<rparr>) s)
      in run_report_result e (GenerateSellerDeviceSignalsForTopLevelAuction e data) data s1)"

definition PerformReportingWithSellerAndBuyerCodeIsolation ::
    "env \<Rightarrow> AdScore \<Rightarrow> string \<Rightarrow> reactor \<Rightarrow> reactor option" where
  "PerformReportingWithSellerAndBuyerCodeIsolation e winner i s0 = do {
     sigs \<leftarrow> post_auction_signals s0;
     let s = s0\<lparr>reporting_config :=
             \<lparr>rd_enable_report_win_url_generation = enable_report_win_url_generation (cfg s0),
              rd_enable_protected_app_signals = enable_protected_app_signals (cfg s0),
              rd_enable_report_win_input_noising = enable_report_win_input_noising (cfg s0),
              rd_enable_adtech_code_logging = enable_adtech_code_logging (cfg s0),
              rd_roma_timeout_ms = [], rd_report_result_udf_version = code_version (cfg s0)\<rparr>,
             buyer_reporting_data := (buyer_reporting_data s0)
               \<lparr>br_auction_config := BuildAuctionConfig (raw_request s0)\<rparr>\<rparr>;
         dispatch = (\<lambda>s. if IsComponentAuction (auction_scope (cfg s))
                         then DispatchReportResultRequestForComponentAuction e winner sigs s
                         else Some (DispatchReportResultRequest e sigs s))
     in case (ad_data s i, protected_app_signals_ad_data s i) of
          (None, None) \<Rightarrow> Some (FinishWithStatus (Some Internal) s)
        | (pa, pas) \<Rightarrow>
            if auction_scope (cfg s) = AUCTION_SCOPE_SERVER_TOP_LEVEL_SELLER
            then Some (DispatchReportResultRequestForTopLevelAuction e i sigs s)
            else
              (let s1 = InitializeBuyerReportingDispatchRequestData winner sigs s; data = buyer_reporting_data s1 in
               case pa of
                 Some ad \<Rightarrow> dispatch (SetReportingIdsInRawResponseAndDispatchRequestData ad
                   (s1\<lparr>buyer_reporting_data := data\<lparr>br_join_count := Some (join_count ad),
                      br_recency := Some (recency ad), br_modeling_signals := Some (modeling_signals ad),
                      br_ad_cost := ad_cost ad, br_winning_ad_render_url := awb_render ad,
                      br_data_version := data_version ad,
                      br_k_anon_status := (if enable_enforce_kanon (cfg s) \<and> k_anon_status ad
                        then ''passedAndEnforced'' else br_k_anon_status data)\<rparr>\<rparr>))
               | None \<Rightarrow> dispatch (s1\<lparr>buyer_reporting_data := data
                   \<lparr>br_ad_cost := pas_ad_cost (the pas), br_winning_ad_render_url := pas_render (the pas),
                    br_egress_payload := Some (pas_egress_payload (the pas)),
                    br_temporary_unlimited_egress_payload :=
                      Some (pas_temporary_unlimited_egress_payload (the pas))\<rparr>\<rparr>)) }"

subsection \<open>Callbacks\<close>

definition DoWinAndDebugReporting ::
    "env \<Rightarrow> bool \<Rightarrow> bool \<Rightarrow> nat \<Rightarrow> ScoredAdData list \<Rightarrow> string \<Rightarrow> reactor \<Rightarrow> reactor option" where
  "DoWinAndDebugReporting e is_cancelled enable_debug_reporting winner parsed i s = do {
     s1 \<leftarrow> (if enable_private_aggregate_reporting (cfg s) then PerformPrivateAggregationReporting i s else Some s);
     s2 \<leftarrow> (if enable_debug_reporting then PerformDebugReporting e s1 else Some s1);
     winning_parsed \<leftarrow> nth_option parsed winner;
     let winner_id = sad_id winning_parsed;
         s3 = (if auction_scope (cfg s2) = AUCTION_SCOPE_SERVER_TOP_LEVEL_SELLER
               then PopulateComponentReportingUrlsInTopLevelResponse winner_id s2 else s2)
     in if \<not> enable_report_result_url_generation (cfg s3) then Some (EncryptAndFinishOK e s3)
        else if enable_seller_and_buyer_code_isolation (cfg s3)
        then PerformReportingWithSellerAndBuyerCodeIsolation e (ad_score (raw_response s3)) winner_id s3
        else PerformReporting e is_cancelled (ad_score (raw_response s3)) winner_id s3 }"

text \<open>What the choice of the winner depends on: sorting of ads and of scores, and random numbers.\<close>

record choices =
  sort_ads :: ad_sort
  sort_scores :: "rat list \<Rightarrow> rat list"
  rnd_winner :: "nat \<Rightarrow> nat"
  rnd_ghost :: "nat \<Rightarrow> nat"

text \<open>
  The dispatch id of the winner is read from the responses at the index the winner has among the
  sorted ads.
\<close>

definition ScoreAdsCallback ::
    "env \<Rightarrow> choices \<Rightarrow> bool \<Rightarrow> (status_code + DispatchResponse) list \<Rightarrow> bool \<Rightarrow> reactor \<Rightarrow> reactor option" where
  "ScoreAdsCallback e ch is_cancelled responses enable_debug_reporting s = do {
     (parsed, s1) \<leftarrow> CollectValidRomaResponses e responses s;
     (d, ads, s2) \<leftarrow> FindWinningAd (sort_ads ch) (rnd_winner ch) (rnd_ghost ch) parsed s1;
     (ads1, s3) \<leftarrow> AddGhostWinnersToResponse (ghost_winner_indices d) ads s2;
     if winner_index d = -1
     then do {
       s4 \<leftarrow> (if enable_debug_reporting then PerformDebugReporting e s3 else Some s3);
       Some (EncryptAndFinishOK e s4) }
     else (let winner = nat (winner_index d) in do {
       response \<leftarrow> nth_option responses winner;
       i \<leftarrow> (case response of Inl _ \<Rightarrow> None | Inr r \<Rightarrow> Some (resp_id r));
       (ads2, s4) \<leftarrow> AddWinnerToResponse (sort_scores ch) winner d ads1 (s3\<lparr>winning_ad_dispatch_id := i\<rparr>);
       DoWinAndDebugReporting e is_cancelled enable_debug_reporting winner ads2 i s4 }) }"

text \<open>One answer of the call for seller and buyer.\<close>

definition apply_reporting_response :: "ReportingResponse \<Rightarrow> reactor \<Rightarrow> reactor" where
  "apply_reporting_response r s =
     (let rr = report_result_response r; rw = report_win_response r;
          s1 = (if auction_scope (cfg s) = AUCTION_SCOPE_DEVICE_COMPONENT_MULTI_SELLER
                then update_urls (put_component (report_result_url rr) (rr_interaction_reporting_urls rr)) s
                else update_urls (put_top_level (report_result_url rr) (rr_interaction_reporting_urls rr)) s)
      in if enable_report_win_url_generation (cfg s1)
         then update_urls (put_buyer (report_win_url rw) (rw_interaction_reporting_urls rw)) s1 else s1)"

fun reporting_responses :: "env \<Rightarrow> (status_code + DispatchResponse) list \<Rightarrow> reactor \<Rightarrow> reactor option" where
  "reporting_responses e [] s = Some s"
| "reporting_responses e (Inl err # rs) s = reporting_responses e rs s"
| "reporting_responses e (Inr r # rs) s = do {
     parsed \<leftarrow> ParseAndGetReportingResponse e (enable_adtech_code_logging (cfg s)) (resp r);
     reporting_responses e rs (case parsed of Inl err \<Rightarrow> s | Inr rr \<Rightarrow> apply_reporting_response rr s) }"

definition ReportingCallback :: "env \<Rightarrow> (status_code + DispatchResponse) list \<Rightarrow> reactor \<Rightarrow> reactor option" where
  "ReportingCallback e responses s =
     map_option (EncryptAndFinishOK e) (reporting_responses e responses s)"

fun report_win_responses :: "env \<Rightarrow> (status_code + DispatchResponse) list \<Rightarrow> reactor \<Rightarrow> reactor option" where
  "report_win_responses e [] s = Some s"
| "report_win_responses e (Inl err # rs) s = report_win_responses e rs s"
| "report_win_responses e (Inr r # rs) s = do {
     sigs \<leftarrow> post_auction_signals s;
     parsed \<leftarrow> ParseReportWinResponse e (reporting_config s) (resp r) (GetPaggBaseValueWithoutRejectReason sigs);
     report_win_responses e rs (case parsed of
         Inl err \<Rightarrow> s
       | Inr rw \<Rightarrow> SetPrivateAggregationContributionsInResponseForBuyer (rw_pagg_response rw)
           (update_urls (put_buyer (report_win_url rw) (rw_interaction_reporting_urls rw)) s)) }"

definition ReportWinCallback :: "env \<Rightarrow> (status_code + DispatchResponse) list \<Rightarrow> reactor \<Rightarrow> reactor option" where
  "ReportWinCallback e responses s = map_option (EncryptAndFinishOK e) (report_win_responses e responses s)"

definition apply_report_result :: "ReportResultResponse \<Rightarrow> reactor \<Rightarrow> reactor" where
  "apply_report_result r s0 =
     (let s = s0\<lparr>buyer_reporting_data := (buyer_reporting_data s0)\<lparr>br_signals_for_winner := signals_for_winner r\<rparr>\<rparr>
      in if IsComponentAuction (auction_scope (cfg s))
         then SetSellerReportingUrlsInResponseForComponentAuction r s
         else SetSellerReportingUrlsInResponse r
                (SetPrivateAggregationContributionsInResponseForSeller (rr_pagg_response r) s))"

text \<open>The part after the answer of \<^verbatim>\<open>reportResult\<close>: the buyer's code is run, or the call finished.\<close>

definition dispatch_report_win :: "env \<Rightarrow> reactor \<Rightarrow> reactor option" where
  "dispatch_report_win e s =
     (if \<not> enable_report_win_url_generation (cfg s) then Some (EncryptAndFinishOK e s)
      else
        (let origin = br_buyer_origin (buyer_reporting_data s);
             app_signals = (br_egress_payload (buyer_reporting_data s) \<noteq> None);
             enabled = (if app_signals then protected_app_signals_buyers_with_report_win_enabled (cfg s)
                        else buyers_with_report_win_enabled (cfg s))
         in if origin \<notin> enabled then Some (EncryptAndFinishOK e s)
            else do {
              (st, s1) \<leftarrow> (if app_signals then PerformPASReportWin e s else PerformPAReportWin e s);
              Some (if st = OkStatus then s1 else EncryptAndFinishOK e s1) }))"

text \<open>Only the first response is looked at.\<close>

definition CancellableReportResultCallback ::
    "env \<Rightarrow> (status_code + DispatchResponse) list \<Rightarrow> reactor \<Rightarrow> reactor option" where
  "CancellableReportResultCallback e responses s =
     (case responses of
        [] \<Rightarrow> Some (EncryptAndFinishOK e s)
      | Inl err # _ \<Rightarrow> dispatch_report_win e s
      | Inr r # _ \<Rightarrow> do {
          sigs \<leftarrow> post_auction_signals s;
          parsed \<leftarrow> ParseReportResultResponse e (reporting_config s) (resp r)
            (GetPaggBaseValueWithoutRejectReason sigs);
          dispatch_report_win e (case parsed of Inl err \<Rightarrow> s | Inr rr \<Rightarrow> apply_report_result rr s) })"

text \<open>A callback runs, unless the call was cancelled (a buyer's report is not given up).\<close>

definition deliver ::
    "env \<Rightarrow> choices \<Rightarrow> bool \<Rightarrow> callback \<Rightarrow> (status_code + DispatchResponse) list \<Rightarrow> reactor \<Rightarrow> reactor option" where
  "deliver e ch is_cancelled cb responses s0 =
     (let s = s0\<lparr>pending := remove1 cb (pending s0)\<rparr> in
      if enable_cancellation (cfg s) \<and> is_cancelled \<and> cb \<noteq> ReportWinCallback_of
      then Some (FinishWithStatus (Some Cancelled) s)
      else case cb of
        ScoreAdsCallback_of debug \<Rightarrow> ScoreAdsCallback e ch is_cancelled responses debug s
      | ReportingCallback_of \<Rightarrow> ReportingCallback e responses s
      | ReportResultCallback_of \<Rightarrow> CancellableReportResultCallback e responses s
      | ReportWinCallback_of \<Rightarrow> ReportWinCallback e responses s)"

end
