(* ===== verification/AsyncCall.thy ===== *)
theory AsyncCall
  imports Prelude "HOL-Library.Multiset_Order"
begin

text \<open>
  The contract of an asynchronous call: a reactor that hands work to others waits for callbacks and,
  as long as the contract holds, ends. A callback is consumed when it is delivered and may leave only
  callbacks of a lower rank behind (\<open>async_call\<close>), at most one where \<open>single_successor\<close> holds. A reactor whose callbacks each either finish the
  call or leave exactly one callback (\<open>single_shot\<close>) finishes the call exactly once.
\<close>

text \<open>\<open>deliveries step n s s'\<close>: \<open>n\<close> callbacks lead from \<open>s\<close> to \<open>s'\<close>.\<close>

inductive deliveries :: "('cb \<Rightarrow> 's \<Rightarrow> 's \<Rightarrow> bool) \<Rightarrow> nat \<Rightarrow> 's \<Rightarrow> 's \<Rightarrow> bool"
  for step :: "'cb \<Rightarrow> 's \<Rightarrow> 's \<Rightarrow> bool" where
  none: "deliveries step 0 s s"
| more: "deliveries step n s s' \<Longrightarrow> step cb s' s'' \<Longrightarrow> deliveries step (Suc n) s s''"

inductive_cases deliveries_SucE: "deliveries step (Suc n) s s'"
inductive_simps deliveries_0 [simp]: "deliveries step 0 s s'"

locale async_call =
  fixes step :: "'cb \<Rightarrow> 's \<Rightarrow> 's \<Rightarrow> bool"
    and waiting :: "'s \<Rightarrow> 'cb list"
    and rank :: "'cb \<Rightarrow> nat"
  assumes consumes: "step cb s s' \<Longrightarrow> cb \<in> set (waiting s) \<and>
      (\<exists>new. mset (waiting s') + {#cb#} = mset (waiting s) + mset new \<and> (\<forall>c \<in> set new. rank c < rank cb))"
begin

definition ranks :: "'s \<Rightarrow> nat multiset" where
  "ranks s = image_mset rank (mset (waiting s))"

lemma step_decreases: "step cb s s' \<Longrightarrow> ranks s' < ranks s"
proof -
  assume step: "step cb s s'"
  obtain new where new: "mset (waiting s') + {#cb#} = mset (waiting s) + mset new"
    "\<forall>c \<in> set new. rank c < rank cb" and mem: "cb \<in> set (waiting s)"
    using consumes [OF step] by blast
  from mem obtain W where W: "mset (waiting s) = W + {#cb#}"
    by (metis add_mset_add_single in_multiset_in_set multi_member_split)
  with new(1) have "mset (waiting s') = W + mset new" by simp
  moreover have "image_mset rank (mset new) < {#rank cb#}"
    using new(2) by (intro ex_gt_imp_less_multiset) auto
  ultimately show ?thesis using W by (simp add: ranks_def)
qed

text \<open>Nothing happens when nothing waits, and there is no infinite run.\<close>

lemma idle: "deliveries step n s s' \<Longrightarrow> waiting s = [] \<Longrightarrow> n = 0 \<and> s' = s"
  by (induction rule: deliveries.induct) (auto dest: consumes)

lemma no_infinite_run: "\<nexists>f cb. \<forall>i::nat. step (cb i) (f i) (f (Suc i))"
proof
  assume "\<exists>f cb. \<forall>i::nat. step (cb i) (f i) (f (Suc i))"
  then obtain f cb where "\<And>i. ranks (f (Suc i)) < ranks (f i)" using step_decreases by metis
  then show False
    using wf_no_infinite_down_chainE [OF wf_less_multiset, of "\<lambda>i. ranks (f i)"] by blast
qed

end

text \<open>A callback that leaves at most one callback: the ranks bound the number of deliveries.\<close>

locale single_successor =
  fixes step :: "'cb \<Rightarrow> 's \<Rightarrow> 's \<Rightarrow> bool"
    and waiting :: "'s \<Rightarrow> 'cb list"
    and rank :: "'cb \<Rightarrow> nat"
  assumes successor: "step cb s s' \<Longrightarrow> cb \<in> set (waiting s) \<and>
      (waiting s' = remove1 cb (waiting s) \<or>
       (\<exists>c. waiting s' = remove1 cb (waiting s) @ [c] \<and> rank c < rank cb))"
begin

lemma consumes_one: "step cb s s' \<Longrightarrow> cb \<in> set (waiting s) \<and>
    (\<exists>new. mset (waiting s') + {#cb#} = mset (waiting s) + mset new \<and> (\<forall>c \<in> set new. rank c < rank cb))"
proof -
  assume step: "step cb s s'"
  from successor [OF step] consider "cb \<in> set (waiting s)" "waiting s' = remove1 cb (waiting s)"
    | c where "cb \<in> set (waiting s)" "waiting s' = remove1 cb (waiting s) @ [c]" "rank c < rank cb" by blast
  then show ?thesis
  proof cases
    case 1
    then show ?thesis by (intro conjI exI [of _ "[]"]) simp_all
  next
    case (2 c)
    then show ?thesis by (intro conjI exI [of _ "[c]"]) simp_all
  qed
qed

definition budget :: "'s \<Rightarrow> nat" where
  "budget s = (\<Sum>c\<leftarrow>waiting s. Suc (rank c))"

lemma deliveries_budget: "deliveries step n s s' \<Longrightarrow> n + budget s' \<le> budget s"
proof (induction rule: deliveries.induct)
  case (more n s s' cb s'')
  from successor [OF more.hyps(2)] have "Suc (budget s'') \<le> budget s'"
    by (auto simp: budget_def sum_list_map_remove1 [of cb])
  with more.IH show ?case by simp
qed simp

end

sublocale single_successor \<subseteq> async_call step waiting rank
  by unfold_locales (rule consumes_one)

text \<open>One thing to do at a time.\<close>

locale single_shot =
  fixes step :: "'cb \<Rightarrow> 's \<Rightarrow> 's \<Rightarrow> bool"
    and waiting :: "'s \<Rightarrow> 'cb list"
    and rank :: "'cb \<Rightarrow> nat"
    and finished :: "'s \<Rightarrow> nat"
  assumes one_of: "step cb s s' \<Longrightarrow> cb \<in> set (waiting s) \<and>
      (finished s' = Suc (finished s) \<and> waiting s' = remove1 cb (waiting s) \<or>
       finished s' = finished s \<and> (\<exists>c. waiting s' = remove1 cb (waiting s) @ [c] \<and> rank c < rank cb))"
begin

text \<open>A call is started with one callback: then every run keeps one thing to do, and it is short.\<close>

lemma run_invariant:
  assumes "deliveries step n s s'" and "finished s + length (waiting s) = 1"
  shows "finished s' + length (waiting s') = 1"
  using assms
proof (induction rule: deliveries.induct)
  case (none s)
  then show ?case by simp
next
  case (more n s s' cb s'')
  then have "finished s' + length (waiting s') = 1" by blast
  moreover from one_of [OF more.hyps(2)] have "waiting s' \<noteq> []" by auto
  ultimately have "finished s' = 0" "length (waiting s') = 1" by (cases "waiting s'"; simp)+
  with one_of [OF more.hyps(2)] show ?case by (auto simp: length_remove1)
qed

lemma run_length:
  assumes "deliveries step n s s'" and "waiting s = [cb]"
  shows "(waiting s' = [] \<and> n \<le> Suc (rank cb)) \<or> (\<exists>c. waiting s' = [c] \<and> rank c + n \<le> rank cb)"
  using assms
proof (induction rule: deliveries.induct)
  case (none s)
  then show ?case by simp
next
  case (more n s s' c s'')
  from more.IH [OF more.prems] one_of [OF more.hyps(2)] show ?case by (auto split: if_splits)
qed

end

sublocale single_shot \<subseteq> single_successor step waiting rank
  using one_of by unfold_locales blast

context single_shot
begin

text \<open>A call that is finished or has one callback to wait for.\<close>

lemma finished_once:
  assumes "deliveries step n s s'"
    and "finished s = 1 \<and> waiting s = [] \<or> finished s = 0 \<and> (\<exists>c. waiting s = [c] \<and> rank c \<le> k)"
  shows "finished s' = 1 \<and> waiting s' = [] \<and> n \<le> Suc k \<or>
    finished s' = 0 \<and> (\<exists>c. waiting s' = [c] \<and> rank c + n \<le> k)"
  using assms(2)
proof (elim disjE exE conjE)
  assume "finished s = 1" and "waiting s = []"
  with idle [OF assms(1)] show ?thesis by simp
next
  fix c assume "finished s = 0" and w: "waiting s = [c]" and "rank c \<le> k"
  with run_invariant [OF assms(1)] run_length [OF assms(1) w] show ?thesis by auto
qed

end

end
