(* ===== verification/ScoreAdsRuns.thy ===== *)
theory ScoreAdsRuns
  imports ScoreAdsReporting ScoreAdsCandidates AsyncCall
begin

text \<open>
  Runs of \<^verbatim>\<open>ScoreAdsReactor\<close>: after \<^verbatim>\<open>Execute\<close> the reactor acts only when the dispatcher delivers a
  callback. Each callback finishes the call or leaves one callback of a later phase, so a call whose
  response can be encrypted is finished exactly once, after at most three deliveries.
\<close>

subsection \<open>Steps that neither finish the call nor wait\<close>

definition quiet :: "reactor \<Rightarrow> reactor \<Rightarrow> bool" where
  "quiet s s' \<longleftrightarrow> finishes s' = finishes s \<and> pending s' = pending s"

named_theorems quiet_rules \<open>operations that neither finish the call nor wait\<close>

lemma quiet_refl [simp, quiet_rules]: "quiet s s"
  by (simp add: quiet_def)

lemma quiet_trans: "quiet s t \<Longrightarrow> quiet t u \<Longrightarrow> quiet s u"
  by (simp add: quiet_def)

text \<open>Assigning members other than the actions and the pending callbacks.\<close>

lemma quiet_same: "actions s' = actions s \<Longrightarrow> pending s' = pending s \<Longrightarrow> quiet s s'"
  by (simp add: quiet_def finishes_def)

lemma quiet_DoReport [simp]: "quiet s (act (DoReport r) s)"
  by (simp add: quiet_def reactor_simps)

lemma quiet_update_ad_score [simp]: "quiet s (update_ad_score f s)"
  by (simp add: quiet_same)

declare bind_SomeE [elim!]

lemma MayAddKAnonJoinCandidate_quiet: "MayAddKAnonJoinCandidate i ad s = (ad', s') \<Longrightarrow> quiet s s'"
  by (rule quiet_same) (auto simp: MayAddKAnonJoinCandidate_def split: if_split_asm option.split_asm)

lemma CollectValidRomaResponse_quiet:
  assumes "CollectValidRomaResponse e response current s = Some (ad, current', s')"
  shows "quiet s s'"
proof (cases response)
  case (Inl err)
  with assms show ?thesis by (simp add: CollectValidRomaResponse_def)
next
  case (Inr r)
  show ?thesis
  proof (cases "ParseJsonString e (resp r)")
    case (Inl err)
    with assms Inr show ?thesis
      by (simp add: CollectValidRomaResponse_def split: prod.split_asm if_split_asm)
  next
    case wrapper: (Inr wrapper)
    from assms Inr wrapper consider "s' = s"
      | i ad ad1 where "MayAddKAnonJoinCandidate i ad s = (ad1, s')"
      | i ad ad1 s1 docs where "MayAddKAnonJoinCandidate i ad s = (ad1, s1)"
        "s' = s1\<lparr>paapi_contributions_docs := docs\<rparr>"
      unfolding CollectValidRomaResponse_def
      by (auto simp: Let_def split: sum.split_asm prod.split_asm if_split_asm option.split_asm json.split_asm)
    then show ?thesis
      by cases (auto simp: quiet_def finishes_def dest!: MayAddKAnonJoinCandidate_quiet)
  qed
qed

lemma CollectValidRomaResponses_loop_quiet:
  "CollectValidRomaResponses_loop e rs current s = Some (ads, s') \<Longrightarrow> quiet s s'"
  by (induction rs arbitrary: current s ads s')
    (auto simp: bind_Some_iff dest!: CollectValidRomaResponse_quiet intro: quiet_trans)

lemma record_score_quiet: "quiet s (record_score ad s)"
  by (simp add: record_score_def quiet_same)

lemma FilterAds_loop_quiet: "FilterAds_loop s d ads i n = Some (s', d', ads') \<Longrightarrow> quiet s s'"
proof (induction "n - i" arbitrary: s d ads i n)
  case 0
  then show ?case by (subst (asm) FilterAds_loop_step) simp
next
  case (Suc k)
  let ?s1 = "record_score (ads ! i) s"
  from Suc.prems Suc.hyps(2) obtain d1 ads1 i1 n1 where
    "FilterAds_loop ?s1 d1 ads1 i1 n1 = Some (s', d', ads')" and "k = n1 - i1"
    by (subst (asm) FilterAds_loop_step) (auto simp: Let_def split: option.split_asm if_split_asm)
  from Suc.hyps(1) [OF this(2,1)] show ?case by (rule quiet_trans [OF record_score_quiet])
qed

lemma FindWinningAd_quiet: "FindWinningAd srt rw rg parsed s = Some (d, ads, s') \<Longrightarrow> quiet s s'"
  by (auto simp: FindWinningAd_def bind_Some_iff Let_def case_prod_beta dest: FilterAds_loop_quiet)

lemma PopulateRelevantFieldsInResponse_quiet:
  "PopulateRelevantFieldsInResponse i ads s = Some (ads', s') \<Longrightarrow> quiet s s'"
proof -
  assume "PopulateRelevantFieldsInResponse i ads s = Some (ads', s')"
  then obtain p :: ScoredAdData and score where "(case FindScoredAdType s (sad_id p) of
      (Some ad, _) \<Rightarrow> Some ((sad_ad_score p)\<lparr>render := awb_render ad, component_renders := ad_components ad\<rparr>,
        s\<lparr>ad_data := (ad_data s)(sad_id p \<mapsto> ad\<lparr>ad_components := component_renders (sad_ad_score p)\<rparr>)\<rparr>)
    | (None, Some ad) \<Rightarrow> Some ((sad_ad_score p)\<lparr>render := pas_render ad\<rparr>, s)
    | (None, None) \<Rightarrow> None) = Some (score, s')"
    unfolding PopulateRelevantFieldsInResponse_def Let_def by (auto simp: bind_Some_iff)
  then have "s' = s \<or> (\<exists>m. s' = s\<lparr>ad_data := m\<rparr>)"
    by (cases "FindScoredAdType s (sad_id p)") (auto split: option.splits)
  then show ?thesis by (auto simp: quiet_same)
qed

lemma AddGhostWinnersToResponse_quiet:
  "AddGhostWinnersToResponse is ads s = Some (ads', s') \<Longrightarrow> quiet s s'"
proof (induction "is" arbitrary: ads s)
  case Nil
  then show ?case by simp
next
  case (Cons i "is")
  from Cons.prems obtain ads1 s1 where p: "PopulateRelevantFieldsInResponse i ads s = Some (ads1, s1)"
    by (auto simp: bind_Some_iff)
  define s2 where "s2 = s1\<lparr>ghost_winner_interest_group_data :=
      try_emplace (ghost_winner_interest_group_data s1) (interest_group_owner (sad_ad_score (ads1 ! i)))
        (interest_group_name (sad_ad_score (ads1 ! i))),
    raw_response := (raw_response s1)
      \<lparr>ghost_winning_ad_scores := ghost_winning_ad_scores (raw_response s1) @ [sad_ad_score (ads1 ! i)]\<rparr>\<rparr>"
  have s2: "actions s2 = actions s1" "pending s2 = pending s1" by (simp_all add: s2_def)
  from Cons.prems p have r: "AddGhostWinnersToResponse is
      (update_nth i (\<lambda>ad. ad\<lparr>sad_ad_score := default_AdScore\<rparr>) ads1) s2 = Some (ads', s')"
    by (simp add: Let_def s2_def)
  from PopulateRelevantFieldsInResponse_quiet [OF p] quiet_same [OF s2] Cons.IH [OF r] show ?case
    by (blast intro: quiet_trans)
qed

lemma AddWinnerToResponse_quiet: "AddWinnerToResponse srt w d ads s = Some (ads', s') \<Longrightarrow> quiet s s'"
  by (auto simp: AddWinnerToResponse_def bind_Some_iff Let_def SetPostAuctionSignals_def quiet_def finishes_def
      dest!: PopulateRelevantFieldsInResponse_quiet)

lemma debug_reports_quiet: "debug_reports e ads s = Some s' \<Longrightarrow> quiet s s'"
proof (induction e ads s arbitrary: s' rule: debug_reports.induct)
  case (2 e i ad ads s)
  from 2(2) obtain t where t: "debug_report e ad s = Some t" "debug_reports e ads t = Some s'"
    by (auto simp: bind_Some_iff)
  from t(1) have "quiet s t"
    by (auto simp: debug_report_def Let_def bind_Some_iff PopulateDebugReportUrlsForComponentAuctionWinner_def
        split: option.splits if_splits)
  from this 2(1) [OF t] show ?case by (rule quiet_trans)
qed simp

lemma PerformDebugReporting_quiet: "PerformDebugReporting e s = Some s' \<Longrightarrow> quiet s s'"
  by (auto simp: PerformDebugReporting_def bind_Some_iff split: if_splits
      dest!: debug_reports_quiet intro: quiet_trans)

lemma pagg_loop_quiet: "pagg_loop w sigs docs s = Some s' \<Longrightarrow> quiet s s'"
proof (induction docs arbitrary: s)
  case (Cons d docs)
  obtain i doc where d: "d = (i, doc)" by fastforce
  from Cons.prems consider "pagg_loop w sigs docs s = Some s'"
    | score where "pagg_loop w sigs docs (update_ad_score (\<lambda>_. score) s) = Some s'"
    by (auto simp: d bind_Some_iff split: option.splits if_splits)
  then show ?case
    by cases (auto dest: Cons.IH intro: quiet_trans [OF quiet_update_ad_score])
qed simp

lemma PerformPrivateAggregationReporting_quiet:
  "PerformPrivateAggregationReporting w s = Some s' \<Longrightarrow> quiet s s'"
  by (auto simp: PerformPrivateAggregationReporting_def bind_Some_iff dest: pagg_loop_quiet)

lemma apply_reporting_response_quiet: "quiet s (apply_reporting_response r s)"
  by (rule quiet_same) (simp_all add: apply_reporting_response_def Let_def)

lemma reporting_responses_quiet: "reporting_responses e rs s = Some s' \<Longrightarrow> quiet s s'"
proof (induction rs arbitrary: s)
  case (Cons r rs)
  then consider "reporting_responses e rs s = Some s'"
    | rr where "reporting_responses e rs (apply_reporting_response rr s) = Some s'"
    by (cases r) (auto split: sum.split_asm)
  then show ?case
    by cases (auto dest: Cons.IH intro: quiet_trans [OF apply_reporting_response_quiet])
qed simp

lemma SetContributions_quiet [simp]:
  "quiet s (SetPrivateAggregationContributionsInResponseForBuyer r s)"
  "quiet s (SetPrivateAggregationContributionsInResponseForSeller r s)"
  by (simp_all add: quiet_same SetPrivateAggregationContributionsInResponseForBuyer_def
      SetPrivateAggregationContributionsInResponseForSeller_def Let_def)

lemma report_win_responses_quiet: "report_win_responses e rs s = Some s' \<Longrightarrow> quiet s s'"
proof (induction rs arbitrary: s)
  case (Cons r rs)
  then consider "report_win_responses e rs s = Some s'"
    | f p where "report_win_responses e rs
        (SetPrivateAggregationContributionsInResponseForBuyer p (update_ad_score f s)) = Some s'"
    by (cases r) (auto split: sum.split_asm)
  then show ?case
    by cases (auto dest!: Cons.IH intro: quiet_trans [OF quiet_trans [OF quiet_update_ad_score SetContributions_quiet(1)]])
qed simp

lemma apply_report_result_quiet: "quiet s (apply_report_result r s)"
  by (rule quiet_same)
    (simp_all add: apply_report_result_def Let_def SetSellerReportingUrlsInResponseForComponentAuction_def
       SetSellerReportingUrlsInResponse_def SetPrivateAggregationContributionsInResponseForSeller_def)

subsection \<open>What a callback leaves behind\<close>

text \<open>The phases of a call, last one lowest.\<close>

fun phase :: "callback \<Rightarrow> nat" where
  "phase (ScoreAdsCallback_of debug) = 2"
| "phase ReportResultCallback_of = 1"
| "phase ReportingCallback_of = 0"
| "phase ReportWinCallback_of = 0"

text \<open>The call is finished, or one callback of a phase below \<open>k\<close> is waited for.\<close>

definition moves_on :: "nat \<Rightarrow> reactor \<Rightarrow> reactor \<Rightarrow> bool" where
  "moves_on k s s' \<longleftrightarrow>
     finishes s' = Suc (finishes s) \<and> pending s' = pending s \<or>
     finishes s' = finishes s \<and> (\<exists>c. pending s' = pending s @ [c] \<and> phase c < k)"

definition always_encrypts :: "env \<Rightarrow> bool" where
  "always_encrypts e \<longleftrightarrow> (\<forall>r. AeadEncrypt e r = None)"

lemma quiet_moves_on: "quiet s t \<Longrightarrow> moves_on k t u \<Longrightarrow> moves_on k s u"
  by (simp add: quiet_def moves_on_def)

lemma FinishWithStatus_moves_on [simp]: "moves_on k s (FinishWithStatus st s)"
  by (simp add: moves_on_def FinishWithStatus_def reactor_simps)

lemma EncryptAndFinishOK_moves_on: "always_encrypts e \<Longrightarrow> moves_on k s (EncryptAndFinishOK e s)"
  by (simp add: EncryptAndFinishOK_def EncryptResponse_def always_encrypts_def)

lemma dispatch_batch_moves_on:
  assumes "phase cb < k" and "always_encrypts e"
  shows "moves_on k s (let (st, s') = dispatch_batch e reqs cb s
    in if st = OkStatus then s' else EncryptAndFinishOK e s')"
proof (cases "BatchExecute e reqs")
  case None
  then show ?thesis using assms(1) by (simp add: dispatch_batch_def moves_on_def finishes_def act_def)
next
  case (Some err)
  with EncryptAndFinishOK_moves_on [OF assms(2)] show ?thesis by (simp add: dispatch_batch_def)
qed

lemma DispatchReportingRequest_moves_on:
  "always_encrypts e \<Longrightarrow> 0 < k \<Longrightarrow> moves_on k s (DispatchReportingRequest e is_cancelled data s)"
  unfolding DispatchReportingRequest_def
  by (simp add: dispatch_batch_moves_on [unfolded Let_def])

lemma DispatchReportingRequestForPA_moves_on:
  "always_encrypts e \<Longrightarrow> 0 < k \<Longrightarrow> moves_on k s (DispatchReportingRequestForPA e c i w config md sigs s)"
  by (simp add: DispatchReportingRequestForPA_def Let_def DispatchReportingRequest_moves_on)

lemma DispatchReportingRequestForPAS_moves_on:
  "always_encrypts e \<Longrightarrow> 0 < k \<Longrightarrow> moves_on k s (DispatchReportingRequestForPAS e c config md sigs x y s)"
  by (simp add: DispatchReportingRequestForPAS_def DispatchReportingRequest_moves_on)

lemma PerformReporting_moves_on:
  assumes "PerformReporting e is_cancelled winner i s = Some s'" and "always_encrypts e" and "0 < k"
  shows "moves_on k s s'"
proof -
  from assms(1) consider "s' = FinishWithStatus (Some Internal) s"
    | f md sigs where "s' = DispatchReportingRequestForPA e is_cancelled i winner
        (BuildAuctionConfig (raw_request (update_ad_score f s))) md sigs (update_ad_score f s)"
    | md sigs where "s' = DispatchReportingRequestForPA e is_cancelled i winner (BuildAuctionConfig (raw_request s))
        md sigs s"
    | md sigs x y where "s' = DispatchReportingRequestForPAS e is_cancelled (BuildAuctionConfig (raw_request s))
        md sigs x y s"
    unfolding PerformReporting_def
    by (auto simp: Let_def split: option.split_asm if_split_asm)
  then show ?thesis
  proof cases
    case (2 f md sigs)
    show ?thesis
      unfolding 2 by (rule quiet_moves_on [OF quiet_update_ad_score DispatchReportingRequestForPA_moves_on [OF assms(2,3)]])
  qed (simp_all add: assms(2,3) DispatchReportingRequestForPA_moves_on DispatchReportingRequestForPAS_moves_on)
qed

lemma run_report_result_moves_on:
  assumes "always_encrypts e" and "1 < k"
  shows "moves_on k s (run_report_result e signals data s)"
proof -
  let ?s = "s\<lparr>seller_device_signals := signals\<rparr>"
  have q: "quiet s ?s" by (simp add: quiet_same)
  have "moves_on k ?s (run_report_result e signals data s)"
    using assms dispatch_batch_moves_on [of ReportResultCallback_of k e ?s]
    by (cases "report_result_request e (reporting_config s) signals data")
      (simp_all add: run_report_result_def PerformReportResult_def EncryptAndFinishOK_moves_on)
  with q show ?thesis by (rule quiet_moves_on)
qed

lemma DispatchReportResult_moves_on:
  assumes "always_encrypts e" and "1 < k"
  shows "moves_on k s (DispatchReportResultRequest e sigs s)"
    and "DispatchReportResultRequestForComponentAuction e winner sigs s = Some s' \<Longrightarrow> moves_on k s s'"
    and "moves_on k s (DispatchReportResultRequestForTopLevelAuction e i sigs s)"
  using run_report_result_moves_on [OF assms]
    quiet_moves_on [OF quiet_update_ad_score run_report_result_moves_on [OF assms]]
  by (auto simp: DispatchReportResultRequest_def DispatchReportResultRequestForComponentAuction_def
      DispatchReportResultRequestForTopLevelAuction_def Let_def split: option.split)

lemma reporting_data_quiet [simp]:
  "quiet s (t\<lparr>buyer_reporting_data := x\<rparr>) \<longleftrightarrow> quiet s t"
  "quiet s (t\<lparr>reporting_config := y\<rparr>) \<longleftrightarrow> quiet s t"
  "quiet s (InitializeBuyerReportingDispatchRequestData winner sigs t) \<longleftrightarrow> quiet s t"
  "quiet s (SetReportingIdsInRawResponseAndDispatchRequestData ad t) \<longleftrightarrow> quiet s t"
  by (simp_all add: quiet_def finishes_def InitializeBuyerReportingDispatchRequestData_def
      SetReportingIdsInRawResponseAndDispatchRequestData_def Let_def)

lemma isolated_reporting_moves_on:
  assumes "PerformReportingWithSellerAndBuyerCodeIsolation e winner i s = Some s'"
    and "always_encrypts e" and "1 < k"
  shows "moves_on k s s'"
proof -
  note rules = DispatchReportResult_moves_on [OF assms(2,3)]
  have runs: "moves_on k s (DispatchReportResultRequest e sigs t)"
    "moves_on k s (DispatchReportResultRequestForTopLevelAuction e i sigs t)"
    "moves_on k s (FinishWithStatus st t)"
    "DispatchReportResultRequestForComponentAuction e winner sigs t = Some s' \<Longrightarrow> moves_on k s s'"
    if "quiet s t" for t sigs st
    using quiet_moves_on [OF that] rules by auto
  show ?thesis
    using assms(1) unfolding PerformReportingWithSellerAndBuyerCodeIsolation_def
    by (cases "ad_data s i"; cases "protected_app_signals_ad_data s i")
      (auto simp: Let_def split: if_split_asm intro!: runs(1-3) elim!: runs(4) [rotated])
qed

subsection \<open>The callbacks\<close>

lemma DoWinAndDebugReporting_moves_on:
  assumes "DoWinAndDebugReporting e c debug w parsed i s = Some s'" and "always_encrypts e"
  shows "moves_on 2 s s'"
proof -
  from assms(1) obtain s1 s2 where
    s1: "(if enable_private_aggregate_reporting (cfg s) then PerformPrivateAggregationReporting i s else Some s) = Some s1"
    and s2: "(if debug then PerformDebugReporting e s1 else Some s1) = Some s2"
    unfolding DoWinAndDebugReporting_def by blast
  have q: "quiet s s2"
    using s1 s2 by (auto split: if_split_asm intro: quiet_trans
        dest!: PerformPrivateAggregationReporting_quiet PerformDebugReporting_quiet)
  have urls: "quiet s2 (PopulateComponentReportingUrlsInTopLevelResponse j s2)" for j
    by (auto simp: PopulateComponentReportingUrlsInTopLevelResponse_def Let_def split: option.split)
  have ends: "moves_on 2 t s'" if "s' = EncryptAndFinishOK e t" for t
    unfolding that by (rule EncryptAndFinishOK_moves_on [OF assms(2)])
  have performs: "moves_on 2 t s'" if "PerformReporting e c winner j t = Some s'" for t winner j
    using PerformReporting_moves_on [OF that assms(2)] by simp
  have isolated: "moves_on 2 t s'"
    if "PerformReportingWithSellerAndBuyerCodeIsolation e winner j t = Some s'" for t winner j
    using isolated_reporting_moves_on [OF that assms(2)] by simp
  from assms(1) s1 s2 obtain z where z: "nth_option parsed w = Some z"
    unfolding DoWinAndDebugReporting_def by auto
  define s3 where "s3 = (if auction_scope (cfg s2) = AUCTION_SCOPE_SERVER_TOP_LEVEL_SELLER
    then PopulateComponentReportingUrlsInTopLevelResponse (sad_id z) s2 else s2)"
  have q3: "quiet s2 s3" by (simp add: s3_def urls)
  have "(if \<not> enable_report_result_url_generation (cfg s3) then Some (EncryptAndFinishOK e s3)
      else if enable_seller_and_buyer_code_isolation (cfg s3)
      then PerformReportingWithSellerAndBuyerCodeIsolation e (ad_score (raw_response s3)) (sad_id z) s3
      else PerformReporting e c (ad_score (raw_response s3)) (sad_id z) s3) = Some s'"
    using assms(1) by (simp only: DoWinAndDebugReporting_def s1 s2 z Option.bind.bind_lunit Let_def s3_def)
  then have "moves_on 2 s3 s'"
    by (auto split: if_split_asm intro: performs isolated EncryptAndFinishOK_moves_on [OF assms(2)])
  with q3 have "moves_on 2 s2 s'" by (rule quiet_moves_on)
  with q show ?thesis by (rule quiet_moves_on)
qed

lemma ScoreAdsCallback_moves_on:
  assumes "ScoreAdsCallback e ch c responses debug s = Some s'" and "always_encrypts e"
  shows "moves_on 2 s s'"
proof -
  from assms(1) obtain parsed s1 d ads s2 ads1 s3 where
    run: "CollectValidRomaResponses e responses s = Some (parsed, s1)"
      "FindWinningAd (sort_ads ch) (rnd_winner ch) (rnd_ghost ch) parsed s1 = Some (d, ads, s2)"
      "AddGhostWinnersToResponse (ghost_winner_indices d) ads s2 = Some (ads1, s3)"
    unfolding ScoreAdsCallback_def by (auto split: prod.split_asm)
  then have q: "quiet s s3"
    unfolding CollectValidRomaResponses_def
    by (blast intro: quiet_trans dest: CollectValidRomaResponses_loop_quiet FindWinningAd_quiet
        AddGhostWinnersToResponse_quiet)
  have "moves_on 2 s3 s'"
  proof (cases "winner_index d = -1")
    case True
    with assms(1) run obtain s4 where "quiet s3 s4" and "s' = EncryptAndFinishOK e s4"
      unfolding ScoreAdsCallback_def
      by (auto split: if_split_asm intro: quiet_refl PerformDebugReporting_quiet)
    then show ?thesis
      using quiet_moves_on [OF _ EncryptAndFinishOK_moves_on [OF assms(2)]] by blast
  next
    case False
    with assms(1) run obtain ads2 i s4 where
      "AddWinnerToResponse (sort_scores ch) (nat (winner_index d)) d ads1 (s3\<lparr>winning_ad_dispatch_id := i\<rparr>) =
         Some (ads2, s4)"
      and w: "DoWinAndDebugReporting e c debug (nat (winner_index d)) ads2 i s4 = Some s'"
      unfolding ScoreAdsCallback_def by (auto simp: Let_def split: prod.split_asm)
    then have "quiet s3 s4" by (auto simp: quiet_def finishes_def dest!: AddWinnerToResponse_quiet)
    then show ?thesis by (rule quiet_moves_on [OF _ DoWinAndDebugReporting_moves_on [OF w assms(2)]])
  qed
  with q show ?thesis by (rule quiet_moves_on)
qed

lemma dispatch_report_win_moves_on:
  assumes "dispatch_report_win e s = Some s'" and "always_encrypts e"
  shows "moves_on 1 s s'"
proof -
  have win: "moves_on 1 s s'"
    if "perform_report_win get e s = Some (st, t)" and "s' = (if st = OkStatus then t else EncryptAndFinishOK e t)"
    for get st t
  proof -
    from that(1) obtain js doc where
      run: "GenerateBuyerDeviceSignals e (buyer_reporting_data s) (seller_device_signals s) = Some (js, doc)"
      unfolding perform_report_win_def by (auto split: prod.split_asm)
    let ?s = "s\<lparr>seller_device_signals := doc\<rparr>"
    have "moves_on 1 ?s s'"
    proof -
      from that(1) run consider err where "st = Some err" "t = ?s"
        | reqs where "dispatch_batch e reqs ReportWinCallback_of ?s = (st, t)"
        by (auto simp: perform_report_win_def Let_def split: sum.split_asm)
      then show ?thesis
      proof cases
        case 1
        with that(2) show ?thesis by (simp add: EncryptAndFinishOK_moves_on assms(2))
      next
        case (2 reqs)
        with dispatch_batch_moves_on [of ReportWinCallback_of 1 e ?s reqs] assms(2) that(2)
        show ?thesis by simp
      qed
    qed
    then show ?thesis by (rule quiet_moves_on [OF quiet_same, rotated 2]) simp_all
  qed
  have run: "moves_on 1 s s'"
    if "(perform_report_win get e s \<bind> (\<lambda>(st, s1). Some (if st = OkStatus then s1 else EncryptAndFinishOK e s1))) =
      Some s'" for get
    using that win by (cases "perform_report_win get e s") (auto split: prod.split_asm)
  have ends: "moves_on 1 s s'" if "Some (EncryptAndFinishOK e s) = Some s'"
    using that EncryptAndFinishOK_moves_on [OF assms(2)] by auto
  show ?thesis
    using assms(1) run [of GetReportWinDispatchRequest] run [of GetPASReportWinDispatchRequest] ends
    unfolding dispatch_report_win_def PerformPAReportWin_def PerformPASReportWin_def Let_def
    by (simp split: if_split_asm)
qed

lemma CancellableReportResultCallback_moves_on:
  assumes "CancellableReportResultCallback e responses s = Some s'" and "always_encrypts e"
  shows "moves_on 1 s s'"
proof -
  have finish: "moves_on 1 s s'" if "Some (EncryptAndFinishOK e s) = Some s'"
    using that EncryptAndFinishOK_moves_on [OF assms(2)] by auto
  have win: "moves_on 1 s s'" if "dispatch_report_win e t = Some s'" and "quiet s t" for t
    by (rule quiet_moves_on [OF that(2) dispatch_report_win_moves_on [OF that(1) assms(2)]])
  show ?thesis
  proof (cases responses)
    case Nil
    with assms(1) finish show ?thesis by (simp add: CancellableReportResultCallback_def)
  next
    case (Cons r rs)
    show ?thesis
    proof (cases r)
      case (Inl err)
      with assms(1) Cons win [OF _ quiet_refl] show ?thesis by (simp add: CancellableReportResultCallback_def)
    next
      case (Inr a)
      have "moves_on 1 s s'"
        if "dispatch_report_win e (case parsed of Inl err \<Rightarrow> s | Inr rr \<Rightarrow> apply_report_result rr s) = Some s'" for parsed
        using that
        by (cases parsed) (auto intro: win [simplified] apply_report_result_quiet)
      with assms(1) Cons Inr show ?thesis
        unfolding CancellableReportResultCallback_def by auto
    qed
  qed
qed

lemma ReportingCallback_moves_on:
  assumes "always_encrypts e"
  shows "ReportingCallback e responses s = Some s' \<Longrightarrow> moves_on k s s'"
    and "ReportWinCallback e responses s = Some s' \<Longrightarrow> moves_on k s s'"
  by (auto simp: ReportingCallback_def ReportWinCallback_def
      intro: quiet_moves_on [OF reporting_responses_quiet EncryptAndFinishOK_moves_on [OF assms]]
        quiet_moves_on [OF report_win_responses_quiet EncryptAndFinishOK_moves_on [OF assms]])

lemma moves_on_mono: "moves_on j s s' \<Longrightarrow> j \<le> k \<Longrightarrow> moves_on k s s'"
  by (auto simp: moves_on_def)

text \<open>One delivery of the dispatcher, for some answers and some outcome of the random choices.\<close>

inductive delivers :: "env \<Rightarrow> callback \<Rightarrow> reactor \<Rightarrow> reactor \<Rightarrow> bool" for e :: env where
  deliver_pending: "cb \<in> set (pending s) \<Longrightarrow> deliver e ch is_cancelled cb responses s = Some s' \<Longrightarrow>
    delivers e cb s s'"

inductive_cases deliversE: "delivers e cb s s'"

lemma deliver_moves_on:
  assumes "deliver e ch c cb responses s = Some s'" and "always_encrypts e"
  shows "moves_on (phase cb) (s\<lparr>pending := remove1 cb (pending s)\<rparr>) s'"
  using assms(1)
  by (cases cb)
    (auto simp: deliver_def Let_def split: if_split_asm
       intro: ScoreAdsCallback_moves_on [OF _ assms(2)] ReportingCallback_moves_on [OF assms(2)]
         CancellableReportResultCallback_moves_on [OF _ assms(2), simplified])

lemma delivers_one:
  assumes "delivers e cb s s'" and "always_encrypts e"
  shows "cb \<in> set (pending s) \<and>
    (finishes s' = Suc (finishes s) \<and> pending s' = remove1 cb (pending s) \<or>
     finishes s' = finishes s \<and> (\<exists>c. pending s' = remove1 cb (pending s) @ [c] \<and> phase c < phase cb))"
proof -
  from assms(1) obtain ch c responses where "cb \<in> set (pending s)"
    and "deliver e ch c cb responses s = Some s'"
    by (rule deliversE)
  with deliver_moves_on [OF this(2) assms(2)] show ?thesis
    by (simp add: moves_on_def finishes_def)
qed

text \<open>The environments that can encrypt; in the others a call may be finished twice (below).\<close>

definition encrypting :: "env \<Rightarrow> env" where
  "encrypting e = e\<lparr>AeadEncrypt := \<lambda>_. None\<rparr>"

lemma always_encrypts_encrypting [simp]: "always_encrypts (encrypting e)"
  by (simp add: always_encrypts_def encrypting_def)

interpretation score_ads: single_shot "delivers (encrypting e)" pending phase finishes for e
  by unfold_locales (rule delivers_one [OF _ always_encrypts_encrypting])


lemma Execute_cfg: "Execute e is_cancelled s = Some s' \<Longrightarrow> cfg s' = cfg s"
  using Execute_cases [of e is_cancelled s s']
  by (auto simp: collecting_def FinishWithStatus_def act_def)

lemma sample_started:
  obtains s debug where "Execute sample_env False (ScoreAdsReactor_new sample_rc sample_request False) = Some s"
    and "pending s = [ScoreAdsCallback_of debug]" and "enable_cancellation (cfg s)"
proof -
  obtain s where s: "Execute sample_env False (ScoreAdsReactor_new sample_rc sample_request False) = Some s"
    and a: "map (\<lambda>a. case a of Batch reqs \<Rightarrow> map req_id reqs | _ \<Rightarrow> []) (actions s) = [[''r'']]"
    using sample_execute by auto
  from Execute_cases [OF s] a obtain debug where "pending s = [ScoreAdsCallback_of debug]"
    by (auto simp: FinishWithStatus_def act_def dest: collecting_new)
  moreover have "enable_cancellation (cfg s)"
    using Execute_cfg [OF s] by (simp add: ScoreAdsReactor_new_def make_config_def sample_rc_def)
  ultimately show ?thesis using s that by blast
qed


text \<open>
  When encryption fails the call is finished by \<^verbatim>\<open>EncryptResponse\<close> and then again with the status \<open>OK\<close>.
\<close>

lemma encryption_failure_finishes_twice:
  "AeadEncrypt e (raw_response s) = Some err \<Longrightarrow>
   actions (EncryptAndFinishOK e s) = actions s @ [Finish (Some Internal), Finish OkStatus]"
  by (simp add: EncryptAndFinishOK_def EncryptResponse_def FinishWithStatus_def act_def)

end
