(* ===== verification/Egress.thy ===== *)
theory Egress
  imports Json "HOL-Library.Word"
begin

text \<open>
  The egress payload of protected app signals (\<^verbatim>\<open>services/bidding_service/egress_features\<close>,
  \<^verbatim>\<open>egress_schema_cache.cc\<close>, \<^verbatim>\<open>cddl_spec_cache.cc\<close>, \<^verbatim>\<open>utils/egress.cc\<close> and the serialisation in
  \<^verbatim>\<open>protected_app_signals_generate_bids_reactor.cc\<close>): a schema of features is loaded into a cache, the
  values a bid carries are put into copies of the features, and their bits are packed into bytes. Bit
  vectors are lists of booleans, the most significant bit first. The CDDL validator and the Base64
  encoder are parameters.
\<close>

subsection \<open>Bits\<close>

text \<open>\<open>n\<close> is the loop index plus one: the bits below it are still to be set.\<close>

fun UnsignedIntToBits_loop :: "nat \<Rightarrow> nat \<Rightarrow> bool list \<Rightarrow> bool list" where
  "UnsignedIntToBits_loop num 0 bit_rep = bit_rep"
| "UnsignedIntToBits_loop num (Suc i) bit_rep =
     (if num = 0 then bit_rep
      else UnsignedIntToBits_loop (num div 2) i (if num mod 2 > 0 then bit_rep[i := True] else bit_rep))"

definition UnsignedIntToBits :: "nat \<Rightarrow> bool list \<Rightarrow> bool list" where
  "UnsignedIntToBits num bit_rep = UnsignedIntToBits_loop num (length bit_rep) bit_rep"

subsection \<open>Features\<close>

datatype feature_type = BooleanFeature | SignedIntFeature | UnsignedIntFeature | BucketFeature | HistogramFeature

definition Type :: "feature_type \<Rightarrow> string" where
  "Type t = (case t of
     BooleanFeature \<Rightarrow> ''boolean-feature''
   | SignedIntFeature \<Rightarrow> ''signed-integer-feature''
   | UnsignedIntFeature \<Rightarrow> ''unsigned-integer-feature''
   | BucketFeature \<Rightarrow> ''bucket-feature''
   | HistogramFeature \<Rightarrow> ''histogram-feature'')"

text \<open>The value is \<open>None\<close> while \<^verbatim>\<open>is_value_set_\<close> is false.\<close>

record EgressFeature =
  feature_type :: feature_type
  size_bits :: "32 word"
  schema_value :: json
  feature_value :: "json option"

definition new_feature :: "feature_type \<Rightarrow> 32 word \<Rightarrow> json \<Rightarrow> EgressFeature" where
  "new_feature t n value = \<lparr>feature_type = t, size_bits = n, schema_value = value, feature_value = None\<rparr>"

text \<open>The copy constructor does not copy the value.\<close>

definition Copy :: "EgressFeature \<Rightarrow> EgressFeature" where
  "Copy f = f\<lparr>feature_value := None\<rparr>"

definition SetValue :: "EgressFeature \<Rightarrow> json \<Rightarrow> bool \<Rightarrow> EgressFeature result" where
  "SetValue f v verify_type = do {
     observed \<leftarrow> assign_if_present GetString v ''name'' [];
     Some (if verify_type \<and> observed \<noteq> Type (feature_type f) then Inl InvalidArgument
           else Inr (f\<lparr>feature_value := Some v\<rparr>)) }"

text \<open>The sizes of a histogram: a feature without a size counts as the one before it.\<close>

fun histogram_size :: "json list \<Rightarrow> 32 word \<Rightarrow> 32 word \<Rightarrow> 32 word option" where
  "histogram_size [] feat_size acc = Some acc"
| "histogram_size (schema # schemas) feat_size acc = do {
     n \<leftarrow> assign_if_present (\<lambda>v. map_option of_int (GetUint v)) schema ''size'' feat_size;
     histogram_size schemas n (acc + n) }"

definition Size :: "EgressFeature \<Rightarrow> 32 word option" where
  "Size f = (if feature_type f = HistogramFeature
     then (case GetArrayMember (schema_value f) ''value'' of
             None \<Rightarrow> None
           | Some (Inl _) \<Rightarrow> Some 0
           | Some (Inr schemas) \<Rightarrow> histogram_size schemas 0 0)
     else Some (size_bits f))"

definition Serialize_boolean :: "EgressFeature \<Rightarrow> bool list result" where
  "Serialize_boolean f = (case feature_value f of
     None \<Rightarrow> Some (Inr [False])
   | Some v \<Rightarrow> do {
       b \<leftarrow> assign_if_present (\<lambda>w. map_option Some (GetBool w)) v ''value'' None;
       Some (case b of None \<Rightarrow> Inl InvalidArgument | Some x \<Rightarrow> Inr [x]) })"

definition Serialize_unsigned :: "EgressFeature \<Rightarrow> bool list result" where
  "Serialize_unsigned f = (case feature_value f of
     None \<Rightarrow> Some (Inr (replicate (unat (size_bits f)) False))
   | Some v \<Rightarrow> do {
       i \<leftarrow> assign_if_present (\<lambda>w. map_option Some (GetUint w)) v ''value'' None;
       Some (case i of
         None \<Rightarrow> Inl InvalidArgument
       | Some x \<Rightarrow>
           if x > 2 ^ unat (size_bits f) - 1 then Inl InvalidArgument
           else Inr (UnsignedIntToBits (nat x) (replicate (unat (size_bits f)) False))) })"

text \<open>
  A negative number is moved up by the weight of the sign bit; the sum is computed as a \<^verbatim>\<open>double\<close> and
  must be in the range of \<^verbatim>\<open>int\<close>.
\<close>

definition Serialize_signed :: "EgressFeature \<Rightarrow> bool list result" where
  "Serialize_signed f = (case feature_value f of
     None \<Rightarrow> Some (Inr (replicate (unat (size_bits f)) False))
   | Some v \<Rightarrow> do {
       i \<leftarrow> assign_if_present (\<lambda>w. map_option Some (GetInt w)) v ''value'' None;
       (case i of
         None \<Rightarrow> Some (Inl InvalidArgument)
       | Some x \<Rightarrow>
           (let top = 2 ^ unat (size_bits f - 1); bit_rep = replicate (unat (size_bits f)) False in
            if x \<ge> top \<or> x < - top then Some (Inl InvalidArgument)
            else if x < 0
            then do {
              moved \<leftarrow> int32_or_undefined (x + top);
              (case UnsignedIntToBits (nat moved) bit_rep of
                 [] \<Rightarrow> None
               | b # bs \<Rightarrow> Some (Inr (True # bs))) }
            else Some (Inr (UnsignedIntToBits (nat x) bit_rep)))) })"

fun Serialize_buckets :: "json list \<Rightarrow> bool list result" where
  "Serialize_buckets [] = Some (Inr [])"
| "Serialize_buckets (feat # feats) =
     (if \<not> IsObject feat then Some (Inl InvalidArgument)
      else assign_or_return (SetValue (new_feature BooleanFeature 1 JNull) feat False) (\<lambda>f.
           assign_or_return (Serialize_boolean f) (\<lambda>bits. do {
             b \<leftarrow> nth_option bits 0;
             assign_or_return (Serialize_buckets feats) (\<lambda>bs. Some (Inr (b # bs))) })))"

definition Serialize_bucket :: "EgressFeature \<Rightarrow> bool list result" where
  "Serialize_bucket f = (case feature_value f of
     None \<Rightarrow> Some (Inr (replicate (unat (size_bits f)) False))
   | Some v \<Rightarrow> assign_or_return (GetArrayMember v ''value'') (\<lambda>buckets.
       if length buckets \<noteq> unat (size_bits f) then Some (Inl InvalidArgument)
       else assign_or_return (Serialize_buckets buckets) (\<lambda>bits. Some (Inr (rev bits)))))"

text \<open>One number of a histogram, by the schema at its index.\<close>

definition Serialize_number :: "json \<Rightarrow> json \<Rightarrow> bool list result" where
  "Serialize_number schema feat = do {
     feat_name \<leftarrow> assign_if_present GetString schema ''name'' [];
     feat_size \<leftarrow> assign_if_present (\<lambda>v. map_option of_int (GetUint v)) schema ''size'' (0 :: 32 word);
     (if feat_name = ''unsigned-integer-feature''
      then assign_or_return (SetValue (new_feature UnsignedIntFeature feat_size JNull) feat True) Serialize_unsigned
      else if feat_name = ''signed-integer-feature''
      then assign_or_return (SetValue (new_feature SignedIntFeature feat_size JNull) feat True) Serialize_signed
      else Some (Inl InvalidArgument)) }"

fun Serialize_numbers :: "json list \<Rightarrow> nat \<Rightarrow> json list \<Rightarrow> bool list list result" where
  "Serialize_numbers schemas i [] = Some (Inr [])"
| "Serialize_numbers schemas i (feat # feats) =
     (if \<not> IsObject feat then Some (Inl InvalidArgument)
      else do {
        schema \<leftarrow> nth_option schemas i;
        assign_or_return (Serialize_number schema feat) (\<lambda>bits.
        assign_or_return (Serialize_numbers schemas (Suc i) feats) (\<lambda>bss. Some (Inr (bits # bss)))) })"

definition Serialize_histogram :: "EgressFeature \<Rightarrow> bool list result" where
  "Serialize_histogram f = (case feature_value f of
     None \<Rightarrow> map_option (\<lambda>n. Inr (replicate (unat n) False)) (Size f)
   | Some v \<Rightarrow>
       assign_or_return (GetArrayMember v ''value'') (\<lambda>vals.
       assign_or_return (GetArrayMember (schema_value f) ''value'') (\<lambda>schemas.
         if length vals \<noteq> length schemas then Some (Inl InvalidArgument)
         else assign_or_return (Serialize_numbers schemas 0 vals) (\<lambda>bss. Some (Inr (concat (rev bss)))))))"

definition Serialize :: "EgressFeature \<Rightarrow> bool list result" where
  "Serialize f = (case feature_type f of
     BooleanFeature \<Rightarrow> Serialize_boolean f
   | SignedIntFeature \<Rightarrow> Serialize_signed f
   | UnsignedIntFeature \<Rightarrow> Serialize_unsigned f
   | BucketFeature \<Rightarrow> Serialize_bucket f
   | HistogramFeature \<Rightarrow> Serialize_histogram f)"

definition CreateEgressFeature :: "string \<Rightarrow> 32 word \<Rightarrow> json \<Rightarrow> status_code + EgressFeature" where
  "CreateEgressFeature name n value =
     (if name = ''boolean-feature'' then Inr (new_feature BooleanFeature n JNull)
      else if name = ''signed-integer-feature'' then Inr (new_feature SignedIntFeature n JNull)
      else if name = ''unsigned-integer-feature'' then Inr (new_feature UnsignedIntFeature n JNull)
      else if name = ''bucket-feature'' then Inr (new_feature BucketFeature n JNull)
      else if name = ''histogram-feature'' then Inr (new_feature HistogramFeature n value)
      else Inl InvalidArgument)"

subsection \<open>Schemas\<close>

record EgressSchemaData =
  version :: "32 word"
  features :: "EgressFeature list"

fun ExtractFeatures_loop :: "json list \<Rightarrow> EgressFeature list result" where
  "ExtractFeatures_loop [] = Some (Inr [])"
| "ExtractFeatures_loop (feat # feats) =
     (if \<not> IsObject feat then Some (Inl InvalidArgument)
      else do {
        name \<leftarrow> assign_if_present GetString feat ''name'' [];
        n \<leftarrow> assign_if_present (\<lambda>v. map_option of_int (GetUint v)) feat ''size'' 1;
        assign_or_return (Some (CreateEgressFeature name n feat)) (\<lambda>f.
        assign_or_return (ExtractFeatures_loop feats) (\<lambda>fs. Some (Inr (f # fs)))) })"

definition ExtractFeatures :: "json \<Rightarrow> EgressFeature list result" where
  "ExtractFeatures json_doc = assign_or_return (GetArrayMember json_doc ''features'') ExtractFeatures_loop"

text \<open>The specifications that could be read from the directory.\<close>

definition kSupportedCddlVersions :: "string list" where
  "kSupportedCddlVersions = [''1.0.0'']"

definition CddlSpecCache_Init :: "string \<Rightarrow> (string \<Rightarrow> status_code + string) \<Rightarrow> string \<rightharpoonup> string" where
  "CddlSpecCache_Init dir_path GetFileContent =
     fold (\<lambda>v m. case GetFileContent (dir_path @ v) of Inl _ \<Rightarrow> m | Inr c \<Rightarrow> m(v \<mapsto> c)) kSupportedCddlVersions
       Map.empty"

definition CddlSpecCache_Get :: "(string \<rightharpoonup> string) \<Rightarrow> string \<Rightarrow> status_code + string" where
  "CddlSpecCache_Get version_contents v = (case version_contents v of None \<Rightarrow> Inl NotFound | Some c \<Rightarrow> Inr c)"

record EgressSchemaCache =
  version_features :: "string \<rightharpoonup> EgressSchemaData"
  cddl_spec_cache :: "string \<rightharpoonup> string"

record egress_env =
  parse_json :: "string \<Rightarrow> status_code + json"
  validate_json_str :: "string \<Rightarrow> string \<Rightarrow> bool"
  Base64Escape :: "8 word list \<Rightarrow> string"

definition EgressSchemaCache_Update ::
    "egress_env \<Rightarrow> string \<Rightarrow> string \<Rightarrow> EgressSchemaCache \<Rightarrow> (status \<times> EgressSchemaCache) option" where
  "EgressSchemaCache_Update e egress_schema schema_id c = do {
     r \<leftarrow> assign_or_return (Some (parse_json e egress_schema)) (\<lambda>json_doc.
          assign_or_return (GetIntMember json_doc ''version'') (\<lambda>schema_version.
          assign_or_return (GetStringMember json_doc ''cddl_version'' False) (\<lambda>cddl_version.
          assign_or_return (Some (CddlSpecCache_Get (cddl_spec_cache c) cddl_version)) (\<lambda>cddl_spec.
            if \<not> validate_json_str e cddl_spec egress_schema then Some (Inl InvalidArgument)
            else assign_or_return (ExtractFeatures json_doc) (\<lambda>fs.
              Some (Inr \<lparr>version = of_int schema_version, features = fs\<rparr>))))));
     Some (case r of
       Inl err \<Rightarrow> (Some err, c)
     | Inr d \<Rightarrow> (OkStatus, c\<lparr>version_features := (version_features c)(schema_id \<mapsto> d)\<rparr>)) }"

definition EgressSchemaCache_Get :: "EgressSchemaCache \<Rightarrow> string \<Rightarrow> status_code + EgressSchemaData" where
  "EgressSchemaCache_Get c schema_id =
     (case version_features c schema_id of
        None \<Rightarrow> Inl InvalidArgument
      | Some d \<Rightarrow> Inr \<lparr>version = version d, features = map Copy (features d)\<rparr>)"

subsection \<open>The payload\<close>

fun PopulateValues_loop :: "json list \<Rightarrow> EgressFeature list \<Rightarrow> EgressFeature list result" where
  "PopulateValues_loop [] fs = Some (Inr fs)"
| "PopulateValues_loop (feat # feats) [] = None"
| "PopulateValues_loop (feat # feats) (f # fs) =
     (if \<not> IsObject feat then Some (Inl InvalidArgument)
      else assign_or_return (SetValue f feat True) (\<lambda>f'.
           assign_or_return (PopulateValues_loop feats fs) (\<lambda>fs'. Some (Inr (f' # fs')))))"

definition PopulateValuesForEgressFeatures :: "json \<Rightarrow> EgressFeature list \<Rightarrow> EgressFeature list result" where
  "PopulateValuesForEgressFeatures values fs =
     assign_or_return (GetArrayMember values ''features'') (\<lambda>feature_array.
       if length feature_array \<noteq> length fs then Some (Inl InvalidArgument)
       else PopulateValues_loop feature_array fs)"

definition kEgressProtocolBitWidth :: nat where
  "kEgressProtocolBitWidth = 5"

definition GetEgressVectorHeader :: "32 word \<Rightarrow> 8 word" where
  "GetEgressVectorHeader schema_version = or (ucast (push_bit kEgressProtocolBitWidth schema_version)) 0"

text \<open>One bit of a feature is put into the byte array; the index may leave the array.\<close>

fun put_bits :: "bool list \<Rightarrow> 8 word list \<times> int \<times> nat \<Rightarrow> (8 word list \<times> int \<times> nat) option" where
  "put_bits [] st = Some st"
| "put_bits (b # bs) (bytes, idx, pos) =
     (let (idx', pos') = (if pos > 0 \<and> pos mod 8 = 0 then (idx - 1, 0) else (idx, pos)) in do {
        bytes' \<leftarrow> (if b then if 0 \<le> idx' \<and> idx' < int (length bytes)
                            then Some (bytes[nat idx' := or (bytes ! nat idx') (push_bit pos' 1)])
                            else None
                  else Some bytes);
        put_bits bs (bytes', idx', pos' + 1) })"

fun put_features ::
    "EgressFeature list \<Rightarrow> 8 word list \<times> int \<times> nat \<Rightarrow> (8 word list \<times> int \<times> nat) result" where
  "put_features [] st = Some (Inr st)"
| "put_features (f # fs) st = assign_or_return (Serialize f) (\<lambda>bits. do {
     st' \<leftarrow> put_bits (rev bits) st;
     put_features fs st' })"

fun total_size :: "EgressFeature list \<Rightarrow> 32 word \<Rightarrow> 32 word option" where
  "total_size [] acc = Some acc"
| "total_size (f # fs) acc = do { n \<leftarrow> Size f; total_size fs (acc + n) }"

definition round_to_byte :: "32 word \<Rightarrow> 32 word" where
  "round_to_byte n = (if n mod 8 \<noteq> 0 then (n div 8 + 1) * 8 else n)"

definition SerializeEgressFeatures ::
    "egress_env \<Rightarrow> 32 word \<Rightarrow> EgressFeature list \<Rightarrow> 32 word \<Rightarrow> string result" where
  "SerializeEgressFeatures e schema_version fs egress_bit_limit = do {
     n \<leftarrow> total_size fs 0;
     (if n = 0 \<or> n > egress_bit_limit then Some (Inr [])
      else
        (let bytes = replicate (unat (round_to_byte n div 8)) 0 in
         assign_or_return (put_features fs (bytes, int (length bytes) - 1, 0)) (\<lambda>(bytes', idx, pos).
           Some (Inr (Base64Escape e (bytes' @ [GetEgressVectorHeader schema_version])))))) }"

definition GetSerializedEgressPayload ::
    "egress_env \<Rightarrow> string \<Rightarrow> string \<Rightarrow> EgressSchemaCache \<Rightarrow> int \<Rightarrow> string result" where
  "GetSerializedEgressPayload e schema_id egress_payload c egress_bit_limit =
     assign_or_return (Some (EgressSchemaCache_Get c schema_id)) (\<lambda>schema_data.
     assign_or_return (Some (parse_json e egress_payload)) (\<lambda>values.
     assign_or_return (PopulateValuesForEgressFeatures values (features schema_data)) (\<lambda>fs.
       SerializeEgressFeatures e (version schema_data) fs (of_int egress_bit_limit))))"

text \<open>A payload that cannot be serialised is dropped.\<close>

definition PopulateSerializedEgressPayload ::
    "egress_env \<Rightarrow> string \<Rightarrow> string \<Rightarrow> EgressSchemaCache \<Rightarrow> int \<Rightarrow> string option" where
  "PopulateSerializedEgressPayload e schema_id egress_payload c egress_bit_limit =
     (if egress_payload = [] then Some []
      else map_option (\<lambda>r. case r of Inl _ \<Rightarrow> [] | Inr p \<Rightarrow> p)
             (GetSerializedEgressPayload e schema_id egress_payload c egress_bit_limit))"

end
