(* ===== verification/EgressPayload.thy ===== *)
theory EgressPayload
  imports Egress
begin

text \<open>
  What an egress payload says: the bits of a feature decode to its value, as many bits as the schema
  allows are written, each to its place, and never more than the limit.
\<close>

subsection \<open>Binary numbers\<close>

definition bits_value :: "bool list \<Rightarrow> nat" where
  "bits_value bs = foldl (\<lambda>n b. 2 * n + of_bool b) 0 bs"

definition nat_bits :: "nat \<Rightarrow> nat \<Rightarrow> bool list" where
  "nat_bits n num = rev (map (\<lambda>k. odd (num div 2 ^ k)) [0..<n])"

text \<open>Two's complement.\<close>

fun signed_bits_value :: "bool list \<Rightarrow> int" where
  "signed_bits_value [] = 0"
| "signed_bits_value (b # bs) = int (bits_value bs) - (if b then 2 ^ length bs else 0)"

lemma bits_value_Nil [simp]: "bits_value [] = 0"
  by (simp add: bits_value_def)

lemma bits_value_snoc [simp]: "bits_value (bs @ [b]) = 2 * bits_value bs + of_bool b"
  by (simp add: bits_value_def)

lemma length_nat_bits [simp]: "length (nat_bits n num) = n"
  by (simp add: nat_bits_def)

lemma nat_bits_0 [simp]: "nat_bits 0 num = []"
  by (simp add: nat_bits_def)

lemma nat_bits_Suc: "nat_bits (Suc n) num = nat_bits n (num div 2) @ [odd num]"
proof -
  have "[0..<Suc n] = 0 # map Suc [0..<n]" by (simp only: upt_conv_Cons [OF zero_less_Suc] map_Suc_upt)
  then show ?thesis
    unfolding nat_bits_def by (simp del: upt_Suc add: comp_def div_mult2_eq)
qed

lemma nat_bits_zero: "nat_bits n 0 = replicate n False"
  by (induction n) (simp_all add: nat_bits_Suc replicate_append_same)

lemma bits_value_nat_bits: "bits_value (nat_bits n num) = num mod 2 ^ n"
proof (induction n arbitrary: num)
  case (Suc n)
  have "num mod 2 ^ Suc n = 2 * (num div 2 mod 2 ^ n) + num mod 2"
    unfolding power_Suc by (rule mod_mult2_eq)
  then show ?case by (simp add: nat_bits_Suc Suc.IH mod_2_eq_odd)
qed simp

lemma nat_bits_small:
  assumes "num < 2 ^ n" shows "nat_bits (Suc n) num = False # nat_bits n num"
proof -
  have "num div 2 ^ n = 0" using assms by simp
  then show ?thesis by (simp add: nat_bits_def)
qed

lemma UnsignedIntToBits_loop_bits:
  assumes "i \<le> length bs" and "take i bs = replicate i False"
  shows "UnsignedIntToBits_loop num i bs = nat_bits i num @ drop i bs"
  using assms
proof (induction i arbitrary: num bs)
  case 0
  then show ?case by simp
next
  case (Suc i)
  have len: "i < length bs" using Suc.prems by simp
  have tk: "take i bs = replicate i False" and nth: "\<not> bs ! i"
    using Suc.prems by (simp_all add: take_Suc_conv_app_nth replicate_append_same [symmetric])
  show ?case
  proof (cases "num = 0")
    case True
    have "bs = take (Suc i) bs @ drop (Suc i) bs" by simp
    with True Suc.prems(2) show ?thesis by (metis UnsignedIntToBits_loop.simps(2) nat_bits_zero)
  next
    case False
    let ?bs = "if num mod 2 > 0 then bs[i := True] else bs"
    have "bs[i := False] = bs" using nth list_update_id [of bs i] by simp
    then have bs: "?bs = bs[i := odd num]" by (cases "odd num") (simp_all add: mod_2_eq_odd)
    have "drop i ?bs = odd num # drop (Suc i) bs"
      unfolding bs using len by (simp add: Cons_nth_drop_Suc [symmetric])
    moreover have "UnsignedIntToBits_loop (num div 2) i ?bs = nat_bits i (num div 2) @ drop i ?bs"
      using Suc.IH [of ?bs "num div 2"] tk len by (simp add: bs)
    ultimately show ?thesis using False by (simp add: nat_bits_Suc)
  qed
qed

lemma UnsignedIntToBits_zeros [simp]: "UnsignedIntToBits num (replicate n False) = nat_bits n num"
  by (simp add: UnsignedIntToBits_def UnsignedIntToBits_loop_bits)

subsection \<open>Features whose schema conforms\<close>

text \<open>
  What the CDDL specification says of a feature in a schema: a boolean has no size, the numbers of a
  histogram have one each.
\<close>

definition number_schema :: "json \<Rightarrow> bool" where
  "number_schema j \<longleftrightarrow> (\<exists>ms i. j = JObject ms \<and> (map_of ms ''size'' \<bind> GetUint) = Some i)"

definition number_size :: "json \<Rightarrow> nat" where
  "number_size j = (case j of JObject ms \<Rightarrow> (case map_of ms ''size'' \<bind> GetUint of None \<Rightarrow> 0 | Some i \<Rightarrow> nat i) | _ \<Rightarrow> 0)"

definition histogram_schemas :: "EgressFeature \<Rightarrow> json list \<Rightarrow> bool" where
  "histogram_schemas f schemas \<longleftrightarrow> (\<exists>ms. schema_value f = JObject ms \<and> map_of ms ''value'' = Some (JArray schemas)) \<and>
     (\<forall>j \<in> set schemas. number_schema j)"

definition wf_feature :: "EgressFeature \<Rightarrow> bool" where
  "wf_feature f \<longleftrightarrow>
     (feature_type f = BooleanFeature \<longrightarrow> size_bits f = 1) \<and>
     (feature_type f = HistogramFeature \<longrightarrow> (\<exists>schemas. histogram_schemas f schemas))"

text \<open>The bits a feature has by its schema, as a number without wrap-around.\<close>

definition bit_count :: "EgressFeature \<Rightarrow> nat" where
  "bit_count f = (if feature_type f = HistogramFeature
     then (case schema_value f of
             JObject ms \<Rightarrow> (case map_of ms ''value'' of Some (JArray js) \<Rightarrow> sum_list (map number_size js) | _ \<Rightarrow> 0)
           | _ \<Rightarrow> 0)
     else unat (size_bits f))"

lemma histogram_size_sum:
  assumes "\<forall>j \<in> set schemas. number_schema j"
  shows "histogram_size schemas n acc = Some (acc + of_nat (sum_list (map number_size schemas)))"
  using assms
proof (induction schemas arbitrary: n acc)
  case (Cons j schemas)
  then obtain ms i where j: "j = JObject ms" "(map_of ms ''size'' \<bind> GetUint) = Some i"
    by (auto simp: number_schema_def)
  then have "0 \<le> i" by (auto simp: GetUint_def elim!: bind_SomeE split: json.split_asm if_split_asm)
  have g: "(map_of ms ''size'' \<bind> (\<lambda>v. map_option of_int (GetUint v))) = Some (of_int i :: 32 word)"
    using j(2) by (auto simp: bind_Some_iff)
  have s: "number_size j = nat i" by (simp add: number_size_def j)
  show ?case using Cons g s \<open>0 \<le> i\<close> by (simp add: j(1) assign_if_present_def add.assoc)
qed simp

lemma Size_wf:
  assumes "wf_feature f" shows "Size f = Some (of_nat (bit_count f))"
proof (cases "feature_type f = HistogramFeature")
  case True
  with assms obtain schemas ms where "schema_value f = JObject ms" "map_of ms ''value'' = Some (JArray schemas)"
    "\<forall>j \<in> set schemas. number_schema j"
    by (auto simp: wf_feature_def histogram_schemas_def)
  with True show ?thesis
    by (simp add: Size_def bit_count_def GetArrayMember_def GetArray_def histogram_size_sum)
qed (simp add: Size_def bit_count_def)

subsection \<open>Values and lengths of the bits of a feature\<close>

lemma GetUint_SomeD: "GetUint j = Some i \<Longrightarrow> 0 \<le> i \<and> i < 2 ^ 32"
  by (auto simp: GetUint_def split: json.split_asm if_split_asm)

lemma bind_map_Some: "m \<bind> (\<lambda>w. map_option Some (g w)) = map_option Some (m \<bind> g)"
  by (cases m) simp_all

lemma Serialize_unsigned_value:
  assumes "Serialize_unsigned f = Some (Inr bs)" and "feature_value f = Some (JObject ms)"
  shows "length bs = unat (size_bits f) \<and> (map_of ms ''value'' \<bind> GetUint) = Some (int (bits_value bs))"
proof -
  let ?n = "unat (size_bits f)"
  obtain x where x: "(map_of ms ''value'' \<bind> GetUint) = Some x" and le: "x \<le> 2 ^ ?n - 1"
    and bs: "bs = nat_bits ?n (nat x)"
    using assms by (auto simp: Serialize_unsigned_def assign_if_present_def bind_map_Some
        split: option.split_asm if_split_asm)
  from x have "0 \<le> x" by (auto elim!: bind_SomeE dest: GetUint_SomeD)
  moreover from this le have "nat x < 2 ^ ?n" by (simp add: nat_less_iff)
  ultimately show ?thesis using x bs by (simp add: bits_value_nat_bits)
qed

lemma Serialize_signed_value:
  assumes "Serialize_signed f = Some (Inr bs)" and "feature_value f = Some (JObject ms)" and "size_bits f \<noteq> 0"
  shows "length bs = unat (size_bits f) \<and> (map_of ms ''value'' \<bind> GetInt) = Some (signed_bits_value bs)"
proof -
  let ?m = "unat (size_bits f - 1)"
  have n: "unat (size_bits f) = Suc ?m"
    using unat_minus_one [OF assms(3)] assms(3) unat_gt_0 [of "size_bits f"] by linarith
  obtain x where x: "(map_of ms ''value'' \<bind> GetInt) = Some x"
    using assms(1,2) by (cases "map_of ms ''value'' \<bind> GetInt")
      (simp_all add: Serialize_signed_def assign_if_present_def bind_map_Some)
  define top where "top = (2::int) ^ ?m"
  have body: "(if x \<ge> top \<or> x < - top then Some (Inl InvalidArgument)
      else if x < 0 then int32_or_undefined (x + top) \<bind> (\<lambda>moved.
        case nat_bits (Suc ?m) (nat moved) of [] \<Rightarrow> None | b # bs \<Rightarrow> Some (Inr (True # bs)))
      else Some (Inr (nat_bits (Suc ?m) (nat x)))) = Some (Inr bs)"
    using assms(1,2) x
    by (simp add: Serialize_signed_def assign_if_present_def bind_map_Some Let_def n top_def
        del: replicate_Suc cong: if_cong)
  then have range: "x < top" "- top \<le> x" by (simp_all split: if_split_asm)
  have bs: "if x < 0 then \<exists>m b bs'. int32_or_undefined (x + top) = Some m \<and>
               nat_bits (Suc ?m) (nat m) = b # bs' \<and> bs = True # bs'
             else bs = nat_bits (Suc ?m) (nat x)"
    using body range by (cases "int32_or_undefined (x + top)") (auto split: if_split_asm list.split_asm)
  note range = range [unfolded top_def] and bs = bs [unfolded top_def]
  show ?thesis
  proof (cases "x < 0")
    case True
    with bs obtain b bs' where b: "nat_bits (Suc ?m) (nat (x + 2 ^ ?m)) = b # bs'" "bs = True # bs'"
      by (auto simp: int32_or_undefined_def split: if_split_asm)
    have small: "nat (x + 2 ^ ?m) < 2 ^ ?m" using True range(2) by (simp add: nat_less_iff)
    with b have "bs' = nat_bits ?m (nat (x + 2 ^ ?m))" by (simp add: nat_bits_small)
    with b(2) x n small range(2) show ?thesis by (simp add: bits_value_nat_bits)
  next
    case False
    have small: "nat x < 2 ^ ?m" using False range(1) by (simp add: nat_less_iff)
    with bs False have "bs = False # nat_bits ?m (nat x)" by (simp add: nat_bits_small)
    with x n small False show ?thesis by (simp add: bits_value_nat_bits)
  qed
qed

text \<open>C24. A number survives the egress: the bits of a signed feature, read as two's complement, and the
  bits of an unsigned feature, read as a binary number, are the value the payload gave, and there
  are as many of them as the schema says. (A signed feature of no bits at all takes any value.)\<close>

theorem number_feature_roundtrip:
  assumes "Serialize f = Some (Inr bs)" and "feature_value f = Some (JObject ms)" and "size_bits f \<noteq> 0"
  shows "(feature_type f = SignedIntFeature \<longrightarrow> length bs = unat (size_bits f) \<and>
           (map_of ms ''value'' \<bind> GetInt) = Some (signed_bits_value bs)) \<and>
    (feature_type f = UnsignedIntFeature \<longrightarrow> length bs = unat (size_bits f) \<and>
           (map_of ms ''value'' \<bind> GetUint) = Some (int (bits_value bs)))"
  using assms Serialize_signed_value [of f bs ms] Serialize_unsigned_value [of f bs ms]
  by (auto simp: Serialize_def)

lemma assign_or_return_SomeE:
  assumes "assign_or_return m f = Some (Inr y)"
  obtains x where "m = Some (Inr x)" and "f x = Some (Inr y)"
  using assms by (cases m) (auto simp: assign_or_return_def split: sum.split_asm)

lemma length_Serialize_unsigned: "Serialize_unsigned f = Some (Inr bs) \<Longrightarrow> length bs = unat (size_bits f)"
  by (auto simp: Serialize_unsigned_def elim!: bind_SomeE split: option.split_asm if_split_asm)

lemma nat_bits_ConsD: "nat_bits n num = b # bs \<Longrightarrow> Suc (length bs) = n"
  by (metis length_nat_bits length_Cons)

lemma unat_word_of_int: "0 \<le> i \<Longrightarrow> i < 2 ^ 32 \<Longrightarrow> unat (word_of_int i :: 32 word) = nat i"
  by (simp add: unat_eq_nat_uint uint_word_of_int)

lemma length_Serialize_signed:
  assumes "Serialize_signed f = Some (Inr bs)" shows "length bs = unat (size_bits f)"
proof (cases "feature_value f")
  case (Some v)
  with assms obtain i where "(case i of None \<Rightarrow> Some (Inl InvalidArgument)
       | Some x \<Rightarrow>
           (let top = 2 ^ unat (size_bits f - 1); bit_rep = replicate (unat (size_bits f)) False in
            if x \<ge> top \<or> x < - top then Some (Inl InvalidArgument)
            else if x < 0
            then do {
              moved \<leftarrow> int32_or_undefined (x + top);
              (case UnsignedIntToBits (nat moved) bit_rep of
                 [] \<Rightarrow> None
               | b # bs \<Rightarrow> Some (Inr (True # bs))) }
            else Some (Inr (UnsignedIntToBits (nat x) bit_rep)))) = Some (Inr bs)"
    unfolding Serialize_signed_def by (auto elim!: bind_SomeE)
  then show ?thesis
    by (cases i) (auto simp: Let_def elim!: bind_SomeE split: if_split_asm list.split_asm
        dest!: nat_bits_ConsD)
qed (use assms in \<open>auto simp: Serialize_signed_def\<close>)

lemma length_Serialize_boolean: "Serialize_boolean f = Some (Inr bs) \<Longrightarrow> length bs = 1"
  by (auto simp: Serialize_boolean_def elim!: bind_SomeE split: option.split_asm)

lemma length_Serialize_buckets: "Serialize_buckets feats = Some (Inr bs) \<Longrightarrow> length bs = length feats"
  by (induction feats arbitrary: bs) (auto elim!: assign_or_return_SomeE bind_SomeE split: if_split_asm)

lemma Serialize_number_length:
  assumes "Serialize_number schema feat = Some (Inr bs)" and "number_schema schema"
  shows "length bs = number_size schema"
proof -
  obtain ms i where s: "schema = JObject ms" "(map_of ms ''size'' \<bind> GetUint) = Some i"
    using assms(2) by (auto simp: number_schema_def)
  have g: "(map_of ms ''size'' \<bind> (\<lambda>v. map_option of_int (GetUint v))) = Some (of_int i :: 32 word)"
    using s(2) by (auto elim!: bind_SomeE)
  have i: "0 \<le> i" "i < 2 ^ 32" using s(2) by (auto elim!: bind_SomeE dest: GetUint_SomeD)
  have "length bs = unat (of_int i :: 32 word)"
    using assms(1) by (auto simp: Serialize_number_def s(1) assign_if_present_def g SetValue_def new_feature_def
        elim!: assign_or_return_SomeE bind_SomeE split: if_split_asm
        dest!: length_Serialize_unsigned length_Serialize_signed)
  with i show ?thesis by (simp add: number_size_def s unat_word_of_int)
qed

lemma Serialize_numbers_length:
  assumes "Serialize_numbers schemas i vals = Some (Inr bss)" and "\<forall>j \<in> set schemas. number_schema j"
    and "i + length vals = length schemas"
  shows "sum_list (map length bss) = sum_list (map number_size (drop i schemas))"
  using assms
proof (induction vals arbitrary: i bss)
  case Nil
  then show ?case by simp
next
  case (Cons v vals)
  then have i: "i < length schemas" by simp
  then have schema: "nth_option schemas i = Some (schemas ! i)" by (simp add: nth_option_def)
  from Cons.prems(1) schema obtain bs bss' where bs: "Serialize_number (schemas ! i) v = Some (Inr bs)"
    and rest: "Serialize_numbers schemas (Suc i) vals = Some (Inr bss')" and bss: "bss = bs # bss'"
    by (auto elim!: assign_or_return_SomeE split: if_split_asm)
  have "length bs = number_size (schemas ! i)"
    using Serialize_number_length [OF bs] Cons.prems(2) i by simp
  moreover have "drop i schemas = schemas ! i # drop (Suc i) schemas" using i by (simp add: Cons_nth_drop_Suc)
  ultimately show ?case using Cons.IH [OF rest Cons.prems(2)] Cons.prems(3) by (simp add: bss)
qed

lemma length_Serialize:
  assumes "Serialize f = Some (Inr bs)" and "wf_feature f" and "bit_count f < 2 ^ 32"
  shows "length bs = bit_count f"
proof (cases "feature_type f")
  case BooleanFeature
  with assms show ?thesis by (simp add: Serialize_def wf_feature_def bit_count_def length_Serialize_boolean)
next
  case SignedIntFeature
  with assms(1) show ?thesis by (simp add: Serialize_def bit_count_def length_Serialize_signed)
next
  case UnsignedIntFeature
  with assms(1) show ?thesis by (simp add: Serialize_def bit_count_def length_Serialize_unsigned)
next
  case BucketFeature
  then have n: "bit_count f = unat (size_bits f)" by (simp add: bit_count_def)
  have "length bs = unat (size_bits f)"
    using assms(1) BucketFeature
    by (auto simp: Serialize_def Serialize_bucket_def elim!: assign_or_return_SomeE
        split: option.split_asm if_split_asm dest!: length_Serialize_buckets)
  then show ?thesis by (simp add: n)
next
  case HistogramFeature
  with assms(2) obtain schemas ms where v: "schema_value f = JObject ms" "map_of ms ''value'' = Some (JArray schemas)"
    and h: "\<forall>j \<in> set schemas. number_schema j"
    by (auto simp: wf_feature_def histogram_schemas_def)
  then have n: "bit_count f = sum_list (map number_size schemas)" using HistogramFeature by (simp add: bit_count_def)
  show ?thesis
  proof (cases "feature_value f")
    case None
    with assms HistogramFeature Size_wf [OF assms(2)] show ?thesis
      by (auto simp: Serialize_def Serialize_histogram_def unat_of_nat)
  next
    case (Some val)
    with assms(1) HistogramFeature v obtain vals bss where "length vals = length schemas"
      and "Serialize_numbers schemas 0 vals = Some (Inr bss)" and "bs = concat (rev bss)"
      by (auto simp: Serialize_def Serialize_histogram_def GetArrayMember_def GetArray_def
          elim!: assign_or_return_SomeE split: if_split_asm)
    moreover have "sum_list (map length (rev bss)) = sum_list (map length bss)"
      by (metis rev_map sum_list_rev)
    ultimately show ?thesis
      using Serialize_numbers_length [of schemas 0 vals bss] h n by (simp add: length_concat)
  qed
qed

subsection \<open>The place of a bit\<close>

text \<open>The bytes are numbered from the last one, their bits from the lowest.\<close>

definition payload_bit :: "8 word list \<Rightarrow> nat \<Rightarrow> bool" where
  "payload_bit bytes p = bit (rev bytes ! (p div 8)) (p mod 8)"

text \<open>The state after the bits \<open>xs\<close> were put into \<open>k\<close> bytes.\<close>

definition packed :: "nat \<Rightarrow> bool list \<Rightarrow> 8 word list \<times> int \<times> nat \<Rightarrow> bool" where
  "packed k xs st \<longleftrightarrow> (case st of (bytes, idx, pos) \<Rightarrow>
     length bytes = k \<and>
     (if xs = [] then idx = int k - 1 \<and> pos = 0
      else idx = int k - 1 - int ((length xs - 1) div 8) \<and> pos = (length xs - 1) mod 8 + 1) \<and>
     (\<forall>p < 8 * k. payload_bit bytes p \<longleftrightarrow> p < length xs \<and> xs ! p))"

lemma next_position:
  assumes "packed k xs (bytes, idx, pos)"
  shows "(if pos > 0 \<and> pos mod 8 = 0 then (idx - 1, 0) else (idx, pos)) =
    (int k - 1 - int (length xs div 8), length xs mod 8)"
proof (cases xs)
  case Nil
  with assms show ?thesis by (simp add: packed_def)
next
  case (Cons y ys)
  let ?n = "length ys"
  have idx: "idx = int k - 1 - int (?n div 8)" and pos: "pos = ?n mod 8 + 1"
    using assms by (simp_all add: packed_def Cons)
  show ?thesis
  proof (cases "?n mod 8 = 7")
    case True
    then have "Suc ?n mod 8 = 0" "Suc ?n div 8 = ?n div 8 + 1" by presburger+
    with True show ?thesis by (simp add: idx pos Cons)
  next
    case False
    then have "Suc ?n mod 8 = ?n mod 8 + 1" "Suc ?n div 8 = ?n div 8" by presburger+
    moreover have "(?n mod 8 + 1) mod 8 \<noteq> 0" using False by presburger
    ultimately show ?thesis by (simp add: idx pos Cons)
  qed
qed

lemma payload_bit_update:
  assumes "n < 8 * length bytes" and "p < 8 * length bytes"
  shows "payload_bit (bytes[length bytes - 1 - n div 8 :=
      or (bytes ! (length bytes - 1 - n div 8)) (push_bit (n mod 8) 1)]) p \<longleftrightarrow> payload_bit bytes p \<or> p = n"
proof -
  let ?k = "length bytes"
  let ?i = "?k - 1 - n div 8" and ?j = "?k - 1 - p div 8"
  have lt: "n div 8 < ?k" "p div 8 < ?k" using assms by (simp_all add: less_mult_imp_div_less mult.commute)
  have rev: "rev xs ! (p div 8) = xs ! ?j" if "length xs = ?k" for xs :: "8 word list"
    using that lt by (simp add: rev_nth)
  have "?i = ?j \<longleftrightarrow> n div 8 = p div 8" using lt by linarith
  moreover have "p = n \<longleftrightarrow> n div 8 = p div 8 \<and> n mod 8 = p mod 8"
    by (metis div_mult_mod_eq)
  ultimately show ?thesis
    using lt by (auto simp: payload_bit_def rev nth_list_update bit_or_iff bit_exp_iff)
qed

lemma put_bit_packed:
  assumes "packed k xs (bytes, idx, pos)" and "length xs < 8 * k"
    and "(idx', pos') = (if pos > 0 \<and> pos mod 8 = 0 then (idx - 1, 0) else (idx, pos))"
  shows "\<exists>bytes'. (if b then if 0 \<le> idx' \<and> idx' < int (length bytes)
            then Some (bytes[nat idx' := or (bytes ! nat idx') (push_bit pos' 1)]) else None
          else Some bytes) = Some bytes' \<and> packed k (xs @ [b]) (bytes', idx', pos' + 1)"
proof -
  let ?n = "length xs"
  have len: "length bytes = k" using assms(1) by (simp add: packed_def)
  have place: "idx' = int k - 1 - int (?n div 8)" "pos' = ?n mod 8"
    using assms(3) next_position [OF assms(1)] by simp_all
  have lt: "?n div 8 < k" using assms(2) by (simp add: less_mult_imp_div_less mult.commute)
  have i: "0 \<le> idx'" "idx' < int (length bytes)" "nat idx' = k - 1 - ?n div 8"
    using lt place(1) len by linarith+
  define bytes' where "bytes' = (if b then bytes[k - 1 - ?n div 8 := or (bytes ! (k - 1 - ?n div 8)) (push_bit (?n mod 8) 1)]
    else bytes)"
  have bits: "payload_bit bytes' p \<longleftrightarrow> p < length (xs @ [b]) \<and> (xs @ [b]) ! p" if "p < 8 * k" for p
  proof -
    have old: "payload_bit bytes p \<longleftrightarrow> p < ?n \<and> xs ! p" using assms(1) that by (simp add: packed_def)
    have "payload_bit bytes' p \<longleftrightarrow> payload_bit bytes p \<or> (b \<and> p = ?n)"
      using payload_bit_update [of ?n bytes p] assms(2) that len by (simp add: bytes'_def)
    with old show ?thesis by (auto simp: nth_append less_Suc_eq)
  qed
  have "packed k (xs @ [b]) (bytes', idx', pos' + 1)"
    using bits len by (simp add: packed_def place bytes'_def)
  with i place show ?thesis by (intro exI [of _ bytes']) (simp add: bytes'_def len)
qed

lemma put_bits_packed:
  assumes "packed k xs st" and "length xs + length bs \<le> 8 * k"
  shows "\<exists>st'. put_bits bs st = Some st' \<and> packed k (xs @ bs) st'"
  using assms
proof (induction bs arbitrary: xs st)
  case Nil
  then show ?case by simp
next
  case (Cons b bs)
  obtain bytes idx pos where st: "st = (bytes, idx, pos)" by (cases st)
  obtain idx' pos' where nxt: "(idx', pos') = (if pos > 0 \<and> pos mod 8 = 0 then (idx - 1, 0) else (idx, pos))"
    by (metis surj_pair)
  have "length xs < 8 * k" using Cons.prems(2) by simp
  from put_bit_packed [OF Cons.prems(1) [unfolded st] this nxt, of b] obtain bytes' where
    step: "(if b then if 0 \<le> idx' \<and> idx' < int (length bytes)
            then Some (bytes[nat idx' := or (bytes ! nat idx') (push_bit pos' 1)]) else None
          else Some bytes) = Some bytes'" and p: "packed k (xs @ [b]) (bytes', idx', pos' + 1)"
    by blast
  from Cons.IH [OF p] Cons.prems(2) obtain st' where "put_bits bs (bytes', idx', pos' + 1) = Some st'"
    and "packed k (xs @ b # bs) st'" by auto
  moreover have "put_bits (b # bs) st = put_bits bs (bytes', idx', pos' + 1)"
    using step nxt [symmetric] by (simp add: st)
  ultimately show ?case by auto
qed

text \<open>The stream of bits of the features: each with its lowest bit first.\<close>

lemma put_features_packed:
  assumes "list_all2 (\<lambda>f bs. Serialize f = Some (Inr bs)) fs bss" and "packed k xs st"
    and "length xs + length (concat bss) \<le> 8 * k"
  shows "\<exists>st'. put_features fs st = Some (Inr st') \<and> packed k (xs @ concat (map rev bss)) st'"
  using assms
proof (induction fs bss arbitrary: xs st rule: list_all2_induct)
  case Nil
  then show ?case by simp
next
  case (Cons f fs bs bss)
  from put_bits_packed [OF Cons.prems(1), of "rev bs"] Cons.prems(2)
  obtain st1 where st1: "put_bits (rev bs) st = Some st1" "packed k (xs @ rev bs) st1" by auto
  from Cons.IH [OF st1(2)] Cons.prems(2) obtain st' where "put_features fs st1 = Some (Inr st')"
    and "packed k ((xs @ rev bs) @ concat (map rev bss)) st'" by auto
  with st1(1) Cons.hyps(1) show ?case by simp
qed

lemma packed_start: "packed k [] (replicate k 0, int k - 1, 0)"
  by (auto simp: packed_def payload_bit_def less_mult_imp_div_less mult.commute)

subsection \<open>The payload\<close>

definition bits_of_schema :: "EgressFeature list \<Rightarrow> nat" where
  "bits_of_schema fs = sum_list (map bit_count fs)"

text \<open>A schema whose bits can be counted in 32 bits.\<close>

definition wf_schema :: "EgressFeature list \<Rightarrow> bool" where
  "wf_schema fs \<longleftrightarrow> (\<forall>f \<in> set fs. wf_feature f) \<and> bits_of_schema fs < 2 ^ 32"

lemma total_size_sum: "\<forall>f \<in> set fs. wf_feature f \<Longrightarrow> total_size fs acc = Some (acc + of_nat (bits_of_schema fs))"
  by (induction fs arbitrary: acc) (simp_all add: Size_wf bits_of_schema_def add.assoc)

lemma length_features:
  assumes "list_all2 (\<lambda>f bs. Serialize f = Some (Inr bs)) fs bss" and "\<forall>f \<in> set fs. wf_feature f"
    and "\<forall>f \<in> set fs. bit_count f < 2 ^ 32"
  shows "length (concat bss) = bits_of_schema fs"
  using assms by (induction rule: list_all2_induct) (simp_all add: bits_of_schema_def length_Serialize)

lemma round_to_byte_div:
  assumes "n < 2 ^ 31" shows "unat (round_to_byte (of_nat n) div 8) = (n + 7) div 8"
proof -
  let ?w = "of_nat n :: 32 word"
  have n: "unat ?w = n" using assms by (simp add: unat_of_nat)
  have m: "unat (?w mod 8) = n mod 8" and d: "unat (?w div 8) = n div 8"
    by (simp_all add: unat_mod unat_div n)
  have zero: "?w mod 8 = 0 \<longleftrightarrow> n mod 8 = 0" by (metis m unat_eq_zero)
  have d8: "?w div 8 = of_nat (n div 8)" by (simp flip: d)
  have "(n div 8 + 1) * 8 < 2 ^ 32" using assms by simp
  then have "unat (of_nat ((n div 8 + 1) * 8) :: 32 word) = (n div 8 + 1) * 8" unfolding unat_of_nat by simp
  moreover have "(?w div 8 + 1) * 8 = of_nat ((n div 8 + 1) * 8)" unfolding d8 by simp
  ultimately have up: "unat ((?w div 8 + 1) * 8) = (n div 8 + 1) * 8" by (simp only:)
  show ?thesis
  proof (cases "n mod 8 = 0")
    case True
    moreover have "n div 8 = (n + 7) div 8" using True by presburger
    ultimately show ?thesis using d zero by (simp add: round_to_byte_def)
  next
    case False
    have "unat ((?w div 8 + 1) * 8 div 8) = n div 8 + 1" unfolding unat_div up by simp
    moreover have "n div 8 + 1 = (n + 7) div 8" using False by presburger
    ultimately show ?thesis using False zero by (simp add: round_to_byte_def)
  qed
qed

lemma member_le_sum: "x \<in> set xs \<Longrightarrow> f x \<le> sum_list (map f xs :: nat list)"
  by (induction xs) auto

text \<open>The bytes of a payload.\<close>

lemma egress_payload_layout_aux:
  assumes "wf_schema fs" and "list_all2 (\<lambda>f bs. Serialize f = Some (Inr bs)) fs bss"
    and "0 < bits_of_schema fs" and "bits_of_schema fs \<le> unat limit" and "unat limit < 2 ^ 31"
  shows "\<exists>bytes. SerializeEgressFeatures e v fs limit =
      Some (Inr (Base64Escape e (bytes @ [GetEgressVectorHeader v]))) \<and>
    length bytes = (bits_of_schema fs + 7) div 8 \<and>
    (\<forall>p < 8 * length bytes. payload_bit bytes p \<longleftrightarrow>
       p < bits_of_schema fs \<and> concat (map rev bss) ! p)"
proof -
  let ?n = "bits_of_schema fs" and ?k = "(bits_of_schema fs + 7) div 8"
  have wf: "\<forall>f \<in> set fs. wf_feature f" and small: "?n < 2 ^ 31"
    using assms by (auto simp: wf_schema_def)
  have "\<forall>f \<in> set fs. bit_count f < 2 ^ 32"
    using small member_le_sum [of _ fs bit_count] by (fastforce simp: bits_of_schema_def)
  with length_features [OF assms(2) wf] have len: "length (concat bss) = ?n" by simp
  have "concat (map rev bss) = [] \<or> length (concat (map rev bss)) = length (concat bss)"
    by (simp add: length_concat comp_def)
  then have len': "length (concat (map rev bss)) = ?n" by (simp add: length_concat comp_def len [unfolded length_concat])
  have tot: "total_size fs 0 = Some (of_nat ?n)" using total_size_sum [OF wf, of 0] by simp
  have n: "unat (of_nat ?n :: 32 word) = ?n" using small by (simp add: unat_of_nat)
  then have nz: "(of_nat ?n :: 32 word) \<noteq> 0" using assms(3) by (metis unat_0 less_irrefl)
  have le: "\<not> limit < of_nat ?n" using assms(4) n by (simp add: not_less word_le_nat_alt)
  obtain bytes idx pos where put: "put_features fs (replicate ?k 0, int ?k - 1, 0) = Some (Inr (bytes, idx, pos))"
    and packed: "packed ?k (concat (map rev bss)) (bytes, idx, pos)"
  proof -
    have "?n \<le> 8 * ?k" by presburger
    with put_features_packed [OF assms(2) packed_start [of ?k]] len that show thesis by fastforce
  qed
  have "SerializeEgressFeatures e v fs limit = Some (Inr (Base64Escape e (bytes @ [GetEgressVectorHeader v])))"
    using put le nz by (simp add: SerializeEgressFeatures_def tot round_to_byte_div [OF small])
  moreover have "length bytes = ?k" using packed by (simp add: packed_def)
  moreover have "\<forall>p < 8 * length bytes. payload_bit bytes p \<longleftrightarrow> p < ?n \<and> concat (map rev bss) ! p"
    using packed len' by (simp add: packed_def)
  ultimately show ?thesis by blast
qed

lemma put_features_list:
  "put_features fs st = Some (Inr st') \<Longrightarrow> \<exists>bss. list_all2 (\<lambda>f bs. Serialize f = Some (Inr bs)) fs bss"
proof (induction fs arbitrary: st)
  case (Cons f fs)
  then obtain bs st1 where "Serialize f = Some (Inr bs)" and "put_features fs st1 = Some (Inr st')"
    by (auto elim!: assign_or_return_SomeE bind_SomeE)
  with Cons.IH [of st1] show ?case by (meson list.rel_intros(2))
qed (simp add: exI [of _ "[]"])

lemma SetValue_schema:
  "SetValue f v t = Some (Inr f') \<Longrightarrow> wf_feature f' = wf_feature f \<and> bit_count f' = bit_count f"
  by (auto simp: SetValue_def wf_feature_def bit_count_def histogram_schemas_def elim!: bind_SomeE
      split: if_split_asm)

lemma PopulateValues_schema:
  "PopulateValues_loop vals fs = Some (Inr fs') \<Longrightarrow>
   list_all2 (\<lambda>f' f. wf_feature f' = wf_feature f \<and> bit_count f' = bit_count f) fs' fs"
proof (induction vals fs arbitrary: fs' rule: PopulateValues_loop.induct)
  case (1 fs)
  then show ?case by (simp add: list_all2_refl)
next
  case (3 feat feats f fs)
  then obtain g gs where g: "SetValue f feat True = Some (Inr g)" "PopulateValues_loop feats fs = Some (Inr gs)"
    "fs' = g # gs"
    by (auto elim!: assign_or_return_SomeE split: if_split_asm)
  with 3 SetValue_schema [OF g(1)] show ?case by (auto split: if_split_asm)
qed simp

lemma same_schema:
  assumes "list_all2 (\<lambda>f' f. wf_feature f' = wf_feature f \<and> bit_count f' = bit_count f) fs' fs"
  shows "wf_schema fs' = wf_schema fs" and "bits_of_schema fs' = bits_of_schema fs"
proof -
  have "(\<forall>f \<in> set fs'. wf_feature f) = (\<forall>f \<in> set fs. wf_feature f) \<and> map bit_count fs' = map bit_count fs"
    using assms by (induction rule: list_all2_induct) auto
  then show "wf_schema fs' = wf_schema fs" and "bits_of_schema fs' = bits_of_schema fs"
    by (simp_all add: wf_schema_def bits_of_schema_def)
qed

subsection \<open>The payload of a bid\<close>

text \<open>A cache all of whose schemas can be counted.\<close>

definition wf_cache :: "EgressSchemaCache \<Rightarrow> bool" where
  "wf_cache c \<longleftrightarrow> (\<forall>schema_id d. version_features c schema_id = Some d \<longrightarrow> wf_schema (features d))"

lemma Copy_schema [simp]: "wf_feature (Copy f) = wf_feature f" "bit_count (Copy f) = bit_count f"
  by (simp_all add: Copy_def wf_feature_def bit_count_def histogram_schemas_def)

lemma PopulateValuesForEgressFeatures_schema:
  assumes "PopulateValuesForEgressFeatures values fs = Some (Inr fs')"
  shows "wf_schema fs' = wf_schema fs" and "bits_of_schema fs' = bits_of_schema fs"
proof -
  from assms have "\<exists>vals. PopulateValues_loop vals fs = Some (Inr fs')"
    by (auto simp: PopulateValuesForEgressFeatures_def elim!: assign_or_return_SomeE split: if_split_asm)
  then have "list_all2 (\<lambda>f' f. wf_feature f' = wf_feature f \<and> bit_count f' = bit_count f) fs' fs"
    by (auto dest: PopulateValues_schema)
  then show "wf_schema fs' = wf_schema fs" and "bits_of_schema fs' = bits_of_schema fs"
    by (rule same_schema)+
qed

lemma copies_schema: "wf_schema (map Copy fs) = wf_schema fs" "bits_of_schema (map Copy fs) = bits_of_schema fs"
  by (simp_all add: wf_schema_def bits_of_schema_def comp_def)

text \<open>Whatever is serialised under a limit fits under it.\<close>

lemma SerializeEgressFeatures_cases:
  assumes "SerializeEgressFeatures e v fs limit = Some (Inr out)" and "wf_schema fs" and "unat limit < 2 ^ 31"
  shows "out = [] \<or> bits_of_schema fs \<le> unat limit \<and> (\<exists>bytes. out = Base64Escape e (bytes @ [GetEgressVectorHeader v]) \<and>
    length bytes = (bits_of_schema fs + 7) div 8 \<and>
    (\<forall>p < 8 * length bytes. payload_bit bytes p \<longrightarrow> p < bits_of_schema fs))"
proof (cases "out = []")
  case False
  have n: "total_size fs 0 = Some (of_nat (bits_of_schema fs))" "bits_of_schema fs < 2 ^ 32"
    using assms(2) total_size_sum [of fs 0] by (simp_all add: wf_schema_def)
  then have u: "unat (of_nat (bits_of_schema fs) :: 32 word) = bits_of_schema fs" unfolding unat_of_nat by simp
  from assms(1) False n(1) have le: "bits_of_schema fs \<le> unat limit" and nz: "(of_nat (bits_of_schema fs) :: 32 word) \<noteq> 0"
    using u by (simp_all add: SerializeEgressFeatures_def not_less word_le_nat_alt split: if_split_asm)
  from nz have pos: "0 < bits_of_schema fs" by (intro gr0I) simp
  from assms(1) False n(1) obtain st st' where "put_features fs st = Some (Inr st')"
    by (auto simp: SerializeEgressFeatures_def Let_def elim!: assign_or_return_SomeE split: if_split_asm)
  then obtain bss where "list_all2 (\<lambda>f bs. Serialize f = Some (Inr bs)) fs bss" using put_features_list by blast
  from egress_payload_layout_aux [OF assms(2) this pos le assms(3), of e v] assms(1) le show ?thesis by auto
qed simp

text \<open>No payload carries more bits than the limit: a serialised payload is empty, or it is the
  encoding of bytes whose bits from the limit on are all zero, with the header byte after them.\<close>

lemma egress_payload_within_limit:
  assumes "wf_cache c" and "0 \<le> limit" and "limit < 2 ^ 31"
    and "GetSerializedEgressPayload e schema_id egress_payload c limit = Some (Inr out)"
  shows "out = [] \<or> (\<exists>bytes v. out = Base64Escape e (bytes @ [GetEgressVectorHeader v]) \<and>
    8 * length bytes < nat limit + 8 \<and>
    (\<forall>p < 8 * length bytes. payload_bit bytes p \<longrightarrow> p < nat limit))"
proof -
  have lim: "unat (of_int limit :: 32 word) = nat limit" using assms(2,3) by (simp add: unat_word_of_int)
  from assms(4) obtain d vals fs where d: "version_features c schema_id = Some d"
    and fs: "PopulateValuesForEgressFeatures vals (map Copy (features d)) = Some (Inr fs)"
    and out: "SerializeEgressFeatures e (version d) fs (of_int limit) = Some (Inr out)"
    by (auto simp: GetSerializedEgressPayload_def EgressSchemaCache_Get_def elim!: assign_or_return_SomeE
        split: option.split_asm)
  have "wf_schema fs"
    using assms(1) d by (simp add: PopulateValuesForEgressFeatures_schema [OF fs] copies_schema wf_cache_def)
  moreover have "unat (of_int limit :: 32 word) < 2 ^ 31" using lim assms(2,3) by (simp add: nat_less_iff)
  ultimately consider "out = []" | bytes where "bits_of_schema fs \<le> nat limit"
    and "out = Base64Escape e (bytes @ [GetEgressVectorHeader (version d)])"
    and "length bytes = (bits_of_schema fs + 7) div 8"
    and "\<forall>p < 8 * length bytes. payload_bit bytes p \<longrightarrow> p < bits_of_schema fs"
    using SerializeEgressFeatures_cases [OF out] lim by auto
  then show ?thesis
  proof cases
    case 2
    then have "8 * length bytes < nat limit + 8" by linarith
    moreover have "\<forall>p < 8 * length bytes. payload_bit bytes p \<longrightarrow> p < nat limit" using 2 by auto
    ultimately show ?thesis using 2(2) by blast
  qed simp
qed

text \<open>C22. The layout of a payload: bit \<open>p\<close> is the \<open>p\<close>-th bit of the features, in their order and each
  with its lowest bit first; the bits left over are zero, the bytes are just enough, and the header
  byte comes last.\<close>

theorem egress_payload_layout:
  assumes "wf_schema fs" and "list_all2 (\<lambda>f bs. Serialize f = Some (Inr bs)) fs bss"
    and "0 < bits_of_schema fs" and "bits_of_schema fs \<le> unat limit" and "unat limit < 2 ^ 31"
  shows "\<exists>bytes. SerializeEgressFeatures e v fs limit =
      Some (Inr (Base64Escape e (bytes @ [GetEgressVectorHeader v]))) \<and>
    length bytes = (bits_of_schema fs + 7) div 8 \<and>
    (\<forall>p < 8 * length bytes. payload_bit bytes p \<longleftrightarrow>
       p < bits_of_schema fs \<and> concat (map rev bss) ! p)"
  using assms by (rule egress_payload_layout_aux)

subsection \<open>Loading schemas\<close>

text \<open>What the CDDL specification promises of a schema it accepts.\<close>

definition conforming_feature :: "json \<Rightarrow> bool" where
  "conforming_feature j \<longleftrightarrow> (\<exists>ms name. j = JObject ms \<and> map_of ms ''name'' = Some (JString name) \<and>
     (name = ''boolean-feature'' \<longrightarrow> map_of ms ''size'' = None) \<and>
     (name = ''histogram-feature'' \<longrightarrow>
        (\<exists>schemas. map_of ms ''value'' = Some (JArray schemas) \<and> (\<forall>s \<in> set schemas. number_schema s))))"

definition conforming_schema :: "json \<Rightarrow> bool" where
  "conforming_schema j \<longleftrightarrow> (\<forall>ms feats. j = JObject ms \<longrightarrow> map_of ms ''features'' = Some (JArray feats) \<longrightarrow>
     (\<forall>f \<in> set feats. conforming_feature f))"

lemma GetArrayMember_SomeD:
  "GetArrayMember j k = Some (Inr xs) \<Longrightarrow> \<exists>ms. j = JObject ms \<and> map_of ms k = Some (JArray xs)"
  by (auto simp: GetArrayMember_def checked_member_def FindMember_def Members_def GetArray_def elim!: bind_SomeE
      split: json.split_asm option.split_asm)

lemma ExtractFeatures_loop_wf:
  assumes "ExtractFeatures_loop feats = Some (Inr fs)" and "\<forall>f \<in> set feats. conforming_feature f"
  shows "\<forall>f \<in> set fs. wf_feature f \<and> feature_value f = None"
  using assms
proof (induction feats arbitrary: fs)
  case (Cons feat feats)
  from Cons.prems(2) obtain ms name where feat: "feat = JObject ms" "map_of ms ''name'' = Some (JString name)"
    and b: "name = ''boolean-feature'' \<longrightarrow> map_of ms ''size'' = None"
    and h: "name = ''histogram-feature'' \<longrightarrow>
      (\<exists>schemas. map_of ms ''value'' = Some (JArray schemas) \<and> (\<forall>s \<in> set schemas. number_schema s))"
    by (auto simp: conforming_feature_def)
  with Cons.prems(1) obtain n f fs' where n: "assign_if_present (\<lambda>v. map_option of_int (GetUint v)) feat ''size'' 1 = Some n"
    and f: "CreateEgressFeature name n feat = Inr f" and fs: "fs = f # fs'" "ExtractFeatures_loop feats = Some (Inr fs')"
    by (auto simp: assign_if_present_def GetString_def elim!: bind_SomeE assign_or_return_SomeE)
  have "wf_feature f \<and> feature_value f = None"
    using f n b h feat(1) by (auto simp: CreateEgressFeature_def new_feature_def wf_feature_def histogram_schemas_def
        assign_if_present_def split: if_split_asm)
  with Cons.IH [OF fs(2)] Cons.prems(2) fs(1) show ?case by simp
qed simp


subsection \<open>An example\<close>

text \<open>A schema of a boolean, a signed number of four bits and a histogram of two numbers.\<close>

definition sample_schema :: json where
  "sample_schema = JObject [(''cddl_version'', JString ''1.0.0''), (''version'', JInt 2),
     (''features'', JArray [
        JObject [(''name'', JString ''boolean-feature'')],
        JObject [(''name'', JString ''signed-integer-feature''), (''size'', JInt 4)],
        JObject [(''name'', JString ''histogram-feature''), (''size'', JInt 2), (''value'', JArray [
           JObject [(''name'', JString ''unsigned-integer-feature''), (''size'', JInt 3)],
           JObject [(''name'', JString ''signed-integer-feature''), (''size'', JInt 2)]])]])]"

definition sample_payload :: json where
  "sample_payload = JObject [(''features'', JArray [
     JObject [(''name'', JString ''boolean-feature''), (''value'', JBool True)],
     JObject [(''name'', JString ''signed-integer-feature''), (''value'', JInt (- 3))],
     JObject [(''name'', JString ''histogram-feature''), (''value'', JArray [
        JObject [(''name'', JString ''unsigned-integer-feature''), (''value'', JInt 5)],
        JObject [(''name'', JString ''signed-integer-feature''), (''value'', JInt (- 1))]])]])]"

text \<open>Stand-ins for the parser, the validator and the encoder.\<close>

definition sample_egress_env :: egress_env where
  "sample_egress_env = \<lparr>
     parse_json = (\<lambda>s. if s = ''schema'' then Inr sample_schema else if s = ''payload'' then Inr sample_payload
        else Inl InvalidArgument),
     validate_json_str = (\<lambda>spec s. s = ''schema''),
     Base64Escape = map (\<lambda>w. char_of (unat w))\<rparr>"

definition sample_features :: "EgressFeature list" where
  "sample_features = [
     new_feature BooleanFeature 1 JNull,
     new_feature SignedIntFeature 4 JNull,
     new_feature HistogramFeature 2 (JObject [(''name'', JString ''histogram-feature''), (''size'', JInt 2),
        (''value'', JArray [
           JObject [(''name'', JString ''unsigned-integer-feature''), (''size'', JInt 3)],
           JObject [(''name'', JString ''signed-integer-feature''), (''size'', JInt 2)]])])]"

definition sample_cache :: EgressSchemaCache where
  "sample_cache = \<lparr>version_features = Map.empty, cddl_spec_cache = [''1.0.0'' \<mapsto> ''spec'']\<rparr>"

definition loaded_cache :: EgressSchemaCache where
  "loaded_cache = sample_cache\<lparr>version_features := [''id'' \<mapsto> \<lparr>version = 2, features = sample_features\<rparr>]\<rparr>"

lemma sample_update:
  "EgressSchemaCache_Update sample_egress_env ''schema'' ''id'' sample_cache = Some (OkStatus, loaded_cache)"
proof -
  have "ExtractFeatures sample_schema = Some (Inr sample_features)" by code_simp
  moreover have "GetIntMember sample_schema ''version'' = Some (Inr 2)" by code_simp
  moreover have "GetStringMember sample_schema ''cddl_version'' False = Some (Inr ''1.0.0'')" by code_simp
  ultimately show ?thesis
    by (simp add: EgressSchemaCache_Update_def sample_egress_env_def CddlSpecCache_Get_def sample_cache_def
        loaded_cache_def assign_or_return_def)
qed

lemma sample_conforms: "conforming_schema sample_schema"
  by (auto simp: conforming_schema_def sample_schema_def conforming_feature_def number_schema_def GetUint_def)


lemma sample_features_wf: "wf_schema sample_features"
  by (auto simp: wf_schema_def sample_features_def new_feature_def wf_feature_def
      histogram_schemas_def number_schema_def GetUint_def bits_of_schema_def bit_count_def number_size_def)

lemma sample_wf: "wf_cache loaded_cache"
  by (simp add: wf_cache_def loaded_cache_def sample_features_wf)

theorem egress_payload_within_limit_witness:
  "\<exists>out. GetSerializedEgressPayload sample_egress_env ''id'' ''payload'' loaded_cache 10 = Some (Inr out) \<and>
    (out = [] \<or> (\<exists>bytes v. out = Base64Escape sample_egress_env (bytes @ [GetEgressVectorHeader v]) \<and>
      8 * length bytes < 18 \<and> filter (payload_bit bytes) [10..<8 * length bytes] = []))"
proof -
  have "GetSerializedEgressPayload sample_egress_env ''id'' ''payload'' loaded_cache 10 =
      Some (Inr [CHR 0x03, CHR 0xBB, CHR ''@''])"
    by code_simp
  moreover from egress_payload_within_limit [OF sample_wf _ _ this] obtain bytes v where
    b: "[CHR 0x03, CHR 0xBB, CHR ''@''] = Base64Escape sample_egress_env (bytes @ [GetEgressVectorHeader v])"
      "8 * length bytes < 18" and "\<forall>p < 8 * length bytes. payload_bit bytes p \<longrightarrow> p < 10"
    by auto
  then have "filter (payload_bit bytes) [10..<8 * length bytes] = []" by (auto simp: filter_empty_conv)
  ultimately show ?thesis using b by blast
qed

text \<open>The features of the example with their values.\<close>

definition sample_values :: "EgressFeature list" where
  "sample_values = (case PopulateValuesForEgressFeatures sample_payload sample_features of
     Some (Inr fs) \<Rightarrow> fs | _ \<Rightarrow> [])"

lemma serialized_iff:
  "list_all2 (\<lambda>f bs. Serialize f = Some (Inr bs)) fs bss \<longleftrightarrow> map Serialize fs = map (Some \<circ> Inr) bss"
  by (auto simp: list_all2_conv_all_nth list_eq_iff_nth_eq)

theorem egress_payload_layout_witness:
  "\<exists>bytes. SerializeEgressFeatures sample_egress_env 2 sample_values 10 =
      Some (Inr (Base64Escape sample_egress_env (bytes @ [GetEgressVectorHeader 2]))) \<and> length bytes = 2 \<and>
    map (payload_bit bytes) [0..<16] =
      [True, True, False, True, True, True, False, True, True, True, False, False, False, False, False, False]"
proof -
  let ?bss = "[[True], [True, True, False, True], [True, True, True, False, True]]"
  have b: "bits_of_schema sample_values = 10" by code_simp
  have "PopulateValuesForEgressFeatures sample_payload sample_features = Some (Inr sample_values)" by code_simp
  then have wf: "wf_schema sample_values" by (simp add: PopulateValuesForEgressFeatures_schema sample_features_wf)
  have "map Serialize sample_values = map (Some \<circ> Inr) ?bss" by code_simp
  then have "list_all2 (\<lambda>f bs. Serialize f = Some (Inr bs)) sample_values ?bss"
    by (simp only: serialized_iff)
  from egress_payload_layout [OF wf this, of 10 sample_egress_env 2] b obtain bytes where
    "SerializeEgressFeatures sample_egress_env 2 sample_values 10 =
      Some (Inr (Base64Escape sample_egress_env (bytes @ [GetEgressVectorHeader 2])))" and len: "length bytes = 2"
    and "\<forall>p < 8 * length bytes. payload_bit bytes p \<longleftrightarrow> p < 10 \<and>
       [True, True, False, True, True, True, False, True, True, True] ! p"
    by auto
  then show ?thesis by (intro exI [of _ bytes]) (simp add: len upt_rec numeral_eq_Suc)
qed

theorem number_feature_roundtrip_witness:
  "signed_bits_value [True, True, False, True] = - 3"
proof -
  let ?f = "(new_feature SignedIntFeature 4 JNull)\<lparr>feature_value := Some (JObject [(''value'', JInt (- 3))])\<rparr>"
  have "Serialize ?f = Some (Inr [True, True, False, True])" by code_simp
  from number_feature_roundtrip [OF this, of "[(''value'', JInt (- 3))]"] show ?thesis
    by (simp add: new_feature_def GetInt_def)
qed

end
