(* ===== verification/BuyerInput.thy ===== *)
theory BuyerInput
  imports Json
begin

text \<open>
  The buyer's input (\<^verbatim>\<open>api/bidding_auction_servers.proto\<close>) and its conversion into the form the
  bidding servers use and back (\<^verbatim>\<open>services/seller_frontend_service/util/buyer_input_proto_utils.cc\<close>).
  A \<open>oneof\<close> is a datatype with a constructor for the unset case. The JSON parser and printer are
  parameters.
\<close>

subsection \<open>Messages\<close>

record BrowserSignals =
  bs_join_count :: int
  bs_bid_count :: int
  bs_recency :: int
  bs_prev_wins :: string
  bs_recency_ms :: "int option"

record BrowserSignalsForBidding =
  bsb_join_count :: int
  bsb_bid_count :: int
  bsb_recency :: int
  bsb_prev_wins :: string
  bsb_recency_ms :: "int option"
  bsb_prev_wins_ms :: "string option"

datatype DeviceSignals = No_device_signals | Android_signals | Browser_signals BrowserSignals

datatype DeviceSignalsForBidding =
    No_device_signals_for_bidding
  | Android_signals_for_bidding
  | Browser_signals_for_bidding BrowserSignalsForBidding

record InterestGroup =
  ig_name :: string
  ig_bidding_signals_keys :: "string list"
  ig_ad_render_ids :: "string list"
  ig_component_ads :: "string list"
  ig_user_bidding_signals :: string
  ig_device_signals :: DeviceSignals
  ig_origin :: string

record InterestGroupForBidding =
  igb_name :: string
  igb_bidding_signals_keys :: "string list"
  igb_ad_render_ids :: "string list"
  igb_component_ads :: "string list"
  igb_user_bidding_signals :: string
  igb_device_signals :: DeviceSignalsForBidding
  igb_origin :: string

record ProtectedAppSignals =
  app_install_signals :: string
  encoding_version :: int

record BuyerInput =
  bi_interest_groups :: "InterestGroup list"
  bi_protected_app_signals :: "ProtectedAppSignals option"

record BuyerInputForBidding =
  bib_interest_groups :: "InterestGroupForBidding list"
  bib_protected_app_signals :: "ProtectedAppSignals option"

text \<open>The default instance a getter returns for a message that is not set.\<close>

definition default_ProtectedAppSignals :: ProtectedAppSignals where
  "default_ProtectedAppSignals = \<lparr>app_install_signals = [], encoding_version = 0\<rparr>"

definition default_BrowserSignalsForBidding :: BrowserSignalsForBidding where
  "default_BrowserSignalsForBidding = \<lparr>bsb_join_count = 0, bsb_bid_count = 0, bsb_recency = 0,
     bsb_prev_wins = [], bsb_recency_ms = None, bsb_prev_wins_ms = None\<rparr>"

definition empty_BuyerInputForBidding :: BuyerInputForBidding where
  "empty_BuyerInputForBidding = \<lparr>bib_interest_groups = [], bib_protected_app_signals = None\<rparr>"

text \<open>Parsing and printing of JSON text.\<close>

record json_text =
  ParseJsonString :: "string \<Rightarrow> status_code + json"
  SerializeJsonDoc :: "json \<Rightarrow> status_code + string"

subsection \<open>Conversion for bidding\<close>

text \<open>The time of a win is changed in place from seconds to milliseconds, in 32 bits.\<close>

fun ToPrevWinsMs_loop :: "json list \<Rightarrow> json list result" where
  "ToPrevWinsMs_loop [] = Some (Inr [])"
| "ToPrevWinsMs_loop (inner # rest) =
     (case inner of
        JArray [time, ad] \<Rightarrow>
          (case GetInt time of
             None \<Rightarrow> Some (Inl InvalidArgument)
           | Some t \<Rightarrow>
               if \<not> IsString ad then Some (Inl InvalidArgument)
               else do {
                 first_value \<leftarrow> int32_or_undefined (t * 1000);
                 assign_or_return (ToPrevWinsMs_loop rest) (\<lambda>rest'.
                   Some (Inr (JArray [JInt first_value, ad] # rest'))) })
      | _ \<Rightarrow> Some (Inl InvalidArgument))"

text \<open>The result of the parser is used without a check: a text that is no JSON ends the process.\<close>

definition ToPrevWinsMs :: "json_text \<Rightarrow> string \<Rightarrow> string result" where
  "ToPrevWinsMs txt prev_wins = (case ParseJsonString txt prev_wins of
     Inl _ \<Rightarrow> None
   | Inr document \<Rightarrow> (case document of
       JArray wins \<Rightarrow> assign_or_return (ToPrevWinsMs_loop wins) (\<lambda>wins'. Some (SerializeJsonDoc txt (JArray wins')))
     | _ \<Rightarrow> Some (Inl InvalidArgument)))"

definition ToBrowserSignalsForBidding :: "json_text \<Rightarrow> BrowserSignals \<Rightarrow> BrowserSignalsForBidding option" where
  "ToBrowserSignalsForBidding txt s = do {
     prev_wins_ms \<leftarrow> ToPrevWinsMs txt (bs_prev_wins s);
     Some \<lparr>bsb_join_count = bs_join_count s, bsb_bid_count = bs_bid_count s, bsb_recency = bs_recency s,
       bsb_prev_wins = bs_prev_wins s, bsb_recency_ms = bs_recency_ms s,
       bsb_prev_wins_ms = (case prev_wins_ms of Inl _ \<Rightarrow> None | Inr w \<Rightarrow> Some w)\<rparr> }"

definition ToInterestGroupForBidding :: "json_text \<Rightarrow> InterestGroup \<Rightarrow> InterestGroupForBidding option" where
  "ToInterestGroupForBidding txt ig = do {
     device_signals \<leftarrow> (case ig_device_signals ig of
         Browser_signals s \<Rightarrow> map_option Browser_signals_for_bidding (ToBrowserSignalsForBidding txt s)
       | Android_signals \<Rightarrow> Some Android_signals_for_bidding
       | No_device_signals \<Rightarrow> Some No_device_signals_for_bidding);
     Some \<lparr>igb_name = ig_name ig, igb_bidding_signals_keys = ig_bidding_signals_keys ig,
       igb_ad_render_ids = ig_ad_render_ids ig, igb_component_ads = ig_component_ads ig,
       igb_user_bidding_signals = ig_user_bidding_signals ig, igb_device_signals = device_signals,
       igb_origin = ig_origin ig\<rparr> }"

fun convert_groups :: "json_text \<Rightarrow> InterestGroup list \<Rightarrow> InterestGroupForBidding list option" where
  "convert_groups txt [] = Some []"
| "convert_groups txt (ig # igs) = do {
     ig' \<leftarrow> ToInterestGroupForBidding txt ig;
     igs' \<leftarrow> convert_groups txt igs;
     Some (ig' # igs') }"

definition ToBuyerInputForBidding :: "json_text \<Rightarrow> BuyerInput \<Rightarrow> BuyerInputForBidding option" where
  "ToBuyerInputForBidding txt b = do {
     igs \<leftarrow> convert_groups txt (bi_interest_groups b);
     Some \<lparr>bib_interest_groups = igs, bib_protected_app_signals = bi_protected_app_signals b\<rparr> }"

subsection \<open>Conversion back\<close>

definition ToInterestGroup :: "InterestGroupForBidding \<Rightarrow> InterestGroup" where
  "ToInterestGroup ig = \<lparr>
     ig_name = igb_name ig, ig_bidding_signals_keys = igb_bidding_signals_keys ig,
     ig_ad_render_ids = igb_ad_render_ids ig, ig_component_ads = igb_component_ads ig,
     ig_user_bidding_signals = igb_user_bidding_signals ig,
     ig_device_signals = (case igb_device_signals ig of
         Browser_signals_for_bidding s \<Rightarrow> Browser_signals
           \<lparr>bs_join_count = bsb_join_count s, bs_bid_count = bsb_bid_count s, bs_recency = bsb_recency s,
            bs_prev_wins = bsb_prev_wins s, bs_recency_ms = bsb_recency_ms s\<rparr>
       | Android_signals_for_bidding \<Rightarrow> Android_signals
       | No_device_signals_for_bidding \<Rightarrow> No_device_signals),
     ig_origin = igb_origin ig\<rparr>"

text \<open>The protected app signals are present afterwards, as the default instance if they were not.\<close>

definition ToBuyerInput :: "BuyerInputForBidding \<Rightarrow> BuyerInput" where
  "ToBuyerInput b = \<lparr>bi_interest_groups = map ToInterestGroup (bib_interest_groups b),
     bi_protected_app_signals = Some (case bib_protected_app_signals b of
       None \<Rightarrow> default_ProtectedAppSignals | Some p \<Rightarrow> p)\<rparr>"

subsection \<open>Wins\<close>

text \<open>A list of wins as the browser sends it, times in seconds.\<close>

definition wins_json :: "(int \<times> string) list \<Rightarrow> json" where
  "wins_json ws = JArray (map (\<lambda>(t, ad). JArray [JInt t, JString ad]) ws)"

lemma GetInt_JInt [simp]: "GetInt (JInt i) = (if - (2 ^ 31) \<le> i \<and> i < 2 ^ 31 then Some i else None)"
  by (simp add: GetInt_def)

lemma IsString_JString [simp]: "IsString (JString s)"
  by (simp add: IsString_def)

lemma ToPrevWinsMs_loop_wins:
  assumes "\<forall>(t, ad) \<in> set ws. 0 \<le> t \<and> t < 2 ^ 31"
  shows "ToPrevWinsMs_loop (map (\<lambda>(t, ad). JArray [JInt t, JString ad]) ws) =
    (if \<forall>(t, ad) \<in> set ws. t \<le> 2147483
     then Some (Inr (map (\<lambda>(t, ad). JArray [JInt (1000 * t), JString ad]) ws)) else None)"
  using assms
proof (induction ws)
  case (Cons w ws)
  obtain t ad where w: "w = (t, ad)" by (cases w)
  have r: "int32_or_undefined (t * 1000) = (if t \<le> 2147483 then Some (1000 * t) else None)"
    using Cons.prems w by (auto simp: int32_or_undefined_def)
  have t: "- (2 ^ 31) \<le> t" "t < 2 ^ 31" using Cons.prems w by auto
  from Cons.IH Cons.prems r t show ?case by (auto simp: w)
qed simp

text \<open>The wins of an interest group reach the bidding code in milliseconds exactly if none is older
  than 2147483 seconds, which is less than 25 days; an older win, although wins of 30 days are sent,
  overflows the 32 bits of the product, which is undefined.\<close>

theorem previous_wins_in_milliseconds:
  assumes "ParseJsonString txt prev_wins = Inr (wins_json ws)" and "\<forall>(t, ad) \<in> set ws. 0 \<le> t \<and> t < 2 ^ 31"
  shows "ToPrevWinsMs txt prev_wins =
    (if \<forall>(t, ad) \<in> set ws. t \<le> 2147483
     then Some (SerializeJsonDoc txt (wins_json (map (\<lambda>(t, ad). (1000 * t, ad)) ws))) else None)"
proof -
  have eq: "wins_json (map (\<lambda>(t, ad). (1000 * t, ad)) ws) = JArray (map (\<lambda>(t, ad). JArray [JInt (1000 * t), JString ad]) ws)"
    by (simp add: wins_json_def comp_def split_def)
  show ?thesis unfolding ToPrevWinsMs_def assms(1) eq
    by (simp add: wins_json_def [of ws] ToPrevWinsMs_loop_wins [OF assms(2)])
qed

theorem previous_wins_in_milliseconds_witness:
  "ToPrevWinsMs \<lparr>ParseJsonString = (\<lambda>s. Inr (wins_json [(60, ''ad1''), (2592000, ''ad2'')])),
      SerializeJsonDoc = (\<lambda>j. Inr ''...'')\<rparr> ''[[60,'ad1'],[2592000,'ad2']]'' = None"
  by (subst previous_wins_in_milliseconds [of _ _ "[(60, ''ad1''), (2592000, ''ad2'')]"]) simp_all

subsection \<open>The round trip\<close>

lemma ToInterestGroup_inverse:
  "ToInterestGroupForBidding txt ig = Some ig' \<Longrightarrow> ToInterestGroup ig' = ig"
  by (cases "ig_device_signals ig")
    (auto simp: ToInterestGroupForBidding_def ToInterestGroup_def ToBrowserSignalsForBidding_def elim!: bind_SomeE)

lemma convert_groups_inverse: "convert_groups txt igs = Some igs' \<Longrightarrow> map ToInterestGroup igs' = igs"
  by (induction igs arbitrary: igs') (auto elim!: bind_SomeE simp: ToInterestGroup_inverse)

text \<open>C37. A buyer input that could be converted for bidding is the same after the conversion back, except
  that its protected app signals are present, with their default, where they were not set.\<close>

theorem buyer_input_roundtrip:
  assumes "ToBuyerInputForBidding txt b = Some b'"
  shows "bi_interest_groups (ToBuyerInput b') = bi_interest_groups b \<and>
    bi_protected_app_signals (ToBuyerInput b') = Some (case bi_protected_app_signals b of
      None \<Rightarrow> default_ProtectedAppSignals | Some p \<Rightarrow> p)"
  using assms by (auto simp: ToBuyerInputForBidding_def ToBuyerInput_def elim!: bind_SomeE
      simp: convert_groups_inverse)

theorem buyer_input_roundtrip_witness:
  "\<exists>b'. ToBuyerInputForBidding \<lparr>ParseJsonString = (\<lambda>s. Inr (wins_json [(60, ''ad'')])), SerializeJsonDoc = (\<lambda>j. Inr ''...'')\<rparr>
      \<lparr>bi_interest_groups = [\<lparr>ig_name = ''ig'', ig_bidding_signals_keys = [''k''], ig_ad_render_ids = [],
         ig_component_ads = [], ig_user_bidding_signals = [], ig_device_signals = Browser_signals
           \<lparr>bs_join_count = 1, bs_bid_count = 2, bs_recency = 3, bs_prev_wins = ''[[60,'ad']]'', bs_recency_ms = None\<rparr>,
         ig_origin = []\<rparr>], bi_protected_app_signals = None\<rparr> = Some b' \<and>
    map ig_name (bi_interest_groups (ToBuyerInput b')) = [''ig'']"
proof -
  let ?txt = "\<lparr>ParseJsonString = (\<lambda>s. Inr (wins_json [(60, ''ad'')])), SerializeJsonDoc = (\<lambda>j. Inr ''...'')\<rparr>"
  let ?b = "\<lparr>bi_interest_groups = [\<lparr>ig_name = ''ig'', ig_bidding_signals_keys = [''k''], ig_ad_render_ids = [],
         ig_component_ads = [], ig_user_bidding_signals = [], ig_device_signals = Browser_signals
           \<lparr>bs_join_count = 1, bs_bid_count = 2, bs_recency = 3, bs_prev_wins = ''[[60,'ad']]'', bs_recency_ms = None\<rparr>,
         ig_origin = []\<rparr>], bi_protected_app_signals = None\<rparr>"
  obtain b' where b': "ToBuyerInputForBidding ?txt ?b = Some b'"
    by (simp add: ToBuyerInputForBidding_def ToInterestGroupForBidding_def ToBrowserSignalsForBidding_def
        ToPrevWinsMs_def wins_json_def int32_or_undefined_def)
  from buyer_input_roundtrip [OF b'] b' show ?thesis by auto
qed

end
