(* ===== verification/PriorityVector.thy ===== *)
theory PriorityVector
  imports BuyerInput JsonMembers
begin

text \<open>
  Priority vectors (\<^verbatim>\<open>services/common/util/priority_vector/priority_vector_utils.cc\<close>): the priority of an
  interest group is the product of the seller's priority signals, extended by signals of the device,
  with the vector of the group. The code keeps one document and overwrites the signals of the device
  in it group by group.
\<close>

text \<open>The recency of a group in milliseconds; the multiplication is in 64 bits.\<close>

definition GetRecency :: "BrowserSignalsForBidding \<Rightarrow> int option" where
  "GetRecency s = (case bsb_recency_ms s of
     Some ms \<Rightarrow> Some ms
   | None \<Rightarrow> if - (2 ^ 63) \<le> bsb_recency s * 1000 \<and> bsb_recency s * 1000 < 2 ^ 63
             then Some (bsb_recency s * 1000) else None)"

fun CalculateDotProduct_loop :: "(string \<times> json) list \<Rightarrow> json \<Rightarrow> rat \<Rightarrow> rat option" where
  "CalculateDotProduct_loop [] vector2 priority = Some priority"
| "CalculateDotProduct_loop ((key, x) # ms) vector2 priority = do {
     m \<leftarrow> FindMember vector2 key;
     CalculateDotProduct_loop ms vector2
       (case m of None \<Rightarrow> priority
        | Some y \<Rightarrow> (case (GetDouble x, GetDouble y) of
            (Some a, Some b) \<Rightarrow> priority + a * b
          | _ \<Rightarrow> priority)) }"

definition CalculateDotProduct :: "json \<Rightarrow> json \<Rightarrow> rat option" where
  "CalculateDotProduct vector1 vector2 = do {
     ms \<leftarrow> Members vector1;
     CalculateDotProduct_loop ms vector2 0 }"

definition kDeviceSignalKeys :: "string list" where
  "kDeviceSignalKeys = [''deviceSignals.one'', ''deviceSignals.ageInMinutes'', ''deviceSignals.ageInMinutesMax60'',
     ''deviceSignals.ageInHoursMax24'', ''deviceSignals.ageInDaysMax30'']"

text \<open>The signals of the device for a recency in milliseconds.\<close>

definition device_signal_values :: "int \<Rightarrow> (string \<times> rat) list" where
  "device_signal_values recency_ms =
     (let minutes = of_int recency_ms / 60000; hours = of_int recency_ms / 3600000 in
      [(''deviceSignals.one'', 1),
       (''deviceSignals.ageInMinutes'', minutes),
       (''deviceSignals.ageInMinutesMax60'', min minutes 60),
       (''deviceSignals.ageInHoursMax24'', min hours 24),
       (''deviceSignals.ageInDaysMax30'', min (hours / 24) 30)])"

definition PopulateDeviceSignalFields :: "json \<Rightarrow> BrowserSignalsForBidding \<Rightarrow> json option" where
  "PopulateDeviceSignalFields priority_signals s = do {
     ms \<leftarrow> Members priority_signals;
     recency_ms \<leftarrow> GetRecency s;
     Some (JObject (fold (\<lambda>(k, d). SetMember k (JDouble d)) (device_signal_values recency_ms) ms)) }"

definition SanitizePriorityVector :: "(string \<times> json) list \<Rightarrow> (string \<times> json) list" where
  "SanitizePriorityVector ms = filter (\<lambda>(k, v). IsNumber v) ms"

definition ParsePriorityVector :: "json_text \<Rightarrow> string \<Rightarrow> status_code + json" where
  "ParsePriorityVector txt priority_vector_json = (case ParseJsonString txt priority_vector_json of
     Inr (JObject ms) \<Rightarrow> Inr (JObject (SanitizePriorityVector ms))
   | _ \<Rightarrow> Inl InvalidArgument)"

text \<open>The signals for one buyer, with the overrides the seller configured for it.\<close>

definition apply_overrides :: "(string \<times> json) list \<Rightarrow> (string \<times> json) list \<Rightarrow> (string \<times> json) list" where
  "apply_overrides overrides ms =
     fold (\<lambda>(k, v) ms. case GetDouble v of None \<Rightarrow> ms | Some d \<Rightarrow> SetMember k (JDouble d) ms) overrides ms"

definition GetBuyerPrioritySignals ::
    "json_text \<Rightarrow> json \<Rightarrow> (string \<rightharpoonup> string) \<Rightarrow> string \<Rightarrow> string result" where
  "GetBuyerPrioritySignals txt priority_signals_vector priority_signals_overrides buyer_ig_owner =
     (case priority_signals_overrides buyer_ig_owner of
        None \<Rightarrow> Some (SerializeJsonDoc txt priority_signals_vector)
      | Some [] \<Rightarrow> Some (SerializeJsonDoc txt priority_signals_vector)
      | Some text \<Rightarrow> (case ParseJsonString txt text of
          Inr (JObject overrides) \<Rightarrow>
            if list_all (\<lambda>(k, v). GetDouble v = None) overrides then Some (SerializeJsonDoc txt priority_signals_vector)
            else do {
              ms \<leftarrow> Members priority_signals_vector;
              Some (SerializeJsonDoc txt (JObject (apply_overrides overrides ms))) }
        | _ \<Rightarrow> Some (Inl InvalidArgument)))"

text \<open>The signals of the browser, or the default instance.\<close>

definition browser_signals :: "InterestGroupForBidding \<Rightarrow> BrowserSignalsForBidding" where
  "browser_signals ig = (case igb_device_signals ig of
     Browser_signals_for_bidding s \<Rightarrow> s | _ \<Rightarrow> default_BrowserSignalsForBidding)"

fun CalculateInterestGroupPriorities_loop ::
    "InterestGroupForBidding list \<Rightarrow> (string \<rightharpoonup> json) \<Rightarrow> json \<Rightarrow> (string \<rightharpoonup> rat) \<Rightarrow> (json \<times> (string \<rightharpoonup> rat)) option" where
  "CalculateInterestGroupPriorities_loop [] vectors priority_signals priorities = Some (priority_signals, priorities)"
| "CalculateInterestGroupPriorities_loop (ig # igs) vectors priority_signals priorities = do {
     priority_signals' \<leftarrow> PopulateDeviceSignalFields priority_signals (browser_signals ig);
     priority \<leftarrow> (case vectors (igb_name ig) of
         Some v \<Rightarrow> CalculateDotProduct priority_signals' v
       | None \<Rightarrow> Some 0);
     CalculateInterestGroupPriorities_loop igs vectors priority_signals' (priorities(igb_name ig \<mapsto> priority)) }"

definition CalculateInterestGroupPriorities ::
    "json \<Rightarrow> BuyerInputForBidding \<Rightarrow> (string \<rightharpoonup> json) \<Rightarrow> (json \<times> (string \<rightharpoonup> rat)) option" where
  "CalculateInterestGroupPriorities priority_signals buyer_input per_ig_priority_vectors = do {
     (doc, priorities) \<leftarrow> CalculateInterestGroupPriorities_loop (bib_interest_groups buyer_input)
       per_ig_priority_vectors priority_signals Map.empty;
     ms \<leftarrow> Members doc;
     Some (JObject (fold RemoveMember kDeviceSignalKeys ms), priorities) }"

subsection \<open>Reference\<close>

text \<open>The signals as a function from keys to numbers, and the product with a vector.\<close>

definition numbers_of :: "(string \<times> json) list \<Rightarrow> string \<rightharpoonup> rat" where
  "numbers_of ms k = map_of ms k \<bind> GetDouble"

definition weighted_sum :: "(string \<rightharpoonup> rat) \<Rightarrow> (string \<rightharpoonup> rat) \<Rightarrow> rat" where
  "weighted_sum f g = (\<Sum>k \<in> dom f \<inter> dom g. the (f k) * the (g k))"

text \<open>The priority of a group: the signals of the device take precedence over those of the seller.\<close>

definition group_priority :: "(string \<times> json) list \<Rightarrow> (string \<rightharpoonup> json) \<Rightarrow> InterestGroupForBidding \<Rightarrow> int \<Rightarrow> rat" where
  "group_priority signals vectors ig recency_ms = (case vectors (igb_name ig) of
     Some (JObject v) \<Rightarrow> weighted_sum (numbers_of signals ++ map_of (device_signal_values recency_ms)) (numbers_of v)
   | _ \<Rightarrow> 0)"

subsection \<open>The product\<close>

lemma GetDouble_JDouble [simp]: "GetDouble (JDouble d) = Some d"
  by (simp add: GetDouble_def)

lemma finite_dom_numbers [simp]: "finite (dom (numbers_of ms))"
  by (rule finite_subset [OF _ finite_dom_map_of [of ms]]) (auto simp: numbers_of_def bind_eq_Some_conv)

lemma numbers_of_Cons: "numbers_of ((k, x) # ms) = (numbers_of ms)(k := GetDouble x)"
  by (auto simp: numbers_of_def fun_eq_iff)

lemma weighted_sum_upd:
  assumes "k \<notin> dom f" and "finite (dom f)"
  shows "weighted_sum (f(k := m)) g =
    weighted_sum f g + (case (m, g k) of (Some a, Some b) \<Rightarrow> a * b | _ \<Rightarrow> 0)"
proof (cases "m \<noteq> None \<and> g k \<noteq> None")
  case True
  then obtain a b where m: "m = Some a" "g k = Some b" by auto
  have "dom (f(k := m)) \<inter> dom g = insert k (dom f \<inter> dom g)" using m by auto
  moreover have "(\<Sum>x \<in> dom f \<inter> dom g. the ((f(k := m)) x) * the (g x)) = weighted_sum f g"
    unfolding weighted_sum_def using assms(1) by (intro sum.cong) auto
  ultimately show ?thesis using assms m by (simp add: weighted_sum_def)
next
  case False
  then have "dom (f(k := m)) \<inter> dom g = dom f \<inter> dom g" using assms(1) by auto
  then have "weighted_sum (f(k := m)) g = weighted_sum f g"
    unfolding weighted_sum_def using assms(1) False by (intro sum.cong) auto
  with False show ?thesis by (auto split: option.split)
qed

lemma numbers_of_fresh: "k \<notin> fst ` set ms \<Longrightarrow> k \<notin> dom (numbers_of ms)"
  by (force simp: numbers_of_def dest!: map_of_SomeD elim!: bind_SomeE)

lemma weighted_sum_commute: "weighted_sum f g = weighted_sum g f"
  by (simp add: weighted_sum_def Int_commute mult.commute)

text \<open>The product as a sum over the members of one side.\<close>

lemma weighted_sum_numbers:
  assumes "distinct (map fst ms)"
  shows "weighted_sum (numbers_of ms) g =
    (\<Sum>(k, x) \<leftarrow> ms. case (GetDouble x, g k) of (Some a, Some b) \<Rightarrow> a * b | _ \<Rightarrow> 0)"
  using assms
proof (induction ms)
  case Nil
  then show ?case by (simp add: weighted_sum_def numbers_of_def)
next
  case (Cons m ms)
  then have "weighted_sum (numbers_of (m # ms)) g = weighted_sum (numbers_of ms) g +
      (case (GetDouble (snd m), g (fst m)) of (Some a, Some b) \<Rightarrow> a * b | _ \<Rightarrow> 0)"
    by (cases m) (simp add: numbers_of_Cons weighted_sum_upd numbers_of_fresh del: fun_upd_apply)
  with Cons show ?case by (simp add: split_def)
qed

lemma CalculateDotProduct_loop_sum:
  assumes "distinct (map fst ms)"
  shows "CalculateDotProduct_loop ms (JObject v) acc = Some (acc + weighted_sum (numbers_of ms) (numbers_of v))"
  using assms
proof (induction ms arbitrary: acc)
  case Nil
  then show ?case by (simp add: weighted_sum_def numbers_of_def)
next
  case (Cons m ms)
  obtain k x where m: "m = (k, x)" by (cases m)
  have k: "k \<notin> dom (numbers_of ms)" using Cons.prems m by (simp add: numbers_of_fresh)
  have v: "map_of v k \<bind> GetDouble = numbers_of v k" by (simp add: numbers_of_def)
  have "(case map_of v k of None \<Rightarrow> acc | Some y \<Rightarrow> (case (GetDouble x, GetDouble y) of
        (Some a, Some b) \<Rightarrow> acc + a * b | _ \<Rightarrow> acc)) =
      acc + (case (GetDouble x, numbers_of v k) of (Some a, Some b) \<Rightarrow> a * b | _ \<Rightarrow> 0)"
    unfolding v [symmetric] by (cases "map_of v k") (auto split: option.split)
  moreover have "weighted_sum (numbers_of (m # ms)) (numbers_of v) = weighted_sum (numbers_of ms) (numbers_of v) +
      (case (GetDouble x, numbers_of v k) of (Some a, Some b) \<Rightarrow> a * b | _ \<Rightarrow> 0)"
    unfolding m numbers_of_Cons by (rule weighted_sum_upd) (use k in simp_all)
  ultimately show ?case using Cons by (simp add: m)
qed

subsection \<open>The signals of the device\<close>

lemma dom_device_signal_values [simp]: "dom (map_of (device_signal_values r)) = set kDeviceSignalKeys"
  by (auto simp: device_signal_values_def kDeviceSignalKeys_def Let_def split: if_split_asm)

lemma distinct_device_signal_values: "distinct (map fst (device_signal_values r))"
  by (simp add: device_signal_values_def Let_def)

lemma numbers_of_SetMember: "numbers_of (SetMember k (JDouble d) ms) = (numbers_of ms)(k \<mapsto> d)"
  by (auto simp: numbers_of_def fun_eq_iff)

lemma numbers_of_SetMembers:
  assumes "distinct (map fst ds)"
  shows "numbers_of (fold (\<lambda>(k, d). SetMember k (JDouble d)) ds ms) = numbers_of ms ++ map_of ds"
  using assms
proof (induction ds arbitrary: ms)
  case (Cons kd ds)
  obtain k d where kd: "kd = (k, d)" by (cases kd)
  have "k \<notin> dom (map_of ds)" using Cons.prems by (simp add: kd dom_map_of_conv_image_fst)
  have "numbers_of (fold (\<lambda>(k, d). SetMember k (JDouble d)) (kd # ds) ms) =
      numbers_of (fold (\<lambda>(k, d). SetMember k (JDouble d)) ds (SetMember k (JDouble d) ms))"
    by (simp only: kd fold_Cons comp_apply prod.case)
  also have "\<dots> = numbers_of (SetMember k (JDouble d) ms) ++ map_of ds"
    by (rule Cons.IH) (use Cons.prems in simp)
  also have "\<dots> = (numbers_of ms)(k \<mapsto> d) ++ map_of ds" by (simp only: numbers_of_SetMember)
  also have "\<dots> = numbers_of ms ++ map_of (kd # ds)"
    using \<open>k \<notin> dom (map_of ds)\<close> by (simp add: kd map_add_upd_left)
  finally show ?case .
qed simp

lemma distinct_SetMembers:
  "distinct (map fst ms) \<Longrightarrow> distinct (map fst (fold (\<lambda>(k, d). SetMember k (JDouble d)) ds ms))"
  by (induction ds arbitrary: ms) auto

lemma map_of_SetMembers:
  "k \<notin> fst ` set ds \<Longrightarrow> map_of (fold (\<lambda>(k, d). SetMember k (JDouble d)) ds ms) k = map_of ms k"
  by (induction ds arbitrary: ms) auto

text \<open>The document of the code, between two groups: only the signals of the device differ.\<close>

definition same_signals :: "(string \<times> json) list \<Rightarrow> (string \<times> json) list \<Rightarrow> bool" where
  "same_signals ms ms' \<longleftrightarrow> distinct (map fst ms') \<and>
     (\<forall>k. k \<notin> set kDeviceSignalKeys \<longrightarrow> map_of ms' k = map_of ms k)"

lemma same_signals_numbers:
  assumes "same_signals ms ms'"
  shows "numbers_of ms' ++ map_of (device_signal_values r) = numbers_of ms ++ map_of (device_signal_values r)"
proof
  fix k
  show "(numbers_of ms' ++ map_of (device_signal_values r)) k = (numbers_of ms ++ map_of (device_signal_values r)) k"
  proof (cases "k \<in> set kDeviceSignalKeys")
    case True
    then have "k \<in> dom (map_of (device_signal_values r))" by simp
    then show ?thesis by (auto simp: map_add_dom_app_simps)
  next
    case False
    then have "map_of (device_signal_values r) k = None" using dom_device_signal_values by blast
    moreover have "map_of ms' k = map_of ms k"
      using assms False by (simp add: same_signals_def)
    ultimately show ?thesis by (simp add: map_add_def numbers_of_def)
  qed
qed

lemma group_priority_cong: "same_signals ms ms' \<Longrightarrow> group_priority ms' vectors ig r = group_priority ms vectors ig r"
  by (simp add: group_priority_def same_signals_numbers split: option.split json.split)

lemma fst_device_signal_values [simp]: "fst ` set (device_signal_values r) = set kDeviceSignalKeys"
  by (simp add: device_signal_values_def kDeviceSignalKeys_def Let_def)

lemma PopulateDeviceSignalFields_same:
  assumes "same_signals ms ms'" and "GetRecency s = Some r"
  shows "\<exists>ms''. PopulateDeviceSignalFields (JObject ms') s = Some (JObject ms'') \<and> same_signals ms ms'' \<and>
    numbers_of ms'' = numbers_of ms ++ map_of (device_signal_values r)"
  using assms same_signals_numbers [OF assms(1), of r]
  by (simp add: PopulateDeviceSignalFields_def Members_def same_signals_def distinct_SetMembers map_of_SetMembers
      numbers_of_SetMembers distinct_device_signal_values)

subsection \<open>The priorities\<close>

abbreviation recency_of :: "InterestGroupForBidding \<Rightarrow> int" where
  "recency_of ig \<equiv> the (GetRecency (browser_signals ig))"

lemma CalculateInterestGroupPriorities_loop_correct:
  assumes "same_signals ms ms'" and "\<forall>ig \<in> set igs. GetRecency (browser_signals ig) \<noteq> None"
    and "\<forall>v \<in> ran vectors. IsObject v" and "distinct (map igb_name igs)"
  shows "\<exists>ms''. CalculateInterestGroupPriorities_loop igs vectors (JObject ms') priorities =
      Some (JObject ms'', priorities ++
        map_of (map (\<lambda>ig. (igb_name ig, group_priority ms vectors ig (recency_of ig))) igs)) \<and>
    same_signals ms ms''"
  using assms
proof (induction igs arbitrary: ms' priorities)
  case (Cons ig igs)
  obtain r where r: "GetRecency (browser_signals ig) = Some r" using Cons.prems(2) by auto
  from PopulateDeviceSignalFields_same [OF Cons.prems(1) r] obtain ms1 where
    ms1: "PopulateDeviceSignalFields (JObject ms') (browser_signals ig) = Some (JObject ms1)"
      "same_signals ms ms1" "numbers_of ms1 = numbers_of ms ++ map_of (device_signal_values r)" by blast
  have "distinct (map fst ms1)" using ms1(2) by (simp add: same_signals_def)
  then have prio: "(case vectors (igb_name ig) of Some v \<Rightarrow> CalculateDotProduct (JObject ms1) v | None \<Rightarrow> Some 0) =
      Some (group_priority ms vectors ig r)"
  proof (cases "vectors (igb_name ig)")
    case (Some v)
    with Cons.prems(3) obtain w where "v = JObject w" by (auto simp: ran_def IsObject_cases)
    with Some \<open>distinct (map fst ms1)\<close> show ?thesis
      by (simp add: CalculateDotProduct_def Members_def CalculateDotProduct_loop_sum group_priority_def ms1(3))
  qed (simp add: group_priority_def)
  let ?rest = "map (\<lambda>ig. (igb_name ig, group_priority ms vectors ig (recency_of ig))) igs"
  have "igb_name ig \<notin> dom (map_of ?rest)"
    using Cons.prems(4) by (auto simp: dom_map_of_conv_image_fst image_iff)
  then have "\<And>p. priorities(igb_name ig \<mapsto> p) ++ map_of ?rest = priorities ++ (map_of ?rest)(igb_name ig \<mapsto> p)"
    by (simp add: map_add_upd_left)
  with Cons.IH [OF ms1(2), of "priorities(igb_name ig \<mapsto> group_priority ms vectors ig r)"] Cons.prems ms1 prio r
  show ?case by (auto simp del: fun_upd_apply)
qed simp

lemma fold_RemoveMember:
  assumes "distinct (map fst ms)"
  shows "distinct (map fst (fold RemoveMember ks ms))"
    and "map_of (fold RemoveMember ks ms) k = (if k \<in> set ks then None else map_of ms k)"
  using assms by (induction ks arbitrary: ms) auto

lemma CalculateInterestGroupPriorities_correct:
  assumes "distinct (map fst ms)" and "\<forall>v \<in> ran vectors. IsObject v"
    and "\<forall>ig \<in> set (bib_interest_groups b). GetRecency (browser_signals ig) \<noteq> None"
    and "distinct (map igb_name (bib_interest_groups b))"
  shows "\<exists>ms'. CalculateInterestGroupPriorities (JObject ms) b vectors = Some (JObject ms',
      map_of (map (\<lambda>ig. (igb_name ig, group_priority ms vectors ig (recency_of ig))) (bib_interest_groups b))) \<and>
    (\<forall>k. map_of ms' k = (if k \<in> set kDeviceSignalKeys then None else map_of ms k))"
proof -
  have "same_signals ms ms" using assms(1) by (simp add: same_signals_def)
  from CalculateInterestGroupPriorities_loop_correct [OF this assms(3,2,4), of Map.empty] obtain ms1 where
    loop: "CalculateInterestGroupPriorities_loop (bib_interest_groups b) vectors (JObject ms) Map.empty =
      Some (JObject ms1, map_of (map (\<lambda>ig. (igb_name ig, group_priority ms vectors ig (recency_of ig))) (bib_interest_groups b)))"
    and same: "same_signals ms ms1" by auto
  have "map_of (fold RemoveMember kDeviceSignalKeys ms1) k = (if k \<in> set kDeviceSignalKeys then None else map_of ms k)" for k
    using same by (simp add: same_signals_def fold_RemoveMember)
  with loop show ?thesis by (simp add: CalculateInterestGroupPriorities_def Members_def)
qed


text \<open>Two groups that differ in their recency: ten minutes and two hours.\<close>

definition sample_group :: "string \<Rightarrow> int \<Rightarrow> InterestGroupForBidding" where
  "sample_group n recency = \<lparr>igb_name = n, igb_bidding_signals_keys = [''key''], igb_ad_render_ids = [],
     igb_component_ads = [], igb_user_bidding_signals = [],
     igb_device_signals = Browser_signals_for_bidding (default_BrowserSignalsForBidding\<lparr>bsb_recency := recency\<rparr>),
     igb_origin = []\<rparr>"

definition sample_input :: BuyerInputForBidding where
  "sample_input = \<lparr>bib_interest_groups = [sample_group ''ig1'' 600, sample_group ''ig2'' 7200],
     bib_protected_app_signals = None\<rparr>"

definition sample_vectors :: "string \<rightharpoonup> json" where
  "sample_vectors = [''ig1'' \<mapsto> JObject [(''sports'', JInt 2), (''deviceSignals.ageInMinutes'', JInt (- 1))],
     ''ig2'' \<mapsto> JObject [(''sports'', JInt 2), (''deviceSignals.ageInMinutes'', JInt (- 1))]]"

lemma sample_priorities:
  "group_priority [(''sports'', JInt 7)] sample_vectors (sample_group ''ig1'' 600) 600000 = 4"
  "group_priority [(''sports'', JInt 7)] sample_vectors (sample_group ''ig2'' 7200) 7200000 = - 106"
  unfolding group_priority_def by (simp_all add: sample_vectors_def sample_group_def weighted_sum_commute [of _ "numbers_of _"]
      weighted_sum_numbers numbers_of_def device_signal_values_def Let_def GetDouble_def map_add_def)

lemma sample_recency:
  "GetRecency (browser_signals (sample_group n 600)) = Some 600000"
  "GetRecency (browser_signals (sample_group n 7200)) = Some 7200000"
  by (simp_all add: GetRecency_def browser_signals_def sample_group_def default_BrowserSignalsForBidding_def)


end
