(* ===== verification/ReportingPrivacy.thy ===== *)
theory ReportingPrivacy
  imports ReportingHelper ScoreAdsRuns "HOL-Library.Sublist"
begin

text \<open>
  What a report may tell. The signals for the buyer's report are made from those of the seller, in
  place: the score, a modified bid and the version of the seller's data must be gone, and the name of
  the interest group may only be told when there is no reporting id.
\<close>

subsection \<open>The signals of the seller\<close>

text \<open>The names of the members, in their order, are among a fixed list of names.\<close>

lemma subseq_names:
  assumes "subseq xs ys" and "distinct ys"
  shows "distinct xs" and "set xs \<subseteq> set ys"
  using assms by (auto simp: subseq_conv_nths distinct_nthsI dest: in_set_nthsD)

lemma subseq_optional:
  "subseq (map fst (opt_member b k v)) [k]"
  "subseq (map fst (opt_string k s)) [k]"
  "subseq (map fst (rounded_member e k x)) [k]"
  "subseq (map fst (noised_member k noise i)) [k]"
  by (auto simp: rounded_member_def noised_member_def split: option.split sum.split)

lemmas subseq_rules = subseq_optional list_emb_append_mono subseq_order.refl

definition seller_names :: "string list" where
  "seller_names = [''topWindowHostname'', ''interestGroupOwner'', ''renderURL'', ''renderUrl''] @ [''bid''] @
     [''bidCurrency''] @ [''dataVersion''] @ [''highestScoringOtherBidCurrency''] @ [''desirability''] @
     [''highestScoringOtherBid''] @ [''selectedBuyerAndSellerReportingId''] @ [''buyerAndSellerReportingId'']"

lemma seller_signals_names:
  "\<exists>ms. GenerateSellerDeviceSignals e data = JObject ms \<and> subseq (map fst ms) seller_names"
  unfolding GenerateSellerDeviceSignals_def Let_def seller_names_def
  by (intro exI conjI) (rule refl, simp only: map_append, (intro subseq_rules; simp add: page_members_def)?)

definition component_names :: "string list" where
  "component_names = seller_names @ [''topLevelSeller''] @ [''modifiedBid'']"

lemma distinct_component_names [simp]: "distinct component_names"
  by (simp add: component_names_def seller_names_def)

lemma component_signals_names:
  assumes "GenerateSellerDeviceSignals e data = sds \<or> GenerateSellerDeviceSignalsForComponentAuction e data = Some sds"
  shows "\<exists>ms. sds = JObject ms \<and> subseq (map fst ms) component_names"
proof -
  obtain ms where ms: "GenerateSellerDeviceSignals e data = JObject ms" and names: "subseq (map fst ms) seller_names"
    using seller_signals_names by blast
  have "subseq (map fst (ms @ [(''topLevelSeller'', a)] @ rounded_member e ''modifiedBid'' b)) component_names" for a b
    unfolding component_names_def map_append by (intro list_emb_append_mono names subseq_optional) simp
  moreover have "subseq (map fst ms) component_names"
    using list_emb_append_mono [OF names list_emb_Nil] unfolding component_names_def by simp
  ultimately show ?thesis
    using assms ms by (auto simp: GenerateSellerDeviceSignalsForComponentAuction_def Members_def)
qed

subsection \<open>The signals of the buyer\<close>

definition id_names :: "string set" where
  "id_names = {''selectedBuyerAndSellerReportingId'', ''buyerAndSellerReportingId'', ''buyerReportingId'',
     ''interestGroupName''}"

lemma names_AddKeyVal [simp]:
  "fst ` set (AddKeyValToSellerSignalsIfNotPresent k v ms) = insert k (fst ` set ms)"
  by (auto simp: AddKeyValToSellerSignalsIfNotPresent_def map_of_eq_None_iff image_iff split: if_splits)

lemma names_SetReportingIds:
  "k \<notin> id_names \<Longrightarrow> k \<in> fst ` set (SetReportingIds data ms) \<longleftrightarrow> k \<in> fst ` set ms"
  "''interestGroupName'' \<notin> fst ` set ms \<Longrightarrow> ''interestGroupName'' \<in> fst ` set (SetReportingIds data ms) \<longleftrightarrow>
     br_selected_buyer_and_seller_reporting_id data = None \<and> br_buyer_and_seller_reporting_id data = None \<and>
     br_buyer_reporting_id data = None"
  by (auto simp: SetReportingIds_def id_names_def Let_def image_Un split: option.splits)

definition buyer_names :: "string list" where
  "buyer_names = [''madeHighestScoringOtherBid''] @ [''joinCount''] @ [''recency''] @ [''modelingSignals''] @
     [''seller''] @ [''adCost'']"

lemma distinct_buyer_names [simp]: "distinct buyer_names"
  by (simp add: buyer_names_def)

text \<open>C30. What the code of the buyer is told about the auction: neither the desirability nor the
  bid modified by a component seller is among its signals, the data version is its own (and absent
  when it has none), and the name of the interest group is there only when the ad has no reporting
  id at all; for the signals either kind of seller is given.\<close>

theorem buyer_signals_hide_seller_data:
  assumes "GenerateSellerDeviceSignals e sd = sds \<or> GenerateSellerDeviceSignalsForComponentAuction e sd = Some sds"
    and "GenerateBuyerDeviceSignals e data sds = Some (js, doc)"
  shows "\<exists>ms. doc = JObject ms \<and> js = SerializeJsonDoc e (JObject ms) \<and>
    map_of ms ''desirability'' = None \<and> map_of ms ''modifiedBid'' = None \<and>
    map_of ms ''dataVersion'' =
      (if br_data_version data > 0 then Some (JInt (int (br_data_version data))) else None) \<and>
    (map_of ms ''interestGroupName'' \<noteq> None \<longleftrightarrow>
       br_selected_buyer_and_seller_reporting_id data = None \<and> br_buyer_and_seller_reporting_id data = None \<and>
       br_buyer_reporting_id data = None)"
proof -
  obtain ms where ms: "sds = JObject ms" and names: "subseq (map fst ms) component_names"
    using component_signals_names [OF assms(1)] by blast
  note keys = subseq_names [OF names distinct_component_names]
  define ms1 where "ms1 = RemoveMember ''dataVersion'' (RemoveMember ''modifiedBid'' (RemoveMember ''desirability'' ms))"
  have k1: "fst ` set ms1 = fst ` set ms - {''desirability'', ''modifiedBid'', ''dataVersion''}"
    using keys(1) by (auto simp: ms1_def)
  define xs where "xs = [(''madeHighestScoringOtherBid'', JBool (br_made_highest_scoring_other_bid data))] @
    noised_member ''joinCount'' (noise_join_count e) (br_join_count data) @
    noised_member ''recency'' (noise_recency e) (br_recency data) @
    noised_member ''modelingSignals'' (noise_modeling_signals e) (br_modeling_signals data) @
    opt_member (br_seller data \<noteq> []) ''seller'' (JString (br_seller data)) @
    rounded_member e ''adCost'' (br_ad_cost data)"
  have "subseq (map fst xs) buyer_names"
    unfolding xs_def buyer_names_def map_append by (intro list_emb_append_mono subseq_optional) simp
  from subseq_names(2) [OF this] have xs: "fst ` set xs \<subseteq> set buyer_names" by simp
  have b: "buyer_device_members e data ms = SetReportingIds data (ms1 @ xs) @
      opt_member (br_data_version data > 0) ''dataVersion'' (JInt (int (br_data_version data))) @
      [(''kAnonStatus'', JString (br_k_anon_status data))]"
    by (simp only: buyer_device_members_def Let_def xs_def ms1_def)
  let ?K = "set component_names - {''desirability'', ''modifiedBid'', ''dataVersion''} \<union> set buyer_names"
  have k0: "fst ` set ms \<subseteq> set component_names" using keys(2) by simp
  have k2: "fst ` set (ms1 @ xs) \<subseteq> ?K"
    unfolding set_append image_Un k1 using k0 xs by blast
  have "''desirability'' \<notin> ?K" "''modifiedBid'' \<notin> ?K" "''dataVersion'' \<notin> ?K" "''interestGroupName'' \<notin> ?K"
    by (simp_all add: buyer_names_def component_names_def seller_names_def)
  with k2 have not_in: "''desirability'' \<notin> fst ` set (ms1 @ xs)" "''modifiedBid'' \<notin> fst ` set (ms1 @ xs)"
    "''dataVersion'' \<notin> fst ` set (ms1 @ xs)" "''interestGroupName'' \<notin> fst ` set (ms1 @ xs)"
    by blast+
  let ?ids = "SetReportingIds data (ms1 @ xs)"
  have ids: "map_of ?ids ''desirability'' = None" "map_of ?ids ''modifiedBid'' = None" "map_of ?ids ''dataVersion'' = None"
    "map_of ?ids ''interestGroupName'' \<noteq> None \<longleftrightarrow> br_selected_buyer_and_seller_reporting_id data = None \<and>
       br_buyer_and_seller_reporting_id data = None \<and> br_buyer_reporting_id data = None"
    using names_SetReportingIds [where data = data and ms = "ms1 @ xs"] not_in
    by (simp_all add: map_of_eq_None_iff id_names_def)
  from assms(2) have "doc = JObject (buyer_device_members e data ms)" "js = SerializeJsonDoc e doc"
    by (auto simp: GenerateBuyerDeviceSignals_def ms Members_def Let_def)
  with ids show ?thesis
    by (auto simp: b map_add_def)
qed

definition sample_post_auction_signals :: PostAuctionSignals where
  "sample_post_auction_signals = GeneratePostAuctionSignals None ''USD'' 7"

definition sample_seller_data :: SellerReportingDispatchRequestData where
  "sample_seller_data = \<lparr>srd_auction_config = ''{}'', srd_post_auction_signals = sample_post_auction_signals,
     srd_publisher_hostname = ''p'', srd_component_reporting_metadata = empty_ComponentReportingMetadata,
     srd_buyer_and_seller_reporting_id = None, srd_selected_buyer_and_seller_reporting_id = None\<rparr>"

theorem buyer_signals_hide_seller_data_witness:
  "\<exists>js ms. GenerateBuyerDeviceSignals sample_env initial_buyer_reporting_data
       (GenerateSellerDeviceSignals sample_env sample_seller_data) = Some (js, JObject ms) \<and>
     map_of ms ''desirability'' = None \<and> map_of ms ''interestGroupName'' \<noteq> None"
proof -
  let ?sds = "GenerateSellerDeviceSignals sample_env sample_seller_data"
  obtain js doc where "GenerateBuyerDeviceSignals sample_env initial_buyer_reporting_data ?sds = Some (js, doc)"
    using component_signals_names [of sample_env sample_seller_data ?sds]
    by (auto simp: GenerateBuyerDeviceSignals_def Members_def Let_def)
  with buyer_signals_hide_seller_data [OF _ this, of sample_seller_data] show ?thesis
    by (auto simp: initial_buyer_reporting_data_def)
qed

end
