(* ===== verification/GetBidsMessages.thy ===== *)
theory GetBidsMessages
  imports PriorityVector "HOL-Library.Word"
begin

text \<open>
  The requests of the buyer front end and what it sends on (\<^verbatim>\<open>api/bidding_auction_servers.proto\<close>), and
  its configuration (\<^verbatim>\<open>services/buyer_frontend_service/data\<close>). The bids it relays are not looked
  into: their types are parameters.
\<close>

datatype ClientType = CLIENT_TYPE_UNKNOWN | CLIENT_TYPE_ANDROID | CLIENT_TYPE_BROWSER

record LogContext =
  generation_id :: string
  adtech_debug_id :: string

record ConsentedDebugConfiguration =
  is_consented :: bool
  token :: string

record BuyerBlobVersions =
  protected_audience_generate_bid_udf :: string
  protected_app_signals_generate_bid_udf :: string
  prepare_data_for_ad_retrieval_udf :: string
  egress_schema :: string
  temporary_unlimited_egress_schema :: string

record ContextualProtectedAppSignalsData =
  cpas_ad_render_ids :: "string list"
  fetch_ads_from_retrieval_service :: bool

record ProtectedAppSignalsBuyerInput =
  pasbi_protected_app_signals :: "ProtectedAppSignals option"
  contextual_protected_app_signals_data :: "ContextualProtectedAppSignalsData option"

record GetBidsRawRequest =
  gb_is_chaff :: bool
  gb_buyer_input :: "BuyerInput option"
  gb_auction_signals :: string
  gb_buyer_signals :: string
  gb_seller :: string
  gb_publisher_name :: string
  gb_enable_debug_reporting :: bool
  gb_log_context :: LogContext
  gb_consented_debug_config :: "ConsentedDebugConfiguration option"
  gb_protected_app_signals_buyer_input :: "ProtectedAppSignalsBuyerInput option"
  gb_client_type :: ClientType
  gb_top_level_seller :: string
  gb_buyer_kv_experiment_group_id :: "int option"
  gb_enable_unlimited_egress :: bool
  gb_multi_bid_limit :: int
  gb_enforce_kanon :: bool
  gb_priority_signals :: string
  gb_blob_versions :: "BuyerBlobVersions option"
  gb_buyer_input_for_bidding :: "BuyerInputForBidding option"

text \<open>\<^verbatim>\<open>GenerateBidsRawRequest\<close> and its interest groups\<close>

record RequestInterestGroup =
  rig_name :: string
  rig_trusted_bidding_signals_keys :: "string list"
  rig_trusted_bidding_signals :: string
  rig_ad_render_ids :: "string list"
  rig_ad_component_render_ids :: "string list"
  rig_user_bidding_signals :: string
  rig_device_signals :: DeviceSignalsForBidding

record GenerateBidsRawRequest =
  gn_interest_group_for_bidding :: "RequestInterestGroup list"
  gn_auction_signals :: string
  gn_buyer_signals :: string
  gn_enable_debug_reporting :: bool
  gn_seller :: string
  gn_publisher_name :: string
  gn_log_context :: LogContext
  gn_consented_debug_config :: "ConsentedDebugConfiguration option"
  gn_top_level_seller :: string
  gn_multi_bid_limit :: int
  gn_enforce_kanon :: bool
  gn_data_version :: "32 word"
  gn_is_sampled_for_debug :: bool
  gn_blob_versions :: "BuyerBlobVersions option"

record GenerateProtectedAppSignalsBidsRawRequest =
  gp_auction_signals :: string
  gp_buyer_signals :: string
  gp_protected_app_signals :: ProtectedAppSignals
  gp_seller :: string
  gp_publisher_name :: string
  gp_log_context :: LogContext
  gp_consented_debug_config :: "ConsentedDebugConfiguration option"
  gp_enable_debug_reporting :: bool
  gp_contextual_protected_app_signals_data :: "ContextualProtectedAppSignalsData option"
  gp_enable_unlimited_egress :: bool
  gp_multi_bid_limit :: int
  gp_enforce_kanon :: bool
  gp_is_sampled_for_debug :: bool
  gp_blob_versions :: "BuyerBlobVersions option"
  gp_top_level_seller :: string

text \<open>\<^verbatim>\<open>GetBidsRawResponse\<close>, the bids of both kinds being opaque here\<close>

record UpdateInterestGroup =
  update_index :: int
  update_if_older_than_ms :: int

record ('bid, 'pas) GetBidsRawResponse =
  bids :: "'bid list"
  protected_app_signals_bids :: "'pas list"
  update_interest_group_list :: "UpdateInterestGroup list"
  downstream_servers :: "string list"

datatype BiddingSignalsFetchMode = REQUIRED | FETCHED_BUT_OPTIONAL | NOT_FETCHED

record GetBidsConfig =
  is_protected_app_signals_enabled :: bool
  is_protected_audience_enabled :: bool
  is_chaffing_enabled :: bool
  is_tkv_v2_browser_enabled :: bool
  enable_cancellation :: bool
  enable_kanon :: bool
  consent_all_requests :: bool
  priority_vector_enabled :: bool
  test_mode :: bool
  tkv_v2_address_empty :: bool
  bidding_signals_fetch_mode :: BiddingSignalsFetchMode
  propagate_buyer_signals_to_tkv :: bool
  is_hybrid_enabled :: bool

text \<open>The getter of the input for bidding: the empty message if it is not set.\<close>

definition buyer_input_for_bidding :: "GetBidsRawRequest \<Rightarrow> BuyerInputForBidding" where
  "buyer_input_for_bidding r = (case gb_buyer_input_for_bidding r of
     None \<Rightarrow> empty_BuyerInputForBidding | Some b \<Rightarrow> b)"

definition buyer_input_interest_groups :: "GetBidsRawRequest \<Rightarrow> InterestGroup list" where
  "buyer_input_interest_groups r = (case gb_buyer_input r of None \<Rightarrow> [] | Some b \<Rightarrow> bi_interest_groups b)"

definition kDefaultMultiBidLimit :: int where
  "kDefaultMultiBidLimit = 2"

text \<open>\<^verbatim>\<open>services/common/loggers/request_log_context_prod.cc\<close> and \<^verbatim>\<open>..._non_prod.cc\<close>\<close>

definition ModifyConsent :: "string option \<Rightarrow> ConsentedDebugConfiguration \<Rightarrow> ConsentedDebugConfiguration" where
  "ModifyConsent non_prod_token original = (case non_prod_token of
     None \<Rightarrow> original | Some t \<Rightarrow> original\<lparr>is_consented := True, token := t\<rparr>)"

definition default_GetBidsRawRequest :: GetBidsRawRequest where
  "default_GetBidsRawRequest = \<lparr>gb_is_chaff = False, gb_buyer_input = None, gb_auction_signals = [],
     gb_buyer_signals = [], gb_seller = [], gb_publisher_name = [], gb_enable_debug_reporting = False,
     gb_log_context = \<lparr>generation_id = [], adtech_debug_id = []\<rparr>, gb_consented_debug_config = None,
     gb_protected_app_signals_buyer_input = None, gb_client_type = CLIENT_TYPE_UNKNOWN,
     gb_top_level_seller = [], gb_buyer_kv_experiment_group_id = None, gb_enable_unlimited_egress = False,
     gb_multi_bid_limit = 0, gb_enforce_kanon = False, gb_priority_signals = [], gb_blob_versions = None,
     gb_buyer_input_for_bidding = None\<rparr>"

end
