(* ===== verification/BuyerSignals.thy ===== *)
theory BuyerSignals
  imports GetBidsMessages
begin

text \<open>
  The trusted signals of the buyer: the answer of a key/value server of version 2 in the form of
  version 1 (\<^verbatim>\<open>services/common/clients/kv_server/kv_v2.cc\<close>), the request to it
  (\<^verbatim>\<open>kv_buyer_signals_adapter.cc\<close>), and the parts of the signals the buyer front end uses
  (\<^verbatim>\<open>util/bidding_signals.cc\<close>).
\<close>

subsection \<open>Answers of version 2\<close>

text \<open>
  The signals collected so far are the members of an object. Members whose values are moved away
  belong to groups of one tag only and are not read again.
\<close>

definition MaybeParseJsonStringAndAddValueToIgSignals ::
    "json_text \<Rightarrow> (string \<times> json) list \<Rightarrow> string \<Rightarrow> json \<Rightarrow> (string \<times> json) list" where
  "MaybeParseJsonStringAndAddValueToIgSignals txt ig_signals name v =
     ig_signals @ [(name, case v of
        JString s \<Rightarrow>
          if s \<noteq> [] \<and> (hd s = CHR ''{'' \<or> hd s = CHR ''['')
          then (case ParseJsonString txt s of Inr doc \<Rightarrow> doc | Inl _ \<Rightarrow> v)
          else v
      | _ \<Rightarrow> v)]"

text \<open>One pair of a key and the wrapper of its value.\<close>

definition add_key_value ::
    "json_text \<Rightarrow> string \<Rightarrow> string \<times> json \<Rightarrow> (string \<times> json) list \<Rightarrow> (string \<times> json) list option" where
  "add_key_value txt key_tag kv ig_signals =
     (if map_of ig_signals (fst kv) \<noteq> None \<or> \<not> IsObject (snd kv) then Some ig_signals
      else do {
        m \<leftarrow> FindMember (snd kv) ''value'';
        (case m of
           None \<Rightarrow> Some ig_signals
         | Some v \<Rightarrow>
             if key_tag = ''interestGroupNames''
             then do {
               s \<leftarrow> GetString v;
               Some (case ParseJsonString txt s of
                  Inr ig_value \<Rightarrow> ig_signals @ [(fst kv, ig_value)] | Inl _ \<Rightarrow> ig_signals) }
             else Some (MaybeParseJsonStringAndAddValueToIgSignals txt ig_signals (fst kv) v)) })"

fun add_key_values ::
    "json_text \<Rightarrow> string \<Rightarrow> (string \<times> json) list \<Rightarrow> (string \<times> json) list \<Rightarrow> (string \<times> json) list option" where
  "add_key_values txt key_tag [] ig_signals = Some ig_signals"
| "add_key_values txt key_tag (kv # kvs) ig_signals = do {
     ig_signals' \<leftarrow> add_key_value txt key_tag kv ig_signals;
     add_key_values txt key_tag kvs ig_signals' }"

text \<open>Whether a group has exactly the one tag.\<close>

definition has_tag :: "json \<Rightarrow> string \<Rightarrow> bool option" where
  "has_tag key_group_output key_tag = do {
     tags \<leftarrow> FindMember key_group_output ''tags'';
     (case tags of
        None \<Rightarrow> Some False
      | Some t \<Rightarrow> do {
          ts \<leftarrow> GetArray t;
          (case ts of [x] \<Rightarrow> map_option (\<lambda>s. s = key_tag) (GetString x) | _ \<Rightarrow> Some False) }) }"

fun add_key_groups ::
    "json_text \<Rightarrow> string \<Rightarrow> json list \<Rightarrow> (string \<times> json) list \<Rightarrow> (string \<times> json) list result" where
  "add_key_groups txt key_tag [] ig_signals = Some (Inr ig_signals)"
| "add_key_groups txt key_tag (g # gs) ig_signals = do {
     tagged \<leftarrow> has_tag g key_tag;
     (if \<not> tagged then add_key_groups txt key_tag gs ig_signals
      else do {
        m \<leftarrow> FindMember g ''keyValues'';
        (case m of
           Some (JObject kvs) \<Rightarrow> do {
             ig_signals' \<leftarrow> add_key_values txt key_tag kvs ig_signals;
             add_key_groups txt key_tag gs ig_signals' }
         | _ \<Rightarrow> Some (Inl InvalidArgument)) }) }"

fun add_partitions ::
    "json_text \<Rightarrow> string \<Rightarrow> json list \<Rightarrow> (string \<times> json) list \<Rightarrow> (string \<times> json) list result" where
  "add_partitions txt key_tag [] ig_signals = Some (Inr ig_signals)"
| "add_partitions txt key_tag (po # pos) ig_signals =
     (if \<not> IsObject po then Some (Inl InvalidArgument)
      else do {
        m \<leftarrow> FindMember po ''keyGroupOutputs'';
        (case m of
           Some (JArray gs) \<Rightarrow>
             assign_or_return (add_key_groups txt key_tag gs ig_signals) (add_partitions txt key_tag pos)
         | _ \<Rightarrow> Some (Inl InvalidArgument)) })"

fun GetIgSignalsForKeyTag ::
    "json_text \<Rightarrow> string \<Rightarrow> json list \<Rightarrow> (string \<times> json) list \<Rightarrow> (string \<times> json) list result" where
  "GetIgSignalsForKeyTag txt key_tag [] ig_signals = Some (Inr ig_signals)"
| "GetIgSignalsForKeyTag txt key_tag (doc # docs) ig_signals =
     (case doc of
        JArray pos \<Rightarrow>
          assign_or_return (add_partitions txt key_tag pos ig_signals) (GetIgSignalsForKeyTag txt key_tag docs)
      | _ \<Rightarrow> Some (Inl InvalidArgument))"

fun parse_groups :: "json_text \<Rightarrow> string list \<Rightarrow> status_code + json list" where
  "parse_groups txt [] = Inr []"
| "parse_groups txt (content # contents) = (case ParseJsonString txt content of
     Inl e \<Rightarrow> Inl e
   | Inr doc \<Rightarrow> (case parse_groups txt contents of Inl e \<Rightarrow> Inl e | Inr docs \<Rightarrow> Inr (doc # docs)))"

fun signals_by_tag :: "json_text \<Rightarrow> string list \<Rightarrow> json list \<Rightarrow> (string \<times> json) list result" where
  "signals_by_tag txt [] docs = Some (Inr [])"
| "signals_by_tag txt (key_tag # key_tags) docs =
     assign_or_return (GetIgSignalsForKeyTag txt key_tag docs []) (\<lambda>ig_signals.
     assign_or_return (signals_by_tag txt key_tags docs) (\<lambda>rest.
       Some (Inr (if ig_signals = [] then rest
         else (if key_tag = ''interestGroupNames'' then ''perInterestGroupData'' else key_tag, JObject ig_signals) # rest))))"

text \<open>The contents of the compression groups, in the form of version 1.\<close>

definition ConvertKvV2ResponseToV1String :: "json_text \<Rightarrow> string list \<Rightarrow> string list \<Rightarrow> string result" where
  "ConvertKvV2ResponseToV1String txt key_tags contents =
     assign_or_return (Some (parse_groups txt contents)) (\<lambda>docs.
     assign_or_return (signals_by_tag txt key_tags docs) (\<lambda>top_level_doc.
       if top_level_doc = [] then Some (Inr [])
       else Some (SerializeJsonDoc txt (JObject top_level_doc))))"

definition UseKvV2 :: "ClientType \<Rightarrow> bool \<Rightarrow> bool \<Rightarrow> bool \<Rightarrow> bool" where
  "UseKvV2 client_type v2_browser_enabled is_test_mode_enabled is_tkv_v2_empty =
     (case client_type of
        CLIENT_TYPE_BROWSER \<Rightarrow> v2_browser_enabled
      | CLIENT_TYPE_ANDROID \<Rightarrow> \<not> (is_test_mode_enabled \<and> is_tkv_v2_empty)
      | CLIENT_TYPE_UNKNOWN \<Rightarrow> False)"

subsection \<open>Requests of version 2\<close>

record UDFArgument =
  arg_tag :: string
  arg_keys :: "string list"

record RequestPartition =
  partition_id :: int
  compression_group_id :: int
  arguments :: "UDFArgument list"

record GetValuesRequest =
  client_version :: string
  kv_metadata :: "(string \<times> string) list"
  kv_consented_debug_config :: "ConsentedDebugConfiguration option"
  kv_log_context :: LogContext
  partitions :: "RequestPartition list"

definition client_type_number :: "ClientType \<Rightarrow> int" where
  "client_type_number t = (case t of CLIENT_TYPE_UNKNOWN \<Rightarrow> 0 | CLIENT_TYPE_ANDROID \<Rightarrow> 1 | CLIENT_TYPE_BROWSER \<Rightarrow> 2)"

definition ValidateInterestGroups :: "BuyerInputForBidding \<Rightarrow> status" where
  "ValidateInterestGroups b =
     (if \<exists>ig \<in> set (bib_interest_groups b). igb_bidding_signals_keys ig \<noteq> [] then OkStatus
      else Some InvalidArgument)"

text \<open>A partition is numbered only when it has a key; an interest group without keys keeps number 0.\<close>

definition group_partition :: "int \<Rightarrow> InterestGroupForBidding \<Rightarrow> RequestPartition" where
  "group_partition i ig =
     (let n = if igb_bidding_signals_keys ig = [] then 0 else i in
      \<lparr>partition_id = n, compression_group_id = n,
       arguments = \<lparr>arg_tag = ''interestGroupNames'', arg_keys = [igb_name ig]\<rparr> #
         map (\<lambda>key. \<lparr>arg_tag = ''keys'', arg_keys = [key]\<rparr>) (igb_bidding_signals_keys ig)\<rparr>)"

fun group_partitions :: "int \<Rightarrow> InterestGroupForBidding list \<Rightarrow> RequestPartition list" where
  "group_partitions i [] = []"
| "group_partitions i (ig # igs) = group_partition i ig # group_partitions (i + 1) igs"

definition CreateV2BiddingRequest ::
    "GetBidsRawRequest \<Rightarrow> bool \<Rightarrow> string option \<Rightarrow> status_code + GetValuesRequest" where
  "CreateV2BiddingRequest r propagate_buyer_signals byos_output =
     (case ValidateInterestGroups (buyer_input_for_bidding r) of
        Some e \<Rightarrow> Inl e
      | None \<Rightarrow> Inr \<lparr>
          client_version = ''Bna.PA.Buyer.20240930'',
          kv_metadata = [(''hostname'', gb_publisher_name r),
              (''client_type'', string_of_int (client_type_number (gb_client_type r)))] @
            (case gb_buyer_kv_experiment_group_id r of None \<Rightarrow> [] | Some i \<Rightarrow> [(''experiment_group_id'', string_of_int i)]) @
            (if propagate_buyer_signals then [(''buyer_signals'', gb_buyer_signals r)] else []) @
            (case byos_output of None \<Rightarrow> [] | Some b \<Rightarrow> [(''byos_output'', b)]),
          kv_consented_debug_config = Some (case gb_consented_debug_config r of
              None \<Rightarrow> \<lparr>is_consented = False, token = []\<rparr> | Some c \<Rightarrow> c),
          kv_log_context = gb_log_context r,
          partitions = group_partitions 0 (bib_interest_groups (buyer_input_for_bidding r))\<rparr>)"

subsection \<open>Parts of the signals\<close>

record BiddingSignals =
  trusted_signals :: "string option"
  signals_data_version :: "32 word"
  is_hybrid_v1_return :: bool

definition no_bidding_signals :: BiddingSignals where
  "no_bidding_signals = \<lparr>trusted_signals = None, signals_data_version = 0, is_hybrid_v1_return = False\<rparr>"

definition ConvertV2BiddingSignalsToV1 :: "json_text \<Rightarrow> string list \<Rightarrow> BiddingSignals result" where
  "ConvertV2BiddingSignalsToV1 txt contents =
     assign_or_return (ConvertKvV2ResponseToV1String txt [''keys'', ''interestGroupNames''] contents) (\<lambda>s.
       Some (Inr (no_bidding_signals\<lparr>trusted_signals := Some s\<rparr>)))"

record BiddingSignalJsonComponents =
  bidding_signals :: "json option"
  update_igs :: "UpdateInterestGroup list"
  raw_size :: nat
  per_ig_priority_vectors :: "string \<rightharpoonup> json"

text \<open>
  The update of one interest group and its priority vector; the value of \<^verbatim>\<open>uint32\<close> is stored in an
  \<^verbatim>\<open>int32\<close>. (The vector is moved away, so a second group of the same name finds none; it would
  find the same.)
\<close>

definition parse_group_data ::
    "nat \<Rightarrow> string \<Rightarrow> json \<Rightarrow> BiddingSignalJsonComponents \<Rightarrow> BiddingSignalJsonComponents option" where
  "parse_group_data i name interest_group_doc result = do {
     u \<leftarrow> FindMember interest_group_doc ''updateIfOlderThanMs'';
     pv \<leftarrow> FindMember interest_group_doc ''priorityVector'';
     (let result1 = (case u \<bind> GetUint of
            None \<Rightarrow> result
          | Some ms \<Rightarrow> result\<lparr>update_igs := update_igs result @
              [\<lparr>update_index = to_int32 (int i), update_if_older_than_ms = to_int32 ms\<rparr>]\<rparr>)
      in Some (case pv of
           Some (JObject ms) \<Rightarrow> result1\<lparr>per_ig_priority_vectors :=
             (per_ig_priority_vectors result1)(name \<mapsto> JObject (SanitizePriorityVector ms))\<rparr>
         | _ \<Rightarrow> result1)) }"

fun ParsePerInterestGroupData_loop ::
    "json \<Rightarrow> nat \<Rightarrow> InterestGroupForBidding list \<Rightarrow> BiddingSignalJsonComponents \<Rightarrow> BiddingSignalJsonComponents option" where
  "ParsePerInterestGroupData_loop data i [] result = Some result"
| "ParsePerInterestGroupData_loop data i (ig # igs) result =
     (if igb_name ig = [] then ParsePerInterestGroupData_loop data (Suc i) igs result
      else do {
        m \<leftarrow> FindMember data (igb_name ig);
        result' \<leftarrow> (case m of None \<Rightarrow> Some result | Some doc \<Rightarrow> parse_group_data i (igb_name ig) doc result);
        ParsePerInterestGroupData_loop data (Suc i) igs result' })"

definition ParsePerInterestGroupData ::
    "json \<Rightarrow> BuyerInputForBidding \<Rightarrow> BiddingSignalJsonComponents \<Rightarrow> BiddingSignalJsonComponents option" where
  "ParsePerInterestGroupData data b result =
     (if \<not> IsObject data then Some result
      else ParsePerInterestGroupData_loop data 0 (bib_interest_groups b) result)"

definition ParseTrustedBiddingSignals ::
    "json_text \<Rightarrow> BiddingSignals \<Rightarrow> BuyerInputForBidding \<Rightarrow> BiddingSignalJsonComponents result" where
  "ParseTrustedBiddingSignals txt s b = (case trusted_signals s of
     None \<Rightarrow> Some (Inl InvalidArgument)
   | Some [] \<Rightarrow> Some (Inl InvalidArgument)
   | Some text \<Rightarrow> (case ParseJsonString txt text of
       Inl _ \<Rightarrow> Some (Inl Internal)
     | Inr doc \<Rightarrow> do {
         per_ig \<leftarrow> FindMember doc ''perInterestGroupData'';
         result \<leftarrow> (let result = \<lparr>bidding_signals = None, update_igs = [], raw_size = length text,
               per_ig_priority_vectors = Map.empty\<rparr> in
             case per_ig of None \<Rightarrow> Some result | Some data \<Rightarrow> ParsePerInterestGroupData data b result);
         keys \<leftarrow> FindMember doc ''keys'';
         Some (case keys of
            Some (JObject ms) \<Rightarrow> Inr (result\<lparr>bidding_signals := Some (JObject ms)\<rparr>)
          | _ \<Rightarrow> Inl InvalidArgument) }))"

subsection \<open>Requests of version 1\<close>

record GetBuyerValuesInput =
  bv_keys :: "string set"
  bv_interest_group_names :: "string set"
  bv_hostname :: string
  bv_client_type :: ClientType
  bv_buyer_kv_experiment_group_id :: string

record GetBuyerValuesOutput =
  bv_result :: string
  bv_data_version :: "32 word"
  bv_is_hybrid_v1_return :: bool

definition buyer_values_input :: "GetBidsRawRequest \<Rightarrow> GetBuyerValuesInput" where
  "buyer_values_input r =
     (let groups = (case gb_buyer_input_for_bidding r of
            Some b \<Rightarrow> map (\<lambda>ig. (igb_name ig, igb_bidding_signals_keys ig)) (bib_interest_groups b)
          | None \<Rightarrow> map (\<lambda>ig. (ig_name ig, ig_bidding_signals_keys ig)) (buyer_input_interest_groups r))
      in \<lparr>bv_keys = \<Union> (set ` snd ` set groups), bv_interest_group_names = fst ` set groups,
          bv_hostname = gb_publisher_name r, bv_client_type = gb_client_type r,
          bv_buyer_kv_experiment_group_id =
            (case gb_buyer_kv_experiment_group_id r of None \<Rightarrow> [] | Some i \<Rightarrow> string_of_int i)\<rparr>)"

text \<open>Android drops a version that does not fit into a byte.\<close>

definition buyer_values_signals :: "ClientType \<Rightarrow> GetBuyerValuesOutput \<Rightarrow> BiddingSignals" where
  "buyer_values_signals client_type out =
     (if client_type = CLIENT_TYPE_ANDROID
      then no_bidding_signals\<lparr>trusted_signals := Some (bv_result out),
             signals_data_version := (if bv_data_version out \<le> 255 then bv_data_version out else 0)\<rparr>
      else \<lparr>trusted_signals = Some (bv_result out), signals_data_version = bv_data_version out,
             is_hybrid_v1_return = bv_is_hybrid_v1_return out\<rparr>)"

end
