(* ===== verification/GenerateBidsRequest.thy ===== *)
theory GenerateBidsRequest
  imports BuyerSignals "HOL-Library.Sublist"
begin

text \<open>
  The requests for the bidding service (\<^verbatim>\<open>services/buyer_frontend_service/util/proto_factory.cc\<close>): which
  interest groups take part, and which of the trusted signals each of them sees.
\<close>

fun GetSignalsForIG_loop ::
    "string list \<Rightarrow> json \<Rightarrow> (string \<times> json) list \<Rightarrow> (string \<times> json) list option" where
  "GetSignalsForIG_loop [] signals ig_signals = Some ig_signals"
| "GetSignalsForIG_loop (key # keys) signals ig_signals =
     (if key \<in> fst ` set ig_signals then GetSignalsForIG_loop keys signals ig_signals
      else do {
        m \<leftarrow> FindMember signals key;
        GetSignalsForIG_loop keys signals (case m of None \<Rightarrow> ig_signals | Some v \<Rightarrow> ig_signals @ [(key, v)]) })"

text \<open>The text of the signals and their keys; no text if there are none.\<close>

definition GetSignalsForIG :: "json_text \<Rightarrow> string list \<Rightarrow> json \<Rightarrow> (string \<times> string list) result" where
  "GetSignalsForIG txt keys signals = do {
     ig_signals \<leftarrow> GetSignalsForIG_loop keys signals [];
     (if ig_signals = [] then Some (Inr ([], []))
      else assign_or_return (Some (SerializeJsonDoc txt (JObject ig_signals))) (\<lambda>s.
        Some (Inr (s, map fst ig_signals)))) }"

definition CopyIGFromDeviceToIGForBidding :: "InterestGroupForBidding \<Rightarrow> RequestInterestGroup \<Rightarrow> RequestInterestGroup" where
  "CopyIGFromDeviceToIGForBidding ig r = r\<lparr>
     rig_name := igb_name ig,
     rig_user_bidding_signals := igb_user_bidding_signals ig,
     rig_ad_render_ids := igb_ad_render_ids ig,
     rig_ad_component_render_ids := igb_component_ads ig,
     rig_device_signals := igb_device_signals ig\<rparr>"

definition empty_RequestInterestGroup :: RequestInterestGroup where
  "empty_RequestInterestGroup = \<lparr>rig_name = [], rig_trusted_bidding_signals_keys = [],
     rig_trusted_bidding_signals = [], rig_ad_render_ids = [], rig_ad_component_render_ids = [],
     rig_user_bidding_signals = [], rig_device_signals = No_device_signals_for_bidding\<rparr>"

definition kNullBiddingSignalsJson :: string where
  "kNullBiddingSignalsJson = ''null''"

record PriorityVectorConfig =
  pv_enabled :: bool
  pv_priority_signals :: json
  pv_per_ig_priority_vectors :: "string \<rightharpoonup> json"

record PrepareOptions =
  opt_enable_kanon :: bool
  opt_require_bidding_signals :: bool

text \<open>
  One interest group: the group for the request, if it takes part, and whether its priority filtered
  it out. The status of the signals starts as an error and stays one without signals.
\<close>

definition prepare_group ::
    "json_text \<Rightarrow> json option \<Rightarrow> (string \<rightharpoonup> rat) \<Rightarrow> bool \<Rightarrow> bool \<Rightarrow> InterestGroupForBidding \<Rightarrow>
     (RequestInterestGroup option \<times> bool) option" where
  "prepare_group txt signals priorities enabled required ig =
     (if igb_name ig = [] \<or> (required \<and> igb_bidding_signals_keys ig = []) then Some (None, False)
      else if enabled \<and> (case priorities (igb_name ig) of None \<Rightarrow> 0 | Some p \<Rightarrow> p) < 0 then Some (None, True)
      else do {
        parsed_signals \<leftarrow> (case signals of
            None \<Rightarrow> Some (Inl Unknown)
          | Some obj \<Rightarrow> GetSignalsForIG txt (igb_bidding_signals_keys ig) obj);
        Some (case parsed_signals of
           Inr (c # s, keys) \<Rightarrow>
             (Some (CopyIGFromDeviceToIGForBidding ig (empty_RequestInterestGroup\<lparr>
                rig_trusted_bidding_signals_keys := keys, rig_trusted_bidding_signals := c # s\<rparr>)), False)
         | _ \<Rightarrow>
             if required then (None, False)
             else (Some (CopyIGFromDeviceToIGForBidding ig (empty_RequestInterestGroup\<lparr>
                rig_trusted_bidding_signals := kNullBiddingSignalsJson\<rparr>)), False)) })"

fun prepare_groups ::
    "json_text \<Rightarrow> json option \<Rightarrow> (string \<rightharpoonup> rat) \<Rightarrow> bool \<Rightarrow> bool \<Rightarrow> InterestGroupForBidding list \<Rightarrow>
     (RequestInterestGroup list \<times> nat) option" where
  "prepare_groups txt signals priorities enabled required [] = Some ([], 0)"
| "prepare_groups txt signals priorities enabled required (ig # igs) = do {
     (g, filtered) \<leftarrow> prepare_group txt signals priorities enabled required ig;
     (gs, n) \<leftarrow> prepare_groups txt signals priorities enabled required igs;
     Some ((case g of None \<Rightarrow> gs | Some x \<Rightarrow> x # gs), (if filtered then Suc n else n)) }"

text \<open>The limit on bids per group and the k-anonymity flag.\<close>

definition multi_bid_limit :: "GetBidsRawRequest \<Rightarrow> bool \<Rightarrow> int" where
  "multi_bid_limit r kanon =
     (if kanon \<and> gb_multi_bid_limit r > 0 then gb_multi_bid_limit r else kDefaultMultiBidLimit)"

definition PrepareGenerateBidsRequest ::
    "json_text \<Rightarrow> GetBidsRawRequest \<Rightarrow> json option \<Rightarrow> 32 word \<Rightarrow> PriorityVectorConfig \<Rightarrow> PrepareOptions \<Rightarrow>
     (GenerateBidsRawRequest \<times> rat \<times> json) option" where
  "PrepareGenerateBidsRequest txt r signals data_version pv options = do {
     let igs = bib_interest_groups (buyer_input_for_bidding r);
     (doc, priorities) \<leftarrow> (if pv_enabled pv
       then CalculateInterestGroupPriorities (pv_priority_signals pv) (buyer_input_for_bidding r) (pv_per_ig_priority_vectors pv)
       else Some (pv_priority_signals pv, Map.empty));
     (groups, num_filtered_igs) \<leftarrow>
       prepare_groups txt signals priorities (pv_enabled pv) (opt_require_bidding_signals options) igs;
     Some (\<lparr>gn_interest_group_for_bidding = groups,
       gn_auction_signals = gb_auction_signals r,
       gn_buyer_signals = gb_buyer_signals r,
       gn_enable_debug_reporting = gb_enable_debug_reporting r,
       gn_seller = gb_seller r,
       gn_publisher_name = gb_publisher_name r,
       gn_log_context = gb_log_context r,
       gn_consented_debug_config = gb_consented_debug_config r,
       gn_top_level_seller = gb_top_level_seller r,
       gn_multi_bid_limit = multi_bid_limit r (opt_enable_kanon options),
       gn_enforce_kanon = (opt_enable_kanon options \<and> gb_enforce_kanon r),
       gn_data_version = data_version,
       gn_is_sampled_for_debug = False,
       gn_blob_versions = gb_blob_versions r\<rparr>,
       of_nat num_filtered_igs / of_nat (max 1 (length igs)), doc) }"

definition CreateGenerateProtectedAppSignalsBidsRawRequest ::
    "GetBidsRawRequest \<Rightarrow> bool \<Rightarrow> GenerateProtectedAppSignalsBidsRawRequest" where
  "CreateGenerateProtectedAppSignalsBidsRawRequest r kanon = \<lparr>
     gp_auction_signals = gb_auction_signals r,
     gp_buyer_signals = gb_buyer_signals r,
     gp_protected_app_signals =
       (case gb_protected_app_signals_buyer_input r \<bind> pasbi_protected_app_signals of
          None \<Rightarrow> default_ProtectedAppSignals | Some p \<Rightarrow> p),
     gp_seller = gb_seller r,
     gp_publisher_name = gb_publisher_name r,
     gp_log_context = gb_log_context r,
     gp_consented_debug_config = gb_consented_debug_config r,
     gp_enable_debug_reporting = gb_enable_debug_reporting r,
     gp_contextual_protected_app_signals_data =
       gb_protected_app_signals_buyer_input r \<bind> contextual_protected_app_signals_data,
     gp_enable_unlimited_egress = gb_enable_unlimited_egress r,
     gp_multi_bid_limit = multi_bid_limit r kanon,
     gp_enforce_kanon = (kanon \<and> gb_enforce_kanon r),
     gp_is_sampled_for_debug = False,
     gp_blob_versions = gb_blob_versions r,
     gp_top_level_seller = gb_top_level_seller r\<rparr>"

subsection \<open>Signals of a group\<close>

lemma map_of_eq_restrict_None: "map_of ms = map_of all |` S \<Longrightarrow> k \<in> S \<Longrightarrow> k \<notin> fst ` set ms \<Longrightarrow> map_of all k = None"
  by (metis map_of_eq_None_iff restrict_in)

lemma GetSignalsForIG_loop_correct:
  assumes "distinct (map fst ms)" and "map_of ms = map_of all |` S"
  shows "\<exists>ms'. GetSignalsForIG_loop keys (JObject all) ms = Some ms' \<and> distinct (map fst ms') \<and>
    map_of ms' = map_of all |` (S \<union> set keys)"
  using assms
proof (induction keys arbitrary: ms S)
  case Nil
  then show ?case by simp
next
  case (Cons key keys)
  show ?case
  proof (cases "key \<in> fst ` set ms")
    case True
    then have "key \<in> dom (map_of all |` S)" by (metis Cons.prems(2) dom_map_of_conv_image_fst)
    then have "key \<in> S" by (simp add: dom_restrict)
    then have "S \<union> set (key # keys) = S \<union> set keys" by auto
    with Cons.IH [OF Cons.prems] True show ?thesis by simp
  next
    case False
    show ?thesis
    proof (cases "map_of all key")
      case None
      then have "map_of ms = map_of all |` (insert key S)"
        using Cons.prems(2) by (auto simp: restrict_map_def fun_eq_iff)
      from Cons.IH [OF Cons.prems(1) this] False None show ?thesis by simp
    next
      case (Some v)
      have "map_of (ms @ [(key, v)]) = map_of all |` (insert key S)"
      proof
        fix k
        have "map_of ms k = (map_of all |` S) k" using Cons.prems(2) by simp
        moreover have "key \<notin> S" using Some False map_of_eq_restrict_None [OF Cons.prems(2)] by auto
        ultimately show "map_of (ms @ [(key, v)]) k = (map_of all |` (insert key S)) k"
          using Some by (auto simp: restrict_map_def map_add_def split: option.split)
      qed
      moreover have "distinct (map fst (ms @ [(key, v)]))" using Cons.prems(1) False by simp
      ultimately show ?thesis using Cons.IH [of "ms @ [(key, v)]" "insert key S"] False Some by auto
    qed
  qed
qed

text \<open>What the request may show of the trusted signals to one interest group.\<close>

definition shows_group ::
    "json_text \<Rightarrow> (string \<times> json) list \<Rightarrow> InterestGroupForBidding \<Rightarrow> RequestInterestGroup \<Rightarrow> bool" where
  "shows_group txt all ig g \<longleftrightarrow>
     rig_name g = igb_name ig \<and> rig_user_bidding_signals g = igb_user_bidding_signals ig \<and>
     rig_ad_render_ids g = igb_ad_render_ids ig \<and> rig_ad_component_render_ids g = igb_component_ads ig \<and>
     rig_device_signals g = igb_device_signals ig \<and>
     (if \<exists>k \<in> set (igb_bidding_signals_keys ig). map_of all k \<noteq> None
      then \<exists>ms. SerializeJsonDoc txt (JObject ms) = Inr (rig_trusted_bidding_signals g) \<and>
        map fst ms = rig_trusted_bidding_signals_keys g \<and> distinct (map fst ms) \<and>
        map_of ms = map_of all |` set (igb_bidding_signals_keys ig)
      else rig_trusted_bidding_signals g = kNullBiddingSignalsJson \<and> rig_trusted_bidding_signals_keys g = [])"

text \<open>The groups that take part, and those their priority filters out.\<close>

definition filtered_out :: "bool \<Rightarrow> (InterestGroupForBidding \<Rightarrow> rat) \<Rightarrow> bool \<Rightarrow> InterestGroupForBidding \<Rightarrow> bool" where
  "filtered_out enabled priority required ig \<longleftrightarrow>
     igb_name ig \<noteq> [] \<and> \<not> (required \<and> igb_bidding_signals_keys ig = []) \<and> enabled \<and> priority ig < 0"

definition takes_part ::
    "bool \<Rightarrow> (InterestGroupForBidding \<Rightarrow> rat) \<Rightarrow> bool \<Rightarrow> (string \<times> json) list \<Rightarrow> InterestGroupForBidding \<Rightarrow> bool" where
  "takes_part enabled priority required all ig \<longleftrightarrow>
     igb_name ig \<noteq> [] \<and> \<not> (enabled \<and> priority ig < 0) \<and>
     (required \<longrightarrow> (\<exists>k \<in> set (igb_bidding_signals_keys ig). map_of all k \<noteq> None))"

lemma GetSignalsForIG_correct:
  assumes "\<And>ms. \<exists>c s. SerializeJsonDoc txt (JObject ms) = Inr (c # s)"
  shows "if \<exists>k \<in> set keys. map_of all k \<noteq> None
    then \<exists>ms c s. GetSignalsForIG txt keys (JObject all) = Some (Inr (c # s, map fst ms)) \<and>
      SerializeJsonDoc txt (JObject ms) = Inr (c # s) \<and> distinct (map fst ms) \<and> map_of ms = map_of all |` set keys
    else GetSignalsForIG txt keys (JObject all) = Some (Inr ([], []))"
proof -
  obtain ms where loop: "GetSignalsForIG_loop keys (JObject all) [] = Some ms" and d: "distinct (map fst ms)"
    and m: "map_of ms = map_of all |` set keys"
    using GetSignalsForIG_loop_correct [of "[]" all "{}" keys] by auto
  obtain c s where print: "SerializeJsonDoc txt (JObject ms) = Inr (c # s)" using assms by blast
  have nil: "ms = [] \<longleftrightarrow> \<not> (\<exists>k \<in> set keys. map_of all k \<noteq> None)"
  proof -
    have "ms = [] \<longleftrightarrow> map_of ms = Map.empty" by (cases ms) auto
    then show ?thesis unfolding m by (auto simp: restrict_map_def fun_eq_iff)
  qed
  show ?thesis using loop d m print nil by (auto simp: GetSignalsForIG_def)
qed

lemma prepare_group_correct:
  assumes "\<And>ms. \<exists>c s. SerializeJsonDoc txt (JObject ms) = Inr (c # s)"
    and "enabled \<Longrightarrow> priorities (igb_name ig) = Some (priority ig)"
  shows "\<exists>g. prepare_group txt (Some (JObject all)) priorities enabled required ig =
      Some (g, filtered_out enabled priority required ig) \<and>
    (if takes_part enabled priority required all ig then \<exists>x. g = Some x \<and> shows_group txt all ig x else g = None)"
proof (cases "igb_name ig = [] \<or> (required \<and> igb_bidding_signals_keys ig = []) \<or> (enabled \<and> priority ig < 0)")
  case True
  with assms(2) show ?thesis
    by (auto simp: prepare_group_def filtered_out_def takes_part_def)
next
  case False
  let ?keys = "igb_bidding_signals_keys ig"
  note G = GetSignalsForIG_correct [OF assms(1), of ?keys all]
  show ?thesis
  proof (cases "\<exists>k \<in> set ?keys. map_of all k \<noteq> None")
    case True
    with G obtain ms c s where ms: "GetSignalsForIG txt ?keys (JObject all) = Some (Inr (c # s, map fst ms))"
      "SerializeJsonDoc txt (JObject ms) = Inr (c # s)" "distinct (map fst ms)" "map_of ms = map_of all |` set ?keys"
      by auto
    let ?x = "CopyIGFromDeviceToIGForBidding ig (empty_RequestInterestGroup\<lparr>
      rig_trusted_bidding_signals_keys := map fst ms, rig_trusted_bidding_signals := c # s\<rparr>)"
    have "shows_group txt all ig ?x"
      using True ms(2-4) by (auto simp: shows_group_def CopyIGFromDeviceToIGForBidding_def)
    with True False assms(2) ms(1) show ?thesis
      by (auto simp: prepare_group_def filtered_out_def takes_part_def)
  next
    case none: False
    let ?x = "CopyIGFromDeviceToIGForBidding ig (empty_RequestInterestGroup\<lparr>
      rig_trusted_bidding_signals := kNullBiddingSignalsJson\<rparr>)"
    have "shows_group txt all ig ?x"
      using none by (auto simp: shows_group_def CopyIGFromDeviceToIGForBidding_def empty_RequestInterestGroup_def)
    with none False assms(2) G show ?thesis
      by (auto simp: prepare_group_def filtered_out_def takes_part_def)
  qed
qed

lemma prepare_groups_correct:
  assumes "\<And>ms. \<exists>c s. SerializeJsonDoc txt (JObject ms) = Inr (c # s)"
    and "\<And>ig. enabled \<Longrightarrow> ig \<in> set igs \<Longrightarrow> priorities (igb_name ig) = Some (priority ig)"
  shows "\<exists>gs. prepare_groups txt (Some (JObject all)) priorities enabled required igs =
      Some (gs, length (filter (filtered_out enabled priority required) igs)) \<and>
    list_all2 (shows_group txt all) (filter (takes_part enabled priority required all) igs) gs"
  using assms(2)
proof (induction igs)
  case (Cons ig igs)
  from prepare_group_correct [OF assms(1), where enabled = enabled and priorities = priorities and ig = ig
      and priority = priority and all = all and required = required] Cons.prems
  obtain g where g: "prepare_group txt (Some (JObject all)) priorities enabled required ig =
      Some (g, filtered_out enabled priority required ig)"
    "if takes_part enabled priority required all ig then \<exists>x. g = Some x \<and> shows_group txt all ig x else g = None"
    by auto
  from Cons.IH Cons.prems obtain gs where "prepare_groups txt (Some (JObject all)) priorities enabled required igs =
      Some (gs, length (filter (filtered_out enabled priority required) igs))"
    "list_all2 (shows_group txt all) (filter (takes_part enabled priority required all) igs) gs" by auto
  with g show ?case by (auto split: if_split_asm)
qed simp


subsection \<open>An example\<close>

text \<open>Two groups of the same key, the second with a negative priority.\<close>

definition sample_request :: GetBidsRawRequest where
  "sample_request = \<lparr>gb_is_chaff = False, gb_buyer_input = None, gb_auction_signals = ''auction'',
     gb_buyer_signals = ''buyer'', gb_seller = ''seller'', gb_publisher_name = ''publisher'',
     gb_enable_debug_reporting = False, gb_log_context = \<lparr>generation_id = ''id'', adtech_debug_id = []\<rparr>,
     gb_consented_debug_config = None, gb_protected_app_signals_buyer_input = None,
     gb_client_type = CLIENT_TYPE_BROWSER, gb_top_level_seller = [], gb_buyer_kv_experiment_group_id = None,
     gb_enable_unlimited_egress = False, gb_multi_bid_limit = 0, gb_enforce_kanon = False,
     gb_priority_signals = [], gb_blob_versions = None, gb_buyer_input_for_bidding = Some sample_input\<rparr>"

definition sample_txt :: json_text where
  "sample_txt = \<lparr>ParseJsonString = (\<lambda>s. Inl InvalidArgument), SerializeJsonDoc = (\<lambda>j. Inr ''{...}'')\<rparr>"

definition sample_pv :: PriorityVectorConfig where
  "sample_pv = \<lparr>pv_enabled = True, pv_priority_signals = JObject [(''sports'', JInt 7)],
     pv_per_ig_priority_vectors = sample_vectors\<rparr>"


end
