(* ===== verification/AsyncTaskTracker.thy ===== *)
theory AsyncTaskTracker
  imports Main
begin

text \<open>
  The tracker of asynchronous tasks (\<^verbatim>\<open>services/common/util/async_task_tracker.cc\<close>): it counts the
  completions of a known number of tasks and calls back once, when the last one is in. Its lock makes
  every completion one step; the callback runs after the lock is released.
\<close>

datatype TaskStatus = TASK_UNKNOWN | SKIPPED | EMPTY_RESPONSE | CANCELLED | ERROR | SUCCESS

record AsyncTaskTracker =
  num_tasks_to_track :: int
  pending_tasks_count :: int
  successful_tasks_count :: int
  empty_tasks_count :: int
  skipped_tasks_count :: int
  error_tasks_count :: int
  cancelled_tasks_count :: int

definition new_tracker :: "int \<Rightarrow> AsyncTaskTracker" where
  "new_tracker n = \<lparr>num_tasks_to_track = n, pending_tasks_count = n, successful_tasks_count = 0,
     empty_tasks_count = 0, skipped_tasks_count = 0, error_tasks_count = 0, cancelled_tasks_count = 0\<rparr>"

definition SetNumTasksToTrack :: "int \<Rightarrow> AsyncTaskTracker \<Rightarrow> AsyncTaskTracker" where
  "SetNumTasksToTrack n t = t\<lparr>num_tasks_to_track := n, pending_tasks_count := n, successful_tasks_count := 0,
     empty_tasks_count := 0, skipped_tasks_count := 0, error_tasks_count := 0, cancelled_tasks_count := 0\<rparr>"

definition AnyTaskSuccessfullyCompleted :: "AsyncTaskTracker \<Rightarrow> bool" where
  "AnyTaskSuccessfullyCompleted t \<longleftrightarrow>
     successful_tasks_count t > 0 \<or> (empty_tasks_count t > 0 \<or> skipped_tasks_count t > 0) \<or> error_tasks_count t = 0"

text \<open>The tracker afterwards, and the argument of the callback if this was the last task.\<close>

definition TaskCompleted :: "TaskStatus \<Rightarrow> AsyncTaskTracker \<Rightarrow> AsyncTaskTracker \<times> bool option" where
  "TaskCompleted task_status t =
     (let t1 = t\<lparr>pending_tasks_count := pending_tasks_count t - 1\<rparr>;
          t2 = (case task_status of
              ERROR \<Rightarrow> t1\<lparr>error_tasks_count := error_tasks_count t1 + 1\<rparr>
            | EMPTY_RESPONSE \<Rightarrow> t1\<lparr>empty_tasks_count := empty_tasks_count t1 + 1\<rparr>
            | SKIPPED \<Rightarrow> t1\<lparr>skipped_tasks_count := skipped_tasks_count t1 + 1\<rparr>
            | CANCELLED \<Rightarrow> t1\<lparr>cancelled_tasks_count := cancelled_tasks_count t1 + 1\<rparr>
            | SUCCESS \<Rightarrow> t1\<lparr>successful_tasks_count := successful_tasks_count t1 + 1\<rparr>
            | TASK_UNKNOWN \<Rightarrow> t1)
      in (t2, if pending_tasks_count t2 = 0 then Some (AnyTaskSuccessfullyCompleted t2) else None))"

subsection \<open>Runs of completions\<close>

fun complete_all :: "TaskStatus list \<Rightarrow> AsyncTaskTracker \<Rightarrow> bool list" where
  "complete_all [] t = []"
| "complete_all (s # ss) t = (case TaskCompleted s t of
     (t', None) \<Rightarrow> complete_all ss t'
   | (t', Some b) \<Rightarrow> b # complete_all ss t')"

definition verdict :: "TaskStatus list \<Rightarrow> bool" where
  "verdict ss \<longleftrightarrow> (\<exists>s \<in> set ss. s \<in> {SUCCESS, EMPTY_RESPONSE, SKIPPED}) \<or> ERROR \<notin> set ss"

text \<open>The counters after some completions.\<close>

definition counted :: "TaskStatus list \<Rightarrow> int \<Rightarrow> AsyncTaskTracker \<Rightarrow> bool" where
  "counted ss n t \<longleftrightarrow> pending_tasks_count t = n - int (length ss) \<and>
     successful_tasks_count t = int (length (filter ((=) SUCCESS) ss)) \<and>
     empty_tasks_count t = int (length (filter ((=) EMPTY_RESPONSE) ss)) \<and>
     skipped_tasks_count t = int (length (filter ((=) SKIPPED) ss)) \<and>
     error_tasks_count t = int (length (filter ((=) ERROR) ss))"

lemma counted_verdict: "counted ss n t \<Longrightarrow> AnyTaskSuccessfullyCompleted t \<longleftrightarrow> verdict ss"
  by (auto simp: counted_def AnyTaskSuccessfullyCompleted_def verdict_def filter_empty_conv)

lemma TaskCompleted_counted:
  assumes "counted ss n t" and "TaskCompleted s t = (t', r)"
  shows "counted (ss @ [s]) n t' \<and>
    r = (if int (length ss) + 1 = n then Some (verdict (ss @ [s])) else None)"
proof -
  have t': "t' = fst (TaskCompleted s t)" using assms(2) by simp
  have c: "counted (ss @ [s]) n t'"
    using assms(1) unfolding t' by (cases s) (simp_all add: TaskCompleted_def counted_def Let_def)
  moreover have "r = (if pending_tasks_count t' = 0 then Some (AnyTaskSuccessfullyCompleted t') else None)"
    using assms(2) by (auto simp: TaskCompleted_def Let_def)
  moreover have "pending_tasks_count t' = n - int (length ss) - 1" using c by (simp add: counted_def)
  ultimately show ?thesis using counted_verdict [OF c] by simp
qed

lemma complete_all_counted:
  assumes "counted ss (int n) t"
  shows "complete_all ss' t =
    (if length ss < n \<and> n \<le> length ss + length ss' then [verdict (take n (ss @ ss'))] else [])"
  using assms
proof (induction ss' arbitrary: ss t)
  case (Cons s ss')
  obtain t' r where tc: "TaskCompleted s t = (t', r)" by (cases "TaskCompleted s t")
  from TaskCompleted_counted [OF Cons.prems tc] have c: "counted (ss @ [s]) (int n) t'"
    and r: "r = (if Suc (length ss) = n then Some (verdict (ss @ [s])) else None)" by auto
  from Cons.IH [OF c] tc r show ?case by (auto split: option.split)
qed simp

text \<open>What reactors need of a completion, and of the number of their open tasks.\<close>

lemma TaskCompleted_counts: "TaskCompleted st t = (t', r) \<Longrightarrow>
    pending_tasks_count t' = pending_tasks_count t - 1 \<and> (r = None \<longleftrightarrow> pending_tasks_count t \<noteq> 1)"
  by (cases st) (auto simp: TaskCompleted_def Let_def)

lemma no_tasks: "int n + int (length xs) \<le> 0 \<longleftrightarrow> n = 0 \<and> xs = []"
  by (cases xs) auto

lemma no_tasks_eq: "int n + int (length xs) = 0 \<longleftrightarrow> n = 0 \<and> xs = []"
  using no_tasks [of n xs] by auto

lemma counted_start: "counted [] n (SetNumTasksToTrack n t)"
  by (simp add: counted_def SetNumTasksToTrack_def)

text \<open>The callback of a tracker set to some tasks runs exactly when the last of them completes, and
  never again, whatever the order of the completions and whatever comes afterwards; it is told that
  something succeeded iff some task did, was empty or was skipped, or none failed. For no tasks it
  never runs.\<close>

theorem tracker_calls_back_once:
  "complete_all ss (SetNumTasksToTrack (int n) t) =
    (if 0 < n \<and> n \<le> length ss then [verdict (take n ss)] else [])"
  using complete_all_counted [OF counted_start] by simp

end
