(* ===== verification/RequestMetadata.thy ===== *)
theory RequestMetadata
  imports Prelude "HOL-Library.Sublist"
begin

text \<open>
  Forwarding of request headers (\<^verbatim>\<open>services/common/util/request_metadata.{h,cc}\<close>): a header is passed on
  under its target name if the source has it, and an illegal character rejects the request.
\<close>

definition IsValidHeaderKey :: "string \<Rightarrow> bool" where
  "IsValidHeaderKey candidate_key = list_all (\<lambda>c. let i = (of_char c :: nat) in
     (97 \<le> i \<and> i \<le> 122) \<or> (48 \<le> i \<and> i \<le> 57) \<or> c \<in> {CHR ''-'', CHR ''_'', CHR ''.''}) candidate_key"

definition IsValidHeaderValue :: "string \<Rightarrow> bool" where
  "IsValidHeaderValue candidate_value = list_all (\<lambda>c. let i = (of_char c :: nat) in 32 \<le> i \<and> i \<le> 126) candidate_value"

definition IsValidHeader :: "string \<Rightarrow> string \<Rightarrow> bool" where
  "IsValidHeader candidate_key candidate_value \<longleftrightarrow> IsValidHeaderKey candidate_key \<and> IsValidHeaderValue candidate_value"

definition AsciiStrToLower :: "string \<Rightarrow> string" where
  "AsciiStrToLower s = map (\<lambda>c. let i = (of_char c :: nat) in if 65 \<le> i \<and> i \<le> 90 then char_of (i + 32) else c) s"

text \<open>\<open>client_metadata\<close> is a multimap; the first entry of a key is found.\<close>

fun GrpcMetadataToRequestMetadata ::
    "(string \<times> string) list \<Rightarrow> (string \<times> string) list \<Rightarrow> (string \<rightharpoonup> string) \<Rightarrow> status_code + (string \<rightharpoonup> string)" where
  "GrpcMetadataToRequestMetadata client_metadata [] mapped_metadata = Inr mapped_metadata"
| "GrpcMetadataToRequestMetadata client_metadata ((src, dst) # source_target_key_map) mapped_metadata =
     (case map_of client_metadata (AsciiStrToLower src) of
        None \<Rightarrow> GrpcMetadataToRequestMetadata client_metadata source_target_key_map mapped_metadata
      | Some v \<Rightarrow>
          if \<not> IsValidHeaderValue v then Inl InvalidArgument
          else GrpcMetadataToRequestMetadata client_metadata source_target_key_map (try_emplace mapped_metadata dst v))"

lemma metadata_kept:
  "GrpcMetadataToRequestMetadata md ks m = Inr m' \<Longrightarrow> m k = Some w \<Longrightarrow> m' k = Some w"
proof (induction md ks m rule: GrpcMetadataToRequestMetadata.induct)
  case (2 md src dst ks m)
  have "try_emplace m dst v k = Some w" for v using "2.prems"(2) by auto
  with 2 show ?case by (auto simp del: try_emplace_apply split: option.split_asm if_split_asm)
qed simp

text \<open>Only the listed headers are passed on, and only printable values.\<close>

lemma forwarded_headers:
  assumes "GrpcMetadataToRequestMetadata md keys m = Inr m'" and "m' k = Some v" and "m k = None"
  shows "IsValidHeaderValue v \<and> (\<exists>src. (src, k) \<in> set keys \<and> map_of md (AsciiStrToLower src) = Some v)"
  using assms
proof (induction md keys m rule: GrpcMetadataToRequestMetadata.induct)
  case (2 md src dst keys m)
  show ?case
  proof (cases "map_of md (AsciiStrToLower src)")
    case None
    with 2 show ?thesis by auto
  next
    case (Some w)
    with "2.prems"(1) have ok: "IsValidHeaderValue w" by (auto split: if_split_asm)
    show ?thesis
    proof (cases "k = dst")
      case True
      with Some ok "2.prems" have "v = w" by (auto dest: metadata_kept)
      with True Some ok show ?thesis by auto
    next
      case False
      with "2.prems"(3) have "try_emplace m dst w k = None" by simp
      with 2 Some ok show ?thesis by (auto simp del: try_emplace_apply)
    qed
  qed
qed simp

end
