(* ===== verification/GetBids.thy ===== *)
theory GetBids
  imports GenerateBidsRequest AsyncTaskTracker Transcoding RequestMetadata AsyncCall DispatchMessages
begin

text \<open>
  The reactor of the buyer front end (\<^verbatim>\<open>services/buyer_frontend_service/get_bids_unary_reactor.cc\<close>, built
  without \<^verbatim>\<open>MICROSOFT_AD_SELECTION_BUILD\<close>): it decrypts a request, fetches trusted signals, asks the
  bidding service for bids of both kinds and answers when all of them are in. The state is that of the
  reactor; the calls it makes are recorded, and each open call is a callback that waits. Handlers run
  one at a time; whether the client has cancelled is a flag that each delivery sets. What is sent and received is opaque where the reactor does not look into it: bids are
  of type \<open>'bid\<close> and \<open>'pas\<close>.
\<close>

subsection \<open>State\<close>

datatype ('bid, 'pas) outgoing =
    Get_bidding_signals GetBuyerValuesInput "string \<rightharpoonup> string"
  | Kv_lookup GetValuesRequest
  | Generate_bids GenerateBidsRawRequest
  | Generate_pas_bids GenerateProtectedAppSignalsBidsRawRequest "string \<rightharpoonup> string"
  | Run_after nat
  | Finish "status"

datatype callback = BiddingSignalsCallback bool | KvLookupCallback | GenerateBidsCallback | PASBidsCallback | ChaffTimer

text \<open>
  The parts outside the reactor: text and messages, cryptography, the clients (with the status they
  return when a call is started; a client that was not provided is \<open>None\<close>) and the random choice of
  the duration and size of a chaff response, if there is a generator. A non-production build has a
  token by which it consents to every request.
\<close>

record ('bid, 'pas) get_bids_env =
  env_txt :: json_text
  env_gzip :: gzip
  SimpleAtoi :: "string \<Rightarrow> int option"
  parse_request :: "byte list \<Rightarrow> GetBidsRawRequest option"
  serialize_response :: "('bid, 'pas) GetBidsRawResponse \<Rightarrow> byte list"
  GetPrivateKey :: "string \<Rightarrow> string option"
  HpkeDecrypt :: "string \<Rightarrow> byte list \<Rightarrow> status_code + HpkeDecryptResponse"
  AeadEncrypt :: "byte list \<Rightarrow> string \<Rightarrow> status_code + byte list"
  signals_provider :: "(GetBuyerValuesInput \<Rightarrow> status) option"
  kv_client :: "(GetValuesRequest \<Rightarrow> status) option"
  bidding_client :: "GenerateBidsRawRequest \<Rightarrow> status"
  pas_bidding_client :: "GenerateProtectedAppSignalsBidsRawRequest \<Rightarrow> status"
  chaff_choice :: "(nat \<times> nat) option"
  server_token :: "string option"

record GetBidsRequest =
  key_id :: string
  request_ciphertext :: "byte list"

record ('bid, 'pas) get_bids =
  config :: GetBidsConfig
  client_metadata :: "(string \<times> string) list"
  raw_request :: GetBidsRawRequest
  decrypt_status :: status
  compression_type :: CompressionType
  use_new_payload_encoding :: bool
  secret :: string
  is_sampled_for_debug :: bool
  kv_md :: "string \<rightharpoonup> string"
  bidding_md :: "string \<rightharpoonup> string"
  priority_signals_vector :: json
  tracker :: AsyncTaskTracker
  bid_errors :: "status_code list"
  raw_response :: "('bid, 'pas) GetBidsRawResponse"
  should_export_debug :: bool
  response_ciphertext :: "byte list option"
  is_cancelled :: bool
  sent :: "('bid, 'pas) outgoing list"
  waiting :: "callback list"

definition enable_enforce_kanon :: "('bid, 'pas) get_bids \<Rightarrow> bool" where
  "enable_enforce_kanon s \<longleftrightarrow> enable_kanon (config s) \<and> gb_enforce_kanon (raw_request s)"

definition FinishWithStatus :: "status \<Rightarrow> ('bid, 'pas) get_bids \<Rightarrow> ('bid, 'pas) get_bids" where
  "FinishWithStatus st s = s\<lparr>sent := sent s @ [Finish st]\<rparr>"

definition call :: "('bid, 'pas) outgoing \<Rightarrow> callback \<Rightarrow> ('bid, 'pas) get_bids \<Rightarrow> ('bid, 'pas) get_bids" where
  "call m cb s = s\<lparr>sent := sent s @ [m], waiting := waiting s @ [cb]\<rparr>"

subsection \<open>Construction\<close>

definition GetCompressionType :: "('bid, 'pas) get_bids_env \<Rightarrow> (string \<times> string) list \<Rightarrow> status_code + CompressionType" where
  "GetCompressionType e md = (case map_of md ''bidding-auction-compression-type'' of
     None \<Rightarrow> ToCompressionType 0
   | Some v \<Rightarrow> (case SimpleAtoi e v of None \<Rightarrow> Inl InvalidArgument | Some i \<Rightarrow> ToCompressionType i))"

text \<open>The request, its compression and whether it uses the new encoding; the first byte of an empty payload is undefined.\<close>

definition ParseRawRequestBytestring ::
    "('bid, 'pas) get_bids_env \<Rightarrow> GetBidsConfig \<Rightarrow> (string \<times> string) list \<Rightarrow> byte list \<Rightarrow>
     (GetBidsRawRequest \<times> CompressionType \<times> bool) result" where
  "ParseRawRequestBytestring e c md payload =
     assign_or_return (Some (GetCompressionType e md)) (\<lambda>t.
       if t \<noteq> kUncompressed
       then (case Decompress (env_gzip e) payload t of
           Inl _ \<Rightarrow> Some (Inl InvalidArgument)
         | Inr decompressed \<Rightarrow> (case parse_request e decompressed of
             None \<Rightarrow> Some (Inl InvalidArgument) | Some r \<Rightarrow> Some (Inr (r, t, False))))
       else do {
         new_format \<leftarrow> (if is_chaffing_enabled c
           then (case payload of [] \<Rightarrow> None | b # _ \<Rightarrow> Some (b = 0 \<or> b = 1)) else Some False);
         (if new_format
          then (case DecodeGetBidsPayload (env_gzip e) (parse_request e) payload of
              Inl _ \<Rightarrow> Some (Inl InvalidArgument)
            | Inr d \<Rightarrow>
                if payload_version d \<noteq> 0 then Some (Inl InvalidArgument)
                else Some (Inr (get_bids_proto d, payload_compression_type d, True)))
          else (case parse_request e payload of
              None \<Rightarrow> Some (Inl InvalidArgument) | Some r \<Rightarrow> Some (Inr (r, t, False)))) })"

definition DecryptRequest ::
    "('bid, 'pas) get_bids_env \<Rightarrow> GetBidsConfig \<Rightarrow> (string \<times> string) list \<Rightarrow> GetBidsRequest \<Rightarrow>
     (string \<times> GetBidsRawRequest \<times> CompressionType \<times> bool) result" where
  "DecryptRequest e c md request =
     (if key_id request = [] then Some (Inl InvalidArgument)
      else if request_ciphertext request = [] then Some (Inl InvalidArgument)
      else (case GetPrivateKey e (key_id request) of
          None \<Rightarrow> Some (Inl InvalidArgument)
        | Some private_key \<Rightarrow> (case HpkeDecrypt e private_key (request_ciphertext request) of
            Inl _ \<Rightarrow> Some (Inl InvalidArgument)
          | Inr d \<Rightarrow> assign_or_return (ParseRawRequestBytestring e c md (hpke_payload d)) (\<lambda>p.
              Some (Inr (hpke_secret d, p))))))"

definition consent_to_all ::
    "('bid, 'pas) get_bids_env \<Rightarrow> GetBidsConfig \<Rightarrow> GetBidsRawRequest \<Rightarrow> GetBidsRawRequest" where
  "consent_to_all e c r =
     (if consent_all_requests c
      then r\<lparr>gb_consented_debug_config := Some (ModifyConsent (server_token e)
             (case gb_consented_debug_config r of
                None \<Rightarrow> \<lparr>is_consented = False, token = []\<rparr> | Some x \<Rightarrow> x))\<rparr>
      else r)"

text \<open>
  The reactor right after its construction; \<open>sampled\<close> is the choice of the debug sampling. A request
  that cannot be decrypted is not looked at again.
\<close>

definition new_GetBidsUnaryReactor ::
    "('bid, 'pas) get_bids_env \<Rightarrow> GetBidsConfig \<Rightarrow> (string \<times> string) list \<Rightarrow> GetBidsRequest \<Rightarrow> bool \<Rightarrow>
     ('bid, 'pas) get_bids option" where
  "new_GetBidsUnaryReactor e c md request sampled = do {
     d \<leftarrow> DecryptRequest e c md request;
     Some (case d of
       Inl err \<Rightarrow> \<lparr>config = c, client_metadata = md, raw_request = default_GetBidsRawRequest,
         decrypt_status = Some err, compression_type = kUncompressed, use_new_payload_encoding = False,
         secret = [], is_sampled_for_debug = sampled, kv_md = Map.empty, bidding_md = Map.empty,
         priority_signals_vector = JNull, tracker = new_tracker 1, bid_errors = [],
         raw_response = \<lparr>bids = [], protected_app_signals_bids = [], update_interest_group_list = [],
           downstream_servers = []\<rparr>,
         should_export_debug = False, response_ciphertext = None, is_cancelled = False,
         sent = [], waiting = []\<rparr>
     | Inr (hpke, r, t, new_encoding) \<Rightarrow> \<lparr>config = c, client_metadata = md, raw_request = consent_to_all e c r,
         decrypt_status = OkStatus, compression_type = t, use_new_payload_encoding = new_encoding,
         secret = hpke, is_sampled_for_debug = sampled, kv_md = Map.empty, bidding_md = Map.empty,
         priority_signals_vector = JNull, tracker = new_tracker 1, bid_errors = [],
         raw_response = \<lparr>bids = [], protected_app_signals_bids = [], update_interest_group_list = [],
           downstream_servers = []\<rparr>,
         should_export_debug = False, response_ciphertext = None, is_cancelled = False,
         sent = [], waiting = []\<rparr>) }"

subsection \<open>The end of the call\<close>

definition EncryptResponse :: "('bid, 'pas) get_bids_env \<Rightarrow> ('bid, 'pas) get_bids \<Rightarrow> status_code + byte list" where
  "EncryptResponse e s =
     (case (if use_new_payload_encoding s
            then EncodeAndCompressGetBidsPayload (env_gzip e) (serialize_response e (raw_response s)) kGzip 0
            else Compress (env_gzip e) (serialize_response e (raw_response s)) (compression_type s)) of
        Inl err \<Rightarrow> Inl err
      | Inr payload \<Rightarrow> AeadEncrypt e payload (secret s))"

definition OnAllBidsDone :: "('bid, 'pas) get_bids_env \<Rightarrow> bool \<Rightarrow> ('bid, 'pas) get_bids \<Rightarrow> ('bid, 'pas) get_bids" where
  "OnAllBidsDone e any_successful_bids s =
     (if enable_cancellation (config s) \<and> is_cancelled s then FinishWithStatus (Some Cancelled) s
      else if \<not> any_successful_bids then FinishWithStatus (Some Internal) s
      else (case EncryptResponse e s of
          Inl _ \<Rightarrow> FinishWithStatus (Some Internal) s
        | Inr ciphertext \<Rightarrow> FinishWithStatus OkStatus (s\<lparr>response_ciphertext := Some ciphertext\<rparr>)))"

text \<open>A task of the tracker completes: its own closure runs first.\<close>

definition task_completed ::
    "('bid, 'pas) get_bids_env \<Rightarrow> TaskStatus \<Rightarrow> (('bid, 'pas) get_bids \<Rightarrow> ('bid, 'pas) get_bids) \<Rightarrow>
     ('bid, 'pas) get_bids \<Rightarrow> ('bid, 'pas) get_bids" where
  "task_completed e st on_single_task_done s =
     (let s1 = on_single_task_done s; (t, r) = TaskCompleted st (tracker s1); s2 = s1\<lparr>tracker := t\<rparr>
      in case r of None \<Rightarrow> s2 | Some any_successful \<Rightarrow> OnAllBidsDone e any_successful s2)"

definition task_failed :: "('bid, 'pas) get_bids_env \<Rightarrow> status_code \<Rightarrow> ('bid, 'pas) get_bids \<Rightarrow> ('bid, 'pas) get_bids" where
  "task_failed e err = task_completed e ERROR (\<lambda>s. s\<lparr>bid_errors := bid_errors s @ [err]\<rparr>)"

text \<open>Answers of the bidding service.\<close>

record 'b bids_response =
  resp_bids :: "'b list"
  bidding_export_debug :: bool
  has_debug_info :: bool

definition HandleSingleBidCompletion ::
    "('bid, 'pas) get_bids_env \<Rightarrow> string \<Rightarrow> ('b list \<Rightarrow> ('bid, 'pas) GetBidsRawResponse \<Rightarrow> ('bid, 'pas) GetBidsRawResponse) \<Rightarrow>
     status_code + 'b bids_response \<Rightarrow> ('bid, 'pas) get_bids \<Rightarrow> ('bid, 'pas) get_bids" where
  "HandleSingleBidCompletion e server_name set_bids raw s = (case raw of
     Inl err \<Rightarrow> task_failed e err s
   | Inr r \<Rightarrow>
       (let s1 = s\<lparr>should_export_debug := bidding_export_debug r,
              raw_response := (if has_debug_info r
                then (raw_response s)\<lparr>downstream_servers := downstream_servers (raw_response s) @ [server_name]\<rparr>
                else raw_response s)\<rparr>
        in if resp_bids r = [] then task_completed e EMPTY_RESPONSE (\<lambda>s. s) s1
           else if enable_cancellation (config s1) \<and> is_cancelled s1 then task_completed e CANCELLED (\<lambda>s. s) s1
           else task_completed e SUCCESS (\<lambda>s. s\<lparr>raw_response := set_bids (resp_bids r) (raw_response s)\<rparr>) s1))"

subsection \<open>Protected app signals\<close>

definition MayGetProtectedSignalsBids :: "('bid, 'pas) get_bids_env \<Rightarrow> ('bid, 'pas) get_bids \<Rightarrow> ('bid, 'pas) get_bids" where
  "MayGetProtectedSignalsBids e s =
     (if \<not> is_protected_app_signals_enabled (config s) then s
      else if (gb_protected_app_signals_buyer_input (raw_request s) \<bind> pasbi_protected_app_signals) = None then s
      else
        (let req = (CreateGenerateProtectedAppSignalsBidsRawRequest (raw_request s) (enable_enforce_kanon s))
               \<lparr>gp_is_sampled_for_debug := is_sampled_for_debug s\<rparr>
         in case pas_bidding_client e req of
              None \<Rightarrow> call (Generate_pas_bids req (bidding_md s)) PASBidsCallback s
            | Some err \<Rightarrow> task_failed e err s))"

subsection \<open>Protected audience\<close>

text \<open>The request to the bidding service, once the signals are taken apart.\<close>

definition generate_bids ::
    "('bid, 'pas) get_bids_env \<Rightarrow> 32 word \<Rightarrow> json option \<Rightarrow> (string \<rightharpoonup> json) \<Rightarrow> ('bid, 'pas) get_bids \<Rightarrow>
     ('bid, 'pas) get_bids option" where
  "generate_bids e data_version signals vectors s = do {
     (req, percent_igs_filtered, doc) \<leftarrow> PrepareGenerateBidsRequest (env_txt e) (raw_request s) signals data_version
       \<lparr>pv_enabled = priority_vector_enabled (config s), pv_priority_signals = priority_signals_vector s,
        pv_per_ig_priority_vectors = vectors\<rparr>
       \<lparr>opt_enable_kanon = enable_enforce_kanon s,
        opt_require_bidding_signals = (bidding_signals_fetch_mode (config s) = REQUIRED)\<rparr>;
     (let raw_bidding_input = req\<lparr>gn_is_sampled_for_debug := is_sampled_for_debug s\<rparr>;
          s1 = s\<lparr>priority_signals_vector := doc\<rparr>
      in Some (if gn_interest_group_for_bidding raw_bidding_input = [] then task_completed e EMPTY_RESPONSE (\<lambda>s. s) s1
         else (case bidding_client e raw_bidding_input of
             None \<Rightarrow> call (Generate_bids raw_bidding_input) GenerateBidsCallback s1
           | Some err \<Rightarrow> task_failed e err s1))) }"

definition PrepareAndGenerateProtectedAudienceBid ::
    "('bid, 'pas) get_bids_env \<Rightarrow> BiddingSignals \<Rightarrow> ('bid, 'pas) get_bids \<Rightarrow> ('bid, 'pas) get_bids option" where
  "PrepareAndGenerateProtectedAudienceBid e signals s = do {
     parsed \<leftarrow> ParseTrustedBiddingSignals (env_txt e) signals (buyer_input_for_bidding (raw_request s));
     (case parsed of
        Inl err \<Rightarrow>
          if bidding_signals_fetch_mode (config s) = REQUIRED
          then Some (if err = InvalidArgument then task_completed e EMPTY_RESPONSE (\<lambda>s. s) s else task_failed e err s)
          else generate_bids e (signals_data_version signals) None Map.empty s
      | Inr c \<Rightarrow>
          generate_bids e (signals_data_version signals) (bidding_signals c) (per_ig_priority_vectors c)
            (s\<lparr>raw_response := (raw_response s)\<lparr>update_interest_group_list := update_igs c\<rparr>\<rparr>)) }"

text \<open>A call that cannot be started is never answered: the provider drops its callback.\<close>

definition MayGetProtectedAudienceBidsV1 ::
    "('bid, 'pas) get_bids_env \<Rightarrow> bool \<Rightarrow> ('bid, 'pas) get_bids \<Rightarrow> ('bid, 'pas) get_bids" where
  "MayGetProtectedAudienceBidsV1 e is_hybrid s =
     (if bidding_signals_fetch_mode (config s) = NOT_FETCHED then FinishWithStatus (Some Internal) s
      else (case signals_provider e of
          None \<Rightarrow> FinishWithStatus (Some Internal) s
        | Some execute \<Rightarrow>
            let request = buyer_values_input (raw_request s) in
            if execute request = OkStatus
            then call (Get_bidding_signals request (kv_md s)) (BiddingSignalsCallback is_hybrid) s
            else s))"

text \<open>Nor does a request that cannot be created complete its task.\<close>

definition MayGetProtectedAudienceBidsV2 ::
    "('bid, 'pas) get_bids_env \<Rightarrow> string option \<Rightarrow> ('bid, 'pas) get_bids \<Rightarrow> ('bid, 'pas) get_bids" where
  "MayGetProtectedAudienceBidsV2 e byos_output s =
     (if bidding_signals_fetch_mode (config s) = NOT_FETCHED then FinishWithStatus (Some Internal) s
      else (case kv_client e of
          None \<Rightarrow> FinishWithStatus (Some Internal) s
        | Some execute \<Rightarrow>
            (case CreateV2BiddingRequest (raw_request s) (propagate_buyer_signals_to_tkv (config s)) byos_output of
               Inl _ \<Rightarrow> s
             | Inr request \<Rightarrow> (case execute request of
                 None \<Rightarrow> call (Kv_lookup request) KvLookupCallback s
               | Some err \<Rightarrow> task_failed e err s))))"

text \<open>Interest groups in either form of the input.\<close>

definition has_interest_groups :: "GetBidsRawRequest \<Rightarrow> bool" where
  "has_interest_groups r \<longleftrightarrow>
     buyer_input_interest_groups r \<noteq> [] \<or> bib_interest_groups (buyer_input_for_bidding r) \<noteq> []"

definition MayGetProtectedAudienceBids ::
    "('bid, 'pas) get_bids_env \<Rightarrow> ('bid, 'pas) get_bids \<Rightarrow> ('bid, 'pas) get_bids option" where
  "MayGetProtectedAudienceBids e s =
     (if \<not> is_protected_audience_enabled (config s) then Some s
      else if \<not> has_interest_groups (raw_request s) then Some s
      else if bidding_signals_fetch_mode (config s) \<noteq> NOT_FETCHED
      then Some
        (if UseKvV2 (gb_client_type (raw_request s)) (is_tkv_v2_browser_enabled (config s)) (test_mode (config s))
           (tkv_v2_address_empty (config s))
         then MayGetProtectedAudienceBidsV2 e None s
         else MayGetProtectedAudienceBidsV1 e
           (is_hybrid_enabled (config s) \<and> gb_client_type (raw_request s) = CLIENT_TYPE_BROWSER) s)
      else PrepareAndGenerateProtectedAudienceBid e no_bidding_signals s)"

subsection \<open>Execution\<close>

definition GetNumberOfMaximumBiddingCalls :: "('bid, 'pas) get_bids \<Rightarrow> nat" where
  "GetNumberOfMaximumBiddingCalls s =
     (if is_protected_audience_enabled (config s) \<and> has_interest_groups (raw_request s) then 1 else 0) +
     (if is_protected_app_signals_enabled (config s) \<and> gb_protected_app_signals_buyer_input (raw_request s) \<noteq> None
      then 1 else 0)"

definition kBuyerKVMetadata :: "(string \<times> string) list" where
  "kBuyerKVMetadata = [(''x-accept-language'', ''Accept-Language''), (''x-user-agent'', ''User-Agent''),
     (''x-bna-client-ip'', ''X-BnA-Client-IP'')]"

definition kBiddingMetadata :: "(string \<times> string) list" where
  "kBiddingMetadata = [(''x-accept-language'', ''x-accept-language''), (''x-user-agent'', ''x-user-agent''),
     (''x-bna-client-ip'', ''x-bna-client-ip'')]"

definition CancellableExecuteChaffRequest ::
    "('bid, 'pas) get_bids_env \<Rightarrow> ('bid, 'pas) get_bids \<Rightarrow> ('bid, 'pas) get_bids" where
  "CancellableExecuteChaffRequest e s =
     (let (duration, size) = (case chaff_choice e of None \<Rightarrow> (0, 0) | Some c \<Rightarrow> c) in
      case EncodeAndCompressGetBidsPayload (env_gzip e) (serialize_response e (raw_response s)) (compression_type s) size of
        Inl _ \<Rightarrow> FinishWithStatus (Some Internal) s
      | Inr payload \<Rightarrow> (case AeadEncrypt e payload (secret s) of
          Inl _ \<Rightarrow> FinishWithStatus (Some Internal) s
        | Inr ciphertext \<Rightarrow> call (Run_after duration) ChaffTimer (s\<lparr>response_ciphertext := Some ciphertext\<rparr>)))"

definition ExecuteChaffRequest ::
    "('bid, 'pas) get_bids_env \<Rightarrow> ('bid, 'pas) get_bids \<Rightarrow> ('bid, 'pas) get_bids" where
  "ExecuteChaffRequest e s =
     (if enable_cancellation (config s) \<and> is_cancelled s then FinishWithStatus (Some Cancelled) s
      else CancellableExecuteChaffRequest e s)"

text \<open>The input in the form for bidding, if the request has it in the other form.\<close>

definition set_buyer_input_for_bidding ::
    "('bid, 'pas) get_bids_env \<Rightarrow> GetBidsRawRequest \<Rightarrow> GetBidsRawRequest option" where
  "set_buyer_input_for_bidding e r = (case gb_buyer_input r of
     None \<Rightarrow> Some r
   | Some b \<Rightarrow> map_option (\<lambda>i. r\<lparr>gb_buyer_input_for_bidding := Some i\<rparr>) (ToBuyerInputForBidding (env_txt e) b))"

text \<open>Both kinds of bids are asked for, if the priority signals of the request can be read.\<close>

definition start_bidding ::
    "('bid, 'pas) get_bids_env \<Rightarrow> ('bid, 'pas) get_bids \<Rightarrow> ('bid, 'pas) get_bids option" where
  "start_bidding e s =
     (if GetNumberOfMaximumBiddingCalls s = 0 then Some (FinishWithStatus (Some InvalidArgument) s)
      else (case (if priority_vector_enabled (config s) \<and> gb_priority_signals (raw_request s) \<noteq> []
                  then ParsePriorityVector (env_txt e) (gb_priority_signals (raw_request s))
                  else Inr (priority_signals_vector s)) of
          Inl _ \<Rightarrow> Some (FinishWithStatus (Some InvalidArgument) s)
        | Inr priority_signals \<Rightarrow>
            map_option (MayGetProtectedSignalsBids e)
              (MayGetProtectedAudienceBids e (s\<lparr>priority_signals_vector := priority_signals,
                 tracker := SetNumTasksToTrack (int (GetNumberOfMaximumBiddingCalls s)) (tracker s)\<rparr>))))"

definition CancellableExecute ::
    "('bid, 'pas) get_bids_env \<Rightarrow> ('bid, 'pas) get_bids \<Rightarrow> ('bid, 'pas) get_bids option" where
  "CancellableExecute e s =
     (case GrpcMetadataToRequestMetadata (client_metadata s) kBuyerKVMetadata Map.empty of
        Inl err \<Rightarrow> Some (FinishWithStatus (Some err) s)
      | Inr kv \<Rightarrow>
     (case GrpcMetadataToRequestMetadata (client_metadata s) kBiddingMetadata Map.empty of
        Inl err \<Rightarrow> Some (FinishWithStatus (Some err) s)
      | Inr bidding \<Rightarrow>
          let s1 = s\<lparr>kv_md := kv, bidding_md := bidding\<rparr> in
          if decrypt_status s1 \<noteq> OkStatus then Some (FinishWithStatus (decrypt_status s1) s1)
          else if is_chaffing_enabled (config s1) \<and> gb_is_chaff (raw_request s1) then Some (ExecuteChaffRequest e s1)
          else do {
            r \<leftarrow> set_buyer_input_for_bidding e (raw_request s1);
            start_bidding e (s1\<lparr>raw_request := r\<rparr>) }))"

definition Execute ::
    "('bid, 'pas) get_bids_env \<Rightarrow> bool \<Rightarrow> ('bid, 'pas) get_bids \<Rightarrow> ('bid, 'pas) get_bids option" where
  "Execute e cancelled s0 =
     (let s = s0\<lparr>is_cancelled := cancelled\<rparr> in
      if enable_cancellation (config s) \<and> is_cancelled s then Some (FinishWithStatus (Some Cancelled) s)
      else CancellableExecute e s)"

subsection \<open>Callbacks\<close>

text \<open>The answers to the calls, one of them for each kind of call.\<close>

record ('bid, 'pas) answers =
  signals_answer :: "status_code + GetBuyerValuesOutput"
  kv_answer :: "status_code + string list"
  bids_answer :: "status_code + 'bid bids_response"
  pas_answer :: "status_code + 'pas bids_response"

definition on_bidding_signals ::
    "('bid, 'pas) get_bids_env \<Rightarrow> bool \<Rightarrow> status_code + GetBuyerValuesOutput \<Rightarrow> ('bid, 'pas) get_bids \<Rightarrow>
     ('bid, 'pas) get_bids option" where
  "on_bidding_signals e is_hybrid response s =
     (if enable_cancellation (config s) \<and> is_cancelled s then Some (task_completed e CANCELLED (\<lambda>s. s) s)
      else (case response of
          Inl err \<Rightarrow> Some (task_failed e err s)
        | Inr out \<Rightarrow>
            let signals = buyer_values_signals (gb_client_type (raw_request s)) out in
            if is_hybrid \<and> \<not> is_hybrid_v1_return signals
            then Some (MayGetProtectedAudienceBidsV2 e (trusted_signals signals) s)
            else PrepareAndGenerateProtectedAudienceBid e signals s))"

definition on_kv_lookup ::
    "('bid, 'pas) get_bids_env \<Rightarrow> status_code + string list \<Rightarrow> ('bid, 'pas) get_bids \<Rightarrow> ('bid, 'pas) get_bids option" where
  "on_kv_lookup e kv_look_up_result s =
     (if enable_cancellation (config s) \<and> is_cancelled s then Some (task_completed e CANCELLED (\<lambda>s. s) s)
      else (case kv_look_up_result of
          Inl err \<Rightarrow> Some (task_failed e err s)
        | Inr contents \<Rightarrow> do {
            signals \<leftarrow> ConvertV2BiddingSignalsToV1 (env_txt e) contents;
            (case signals of
               Inl err \<Rightarrow> Some (task_failed e err s)
             | Inr x \<Rightarrow> PrepareAndGenerateProtectedAudienceBid e x s) }))"

definition deliver ::
    "('bid, 'pas) get_bids_env \<Rightarrow> bool \<Rightarrow> ('bid, 'pas) answers \<Rightarrow> callback \<Rightarrow> ('bid, 'pas) get_bids \<Rightarrow>
     ('bid, 'pas) get_bids option" where
  "deliver e cancelled a cb s0 =
     (let s = s0\<lparr>waiting := remove1 cb (waiting s0), is_cancelled := cancelled\<rparr> in
      case cb of
        BiddingSignalsCallback is_hybrid \<Rightarrow> on_bidding_signals e is_hybrid (signals_answer a) s
      | KvLookupCallback \<Rightarrow> on_kv_lookup e (kv_answer a) s
      | GenerateBidsCallback \<Rightarrow>
          Some (HandleSingleBidCompletion e ''bidding'' (\<lambda>bs r. r\<lparr>bids := bs\<rparr>) (bids_answer a) s)
      | PASBidsCallback \<Rightarrow>
          Some (HandleSingleBidCompletion e ''app_signal_bid'' (\<lambda>bs r. r\<lparr>protected_app_signals_bids := bs\<rparr>) (pas_answer a) s)
      | ChaffTimer \<Rightarrow> Some (FinishWithStatus OkStatus s))"

end
