(* ===== verification/GetBidsRuns.thy ===== *)
theory GetBidsRuns
  imports GetBids
begin

text \<open>
  Runs of \<^verbatim>\<open>GetBidsUnaryReactor\<close>: the tasks the tracker counts against the callbacks that wait. Every
  handler completes its task or hands it to one later callback, where the clients can be started and
  the input is complete; then a call is finished exactly once, when no callback waits any more. In the
  other cases it never is.
\<close>

subsection \<open>Tasks and callbacks\<close>

fun is_finish :: "('bid, 'pas) outgoing \<Rightarrow> bool" where
  "is_finish (Finish st) = True"
| "is_finish m = False"

definition finishes :: "('bid, 'pas) get_bids \<Rightarrow> nat" where
  "finishes s = length (filter is_finish (sent s))"

fun rank :: "callback \<Rightarrow> nat" where
  "rank (BiddingSignalsCallback is_hybrid) = 2"
| "rank KvLookupCallback = 1"
| "rank GenerateBidsCallback = 0"
| "rank PASBidsCallback = 0"
| "rank ChaffTimer = 0"

text \<open>
  \<open>n\<close> tasks have neither completed nor wait for a callback, besides those that wait; when there are
  none of either kind the call is finished, once.
\<close>

definition fine :: "nat \<Rightarrow> ('bid, 'pas) get_bids \<Rightarrow> bool" where
  "fine n s \<longleftrightarrow>
     (if n = 0 \<and> waiting s = [] then finishes s = 1
      else finishes s = 0 \<and> pending_tasks_count (tracker s) = int (n + length (waiting s))) \<and>
     (ChaffTimer \<in> set (waiting s) \<longrightarrow> n = 0 \<and> waiting s = [ChaffTimer])"

definition may_use_v2 :: "GetBidsConfig \<Rightarrow> GetBidsRawRequest \<Rightarrow> bool" where
  "may_use_v2 c r \<longleftrightarrow>
     UseKvV2 (gb_client_type r) (is_tkv_v2_browser_enabled c) (test_mode c) (tkv_v2_address_empty c) \<or>
     is_hybrid_enabled c \<and> gb_client_type r = CLIENT_TYPE_BROWSER"

text \<open>Callbacks for trusted signals are left only where they are fetched, and the hybrid one where version 2 is used.\<close>

fun expected :: "GetBidsConfig \<Rightarrow> GetBidsRawRequest \<Rightarrow> callback \<Rightarrow> bool" where
  "expected c r (BiddingSignalsCallback is_hybrid) \<longleftrightarrow>
     bidding_signals_fetch_mode c \<noteq> NOT_FETCHED \<and> (is_hybrid \<longrightarrow> may_use_v2 c r)"
| "expected c r cb \<longleftrightarrow> True"

text \<open>A handler leaves at most one callback, of a lower rank, and if all goes well its task is taken care of.\<close>

definition leaves :: "nat \<Rightarrow> ('bid, 'pas) get_bids \<Rightarrow> ('bid, 'pas) get_bids \<Rightarrow> bool" where
  "leaves k s s' \<longleftrightarrow> config s' = config s \<and> raw_request s' = raw_request s \<and>
     (waiting s' = waiting s \<or> (\<exists>c. waiting s' = waiting s @ [c] \<and> rank c < k \<and> expected (config s) (raw_request s) c))"

definition hands_over :: "nat \<Rightarrow> ('bid, 'pas) get_bids \<Rightarrow> ('bid, 'pas) get_bids \<Rightarrow> bool" where
  "hands_over k s s' \<longleftrightarrow> leaves k s s' \<and> (\<forall>n. fine (Suc n) s \<longrightarrow> fine n s')"

text \<open>Assignments that do not concern the calls.\<close>

definition same_calls :: "('bid, 'pas) get_bids \<Rightarrow> ('bid, 'pas) get_bids \<Rightarrow> bool" where
  "same_calls s t \<longleftrightarrow> config t = config s \<and> raw_request t = raw_request s \<and> waiting t = waiting s \<and>
     sent t = sent s \<and> tracker t = tracker s"

lemma same_calls_fine: "same_calls s t \<Longrightarrow> fine n t = fine n s"
  by (simp add: same_calls_def fine_def finishes_def)

lemma same_calls_hands_over: "same_calls s t \<Longrightarrow> hands_over k t s' \<Longrightarrow> hands_over k s s'"
  unfolding hands_over_def by (simp add: same_calls_fine) (simp add: same_calls_def leaves_def)

lemma finishes_FinishWithStatus [simp]: "finishes (FinishWithStatus st s) = Suc (finishes s)"
  by (simp add: finishes_def FinishWithStatus_def)

lemma FinishWithStatus_simps [simp]:
  "waiting (FinishWithStatus st s) = waiting s" "config (FinishWithStatus st s) = config s"
  "raw_request (FinishWithStatus st s) = raw_request s" "tracker (FinishWithStatus st s) = tracker s"
  by (simp_all add: FinishWithStatus_def)

lemma OnAllBidsDone_finishes:
  "finishes (OnAllBidsDone e b s) = Suc (finishes s) \<and> waiting (OnAllBidsDone e b s) = waiting s \<and>
   config (OnAllBidsDone e b s) = config s \<and> raw_request (OnAllBidsDone e b s) = raw_request s \<and>
   tracker (OnAllBidsDone e b s) = tracker s"
  by (auto simp: OnAllBidsDone_def finishes_def FinishWithStatus_def split: sum.split)

lemma task_completed_hands_over:
  assumes "same_calls s (f s)"
  shows "hands_over k s (task_completed e st f s)"
proof (rule same_calls_hands_over [OF assms])
  obtain t r where tc: "TaskCompleted st (tracker (f s)) = (t, r)" by (cases "TaskCompleted st (tracker (f s))")
  let ?s = "f s" and ?t = "(f s)\<lparr>tracker := t\<rparr>"
  have run: "task_completed e st f s = (case r of None \<Rightarrow> ?t | Some b \<Rightarrow> OnAllBidsDone e b ?t)"
    by (simp add: task_completed_def tc Let_def)
  note counts = TaskCompleted_counts [OF tc]
  show "hands_over k ?s (task_completed e st f s)"
    unfolding run using counts OnAllBidsDone_finishes [of e _ ?t]
    by (cases r) (auto simp: hands_over_def leaves_def fine_def finishes_def no_tasks_eq)
qed

lemma same_calls_refl [simp]: "same_calls s s"
  by (simp add: same_calls_def)

lemma task_completed_id [simp]: "hands_over k s (task_completed e st (\<lambda>s. s) s)"
  by (rule task_completed_hands_over) simp

lemma task_failed_hands_over [simp]: "hands_over k s (task_failed e err s)"
  unfolding task_failed_def by (rule task_completed_hands_over) (simp add: same_calls_def)

lemma call_hands_over:
  "rank cb < k \<Longrightarrow> cb \<noteq> ChaffTimer \<Longrightarrow> \<not> is_finish m \<Longrightarrow> expected (config s) (raw_request s) cb \<Longrightarrow>
   hands_over k s (call m cb s)"
  by (auto simp: hands_over_def leaves_def call_def fine_def finishes_def)

lemma HandleSingleBidCompletion_hands_over:
  "hands_over k s (HandleSingleBidCompletion e name set_bids raw s)"
proof (cases raw)
  case (Inr r)
  define s1 where "s1 = s\<lparr>should_export_debug := bidding_export_debug r,
      raw_response := (if has_debug_info r
        then (raw_response s)\<lparr>downstream_servers := downstream_servers (raw_response s) @ [name]\<rparr>
        else raw_response s)\<rparr>"
  have "same_calls s s1" by (simp add: s1_def same_calls_def)
  moreover have "hands_over k s1 (HandleSingleBidCompletion e name set_bids raw s)"
    unfolding HandleSingleBidCompletion_def Inr sum.case Let_def s1_def [symmetric]
    by (auto intro!: task_completed_hands_over simp: same_calls_def)
  ultimately show ?thesis by (rule same_calls_hands_over)
qed (simp add: HandleSingleBidCompletion_def)

lemma generate_bids_hands_over:
  assumes "generate_bids e v signals vectors s = Some s'" and "0 < k"
  shows "hands_over k s s'"
proof -
  from assms(1) obtain req pct doc where "s' = (let raw = req\<lparr>gn_is_sampled_for_debug := is_sampled_for_debug s\<rparr>;
          s1 = s\<lparr>priority_signals_vector := doc\<rparr>
      in if gn_interest_group_for_bidding raw = [] then task_completed e EMPTY_RESPONSE (\<lambda>s. s) s1
         else (case bidding_client e raw of
             None \<Rightarrow> call (Generate_bids raw) GenerateBidsCallback s1
           | Some err \<Rightarrow> task_failed e err s1))"
    by (auto simp: generate_bids_def Let_def elim!: bind_SomeE)
  then have "hands_over k (s\<lparr>priority_signals_vector := doc\<rparr>) s'"
    using assms(2) by (simp add: Let_def call_hands_over split: option.split)
  then show ?thesis by (rule same_calls_hands_over [rotated]) (simp add: same_calls_def)
qed

lemma Prepare_hands_over:
  assumes "PrepareAndGenerateProtectedAudienceBid e signals s = Some s'" and "0 < k"
  shows "hands_over k s s'"
proof -
  have "hands_over k s s'"
    if "generate_bids e v js vectors t = Some s'" and "same_calls s t" for v js vectors t
    by (rule same_calls_hands_over [OF that(2) generate_bids_hands_over [OF that(1) assms(2)]])
  moreover have "same_calls s (s\<lparr>raw_response := r\<rparr>)" for r by (simp add: same_calls_def)
  ultimately show ?thesis
    using assms(1) by (fastforce simp: PrepareAndGenerateProtectedAudienceBid_def
        elim!: bind_SomeE split: sum.split_asm if_split_asm)
qed

lemma FinishWithStatus_leaves [simp]: "leaves k s (FinishWithStatus st s)"
  by (simp add: leaves_def)

lemma leaves_refl [simp]: "leaves k s s"
  by (simp add: leaves_def)

lemma hands_over_leaves: "hands_over k s s' \<Longrightarrow> leaves k s s'"
  by (simp add: hands_over_def)

lemma task_leaves [simp]:
  "leaves k s (task_completed e st (\<lambda>s. s) s)" "leaves k s (task_failed e err s)"
  "leaves k s (HandleSingleBidCompletion e name set_bids raw s)"
  by (simp_all add: hands_over_leaves HandleSingleBidCompletion_hands_over)

lemma V2_cases:
  assumes "0 < k"
  shows "if kv_client e \<noteq> None \<and> bidding_signals_fetch_mode (config s) \<noteq> NOT_FETCHED \<and>
      ValidateInterestGroups (buyer_input_for_bidding (raw_request s)) = OkStatus
    then hands_over (Suc k) s (MayGetProtectedAudienceBidsV2 e byos s)
    else leaves (Suc k) s (MayGetProtectedAudienceBidsV2 e byos s)"
proof -
  have "hands_over (Suc k) s (call (Kv_lookup q) KvLookupCallback s)" for q
    using assms by (simp add: call_hands_over)
  then show ?thesis
    by (auto simp: MayGetProtectedAudienceBidsV2_def CreateV2BiddingRequest_def hands_over_leaves split: option.split)
qed

lemma V1_cases:
  assumes "hybrid \<longrightarrow> may_use_v2 (config s) (raw_request s)"
  shows "if (\<exists>execute. signals_provider e = Some execute \<and> (\<forall>q. execute q = OkStatus)) \<and>
      bidding_signals_fetch_mode (config s) \<noteq> NOT_FETCHED
    then hands_over 3 s (MayGetProtectedAudienceBidsV1 e hybrid s)
    else leaves 3 s (MayGetProtectedAudienceBidsV1 e hybrid s)"
proof -
  have "hands_over 3 s (call (Get_bidding_signals q m) (BiddingSignalsCallback hybrid) s)"
    if "bidding_signals_fetch_mode (config s) \<noteq> NOT_FETCHED" for q m
    using assms that by (simp add: call_hands_over)
  then show ?thesis
    by (auto simp: MayGetProtectedAudienceBidsV1_def Let_def hands_over_leaves split: option.split)
qed

subsection \<open>When every call is answered\<close>

text \<open>Some interest group of the request has a key, in the form the request has them in.\<close>

definition names_keys :: "GetBidsRawRequest \<Rightarrow> bool" where
  "names_keys r \<longleftrightarrow> (case gb_buyer_input r of
     Some b \<Rightarrow> list_ex (\<lambda>ig. ig_bidding_signals_keys ig \<noteq> []) (bi_interest_groups b)
   | None \<Rightarrow> list_ex (\<lambda>ig. igb_bidding_signals_keys ig \<noteq> []) (bib_interest_groups (buyer_input_for_bidding r)))"

text \<open>
  The clients for the signals exist where signals are fetched, the fetch can be started, and a request
  of version 2 has keys.
\<close>

definition can_fetch :: "('bid, 'pas) get_bids_env \<Rightarrow> GetBidsConfig \<Rightarrow> GetBidsRawRequest \<Rightarrow> bool" where
  "can_fetch e c r \<longleftrightarrow>
     (bidding_signals_fetch_mode c \<noteq> NOT_FETCHED \<longrightarrow>
        (\<exists>execute. signals_provider e = Some execute \<and> (\<forall>q. execute q = OkStatus)) \<and> kv_client e \<noteq> None \<and>
        (may_use_v2 c r \<longrightarrow> names_keys r))"

text \<open>The tasks that are counted but not started: input for protected app signals that holds none.\<close>

definition forgotten :: "GetBidsConfig \<Rightarrow> GetBidsRawRequest \<Rightarrow> nat" where
  "forgotten c r = (case gb_protected_app_signals_buyer_input r of
     None \<Rightarrow> 0
   | Some p \<Rightarrow> if is_protected_app_signals_enabled c \<and> pasbi_protected_app_signals p = None then 1 else 0)"

definition converted :: "GetBidsRawRequest \<Rightarrow> bool" where
  "converted r \<longleftrightarrow> (case gb_buyer_input r of None \<Rightarrow> True | Some b \<Rightarrow>
     map igb_bidding_signals_keys (bib_interest_groups (buyer_input_for_bidding r)) =
       map ig_bidding_signals_keys (bi_interest_groups b))"

lemma convert_groups_keys: "convert_groups txt igs = Some igs' \<Longrightarrow>
    map igb_bidding_signals_keys igs' = map ig_bidding_signals_keys igs"
  by (induction igs arbitrary: igs') (auto simp: ToInterestGroupForBidding_def elim!: bind_SomeE)

lemma set_buyer_input_for_bidding_converted:
  assumes "set_buyer_input_for_bidding e r = Some r'"
  shows "converted r' \<and> (can_fetch e c r' \<longleftrightarrow> can_fetch e c r) \<and> forgotten c r' = forgotten c r"
proof (cases "gb_buyer_input r")
  case None
  with assms show ?thesis by (simp add: set_buyer_input_for_bidding_def converted_def)
next
  case (Some b)
  with assms obtain i where i: "ToBuyerInputForBidding (env_txt e) b = Some i"
    "r' = r\<lparr>gb_buyer_input_for_bidding := Some i\<rparr>" by (auto simp: set_buyer_input_for_bidding_def)
  then have "map igb_bidding_signals_keys (bib_interest_groups i) = map ig_bidding_signals_keys (bi_interest_groups b)"
    by (auto simp: ToBuyerInputForBidding_def convert_groups_keys elim!: bind_SomeE)
  with Some i(2) show ?thesis
    by (simp add: converted_def buyer_input_for_bidding_def can_fetch_def forgotten_def names_keys_def may_use_v2_def)
qed

lemma names_keys_valid:
  assumes "converted r" and "names_keys r"
  shows "ValidateInterestGroups (buyer_input_for_bidding r) = OkStatus"
proof -
  have "list_ex (\<lambda>k. k \<noteq> []) (map igb_bidding_signals_keys (bib_interest_groups (buyer_input_for_bidding r)))"
  proof (cases "gb_buyer_input r")
    case None
    with assms(2) show ?thesis by (simp add: names_keys_def list_ex_iff)
  next
    case (Some b)
    with assms(1) have "map igb_bidding_signals_keys (bib_interest_groups (buyer_input_for_bidding r)) =
        map ig_bidding_signals_keys (bi_interest_groups b)" by (simp add: converted_def)
    with assms(2) Some show ?thesis by (simp add: names_keys_def list_ex_iff)
  qed
  then show ?thesis by (auto simp: ValidateInterestGroups_def list_ex_iff)
qed

lemma V2_hands_over:
  assumes "can_fetch e (config s) (raw_request s)" and "converted (raw_request s)"
    and "may_use_v2 (config s) (raw_request s)" and "bidding_signals_fetch_mode (config s) \<noteq> NOT_FETCHED"
  shows "hands_over 2 s (MayGetProtectedAudienceBidsV2 e byos s)"
  using V2_cases [of 1 e s byos] names_keys_valid [OF assms(2)] assms
  by (simp add: can_fetch_def numeral_2_eq_2)

lemma hands_over_mono: "hands_over j s s' \<Longrightarrow> j \<le> k \<Longrightarrow> hands_over k s s'"
  by (auto simp: hands_over_def leaves_def)

lemma leaves_mono: "leaves j s s' \<Longrightarrow> j \<le> k \<Longrightarrow> leaves k s s'"
  by (auto simp: leaves_def)

lemma V2_leaves: "0 < k \<Longrightarrow> leaves (Suc k) s (MayGetProtectedAudienceBidsV2 e byos s)"
  using V2_cases [of k e s byos] by (auto split: if_split_asm intro: hands_over_leaves)

lemma MayGetProtectedAudienceBids_cases:
  assumes "MayGetProtectedAudienceBids e s = Some s'"
  shows "leaves 3 s s' \<and>
    (can_fetch e (config s) (raw_request s) \<and> converted (raw_request s) \<longrightarrow>
     (if is_protected_audience_enabled (config s) \<and> has_interest_groups (raw_request s) then hands_over 3 s s'
      else s' = s))"
proof (cases "is_protected_audience_enabled (config s) \<and> has_interest_groups (raw_request s)")
  case on: True
  show ?thesis
  proof (cases "bidding_signals_fetch_mode (config s) = NOT_FETCHED")
    case True
    with assms on have "hands_over 3 s s'"
      by (intro Prepare_hands_over) (auto simp: MayGetProtectedAudienceBids_def)
    then show ?thesis using on by (simp add: hands_over_leaves)
  next
    case fetched: False
    with assms on consider
        "may_use_v2 (config s) (raw_request s)" "s' = MayGetProtectedAudienceBidsV2 e None s"
      | hybrid where "hybrid \<longrightarrow> may_use_v2 (config s) (raw_request s)" "s' = MayGetProtectedAudienceBidsV1 e hybrid s"
      by (auto simp: MayGetProtectedAudienceBids_def may_use_v2_def split: if_split_asm)
    then show ?thesis
    proof cases
      case 1
      have "leaves 3 s s'" using V2_leaves [of 2 s e None] 1(2) by simp
      with on 1 hands_over_mono [OF V2_hands_over [of e s None], of 3] fetched show ?thesis by auto
    next
      case (2 hybrid)
      have "leaves 3 s s'" using V1_cases [OF 2(1), of e] 2 by (auto split: if_split_asm intro: hands_over_leaves)
      moreover have "hands_over 3 s s'" if "can_fetch e (config s) (raw_request s)"
        using V1_cases [OF 2(1), of e] 2 that fetched by (simp add: can_fetch_def)
      ultimately show ?thesis using on by simp
    qed
  qed
next
  case False
  with assms show ?thesis by (auto simp: MayGetProtectedAudienceBids_def split: if_split_asm)
qed

lemma MayGetProtectedSignalsBids_cases:
  "leaves 1 s (MayGetProtectedSignalsBids e s) \<and>
    (if is_protected_app_signals_enabled (config s) \<and> gb_protected_app_signals_buyer_input (raw_request s) \<noteq> None \<and>
       forgotten (config s) (raw_request s) = 0
     then hands_over 1 s (MayGetProtectedSignalsBids e s)
     else MayGetProtectedSignalsBids e s = s)"
proof -
  have "hands_over 1 s (call (Generate_pas_bids q m) PASBidsCallback s)" for q m
    by (simp add: call_hands_over)
  then show ?thesis
    by (auto simp: MayGetProtectedSignalsBids_def Let_def forgotten_def hands_over_leaves split: option.split)
qed

subsection \<open>Runs\<close>

text \<open>A state of a run in which \<open>n\<close> tasks have been forgotten.\<close>

definition on_track :: "nat \<Rightarrow> ('bid, 'pas) get_bids_env \<Rightarrow> ('bid, 'pas) get_bids \<Rightarrow> bool" where
  "on_track n e s \<longleftrightarrow> fine n s \<and> list_all (expected (config s) (raw_request s)) (waiting s) \<and> can_fetch e (config s) (raw_request s) \<and> converted (raw_request s)"

lemma budget_of_leaves: "leaves k s s' \<Longrightarrow>
    (\<Sum>c\<leftarrow>waiting s'. Suc (rank c)) \<le> (\<Sum>c\<leftarrow>waiting s. Suc (rank c)) + k"
  by (auto simp: leaves_def)

lemma start_bidding_on_track:
  assumes "start_bidding e s = Some s'" and "waiting s = []" and "finishes s = 0"
  shows "(\<Sum>c\<leftarrow>waiting s'. Suc (rank c)) \<le> 4 \<and>
    (can_fetch e (config s) (raw_request s) \<longrightarrow> converted (raw_request s) \<longrightarrow>
     on_track (forgotten (config s) (raw_request s)) e s' \<or> finishes s' = 1 \<and> waiting s' = [])"
proof (cases "GetNumberOfMaximumBiddingCalls s = 0")
  case True
  with assms show ?thesis by (auto simp: start_bidding_def)
next
  case False
  let ?n = "GetNumberOfMaximumBiddingCalls s"
  from assms(1) False consider "s' = FinishWithStatus (Some InvalidArgument) s"
    | js s1 where "MayGetProtectedAudienceBids e
        (s\<lparr>priority_signals_vector := js, tracker := SetNumTasksToTrack (int ?n) (tracker s)\<rparr>) = Some s1"
      "s' = MayGetProtectedSignalsBids e s1"
    by (auto simp: start_bidding_def split: sum.split_asm)
  then show ?thesis
  proof cases
    case 1
    with assms(2,3) show ?thesis by simp
  next
    case (2 js s1)
    define s0 where "s0 = s\<lparr>priority_signals_vector := js, tracker := SetNumTasksToTrack (int ?n) (tracker s)\<rparr>"
    have s0: "config s0 = config s" "raw_request s0 = raw_request s" "waiting s0 = []" "fine ?n s0"
      using assms(2,3) False by (simp_all add: s0_def fine_def finishes_def SetNumTasksToTrack_def)
    note pa = MayGetProtectedAudienceBids_cases [OF 2(1) [folded s0_def]]
    note pas = MayGetProtectedSignalsBids_cases [of s1 e, folded 2(2)]
    have "(\<Sum>c\<leftarrow>waiting s'. Suc (rank c)) \<le> 4"
      using pa pas s0(3) budget_of_leaves [of 3 s0 s1] budget_of_leaves [of 1 s1 s'] by simp
    moreover have "on_track (forgotten (config s) (raw_request s)) e s'"
      if "can_fetch e (config s) (raw_request s)" "converted (raw_request s)"
    proof -
      have same: "config s1 = config s" "raw_request s1 = raw_request s"
        using pa s0 by (auto simp: leaves_def)
      have same': "config s' = config s" "raw_request s' = raw_request s"
        using pas same by (auto simp: leaves_def)
      define pas_count :: nat where "pas_count = (if is_protected_app_signals_enabled (config s) \<and>
          gb_protected_app_signals_buyer_input (raw_request s) \<noteq> None then 1 else 0)"
      have "fine pas_count s1"
        using pa s0 that
        by (auto simp: hands_over_def GetNumberOfMaximumBiddingCalls_def pas_count_def split: if_split_asm)
      then have "fine (forgotten (config s) (raw_request s)) s'"
        using pas same by (auto simp: hands_over_def pas_count_def forgotten_def split: if_split_asm option.splits)
      moreover have "list_all (expected (config s) (raw_request s)) (waiting s')"
        using pa pas s0 same by (auto simp: leaves_def)
      ultimately show ?thesis using that same' by (simp add: on_track_def)
    qed
    ultimately show ?thesis by simp
  qed
qed

lemma Execute_on_track:
  assumes new: "new_GetBidsUnaryReactor e c md request sampled = Some s0" and ex: "Execute e cancelled s0 = Some s"
  shows "(\<Sum>c\<leftarrow>waiting s. Suc (rank c)) \<le> 4 \<and> (can_fetch e (config s0) (raw_request s0) \<longrightarrow>
    on_track (forgotten (config s0) (raw_request s0)) e s \<or>
    finishes s = 1 \<and> waiting s = [] \<or> finishes s = 0 \<and> waiting s = [ChaffTimer])"
proof -
  define s1 where "s1 = s0\<lparr>is_cancelled := cancelled\<rparr>"
  have s1: "waiting s1 = []" "finishes s1 = 0"
    using new by (auto simp: s1_def new_GetBidsUnaryReactor_def finishes_def elim!: bind_SomeE split: sum.split_asm)
  have ended: "?thesis" if "s = FinishWithStatus st t" "waiting t = []" "finishes t = 0" for st t
    using that by simp
  have run: "Execute e cancelled s0 = (if enable_cancellation (config s1) \<and> is_cancelled s1
      then Some (FinishWithStatus (Some Cancelled) s1) else CancellableExecute e s1)"
    by (simp add: Execute_def s1_def Let_def)
  show ?thesis
  proof (cases "enable_cancellation (config s1) \<and> is_cancelled s1")
    case True
    with ex run s1 show ?thesis by (intro ended [of "Some Cancelled" s1]) simp_all
  next
    case False
    with ex run consider err where "s = FinishWithStatus err s1"
      | kv bidding where "s = FinishWithStatus (decrypt_status s1) (s1\<lparr>kv_md := kv, bidding_md := bidding\<rparr>)"
      | kv bidding where "s = ExecuteChaffRequest e (s1\<lparr>kv_md := kv, bidding_md := bidding\<rparr>)"
      | kv bidding r where "set_buyer_input_for_bidding e (raw_request s1) = Some r"
        "start_bidding e (s1\<lparr>kv_md := kv, bidding_md := bidding, raw_request := r\<rparr>) = Some s"
      by (auto simp: CancellableExecute_def Let_def elim!: bind_SomeE split: sum.split_asm if_split_asm)
    then show ?thesis
    proof cases
      case (3 kv bidding)
      with s1 show ?thesis
        by (auto simp: ExecuteChaffRequest_def CancellableExecuteChaffRequest_def finishes_def FinishWithStatus_def
            call_def split: prod.split sum.split)
    next
      case (4 kv bidding r)
      let ?t = "s1\<lparr>kv_md := kv, bidding_md := bidding, raw_request := r\<rparr>"
      have "finishes ?t = 0" "waiting ?t = []" using s1 by (simp_all add: finishes_def)
      from start_bidding_on_track [OF 4(2) this(2,1)] set_buyer_input_for_bidding_converted [OF 4(1)]
      show ?thesis by (auto simp: s1_def)
    qed (use s1 in \<open>simp_all add: finishes_def FinishWithStatus_def\<close>)
  qed
qed

text \<open>One delivery, with some answers; the client may have cancelled or not.\<close>

inductive delivers ::
    "('bid, 'pas) get_bids_env \<Rightarrow> callback \<Rightarrow> ('bid, 'pas) get_bids \<Rightarrow> ('bid, 'pas) get_bids \<Rightarrow> bool"
  for e :: "('bid, 'pas) get_bids_env" where
  deliver_waiting: "cb \<in> set (waiting s) \<Longrightarrow> deliver e cancelled a cb s = Some s' \<Longrightarrow> delivers e cb s s'"

inductive_cases deliversE: "delivers e cb s s'"

lemma deliver_leaves:
  assumes "deliver e cancelled a cb s = Some s'"
  shows "leaves (rank cb) (s\<lparr>waiting := remove1 cb (waiting s), is_cancelled := cancelled\<rparr>) s'"
proof -
  have "leaves k t s'" if "PrepareAndGenerateProtectedAudienceBid e x t = Some s'" "0 < k" for k x t
    by (rule hands_over_leaves [OF Prepare_hands_over [OF that]])
  then show ?thesis
    using assms V2_leaves [of 1]
    by (cases cb) (auto simp: deliver_def on_bidding_signals_def on_kv_lookup_def Let_def numeral_2_eq_2
        elim!: bind_SomeE split: sum.split_asm if_split_asm)
qed

lemma deliver_hands_over:
  assumes "deliver e cancelled a cb s = Some s'" and "cb \<noteq> ChaffTimer" and "expected (config s) (raw_request s) cb"
    and "can_fetch e (config s) (raw_request s)" and "converted (raw_request s)"
  shows "hands_over (rank cb) (s\<lparr>waiting := remove1 cb (waiting s), is_cancelled := cancelled\<rparr>) s'"
proof -
  let ?t = "s\<lparr>waiting := remove1 cb (waiting s), is_cancelled := cancelled\<rparr>"
  have "hands_over 2 ?t (MayGetProtectedAudienceBidsV2 e byos ?t)"
    if "cb = BiddingSignalsCallback True" for byos
    using V2_hands_over [of e ?t byos] assms that by simp
  then show ?thesis
    using assms
    by (cases cb) (auto simp: deliver_def on_bidding_signals_def on_kv_lookup_def Let_def HandleSingleBidCompletion_hands_over
        elim!: bind_SomeE split: sum.split_asm if_split_asm intro: Prepare_hands_over)
qed

interpretation get_bids: single_successor "delivers e" waiting rank
  for e :: "('bid, 'pas) get_bids_env"
proof unfold_locales
  fix cb and s s' :: "('bid, 'pas) get_bids"
  assume "delivers e cb s s'"
  then obtain cancelled a where "cb \<in> set (waiting s)" "deliver e cancelled a cb s = Some s'" by (rule deliversE)
  with deliver_leaves [OF this(2)] show "cb \<in> set (waiting s) \<and>
      (waiting s' = remove1 cb (waiting s) \<or> (\<exists>c. waiting s' = remove1 cb (waiting s) @ [c] \<and> rank c < rank cb))"
    by (auto simp: leaves_def)
qed

lemma delivers_on_track:
  assumes "delivers e cb s s'" and "on_track n e s" and "cb \<noteq> ChaffTimer"
  shows "on_track n e s'"
proof -
  from assms(1) obtain cancelled a where cb: "cb \<in> set (waiting s)" and d: "deliver e cancelled a cb s = Some s'"
    by (rule deliversE)
  let ?t = "s\<lparr>waiting := remove1 cb (waiting s), is_cancelled := cancelled\<rparr>"
  have "expected (config s) (raw_request s) cb" using cb assms(2) by (auto simp: on_track_def list_all_iff)
  then have h: "hands_over (rank cb) ?t s'"
    using deliver_hands_over [OF d assms(3)] assms(2) by (simp add: on_track_def)
  have "length (waiting s) = Suc (length (remove1 cb (waiting s)))"
    using length_pos_if_in_set [OF cb] by (simp add: length_remove1 cb)
  moreover have "waiting s \<noteq> []" using cb by auto
  ultimately have "fine (Suc n) ?t"
    using assms(2,3) cb by (auto simp: on_track_def fine_def finishes_def dest: set_remove1_subset [THEN subsetD])
  with h have "fine n s'" by (simp add: hands_over_def)
  with h assms(2) show ?thesis
    by (auto simp: on_track_def hands_over_def leaves_def list_all_iff dest: notin_set_remove1)
qed

text \<open>Every state of a run: one of the three.\<close>

definition answering :: "('bid, 'pas) get_bids_env \<Rightarrow> ('bid, 'pas) get_bids \<Rightarrow> bool" where
  "answering e s \<longleftrightarrow> on_track 0 e s \<or> finishes s = 1 \<and> waiting s = [] \<or> finishes s = 0 \<and> waiting s = [ChaffTimer]"

lemma delivers_answering:
  assumes "delivers e cb s s'" and "answering e s"
  shows "answering e s'"
proof (cases "cb = ChaffTimer")
  case True
  from assms(1) obtain cancelled a where cb: "cb \<in> set (waiting s)" and d: "deliver e cancelled a cb s = Some s'"
    by (rule deliversE)
  from cb True assms(2) have "finishes s = 0" "waiting s = [ChaffTimer]"
    by (auto simp: answering_def on_track_def fine_def)
  with d True show ?thesis by (auto simp: deliver_def answering_def finishes_def FinishWithStatus_def)
next
  case False
  with assms(2) have "on_track 0 e s"
    using assms(1) by (auto simp: answering_def elim!: deliversE)
  with delivers_on_track [OF assms(1) _ False] show ?thesis by (simp add: answering_def)
qed

lemma answering_finished: "answering e s \<Longrightarrow>
    finishes s = 1 \<and> waiting s = [] \<or> finishes s = 0 \<and> waiting s \<noteq> []"
  by (auto simp: answering_def on_track_def fine_def split: if_split_asm)

lemma callbacks_bound:
  assumes "new_GetBidsUnaryReactor e c md request sampled = Some s0" and "Execute e cancelled s0 = Some s"
    and "deliveries (delivers e) n s s'"
  shows "n + length (waiting s') \<le> 4"
proof -
  have "n + get_bids.budget s' \<le> 4"
    using get_bids.deliveries_budget [OF assms(3)] Execute_on_track [OF assms(1,2)] by (simp add: get_bids.budget_def)
  moreover have "length xs \<le> (\<Sum>c\<leftarrow>xs. Suc (rank c))" for xs by (induction xs) auto
  then have "length (waiting s') \<le> get_bids.budget s'" by (simp add: get_bids.budget_def)
  ultimately show ?thesis by simp
qed

subsection \<open>An example\<close>

text \<open>A request of two interest groups, with signals that are not fetched; perhaps with empty app signals.\<close>

definition sample_gb_config :: "bool \<Rightarrow> GetBidsConfig" where
  "sample_gb_config pas = \<lparr>is_protected_app_signals_enabled = pas, is_protected_audience_enabled = True,
     is_chaffing_enabled = False, is_tkv_v2_browser_enabled = False, enable_cancellation = True, enable_kanon = False,
     consent_all_requests = False, priority_vector_enabled = False, test_mode = False, tkv_v2_address_empty = False,
     bidding_signals_fetch_mode = NOT_FETCHED, propagate_buyer_signals_to_tkv = False, is_hybrid_enabled = False\<rparr>"

definition sample_gb_env :: "(nat, nat) get_bids_env" where
  "sample_gb_env = \<lparr>env_txt = sample_txt, env_gzip = \<lparr>GzipCompress = Inr, GzipDecompress = Inr\<rparr>, SimpleAtoi = (\<lambda>_. None),
     parse_request = (\<lambda>_. Some (sample_request\<lparr>gb_protected_app_signals_buyer_input :=
       Some \<lparr>pasbi_protected_app_signals = None, contextual_protected_app_signals_data = None\<rparr>\<rparr>)),
     serialize_response = (\<lambda>r. map of_nat (bids r)), GetPrivateKey = (\<lambda>_. Some ''private''),
     HpkeDecrypt = (\<lambda>_ c. Inr \<lparr>hpke_payload = c, hpke_secret = ''secret''\<rparr>), AeadEncrypt = (\<lambda>p _. Inr (rev p)),
     signals_provider = None, kv_client = None, bidding_client = (\<lambda>_. OkStatus), pas_bidding_client = (\<lambda>_. OkStatus),
     chaff_choice = None, server_token = None\<rparr>"

definition sample_answers :: "(nat, nat) answers" where
  "sample_answers = \<lparr>signals_answer = Inl Internal, kv_answer = Inl Internal,
     bids_answer = Inr \<lparr>resp_bids = [5, 9], bidding_export_debug = False, has_debug_info = False\<rparr>, pas_answer = Inl Internal\<rparr>"

definition sample_reactor :: "bool \<Rightarrow> (nat, nat) get_bids option" where
  "sample_reactor pas = new_GetBidsUnaryReactor sample_gb_env (sample_gb_config pas) []
     \<lparr>key_id = ''key'', request_ciphertext = [1]\<rparr> False"

lemma sample_reactor_facts:
  "\<exists>s0. sample_reactor pas = Some s0 \<and> bidding_signals_fetch_mode (config s0) = NOT_FETCHED \<and>
    forgotten (config s0) (raw_request s0) = (if pas then 1 else 0)"
proof -
  have "map_option (\<lambda>s. (bidding_signals_fetch_mode (config s), forgotten (config s) (raw_request s))) (sample_reactor pas) =
    Some (NOT_FETCHED, if pas then 1 else 0)" by (cases pas; simp only: if_True if_False; code_simp)
  then show ?thesis by auto
qed

text \<open>It asks for bids, and their delivery is the last thing that happens, answered or not.\<close>

lemma sample_run:
  obtains s0 s s' where "sample_reactor pas = Some s0"
    "bidding_signals_fetch_mode (config s0) = NOT_FETCHED" "forgotten (config s0) (raw_request s0) = (if pas then 1 else 0)"
    "Execute sample_gb_env False s0 = Some s" "finishes s = 0" "waiting s = [GenerateBidsCallback]"
    "deliveries (delivers sample_gb_env) 1 s s'" "waiting s' = []"
proof -
  obtain s0 where s0: "sample_reactor pas = Some s0" "bidding_signals_fetch_mode (config s0) = NOT_FETCHED"
    "forgotten (config s0) (raw_request s0) = (if pas then 1 else 0)" using sample_reactor_facts by blast
  have "map_option (\<lambda>s. (finishes s, waiting s)) (sample_reactor pas \<bind> Execute sample_gb_env False) =
    Some (0, [GenerateBidsCallback])" by (cases pas; simp only: if_True if_False; code_simp)
  then obtain s where s: "Execute sample_gb_env False s0 = Some s" "finishes s = 0" "waiting s = [GenerateBidsCallback]"
    using s0(1) by auto
  have "map_option waiting (sample_reactor pas \<bind> Execute sample_gb_env False \<bind>
      deliver sample_gb_env False sample_answers GenerateBidsCallback) = Some []" by (cases pas; simp only: if_True if_False; code_simp)
  then obtain s' where s': "deliver sample_gb_env False sample_answers GenerateBidsCallback s = Some s'" "waiting s' = []"
    using s0(1) s(1) by auto
  have "delivers sample_gb_env GenerateBidsCallback s s'" using s(3) s'(1) by (intro deliver_waiting) simp_all
  then have "deliveries (delivers sample_gb_env) 1 s s'" using deliveries.more [OF deliveries.none] by fastforce
  from that [OF s0 s this s'(2)] show thesis .
qed



text \<open>C5. A request whose input for protected app signals holds none is counted for a task that is never
  started: if it is not answered at once it is never answered, although all callbacks run.\<close>

theorem empty_app_signals_never_answered:
  assumes "new_GetBidsUnaryReactor e c md request sampled = Some s0"
    and "can_fetch e (config s0) (raw_request s0)" and "forgotten (config s0) (raw_request s0) = 1"
    and "Execute e cancelled s0 = Some s" and "finishes s = 0" and "ChaffTimer \<notin> set (waiting s)"
    and "deliveries (delivers e) n s s'"
  shows "finishes s' = 0 \<and> n + length (waiting s') \<le> 4"
proof -
  have one: "finishes t = 0 \<and> ChaffTimer \<notin> set (waiting t)" if "on_track 1 e t" for t
    using that by (auto simp: on_track_def fine_def)
  have "on_track 1 e s" using Execute_on_track [OF assms(1,4)] assms(2,3,5,6) by auto
  with assms(7) have "on_track 1 e s'"
  proof (induction rule: deliveries.induct)
    case (more m s t cb u)
    have t: "on_track 1 e t" using more.IH [OF more.prems] .
    then have "cb \<noteq> ChaffTimer" using more.hyps(2) one by (auto elim: deliversE)
    then show ?case using delivers_on_track [OF more.hyps(2) t] by simp
  qed
  with one [of s'] callbacks_bound [OF assms(1,4,7)] show ?thesis by simp
qed

theorem empty_app_signals_never_answered_witness:
  "\<exists>s0 s s'. sample_reactor True = Some s0 \<and> Execute sample_gb_env False s0 = Some s \<and>
     deliveries (delivers sample_gb_env) 1 s s' \<and> finishes s' = 0 \<and> waiting s' = []"
proof -
  obtain s0 s s' where run: "sample_reactor True = Some s0" "bidding_signals_fetch_mode (config s0) = NOT_FETCHED"
    "forgotten (config s0) (raw_request s0) = (if True then 1 else 0)" "Execute sample_gb_env False s0 = Some s"
    "finishes s = 0" "waiting s = [GenerateBidsCallback]" "deliveries (delivers sample_gb_env) 1 s s'" "waiting s' = []"
    by (rule sample_run)
  have "can_fetch sample_gb_env (config s0) (raw_request s0)" using run(2) by (simp add: can_fetch_def)
  from empty_app_signals_never_answered [OF run(1) [unfolded sample_reactor_def] this _ run(4,5) _ run(7)] run
  show ?thesis by auto
qed

end
