(* ===== verification/HashUtil.thy ===== *)
theory HashUtil
  imports Prelude "HOL-Library.Word"
begin

text \<open>
  The keys of the k-anonymity service before hashing (\<^verbatim>\<open>services/common/util/hash_util.cc\<close>). The
  canonical form of a URL is that of another library, a parameter; so is the hash.
\<close>

record KAnonKeyReportingIDParam =
  kp_buyer_reporting_id :: "string option"
  kp_buyer_and_seller_reporting_id :: "string option"
  kp_selected_buyer_and_seller_reporting_id :: "string option"

definition newline :: char where
  "newline = CHR 0x0A"

text \<open>Four bytes, the first one highest.\<close>

definition LittleEndianU32ToBigEndianString :: "32 word \<Rightarrow> string" where
  "LittleEndianU32ToBigEndianString w =
     map (\<lambda>i. char_of (unat (ucast (drop_bit (i * 8) w) :: 8 word))) [3, 2, 1, 0]"

definition AppendReportingIdForSelectedReportingKeyKAnonKey :: "string option \<Rightarrow> string \<Rightarrow> string" where
  "AppendReportingIdForSelectedReportingKeyKAnonKey reporting_id k_anon_key = (case reporting_id of
     None \<Rightarrow> k_anon_key @ [newline] @ replicate 5 (CHR 0x00)
   | Some s \<Rightarrow> k_anon_key @ [newline, CHR 0x01] @ LittleEndianU32ToBigEndianString (of_nat (length s)) @ s)"

definition PlainTextKAnonKeyForAdRenderURL :: "(string \<Rightarrow> string) \<Rightarrow> string \<Rightarrow> string \<Rightarrow> string \<Rightarrow> string" where
  "PlainTextKAnonKeyForAdRenderURL CanonicalizeURL owner bidding_url render_url =
     ''AdBid'' @ [newline] @ CanonicalizeURL owner @ [newline] @ CanonicalizeURL bidding_url @ [newline] @
     CanonicalizeURL render_url"

definition PlainTextKAnonKeyForAdComponentRenderURL :: "(string \<Rightarrow> string) \<Rightarrow> string \<Rightarrow> string" where
  "PlainTextKAnonKeyForAdComponentRenderURL CanonicalizeURL component_render_url =
     ''ComponentBid'' @ [newline] @ CanonicalizeURL component_render_url"

definition PlainTextKAnonKeyForReportingID ::
    "(string \<Rightarrow> string) \<Rightarrow> string \<Rightarrow> string \<Rightarrow> string \<Rightarrow> string \<Rightarrow> KAnonKeyReportingIDParam \<Rightarrow> string" where
  "PlainTextKAnonKeyForReportingID CanonicalizeURL owner ig_name bidding_url render_url ids =
     (let middle = CanonicalizeURL owner @ [newline] @ CanonicalizeURL bidding_url @ [newline] @ CanonicalizeURL render_url in
      case kp_selected_buyer_and_seller_reporting_id ids of
        Some _ \<Rightarrow>
          AppendReportingIdForSelectedReportingKeyKAnonKey (kp_buyer_reporting_id ids)
            (AppendReportingIdForSelectedReportingKeyKAnonKey (kp_buyer_and_seller_reporting_id ids)
              (AppendReportingIdForSelectedReportingKeyKAnonKey (kp_selected_buyer_and_seller_reporting_id ids)
                (''SelectedBuyerAndSellerReportId'' @ [newline] @ middle)))
      | None \<Rightarrow> (case kp_buyer_and_seller_reporting_id ids of
          Some buyer_seller_id \<Rightarrow> ''BuyerAndSellerReportId'' @ [newline] @ middle @ [newline] @ buyer_seller_id
        | None \<Rightarrow> (case kp_buyer_reporting_id ids of
            Some buyer_id \<Rightarrow> ''BuyerReportId'' @ [newline] @ middle @ [newline] @ buyer_id
          | None \<Rightarrow> ''NameReport'' @ [newline] @ middle @ [newline] @ ig_name)))"

subsection \<open>What a key stands for\<close>

datatype k_anon_query =
    Ad_render string string string
  | Component_render string
  | Reporting_id string string string string KAnonKeyReportingIDParam

fun plain_key :: "(string \<Rightarrow> string) \<Rightarrow> k_anon_query \<Rightarrow> string" where
  "plain_key cu (Ad_render owner b r) = PlainTextKAnonKeyForAdRenderURL cu owner b r"
| "plain_key cu (Component_render r) = PlainTextKAnonKeyForAdComponentRenderURL cu r"
| "plain_key cu (Reporting_id owner ig b r ids) = PlainTextKAnonKeyForReportingID cu owner ig b r ids"

text \<open>The ad, component or reporting id that is asked about: the ids that are reported together.\<close>

datatype k_anon_meaning =
    Ad string string string
  | Component string
  | Selected_id string string string string "string option" "string option"
  | Buyer_and_seller_id string string string string
  | Buyer_id string string string string
  | Group_name string string string string

fun meaning :: "(string \<Rightarrow> string) \<Rightarrow> k_anon_query \<Rightarrow> k_anon_meaning" where
  "meaning cu (Ad_render owner b r) = Ad (cu owner) (cu b) (cu r)"
| "meaning cu (Component_render r) = Component (cu r)"
| "meaning cu (Reporting_id owner ig b r ids) = (case kp_selected_buyer_and_seller_reporting_id ids of
     Some x \<Rightarrow> Selected_id (cu owner) (cu b) (cu r) x (kp_buyer_and_seller_reporting_id ids) (kp_buyer_reporting_id ids)
   | None \<Rightarrow> (case kp_buyer_and_seller_reporting_id ids of
       Some x \<Rightarrow> Buyer_and_seller_id (cu owner) (cu b) (cu r) x
     | None \<Rightarrow> (case kp_buyer_reporting_id ids of
         Some x \<Rightarrow> Buyer_id (cu owner) (cu b) (cu r) x
       | None \<Rightarrow> Group_name (cu owner) (cu b) (cu r) ig)))"

definition enc :: "string option \<Rightarrow> string" where
  "enc o_id = (case o_id of None \<Rightarrow> newline # replicate 5 (CHR 0x00)
    | Some s \<Rightarrow> [newline, CHR 0x01] @ LittleEndianU32ToBigEndianString (of_nat (length s)) @ s)"

fun kind_name :: "k_anon_meaning \<Rightarrow> string" where
  "kind_name (Ad u v w) = ''AdBid''"
| "kind_name (Component w) = ''ComponentBid''"
| "kind_name (Selected_id u v w x y z) = ''SelectedBuyerAndSellerReportId''"
| "kind_name (Buyer_and_seller_id u v w x) = ''BuyerAndSellerReportId''"
| "kind_name (Buyer_id u v w x) = ''BuyerReportId''"
| "kind_name (Group_name u v w x) = ''NameReport''"

fun kind_rest :: "k_anon_meaning \<Rightarrow> string" where
  "kind_rest (Ad u v w) = u @ newline # v @ newline # w"
| "kind_rest (Component w) = w"
| "kind_rest (Selected_id u v w x y z) = u @ newline # v @ newline # w @ enc (Some x) @ enc y @ enc z"
| "kind_rest (Buyer_and_seller_id u v w x) = u @ newline # v @ newline # w @ newline # x"
| "kind_rest (Buyer_id u v w x) = u @ newline # v @ newline # w @ newline # x"
| "kind_rest (Group_name u v w x) = u @ newline # v @ newline # w @ newline # x"

definition key_of_meaning :: "k_anon_meaning \<Rightarrow> string" where
  "key_of_meaning m = kind_name m @ newline # kind_rest m"

lemma plain_key_meaning: "plain_key cu q = key_of_meaning (meaning cu q)"
  by (cases q) (auto simp: PlainTextKAnonKeyForAdRenderURL_def PlainTextKAnonKeyForAdComponentRenderURL_def
      PlainTextKAnonKeyForReportingID_def key_of_meaning_def AppendReportingIdForSelectedReportingKeyKAnonKey_def enc_def Let_def
      split: option.split)

subsection \<open>Keys determine what they stand for\<close>

lemma line_eq [simp]: "newline \<notin> set a \<Longrightarrow> newline \<notin> set b \<Longrightarrow> a @ newline # x = b @ newline # y \<longleftrightarrow> a = b \<and> x = y"
  by (auto simp: append_eq_append_conv2 append_eq_Cons_conv Cons_eq_append_conv)

lemma enc_Some_line: "\<exists>r. enc o_id @ x = newline # r"
  by (cases o_id) (simp_all add: enc_def)

lemma be32_inj: "LittleEndianU32ToBigEndianString v = LittleEndianU32ToBigEndianString w \<Longrightarrow> v = w"
proof -
  assume eq: "LittleEndianU32ToBigEndianString v = LittleEndianU32ToBigEndianString w"
  have inj: "unat (a :: 8 word) mod 256 = unat b mod 256 \<Longrightarrow> a = b" for a b
  proof -
    assume "unat a mod 256 = unat b mod 256"
    moreover have "unat (x :: 8 word) mod 256 = unat x" for x
      using unsigned_less [where ?'b = 8 and ?'a = nat, of x] by simp
    ultimately show "a = b" by (simp add: word_unat_eq_iff)
  qed
  from eq have *: "\<And>i. i \<in> {0, 1, 2, 3} \<Longrightarrow>
      (ucast (drop_bit (i * 8) v) :: 8 word) = ucast (drop_bit (i * 8) w)"
    by (auto simp: LittleEndianU32ToBigEndianString_def dest!: inj)
  show ?thesis
  proof (rule bit_word_eqI)
    fix n assume "n < LENGTH(32)"
    then have "n div 8 \<in> {0, 1, 2, 3}" by auto
    from * [OF this] have "bit (ucast (drop_bit (n div 8 * 8) v) :: 8 word) (n mod 8) =
        bit (ucast (drop_bit (n div 8 * 8) w) :: 8 word) (n mod 8)" by simp
    then show "bit v n = bit w n" by (simp add: bit_unsigned_iff bit_drop_bit_eq)
  qed
qed

lemma length_be32 [simp]: "length (LittleEndianU32ToBigEndianString w) = 4"
  by (simp add: LittleEndianU32ToBigEndianString_def)

definition short :: "string option \<Rightarrow> bool" where
  "short o_id \<longleftrightarrow> (case o_id of None \<Rightarrow> True | Some s \<Rightarrow> length s < 2 ^ 32)"

lemma enc_inj: "short a \<Longrightarrow> short b \<Longrightarrow> enc a @ x = enc b @ y \<longleftrightarrow> a = b \<and> x = y"
proof
  assume s: "short a" "short b" and eq: "enc a @ x = enc b @ y"
  show "a = b \<and> x = y"
  proof (cases a)
    case None
    with eq show ?thesis by (cases b) (auto simp: enc_def numeral_eq_Suc)
  next
    case (Some s)
    with eq obtain t where b: "b = Some t" by (cases b) (auto simp: enc_def numeral_eq_Suc)
    from eq have "LittleEndianU32ToBigEndianString (of_nat (length s)) @ s @ x =
        LittleEndianU32ToBigEndianString (of_nat (length t)) @ t @ y" by (simp add: Some b enc_def)
    then have w: "(of_nat (length s) :: 32 word) = of_nat (length t)" and rest: "s @ x = t @ y"
      by (auto dest: be32_inj)
    from s Some b have "length s < 2 ^ LENGTH(32)" "length t < 2 ^ LENGTH(32)" by (simp_all add: short_def)
    then have "unat (of_nat (length s) :: 32 word) = length s" "unat (of_nat (length t) :: 32 word) = length t"
      by (simp_all add: unat_of_nat)
    with w have "length s = length t" by metis
    with rest Some b show ?thesis by simp
  qed
qed simp

text \<open>URLs of one line, and ids of a length that fits into the four bytes.\<close>

definition lines_ok :: "(string \<Rightarrow> string) \<Rightarrow> k_anon_query \<Rightarrow> bool" where
  "lines_ok cu q \<longleftrightarrow> (case q of
     Ad_render owner b r \<Rightarrow> newline \<notin> set (cu owner) \<and> newline \<notin> set (cu b)
   | Component_render r \<Rightarrow> True
   | Reporting_id owner ig b r ids \<Rightarrow> newline \<notin> set (cu owner) \<and> newline \<notin> set (cu b) \<and> newline \<notin> set (cu r) \<and>
       short (kp_buyer_reporting_id ids) \<and> short (kp_buyer_and_seller_reporting_id ids) \<and>
       short (kp_selected_buyer_and_seller_reporting_id ids))"

lemma kind_name_line: "newline \<notin> set (kind_name m)"
  by (cases m) (simp_all add: newline_def)

fun meaning_ok :: "k_anon_meaning \<Rightarrow> bool" where
  "meaning_ok (Ad u v w) \<longleftrightarrow> newline \<notin> set u \<and> newline \<notin> set v"
| "meaning_ok (Component w) \<longleftrightarrow> True"
| "meaning_ok (Selected_id u v w x y z) \<longleftrightarrow> newline \<notin> set u \<and> newline \<notin> set v \<and> newline \<notin> set w \<and>
     short (Some x) \<and> short y \<and> short z"
| "meaning_ok (Buyer_and_seller_id u v w x) \<longleftrightarrow> newline \<notin> set u \<and> newline \<notin> set v \<and> newline \<notin> set w"
| "meaning_ok (Buyer_id u v w x) \<longleftrightarrow> newline \<notin> set u \<and> newline \<notin> set v \<and> newline \<notin> set w"
| "meaning_ok (Group_name u v w x) \<longleftrightarrow> newline \<notin> set u \<and> newline \<notin> set v \<and> newline \<notin> set w"

lemma selected_line: "newline \<notin> set w \<Longrightarrow> newline \<notin> set w' \<Longrightarrow>
    w @ enc a @ x = w' @ enc b @ y \<longleftrightarrow> w = w' \<and> enc a @ x = enc b @ y"
proof -
  obtain r r' where "enc a @ x = newline # r" "enc b @ y = newline # r'" using enc_Some_line by metis
  then show "newline \<notin> set w \<Longrightarrow> newline \<notin> set w' \<Longrightarrow> ?thesis" by simp
qed

lemma key_of_meaning_inj:
  "meaning_ok m \<Longrightarrow> meaning_ok m' \<Longrightarrow> key_of_meaning m = key_of_meaning m' \<longleftrightarrow> m = m'"
  using enc_inj [where x = "[]" and y = "[]"]
  by (cases m; cases m') (simp_all add: key_of_meaning_def kind_name_line selected_line enc_inj del: kind_name.simps,
    simp_all)

lemma lines_ok_meaning: "lines_ok cu q \<Longrightarrow> meaning_ok (meaning cu q)"
  by (cases q) (auto simp: lines_ok_def split: option.split)

text \<open>C40. Two queries have the same key before hashing exactly when they ask for the k-anonymity of the
  same thing: the same kind, URLs of the same canonical form and the same reported ids. No choice of
  ids by a buyer makes one key stand for two things.\<close>

theorem k_anon_keys_determine_queries:
  assumes "lines_ok cu p" and "lines_ok cu q"
  shows "plain_key cu p = plain_key cu q \<longleftrightarrow> meaning cu p = meaning cu q"
  using key_of_meaning_inj [OF lines_ok_meaning [OF assms(1)] lines_ok_meaning [OF assms(2)]]
  by (simp add: plain_key_meaning)

theorem k_anon_keys_determine_queries_witness:
  "plain_key id (Reporting_id ''o'' ''ig'' ''b'' ''r'' \<lparr>kp_buyer_reporting_id = Some ''x'',
      kp_buyer_and_seller_reporting_id = None, kp_selected_buyer_and_seller_reporting_id = None\<rparr>) \<noteq>
   plain_key id (Reporting_id ''o'' ''x'' ''b'' ''r'' \<lparr>kp_buyer_reporting_id = None,
      kp_buyer_and_seller_reporting_id = None, kp_selected_buyer_and_seller_reporting_id = None\<rparr>)"
  (is "plain_key id ?p \<noteq> plain_key id ?q")
proof -
  have "lines_ok id ?p" "lines_ok id ?q" by (simp_all add: lines_ok_def short_def newline_def)
  from k_anon_keys_determine_queries [OF this] show ?thesis by simp
qed

end
