(* ===== verification/ErrorAccumulator.thy ===== *)
theory ErrorAccumulator
  imports Prelude "HOL-Library.List_Lexorder" "HOL-Library.Char_ord"
begin

text \<open>
  The accumulator of errors of the seller front end (\<^verbatim>\<open>services/common/util/error_accumulator.cc\<close>):
  errors by visibility and code, each message once, printed in the order of the messages.
\<close>

datatype ErrorVisibility = CLIENT_VISIBLE | AD_SERVER_VISIBLE

datatype ErrorCode = CLIENT_SIDE | SERVER_SIDE

type_synonym errors = "(ErrorVisibility \<times> ErrorCode \<times> string) set"

definition ReportError :: "ErrorVisibility \<Rightarrow> string \<Rightarrow> ErrorCode \<Rightarrow> errors \<Rightarrow> errors" where
  "ReportError visibility msg code errs = insert (visibility, code, msg) errs"

definition HasErrors :: "errors \<Rightarrow> bool" where
  "HasErrors errs \<longleftrightarrow> errs \<noteq> {}"

definition GetErrors :: "ErrorVisibility \<Rightarrow> errors \<Rightarrow> (ErrorCode \<times> string) set" where
  "GetErrors visibility errs = snd ` {x \<in> errs. fst x = visibility}"

definition kErrorDelimiter :: string where
  "kErrorDelimiter = ''; ''"

fun StrJoin :: "string list \<Rightarrow> string \<Rightarrow> string" where
  "StrJoin [] d = []"
| "StrJoin [s] d = s"
| "StrJoin (s # t # ss) d = s @ d @ StrJoin (t # ss) d"

text \<open>Only errors of the client's side are printed.\<close>

definition GetAccumulatedErrorString :: "ErrorVisibility \<Rightarrow> errors \<Rightarrow> string" where
  "GetAccumulatedErrorString visibility errs =
     StrJoin (sorted_list_of_set (snd ` {x \<in> GetErrors visibility errs. fst x = CLIENT_SIDE})) kErrorDelimiter"

lemma GetErrors_empty [simp]: "GetErrors v {} = {}"
  by (simp add: GetErrors_def)

lemma GetErrors_ReportError [simp]:
  "GetErrors v (ReportError w msg code errs) =
     (if v = w then insert (code, msg) (GetErrors v errs) else GetErrors v errs)"
  by (auto simp: GetErrors_def ReportError_def image_iff)

lemma HasErrors_ReportError [simp]: "HasErrors (ReportError w msg code errs)"
  by (simp add: HasErrors_def ReportError_def)

lemma no_errors: "\<not> HasErrors errs \<longleftrightarrow> GetErrors CLIENT_VISIBLE errs = {} \<and> GetErrors AD_SERVER_VISIBLE errs = {}"
proof -
  have "x \<in> errs \<Longrightarrow> snd x \<in> GetErrors CLIENT_VISIBLE errs \<or> snd x \<in> GetErrors AD_SERVER_VISIBLE errs" for x
    by (cases "fst x") (auto simp: GetErrors_def)
  then show ?thesis by (auto simp: HasErrors_def)
qed

end
