(* ===== verification/SelectAdMessages.thy ===== *)
theory SelectAdMessages
  imports BuyerSignals AuctionTypes ErrorAccumulator Transcoding
begin

text \<open>
  The messages of the seller front end (\<^verbatim>\<open>api/bidding_auction_servers.proto\<close>): the request of the
  seller's ad service, the client's input inside it, bids with their fields, and what is exchanged
  with the auction server. \<^verbatim>\<open>ProtectedAudienceInput\<close> and \<^verbatim>\<open>ProtectedAuctionInput\<close> have the same fields.
  A map that is iterated is an association list.
\<close>

subsection \<open>Request\<close>

record PerBuyerConfig =
  pbc_buyer_signals :: string
  pbc_buyer_kv_experiment_group_id :: "int option"
  pbc_buyer_debug_id :: string
  pbc_buyer_currency :: string
  pbc_contextual_protected_app_signals_data :: "ContextualProtectedAppSignalsData option"
  pbc_multi_bid_limit :: int
  pbc_priority_signals_overrides :: string
  pbc_blob_versions :: "BuyerBlobVersions option"

record SellerCodeExperimentSpecification =
  seller_kv_experiment_group_id :: "int option"
  spec_score_ad_version :: string

record AuctionConfig =
  ac_seller_signals :: string
  ac_auction_signals :: string
  ac_buyer_list :: "string list"
  ac_seller :: string
  ac_per_buyer_config :: "(string \<times> PerBuyerConfig) list"
  ac_code_experiment_spec :: "SellerCodeExperimentSpecification option"
  ac_seller_debug_id :: string
  ac_buyer_timeout_ms :: int
  ac_top_level_seller :: string
  ac_seller_currency :: string
  ac_top_level_cloud_platform :: EncryptionCloudPlatform
  ac_priority_signals :: string

definition default_AuctionConfig :: AuctionConfig where
  "default_AuctionConfig = \<lparr>ac_seller_signals = [], ac_auction_signals = [], ac_buyer_list = [], ac_seller = [],
     ac_per_buyer_config = [], ac_code_experiment_spec = None, ac_seller_debug_id = [], ac_buyer_timeout_ms = 0,
     ac_top_level_seller = [], ac_seller_currency = [],
     ac_top_level_cloud_platform = ENCRYPTION_CLOUD_PLATFORM_UNSPECIFIED, ac_priority_signals = []\<rparr>"

record SelectAdRequest =
  sr_protected_audience_ciphertext :: "byte list"
  sr_auction_config :: "AuctionConfig option"
  sr_client_type :: ClientType
  sr_protected_auction_ciphertext :: "byte list"
  sr_num_component_auction_results :: nat
  sr_compressed_auction_config :: "byte list option"

text \<open>A getter of a message that is not set returns the default instance.\<close>

definition request_auction_config :: "SelectAdRequest \<Rightarrow> AuctionConfig" where
  "request_auction_config r = (case sr_auction_config r of None \<Rightarrow> default_AuctionConfig | Some c \<Rightarrow> c)"

record ProtectedInput =
  pin_buyer_input :: "(string \<times> byte list) list"
  pin_publisher_name :: string
  pin_enable_debug_reporting :: bool
  pin_generation_id :: string
  pin_consented_debug_config :: "ConsentedDebugConfiguration option"
  pin_enable_unlimited_egress :: bool
  pin_num_k_anon_ghost_winners :: "int option"
  pin_enforce_kanon :: bool

definition default_ProtectedInput :: ProtectedInput where
  "default_ProtectedInput = \<lparr>pin_buyer_input = [], pin_publisher_name = [], pin_enable_debug_reporting = False,
     pin_generation_id = [], pin_consented_debug_config = None, pin_enable_unlimited_egress = False,
     pin_num_k_anon_ghost_winners = None, pin_enforce_kanon = False\<rparr>"

subsection \<open>Bids\<close>

record AdWithBid =
  ab_ad :: "(string + json) option"
  ab_bid :: rat
  ab_render :: string
  ab_ad_components :: "string list"
  ab_allow_component_auction :: bool
  ab_interest_group_name :: string
  ab_ad_cost :: rat
  ab_debug_report_urls :: "DebugReportUrls option"
  ab_modeling_signals :: int
  ab_bid_currency :: string
  ab_buyer_reporting_id :: "string option"
  ab_private_aggregation_contributions :: "PrivateAggregateContribution list"
  ab_buyer_and_seller_reporting_id :: "string option"
  ab_selected_buyer_and_seller_reporting_id :: "string option"
  ab_data_version :: int

record ProtectedAppSignalsAdWithBid =
  pab_ad :: "(string + json) option"
  pab_bid :: rat
  pab_render :: string
  pab_ad_cost :: rat
  pab_bid_currency :: string
  pab_egress_payload :: string
  pab_temporary_unlimited_egress_payload :: string
  pab_debug_report_urls :: "DebugReportUrls option"
  pab_allow_component_auction :: bool

type_synonym GetBidsResponse = "(AdWithBid, ProtectedAppSignalsAdWithBid) GetBidsRawResponse"

text \<open>The bids by buyer, in the order in which they are met; a buyer occurs once.\<close>

type_synonym BuyerBidsResponseMap = "(string \<times> GetBidsResponse) list"

definition emplace_bids :: "string \<Rightarrow> 'a \<Rightarrow> (string \<times> 'a) list \<Rightarrow> (string \<times> 'a) list" where
  "emplace_bids buyer x m = (if map_of m buyer = None then m @ [(buyer, x)] else m)"

lemma map_of_emplace_bids [simp]: "map_of (emplace_bids k x m) = try_emplace (map_of m) k x"
  by (auto simp: emplace_bids_def fun_eq_iff map_add_def split: option.split)

lemma distinct_emplace_bids [simp]:
  "distinct (map fst (emplace_bids k x m)) = distinct (map fst m)"
  by (auto simp: emplace_bids_def map_of_eq_None_iff)

lemma emplace_bids_not_empty [simp]: "emplace_bids k x m \<noteq> []"
  by (auto simp: emplace_bids_def)

subsection \<open>Scoring\<close>

record ScoringSignals =
  ss_scoring_signals :: string
  ss_data_version :: nat

text \<open>The request to the auction server with the fields it only logs or samples by.\<close>

record SentScoreAdsRequest = ScoreAdsRawRequest +
  sent_log_context :: LogContext
  sent_consented_debug_config :: "ConsentedDebugConfiguration option"
  sent_is_sampled_for_debug :: bool

record ReceivedScoreAdsResponse = ScoreAdsRawResponse +
  has_ad_score :: bool
  auction_export_debug :: bool
  auction_debug_info :: bool

definition no_score :: ReceivedScoreAdsResponse where
  "no_score = \<lparr>ad_score = default_AdScore, ghost_winning_ad_scores = [], has_ad_score = False,
     auction_export_debug = False, auction_debug_info = False\<rparr>"

subsection \<open>Debug reports of a component auction\<close>

record DebugReport =
  dr_url :: string
  dr_is_win_report :: bool
  dr_is_seller_report :: bool
  dr_is_component_win :: bool

end
