(* ===== verification/SellerPrivateAggregation.thy ===== *)
theory SellerPrivateAggregation
  imports SelectAdMessages PrivateAggregation
begin

text \<open>
  Private aggregation in the seller front end (\<^verbatim>\<open>seller_frontend_service/private_aggregation/private_aggregation_helper.cc\<close>):
  the contributions of bids whose event fits the outcome of the auction get their bucket and value and
  are added to the scores; a limit holds for each ad tech. \<open>None\<close> is undefined behaviour, as it is where
  the contributions are computed. (Encoding as CBOR is left out.)
\<close>

subsection \<open>Filters\<close>

definition contribution_event :: "PrivateAggregateContribution \<Rightarrow> EventType" where
  "contribution_event c = (case pac_event c of None \<Rightarrow> EVENT_TYPE_UNSPECIFIED | Some ev \<Rightarrow> event_type ev)"

definition FilterWinContributions :: "AdWithBid \<Rightarrow> AdWithBid" where
  "FilterWinContributions ad = ad\<lparr>ab_private_aggregation_contributions :=
     filter (\<lambda>c. contribution_event c \<in> {EVENT_TYPE_WIN, EVENT_TYPE_CUSTOM, EVENT_TYPE_ALWAYS})
       (ab_private_aggregation_contributions ad)\<rparr>"

definition FilterLossContributions :: "AdWithBid \<Rightarrow> AdWithBid" where
  "FilterLossContributions ad = ad\<lparr>ab_private_aggregation_contributions :=
     filter (\<lambda>c. contribution_event c \<in> {EVENT_TYPE_LOSS, EVENT_TYPE_ALWAYS})
       (ab_private_aggregation_contributions ad)\<rparr>"

definition GetBaseValues :: "AdScore \<Rightarrow> BaseValues" where
  "GetBaseValues high_score = \<lparr>
     bv_winning_bid = Some (if incoming_bid_in_seller_currency high_score > 0
       then incoming_bid_in_seller_currency high_score else buyer_bid high_score),
     bv_highest_scoring_other_bid = Some (case ig_owner_highest_scoring_other_bids_map high_score of
         (_, b # _) # _ \<Rightarrow> b | _ \<Rightarrow> 0),
     bv_reject_reason = None\<rparr>"

subsection \<open>Buckets and values\<close>

definition process_contribution ::
    "BaseValues \<Rightarrow> PrivateAggregateContribution \<Rightarrow> PrivateAggregateContribution option option" where
  "process_contribution base_values c = do {
     v \<leftarrow> GetPrivateAggregationValuePostAuction base_values (pac_value c);
     b \<leftarrow> GetPrivateAggregationBucketPostAuction base_values (pac_bucket c);
     Some (case (v, b) of
       (Inr value, Inr bucket) \<Rightarrow>
         Some (c\<lparr>pac_value := Int_value value, pac_bucket := Bucket_128_bit bucket, pac_event := None\<rparr>)
     | _ \<Rightarrow> None) }"

text \<open>The contribution a message that was moved away leaves behind.\<close>

definition moved_contribution :: PrivateAggregateContribution where
  "moved_contribution = \<lparr>pac_bucket = Bucket_not_set, pac_value = Value_not_set, pac_event = None, pac_ig_idx = 0\<rparr>"

text \<open>What stays in the ad, and the contributions to be reported.\<close>

fun process_contributions ::
    "BaseValues \<Rightarrow> PrivateAggregateContribution list \<Rightarrow>
     (PrivateAggregateContribution list \<times> PrivateAggregateContribution list) option" where
  "process_contributions base_values [] = Some ([], [])"
| "process_contributions base_values (c # cs) = do {
     p \<leftarrow> process_contribution base_values c;
     (left, processed) \<leftarrow> process_contributions base_values cs;
     Some (case p of None \<Rightarrow> (c # left, processed) | Some c' \<Rightarrow> (moved_contribution # left, c' # processed)) }"

definition GetProcessedAndFilteredContributions ::
    "AdWithBid \<Rightarrow> BaseValues \<Rightarrow> (AdWithBid \<times> PrivateAggregateContribution list) option" where
  "GetProcessedAndFilteredContributions ad base_values = do {
     (left, processed) \<leftarrow> process_contributions base_values (ab_private_aggregation_contributions ad);
     Some (ad\<lparr>ab_private_aggregation_contributions := left\<rparr>, processed) }"

subsection \<open>The winner and the bids that lost\<close>

type_synonym interest_group_index_map = "string \<times> string \<rightharpoonup> int"

definition HandlePrivateAggregationContributions_ad ::
    "interest_group_index_map \<Rightarrow> AdScore \<Rightarrow> string \<Rightarrow> AdWithBid \<Rightarrow> (AdWithBid \<times> PrivateAggregateContribution list) option" where
  "HandlePrivateAggregationContributions_ad ig_index high_score ig_owner ad =
     (if ab_private_aggregation_contributions ad = [] then Some (ad, [])
      else (case ig_index (ig_owner, ab_interest_group_name ad) of
          None \<Rightarrow> Some (ad, [])
        | Some ig_idx \<Rightarrow>
            (let won = interest_group_owner high_score = ig_owner \<and> ab_interest_group_name ad = interest_group_name high_score;
                 ad' = (if won then FilterWinContributions ad else FilterLossContributions ad);
                 base_values = (if won then GetBaseValues high_score else (GetBaseValues high_score)
                   \<lparr>bv_reject_reason := map_option rejection_reason
                      (find (\<lambda>r. arr_interest_group_owner r = ig_owner \<and> arr_interest_group_name r = ab_interest_group_name ad)
                        (ad_rejection_reasons high_score))\<rparr>)
             in if ab_private_aggregation_contributions ad' = [] then Some (ad', [])
                else do {
                  (ad'', processed) \<leftarrow> GetProcessedAndFilteredContributions ad' base_values;
                  Some (ad'', map (\<lambda>c. c\<lparr>pac_ig_idx := ig_idx\<rparr>) processed) })))"

fun handle_ads ::
    "(AdWithBid \<Rightarrow> (AdWithBid \<times> PrivateAggregateContribution list) option) \<Rightarrow> AdWithBid list \<Rightarrow>
     (AdWithBid list \<times> PrivateAggregateContribution list) option" where
  "handle_ads f [] = Some ([], [])"
| "handle_ads f (ad # ads) = do {
     (ad', cs) \<leftarrow> f ad;
     (ads', cs') \<leftarrow> handle_ads f ads;
     Some (ad' # ads', cs @ cs') }"

definition add_response :: "string \<Rightarrow> PrivateAggregateContribution list \<Rightarrow> AdScore \<Rightarrow> AdScore" where
  "add_response ig_owner cs score = (if cs = [] then score
     else score\<lparr>top_level_contributions := top_level_contributions score @ [\<lparr>contributions = cs, adtech_origin = ig_owner\<rparr>]\<rparr>)"

fun HandlePrivateAggregationContributions ::
    "interest_group_index_map \<Rightarrow> AdScore \<Rightarrow> BuyerBidsResponseMap \<Rightarrow> (AdScore \<times> BuyerBidsResponseMap) option" where
  "HandlePrivateAggregationContributions ig_index high_score [] = Some (high_score, [])"
| "HandlePrivateAggregationContributions ig_index high_score ((ig_owner, response) # buyers) = do {
     (ads, cs) \<leftarrow> handle_ads (HandlePrivateAggregationContributions_ad ig_index high_score ig_owner) (bids response);
     (score, buyers') \<leftarrow> HandlePrivateAggregationContributions ig_index (add_response ig_owner cs high_score) buyers;
     Some (score, (ig_owner, response\<lparr>bids := ads\<rparr>) # buyers') }"

subsection \<open>Ghost winners\<close>

text \<open>The bids of the buyer up to the first that contributes; the base values but one are never set.\<close>

definition ghost_base_values :: BaseValues where
  "ghost_base_values = \<lparr>bv_winning_bid = None, bv_highest_scoring_other_bid = None,
     bv_reject_reason = Some DID_NOT_MEET_THE_KANONYMITY_THRESHOLD\<rparr>"

fun ghost_ads ::
    "interest_group_index_map \<Rightarrow> AdScore \<Rightarrow> string \<Rightarrow> AdWithBid list \<Rightarrow>
     (AdWithBid list \<times> PrivateAggregateContribution list) option" where
  "ghost_ads ig_index score ig_owner [] = Some ([], [])"
| "ghost_ads ig_index score ig_owner (ad # ads) =
     (let skip = (\<lambda>ad. map_option (map_prod ((#) ad) id) (ghost_ads ig_index score ig_owner ads)) in
      if ab_private_aggregation_contributions ad = [] \<or> ab_interest_group_name ad \<noteq> interest_group_name score then skip ad
      else (case ig_index (ig_owner, ab_interest_group_name ad) of
          None \<Rightarrow> skip ad
        | Some ig_idx \<Rightarrow>
            (let ad' = FilterLossContributions ad in
             if ab_private_aggregation_contributions ad' = [] then skip ad'
             else do {
               (ad'', processed) \<leftarrow> GetProcessedAndFilteredContributions ad' ghost_base_values;
               (if processed = [] then skip ad''
                else Some (ad'' # ads, map (\<lambda>c. c\<lparr>pac_ig_idx := ig_idx\<rparr>) processed)) })))"

fun HandlePrivateAggregationContributionsForGhostWinner ::
    "interest_group_index_map \<Rightarrow> AdScore \<Rightarrow> BuyerBidsResponseMap \<Rightarrow> (AdScore \<times> BuyerBidsResponseMap) option" where
  "HandlePrivateAggregationContributionsForGhostWinner ig_index score [] = Some (score, [])"
| "HandlePrivateAggregationContributionsForGhostWinner ig_index score ((ig_owner, response) # buyers) =
     (if ig_owner \<noteq> interest_group_owner score
      then map_option (map_prod id ((#) (ig_owner, response)))
        (HandlePrivateAggregationContributionsForGhostWinner ig_index score buyers)
      else do {
        (ads, cs) \<leftarrow> ghost_ads ig_index score ig_owner (bids response);
        (let score' = add_response ig_owner cs score; here = (ig_owner, response\<lparr>bids := ads\<rparr>) in
         if top_level_contributions score' \<noteq> [] then Some (score', here # buyers)
         else map_option (map_prod id ((#) here))
           (HandlePrivateAggregationContributionsForGhostWinner ig_index score' buyers)) })"

subsection \<open>The limit of each ad tech\<close>

text \<open>A limit below zero is converted to an unsigned number that is never reached.\<close>

definition GroupContributionsByAdTech ::
    "int \<Rightarrow> PrivateAggregateReportingResponse list \<Rightarrow> (string \<times> PrivateAggregateContribution list) list" where
  "GroupContributionsByAdTech limit responses =
     fold (\<lambda>r m. let m' = emplace_bids (adtech_origin r) [] m in
        map (\<lambda>(origin, cs). (origin, if origin = adtech_origin r
          then fold (\<lambda>c cs. if limit < 0 \<or> int (length cs) < limit then cs @ [c] else cs) (contributions r) cs
          else cs)) m') responses []"

end
