(* ===== verification/SelectAdState.thy ===== *)
theory SelectAdState
  imports SellerPrivateAggregation AsyncTaskTracker RequestMetadata ReportingUtil HashUtil PriorityVector
begin

text \<open>
  The state of the reactor of the seller front end (\<^verbatim>\<open>seller_frontend_service/select_ad_reactor.{h,cc}\<close> and
  its subclasses for web and app, built without \<^verbatim>\<open>MICROSOFT_AD_SELECTION_BUILD\<close>), its construction, the
  decryption of the request and the checks of its fields. The calls the reactor makes are recorded in the
  order it makes them, and each open call is a callback that waits; handlers run one at a time, and whether
  the client has cancelled is a flag that each of them sets.
\<close>

subsection \<open>State\<close>

type_synonym grpc_status = "status \<times> string"

record SelectAdConfig =
  sc_is_app :: bool  \<comment> \<open>the reactor for apps, or the one for the web\<close>
  sc_enable_protected_app_signals :: bool
  sc_enable_protected_audience :: bool
  sc_enable_tkv_v2_browser :: bool
  sc_enable_chaffing :: bool
  sc_allow_compressed_auction_config :: bool
  sc_seller_origin_domain :: string
  sc_priority_vector_enabled :: bool
  sc_scoring_signals_fetched :: bool
  sc_consent_all_requests :: bool
  sc_debug_sample_rate_micro :: int
  sc_get_bid_rpc_timeout_ms :: int
  sc_header_passed_to_buyer :: "string list"
  sc_tkv_v2_address_empty :: bool
  sc_test_mode :: bool
  sc_enable_cancellation :: bool
  sc_enable_kanon :: bool
  sc_enable_buyer_private_aggregate_reporting :: bool
  sc_per_adtech_paapi_contributions_limit :: int
  sc_max_buyers_solicited :: int

text \<open>\<^verbatim>\<open>ScoringSignalsRequest\<close> as it is sent by version 1 of the key/value client\<close>

record GetSellerValuesInput =
  sv_render_urls :: "string set"
  sv_ad_component_render_urls :: "string set"
  sv_client_type :: ClientType
  sv_seller_kv_experiment_group_id :: string

record InvokedBuyers =
  chaff_buyer_names :: "string list"
  non_chaff_buyer_names :: "string list"

text \<open>A bid is known by its address: the buyer, the kind of the bid and its position.\<close>

datatype bid_key = Audience_bid string nat | App_signals_bid string nat

datatype outgoing =
    Get_bids string GetBidsRawRequest "string \<rightharpoonup> string" int nat
  | Cache_invoked_buyers string InvokedBuyers
  | Get_scoring_signals GetSellerValuesInput "string \<rightharpoonup> string"
  | Kv_lookup GetValuesRequest
  | Run_query_k_anon_hashes
  | Query_k_anon string "string set"
  | Score_ads SentScoreAdsRequest
  | Debug_report HTTPRequest
  | Finish grpc_status

datatype callback =
    BidsCallback string
  | KAnonTask
  | KAnonCallback
  | ScoringSignalsCallback
  | KvLookupCallback
  | ScoreAdsCallback

text \<open>What the encoding of the answer depends on.\<close>

record ResponseInput =
  ri_high_score :: "AdScore option"
  ri_error :: "string option"
  ri_ghost_winners :: "AdScore list option"
  ri_contributions_limit :: int
  ri_enforce_kanon :: bool
  ri_buyer_bids :: BuyerBidsResponseMap
  ri_ig_updates :: "(string \<times> UpdateInterestGroup list) list"
  ri_debug_urls :: "string \<rightharpoonup> DebugReport list"

text \<open>
  The parts outside the reactor: cryptography, parsing, the clients (with the status they return when a
  call is started; a client that was not provided is \<open>None\<close>), the cache of the buyers that were asked
  before, the encoding of the answer (which may also finish the call with an error) and the choices of
  the random generator, which depend on the id of the request. The client of a buyer that is configured
  exists.
\<close>

record select_ad_env =
  se_txt :: json_text
  se_gzip :: gzip
  DecryptOHTTP :: "byte list \<Rightarrow> string + byte list \<times> string"
  HpkeEncrypt :: "byte list \<Rightarrow> EncryptionCloudPlatform \<Rightarrow> (byte list \<times> string) option"
  EncryptAndEncapsulateResponse :: "byte list \<Rightarrow> string \<Rightarrow> byte list option"
  parse_auction_config :: "byte list \<Rightarrow> AuctionConfig option"
  DecodeRequestPayload :: "byte list \<Rightarrow> string + byte list"
  parse_protected_input :: "byte list \<Rightarrow> ProtectedInput \<times> bool"
  decode_cbor_input :: "byte list \<Rightarrow> ProtectedInput \<times> string list"
  parse_buyer_input :: "byte list \<Rightarrow> BuyerInput option"
  DecodeBuyerInputs :: "(string \<times> byte list) list \<Rightarrow> (string \<times> BuyerInputForBidding) list \<times> string list"
  buyer_clients :: "(string \<times> (GetBidsRawRequest \<Rightarrow> status)) list"
  scoring_signals_provider :: "(GetSellerValuesInput \<Rightarrow> status) option"
  scoring_kv_client :: "(GetValuesRequest \<Rightarrow> status) option"
  scoring_client :: "SentScoreAdsRequest \<Rightarrow> status"
  k_anon_cache_manager :: "string \<Rightarrow> string set \<Rightarrow> status"
  invoked_buyers_cache :: "(string \<Rightarrow> InvokedBuyers option) option"
  se_report_win_js_urls :: "string \<rightharpoonup> string"
  se_CanonicalizeURL :: "string \<Rightarrow> string"
  se_SHA256 :: "string \<Rightarrow> string"
  se_StrReplaceAll :: str_replace_all
  GetNonEncryptedResponse :: "ResponseInput \<Rightarrow> grpc_status option \<times> byte list option"
  se_server_token :: "string option"
  RandomSample :: "string \<Rightarrow> bool"
  choose_num_chaff :: "string \<Rightarrow> int \<Rightarrow> int \<Rightarrow> int"
  shuffle_names :: "string \<Rightarrow> string list \<Rightarrow> string list"
  shuffle_requests :: "string \<Rightarrow> (string \<times> GetBidsRawRequest) list \<Rightarrow> (string \<times> GetBidsRawRequest) list"
  choose_chaff_size :: "string \<Rightarrow> string \<Rightarrow> nat"

record select_ad =
  cfg :: SelectAdConfig
  request :: SelectAdRequest
  client_md :: "(string \<times> string) list"
  auction_config :: AuctionConfig
  auction_scope :: AuctionScope
  is_protected_auction_request :: bool
  protected_input :: ProtectedInput
  result_ciphertext :: "byte list option"
  result_key_id :: string
  downstream_logs :: "string list"
  error_message :: "string option"
  maybe_scoring_signals :: "status_code + ScoringSignals"
  scoring_signals_result :: "ScoringSignals option"
  buyer_metadata :: "string \<rightharpoonup> string"
  shared_buyer_bids_map :: BuyerBidsResponseMap
  shared_ig_updates_map :: "(string \<times> UpdateInterestGroup list) list"
  adtech_origin_debug_urls_map :: "string \<rightharpoonup> DebugReport list"
  decrypted_request :: "(byte list \<times> string) option"
  buyer_inputs :: "(string \<times> BuyerInputForBidding) list"
  error_accumulator :: errors
  enforce_kanon_enabled :: bool
  has_generator :: bool
  sampled_for_debug :: bool
  priority_vector :: json
  ig_index_map :: interest_group_index_map
  bid_k_anon_hash_sets :: "(bid_key \<times> string set) list"
  queried_k_anon_hashes :: "string set"
  bid_k_anon_status :: "bid_key \<rightharpoonup> bool"
  tracker :: AsyncTaskTracker
  kanon_tracker :: AsyncTaskTracker
  export_debug :: bool
  invoked_buyers :: "InvokedBuyers option"
  is_cancelled :: bool
  sent :: "outgoing list"
  waiting :: "callback list"

definition FinishWithStatus :: "grpc_status \<Rightarrow> select_ad \<Rightarrow> select_ad" where
  "FinishWithStatus st s = s\<lparr>sent := sent s @ [Finish st]\<rparr>"

definition call :: "outgoing \<Rightarrow> callback \<Rightarrow> select_ad \<Rightarrow> select_ad" where
  "call m cb s = s\<lparr>sent := sent s @ [m], waiting := waiting s @ [cb]\<rparr>"

definition cancelled :: "select_ad \<Rightarrow> bool" where
  "cancelled s \<longleftrightarrow> sc_enable_cancellation (cfg s) \<and> is_cancelled s"

abbreviation kRequestCancelled :: string where
  "kRequestCancelled \<equiv> ''Request Cancelled by Client.''"

abbreviation kInternalServerError :: string where
  "kInternalServerError \<equiv> ''Internal server error.''"

definition is_pas_enabled :: "select_ad \<Rightarrow> bool" where
  "is_pas_enabled s \<longleftrightarrow> sc_enable_protected_app_signals (cfg s) \<and> auction_scope s = AUCTION_SCOPE_SINGLE_SELLER"

subsection \<open>Construction\<close>

definition kMaxBuyersSolicitedChaffingEnabled :: int where
  "kMaxBuyersSolicitedChaffingEnabled = 15"

definition kMaxBuyersSolicited :: int where
  "kMaxBuyersSolicited = 2"

definition max_buyers_solicited :: "select_ad \<Rightarrow> int" where
  "max_buyers_solicited s =
     (if sc_enable_chaffing (cfg s) then kMaxBuyersSolicitedChaffingEnabled else sc_max_buyers_solicited (cfg s))"

text \<open>The scope is that of the uncompressed configuration, also where the request has the compressed one.\<close>

definition new_SelectAdReactor :: "SelectAdConfig \<Rightarrow> SelectAdRequest \<Rightarrow> (string \<times> string) list \<Rightarrow> select_ad" where
  "new_SelectAdReactor c r md = \<lparr>cfg = c, request = r, client_md = md, auction_config = default_AuctionConfig,
     auction_scope = (let ac = request_auction_config r in
       GetAuctionScope_SelectAd (ac_top_level_seller ac) (ac_top_level_cloud_platform ac) (sr_num_component_auction_results r)),
     is_protected_auction_request = False, protected_input = default_ProtectedInput,
     result_ciphertext = None, result_key_id = [], downstream_logs = [],
     error_message = None, maybe_scoring_signals = Inl Unknown, scoring_signals_result = None,
     buyer_metadata = Map.empty, shared_buyer_bids_map = [], shared_ig_updates_map = [],
     adtech_origin_debug_urls_map = Map.empty, decrypted_request = None, buyer_inputs = [],
     error_accumulator = {}, enforce_kanon_enabled = sc_enable_kanon c, has_generator = False,
     sampled_for_debug = False, priority_vector = JObject [], ig_index_map = Map.empty,
     bid_k_anon_hash_sets = [], queried_k_anon_hashes = {}, bid_k_anon_status = Map.empty,
     tracker = new_tracker 0, kanon_tracker = new_tracker 1, export_debug = False,
     invoked_buyers = None, is_cancelled = False, sent = [], waiting = []\<rparr>"

text \<open>
  The constructor for apps passes \<open>fail_fast\<close> where the base class expects whether buyers report private
  aggregates; what comes after it is left at its default.
\<close>

definition new_SelectAdReactorForApp ::
    "SelectAdConfig \<Rightarrow> bool \<Rightarrow> SelectAdRequest \<Rightarrow> (string \<times> string) list \<Rightarrow> select_ad" where
  "new_SelectAdReactorForApp c fail_fast = new_SelectAdReactor (c\<lparr>sc_is_app := True,
     sc_enable_buyer_private_aggregate_reporting := fail_fast,
     sc_per_adtech_paapi_contributions_limit := 0, sc_max_buyers_solicited := kMaxBuyersSolicited\<rparr>)"

definition new_SelectAdReactorForWeb :: "SelectAdConfig \<Rightarrow> SelectAdRequest \<Rightarrow> (string \<times> string) list \<Rightarrow> select_ad" where
  "new_SelectAdReactorForWeb c = new_SelectAdReactor (c\<lparr>sc_is_app := False\<rparr>)"

subsection \<open>The configuration of the auction\<close>

definition ExtractAuctionConfig :: "select_ad_env \<Rightarrow> select_ad \<Rightarrow> grpc_status \<times> select_ad" where
  "ExtractAuctionConfig e s =
     (case (sr_auction_config (request s), sr_compressed_auction_config (request s)) of
        (Some c, None) \<Rightarrow> ((OkStatus, []), s\<lparr>auction_config := c\<rparr>)
      | (None, Some compressed) \<Rightarrow>
          if \<not> sc_allow_compressed_auction_config (cfg s)
          then ((Some InvalidArgument, ''Server is not accepting compressed AuctionConfig protos; provide the uncompressed_auction_config field in SelectAdRequest''), s)
          else (case GzipDecompress (se_gzip e) compressed of
              Inl _ \<Rightarrow> ((Some InvalidArgument, ''Unable to decompress compressed_auction_config field''), s)
            | Inr decompressed \<Rightarrow> (case parse_auction_config e decompressed of
                None \<Rightarrow> ((Some InvalidArgument, ''Unable to parse AuctionConfig proto from decompressed compressed_auction_config''), s)
              | Some c \<Rightarrow> ((OkStatus, []), s\<lparr>auction_config := c\<rparr>)))
      | _ \<Rightarrow> ((Some InvalidArgument, ''Provide one AuctionConfig value in SelectAdRequest''), s))"

subsection \<open>Errors\<close>

definition report_error :: "ErrorVisibility \<Rightarrow> string \<Rightarrow> ErrorCode \<Rightarrow> select_ad \<Rightarrow> select_ad" where
  "report_error visibility msg code s = s\<lparr>error_accumulator := ReportError visibility msg code (error_accumulator s)\<rparr>"

definition HaveClientVisibleErrors :: "select_ad \<Rightarrow> bool" where
  "HaveClientVisibleErrors s \<longleftrightarrow> GetErrors CLIENT_VISIBLE (error_accumulator s) \<noteq> {}"

definition HaveAdServerVisibleErrors :: "select_ad \<Rightarrow> bool" where
  "HaveAdServerVisibleErrors s \<longleftrightarrow> GetErrors AD_SERVER_VISIBLE (error_accumulator s) \<noteq> {}"

definition MayPopulateClientVisibleErrors :: "select_ad \<Rightarrow> select_ad" where
  "MayPopulateClientVisibleErrors s = (if \<not> HaveClientVisibleErrors s then s
     else s\<lparr>error_message := Some (GetAccumulatedErrorString CLIENT_VISIBLE (error_accumulator s))\<rparr>)"

text \<open>Errors that a decoder reports; all of them are those of the client.\<close>

definition report_client_errors :: "string list \<Rightarrow> select_ad \<Rightarrow> select_ad" where
  "report_client_errors msgs s = fold (\<lambda>msg. report_error CLIENT_VISIBLE msg CLIENT_SIDE) msgs s"

end
