(* ===== verification/SelectAdInput.thy ===== *)
theory SelectAdInput
  imports SelectAdState
begin

text \<open>
  The decryption and decoding of the request of the seller front end, and the checks of what the ad
  server and the client sent (\<^verbatim>\<open>select_ad_reactor.{h,cc}\<close>, \<^verbatim>\<open>select_ad_reactor_app.cc\<close>, \<^verbatim>\<open>select_ad_reactor_web.cc\<close>).
\<close>

subsection \<open>Decoding\<close>

text \<open>The decoded input, and the errors that are reported on the way.\<close>

definition GetDecodedProtectedAuctionInput :: "select_ad_env \<Rightarrow> bool \<Rightarrow> byte list \<Rightarrow> ProtectedInput \<times> string list" where
  "GetDecodedProtectedAuctionInput e is_app encoded_data = (case DecodeRequestPayload e encoded_data of
     Inl msg \<Rightarrow> (default_ProtectedInput, [msg])
   | Inr payload \<Rightarrow>
       if is_app
       then (case parse_protected_input e payload of (input, ok) \<Rightarrow>
         (input, if ok then [] else [''Unable to decode ProtectedAudienceInput binary proto'']))
       else decode_cbor_input e payload)"

definition kBadCompressedBuyerInput :: "string \<Rightarrow> string" where
  "kBadCompressedBuyerInput buyer = ''Unable to decompress buyer input for buyer: '' @ buyer"

definition kBadBuyerInputProto :: "string \<Rightarrow> string" where
  "kBadBuyerInputProto buyer = ''Unable to decode BuyerInput binary proto for buyer: '' @ buyer"

fun decode_app_buyer_inputs ::
    "select_ad_env \<Rightarrow> (string \<times> byte list) list \<Rightarrow> ((string \<times> BuyerInputForBidding) list \<times> string list) option" where
  "decode_app_buyer_inputs e [] = Some ([], [])"
| "decode_app_buyer_inputs e ((owner, compressed) # inputs) = (case GzipDecompress (se_gzip e) compressed of
     Inl _ \<Rightarrow> map_option (map_prod id ((#) (kBadCompressedBuyerInput owner))) (decode_app_buyer_inputs e inputs)
   | Inr decompressed \<Rightarrow> (case parse_buyer_input e decompressed of
       None \<Rightarrow> map_option (map_prod id ((#) (kBadBuyerInputProto owner))) (decode_app_buyer_inputs e inputs)
     | Some buyer_input \<Rightarrow> do {
         b \<leftarrow> ToBuyerInputForBidding (se_txt e) buyer_input;
         map_option (map_prod ((#) (owner, b)) id) (decode_app_buyer_inputs e inputs) }))"

definition GetDecodedBuyerinputs ::
    "select_ad_env \<Rightarrow> bool \<Rightarrow> (string \<times> byte list) list \<Rightarrow> ((string \<times> BuyerInputForBidding) list \<times> string list) option" where
  "GetDecodedBuyerinputs e is_app encoded = (if is_app then decode_app_buyer_inputs e encoded else Some (DecodeBuyerInputs e encoded))"

text \<open>The input is taken over; if k-anonymity is enforced there is one more thing to wait for before scoring.\<close>

definition decode_request :: "select_ad_env \<Rightarrow> byte list \<Rightarrow> string \<Rightarrow> select_ad \<Rightarrow> select_ad option" where
  "decode_request e plaintext context s =
     (let (input, msgs) = GetDecodedProtectedAuctionInput e (sc_is_app (cfg s)) plaintext in do {
        (inputs, input_msgs) \<leftarrow> GetDecodedBuyerinputs e (sc_is_app (cfg s)) (pin_buyer_input input);
        (let enforce = enforce_kanon_enabled s \<and> pin_enforce_kanon input;
             s1 = report_client_errors (msgs @ input_msgs) (s\<lparr>decrypted_request := Some (plaintext, context),
               protected_input := input, buyer_inputs := inputs, enforce_kanon_enabled := enforce\<rparr>)
         in Some (if enforce
           then s1\<lparr>kanon_tracker := SetNumTasksToTrack (if sc_scoring_signals_fetched (cfg s1) then 2 else 1) (kanon_tracker s1)\<rparr>
           else s1)) })"

definition DecryptRequest :: "select_ad_env \<Rightarrow> select_ad \<Rightarrow> (grpc_status \<times> select_ad) option" where
  "DecryptRequest e s =
     (if sr_protected_auction_ciphertext (request s) = [] \<and> sr_protected_audience_ciphertext (request s) = []
      then Some ((Some InvalidArgument, ''protected_auction_ciphertext must be non-null.''), s)
      else
        (let s1 = s\<lparr>is_protected_auction_request := (sr_protected_auction_ciphertext (request s) \<noteq> [])\<rparr>;
             encapsulated_req = (if is_protected_auction_request s1 then sr_protected_auction_ciphertext (request s)
               else sr_protected_audience_ciphertext (request s))
         in case DecryptOHTTP e encapsulated_req of
              Inl msg \<Rightarrow> Some ((Some InvalidArgument, ''Error while decrypting protected_auction_ciphertext: '' @ msg @ ''.''), s1)
            | Inr (plaintext, context) \<Rightarrow> map_option (Pair (OkStatus, [])) (decode_request e plaintext context s1)))"

subsection \<open>What the ad server sent\<close>

definition valid_currency_code :: "string \<Rightarrow> bool" where
  "valid_currency_code c \<longleftrightarrow> length c = 3 \<and> list_all (\<lambda>x. x \<in> set ''ABCDEFGHIJKLMNOPQRSTUVWXYZ'') c"

definition ad_server_error :: "bool \<Rightarrow> string \<Rightarrow> select_ad \<Rightarrow> select_ad" where
  "ad_server_error bad msg s = (if bad then report_error AD_SERVER_VISIBLE msg CLIENT_SIDE s else s)"

definition check_per_buyer_config :: "string \<times> PerBuyerConfig \<Rightarrow> select_ad \<Rightarrow> select_ad" where
  "check_per_buyer_config kv = (case kv of (buyer, c) \<Rightarrow>
     ad_server_error (pbc_buyer_currency c \<noteq> [] \<and> \<not> valid_currency_code (pbc_buyer_currency c)) ''Invalid Buyer Currency'' \<circ>
     ad_server_error (pbc_buyer_signals c = []) (''Buyer signals missing in auction config for buyer: '' @ buyer) \<circ>
     ad_server_error (buyer = []) ''One or more buyer keys are empty in per buyer config map'')"

definition ad_server_errors :: "select_ad \<Rightarrow> select_ad" where
  "ad_server_errors s =
     (let c = auction_config s;
          s1 = ad_server_error (ac_seller_signals c = []) ''Seller signals missing in auction config'' s;
          s2 = ad_server_error (ac_auction_signals c = []) ''Auction signals missing in auction config'' s1;
          s3 = ad_server_error (ac_buyer_list c = []) ''No buyers specified'' s2;
          s4 = ad_server_error (ac_seller c = []) ''Seller origin missing in auction config'' s3;
          s5 = ad_server_error (ac_seller_currency c \<noteq> [] \<and> \<not> valid_currency_code (ac_seller_currency c)) ''Invalid Seller Currency'' s4;
          s6 = ad_server_error (sc_seller_origin_domain (cfg s) \<noteq> ac_seller c)
            ''Seller domain passed in request does not match this server's domain'' s5;
          s7 = fold check_per_buyer_config (ac_per_buyer_config c) s6
      in ad_server_error (sr_client_type (request s) = CLIENT_TYPE_ANDROID \<and>
            auction_scope s = AUCTION_SCOPE_DEVICE_COMPONENT_MULTI_SELLER)
          ''Device orchestrated Component Auctions not supported for Android'' s7)"

text \<open>
  The result of parsing the priority signals is used even if it is an error, after that has been
  reported; this ends the process.
\<close>

definition MayPopulateAdServerVisibleErrors :: "select_ad_env \<Rightarrow> select_ad \<Rightarrow> select_ad option" where
  "MayPopulateAdServerVisibleErrors e s =
     (if sc_priority_vector_enabled (cfg s) \<and> ac_priority_signals (auction_config s) \<noteq> []
      then (case ParsePriorityVector (se_txt e) (ac_priority_signals (auction_config s)) of
          Inl _ \<Rightarrow> None
        | Inr v \<Rightarrow> Some ((ad_server_errors s)\<lparr>priority_vector := v\<rparr>))
      else Some (ad_server_errors s))"

subsection \<open>What the client sent\<close>

definition buyer_input_errors :: "string \<times> BuyerInputForBidding \<Rightarrow> string set" where
  "buyer_input_errors kv = (case kv of (buyer, b) \<Rightarrow>
     (if buyer = [] then {''One or more interest group owner name is empty in buyer inputs''} else {}) \<union>
     (if bib_interest_groups b = [] \<and> bib_protected_app_signals b = None
      then {''Request is missing interest groups and protected signals for buyer: '' @ buyer} else {}))"

definition ValidateProtectedAuctionInput :: "select_ad \<Rightarrow> select_ad" where
  "ValidateProtectedAuctionInput s =
     (let client_error = (\<lambda>bad msg s. if bad then report_error CLIENT_VISIBLE msg CLIENT_SIDE s else s);
          s1 = client_error (pin_generation_id (protected_input s) = []) ''Request is missing generation ID'' s;
          s2 = client_error (pin_publisher_name (protected_input s) = []) ''Request is missing publisher name'' s1
      in if buyer_inputs s = [] then report_error CLIENT_VISIBLE ''Request is missing buyer inputs'' CLIENT_SIDE s2
         else client_error (list_all (\<lambda>kv. buyer_input_errors kv \<noteq> {}) (buyer_inputs s))
           (''BuyerInput map is present but malformed: '' @
            StrJoin (sorted_list_of_set (\<Union> (buyer_input_errors ` set (buyer_inputs s)))) kErrorDelimiter) s2)"

text \<open>The checks change nothing but the errors (and the priority signals).\<close>

lemma report_error_simps [simp]:
  "cfg (report_error v m c s) = cfg s" "request (report_error v m c s) = request s"
  "sent (report_error v m c s) = sent s" "waiting (report_error v m c s) = waiting s"
  "tracker (report_error v m c s) = tracker s" "kanon_tracker (report_error v m c s) = kanon_tracker s"
  "buyer_inputs (report_error v m c s) = buyer_inputs s" "protected_input (report_error v m c s) = protected_input s"
  "auction_config (report_error v m c s) = auction_config s" "auction_scope (report_error v m c s) = auction_scope s"
  "has_generator (report_error v m c s) = has_generator s" "invoked_buyers (report_error v m c s) = invoked_buyers s"
  "enforce_kanon_enabled (report_error v m c s) = enforce_kanon_enabled s"
  "is_cancelled (report_error v m c s) = is_cancelled s" "shared_buyer_bids_map (report_error v m c s) = shared_buyer_bids_map s"
  "error_accumulator (report_error v m c s) = ReportError v m c (error_accumulator s)"
  by (simp_all add: report_error_def)

end
