(* ===== verification/SelectAdDone.thy ===== *)
theory SelectAdDone
  imports SelectAdInput
begin

text \<open>
  The end of a call to the seller front end (\<^verbatim>\<open>select_ad_reactor.cc\<close>): debug reports, private aggregation,
  the encryption of the answer. \<open>None\<close> is a dereference of something that is not there.
\<close>

subsection \<open>Debug reports\<close>

definition component_report :: "string \<Rightarrow> bool \<Rightarrow> bool \<Rightarrow> DebugReport" where
  "component_report url is_win is_seller =
     \<lparr>dr_url = url, dr_is_win_report = is_win, dr_is_seller_report = is_seller, dr_is_component_win = True\<rparr>"

definition PopulateBuyerDebugReportsForComponentAuctionWinner ::
    "select_ad_env \<Rightarrow> AdWithBid \<Rightarrow> DebugReportUrls \<Rightarrow> PostAuctionSignals \<Rightarrow> select_ad \<Rightarrow> select_ad" where
  "PopulateBuyerDebugReportsForComponentAuctionWinner e ad urls signals s =
     (if auction_debug_win_url urls = [] \<and> auction_debug_loss_url urls = [] then s
      else
        (let placeholder = GetPlaceholderDataForInterestGroup (winning_ig_owner signals) (ab_interest_group_name ad) signals;
             report = (\<lambda>url is_win. if url = [] then []
               else [component_report (CreateDebugReportingUrlForInterestGroup (se_StrReplaceAll e) url placeholder True) is_win False])
         in s\<lparr>adtech_origin_debug_urls_map := (adtech_origin_debug_urls_map s)(winning_ig_owner signals \<mapsto>
              report (auction_debug_win_url urls) True @ report (auction_debug_loss_url urls) False)\<rparr>))"

definition PopulateSellerDebugReportsForComponentAuctionWinner :: "DebugReportUrls \<Rightarrow> select_ad \<Rightarrow> select_ad" where
  "PopulateSellerDebugReportsForComponentAuctionWinner urls s =
     (let origin = ac_seller (auction_config s);
          before = (case adtech_origin_debug_urls_map s origin of None \<Rightarrow> [] | Some rs \<Rightarrow> rs);
          report = (\<lambda>url is_win. if url = [] then [] else [component_report url is_win True]);
          reports = before @ report (auction_debug_win_url urls) True @ report (auction_debug_loss_url urls) False
      in if reports = [] then s
         else s\<lparr>adtech_origin_debug_urls_map := (adtech_origin_debug_urls_map s)(origin \<mapsto> reports)\<rparr>)"

text \<open>The report for one bid: a ping, or, for the winner of a component auction, an entry of the answer.\<close>

definition debug_report_for_ad ::
    "select_ad_env \<Rightarrow> PostAuctionSignals \<Rightarrow> string \<Rightarrow> AdWithBid \<Rightarrow> select_ad \<Rightarrow> select_ad" where
  "debug_report_for_ad e signals ig_owner ad s = (case ab_debug_report_urls ad of
     None \<Rightarrow> s
   | Some urls \<Rightarrow>
       (let is_winning_ig = (winning_ig_owner signals = ig_owner \<and> ab_interest_group_name ad = winning_ig_name signals);
            debug_url = (if is_winning_ig then auction_debug_win_url urls else auction_debug_loss_url urls)
        in if debug_url = [] then s
           else if is_winning_ig \<and> IsComponentAuction (auction_scope s)
           then PopulateBuyerDebugReportsForComponentAuctionWinner e ad urls signals s
           else s\<lparr>sent := sent s @ [Debug_report (CreateDebugReportingHttpRequest (se_StrReplaceAll e) debug_url
                  (GetPlaceholderDataForInterestGroup ig_owner (ab_interest_group_name ad) signals) is_winning_ig)]\<rparr>))"

definition PerformDebugReporting :: "select_ad_env \<Rightarrow> AdScore option \<Rightarrow> select_ad \<Rightarrow> select_ad" where
  "PerformDebugReporting e high_score s =
     (if \<not> pin_enable_debug_reporting (protected_input s) then s
      else
        (let signals = GeneratePostAuctionSignals high_score (ac_seller_currency (auction_config s))
               (case scoring_signals_result s of None \<Rightarrow> 0 | Some x \<Rightarrow> ss_data_version x);
             s1 = fold (\<lambda>(ig_owner, response). fold (debug_report_for_ad e signals ig_owner) (bids response))
               (shared_buyer_bids_map s) s
         in case high_score of
              None \<Rightarrow> s1
            | Some w \<Rightarrow> (case debug_report_urls w of
                None \<Rightarrow> s1
              | Some urls \<Rightarrow> PopulateSellerDebugReportsForComponentAuctionWinner urls s1)))"

subsection \<open>The answer\<close>

definition EncryptResponse :: "select_ad_env \<Rightarrow> byte list \<Rightarrow> select_ad \<Rightarrow> (bool \<times> select_ad) option" where
  "EncryptResponse e plaintext s =
     (if auction_scope s = AUCTION_SCOPE_SERVER_COMPONENT_MULTI_SELLER
      then Some (case HpkeEncrypt e plaintext (ac_top_level_cloud_platform (auction_config s)) of
          None \<Rightarrow> (False, FinishWithStatus (Some Internal, kInternalServerError) s)
        | Some (ciphertext, key) \<Rightarrow> (True, s\<lparr>result_key_id := key, result_ciphertext := Some ciphertext\<rparr>))
      else (case decrypted_request s of
          None \<Rightarrow> None
        | Some (_, context) \<Rightarrow> Some (case EncryptAndEncapsulateResponse e plaintext context of
            None \<Rightarrow> (False, FinishWithStatus (Some Internal, kInternalServerError) s)
          | Some ciphertext \<Rightarrow> (True, s\<lparr>result_ciphertext := Some ciphertext\<rparr>))))"

definition send_response :: "select_ad_env \<Rightarrow> AdScore option \<Rightarrow> AdScore list option \<Rightarrow> select_ad \<Rightarrow> select_ad option" where
  "send_response e high_score ghost_winners s =
     (let (handled, encoded) = GetNonEncryptedResponse e \<lparr>ri_high_score = high_score,
            ri_error = (if HaveClientVisibleErrors s then Some (case error_message s of None \<Rightarrow> [] | Some m \<Rightarrow> m) else None),
            ri_ghost_winners = ghost_winners,
            ri_contributions_limit = sc_per_adtech_paapi_contributions_limit (cfg s),
            ri_enforce_kanon = enforce_kanon_enabled s, ri_buyer_bids = shared_buyer_bids_map s,
            ri_ig_updates = shared_ig_updates_map s, ri_debug_urls = adtech_origin_debug_urls_map s\<rparr>;
          s1 = (case handled of None \<Rightarrow> s | Some st \<Rightarrow> FinishWithStatus st s)
      in case encoded of
           None \<Rightarrow> Some (FinishWithStatus (Some Internal, kInternalServerError) s1)
         | Some plaintext \<Rightarrow> map_option (\<lambda>(ok, s2). if ok then FinishWithStatus (OkStatus, []) s2 else s2)
             (EncryptResponse e plaintext s1))"

fun ghost_contributions ::
    "interest_group_index_map \<Rightarrow> AdScore list \<Rightarrow> BuyerBidsResponseMap \<Rightarrow> (AdScore list \<times> BuyerBidsResponseMap) option" where
  "ghost_contributions ig_index [] m = Some ([], m)"
| "ghost_contributions ig_index (g # gs) m = do {
     (g', m1) \<leftarrow> HandlePrivateAggregationContributionsForGhostWinner ig_index g m;
     (gs', m2) \<leftarrow> ghost_contributions ig_index gs m1;
     Some (g' # gs', m2) }"

text \<open>What is done with the scores: first the ghost winners, then the winner.\<close>

definition winner_contributions :: "AdScore option \<Rightarrow> select_ad \<Rightarrow> (AdScore option \<times> BuyerBidsResponseMap) option" where
  "winner_contributions high_score s = (case high_score of
     Some w \<Rightarrow> if sc_enable_buyer_private_aggregate_reporting (cfg s)
       then map_option (map_prod Some id) (HandlePrivateAggregationContributions (ig_index_map s) w (shared_buyer_bids_map s))
       else Some (Some w, shared_buyer_bids_map s)
   | None \<Rightarrow> Some (None, shared_buyer_bids_map s))"

definition ghost_winner_contributions ::
    "ReceivedScoreAdsResponse \<Rightarrow> select_ad \<Rightarrow> (AdScore list \<times> BuyerBidsResponseMap) option" where
  "ghost_winner_contributions r s =
     (if sc_enable_buyer_private_aggregate_reporting (cfg s)
      then ghost_contributions (ig_index_map s) (ghost_winning_ad_scores r) (shared_buyer_bids_map s)
      else Some (ghost_winning_ad_scores r, shared_buyer_bids_map s))"

definition answer_scores :: "select_ad_env \<Rightarrow> AdScore option \<Rightarrow> AdScore list \<Rightarrow> select_ad \<Rightarrow> select_ad option" where
  "answer_scores e high_score ghosts s =
     (let s1 = PerformDebugReporting e high_score s
      in case winner_contributions high_score s1 of
           None \<Rightarrow> None
         | Some (winner, m) \<Rightarrow>
             send_response e winner (if ghosts = [] then None else Some ghosts) (s1\<lparr>shared_buyer_bids_map := m\<rparr>))"

definition take_scores :: "select_ad_env \<Rightarrow> ReceivedScoreAdsResponse \<Rightarrow> select_ad \<Rightarrow> select_ad option" where
  "take_scores e r s =
     (let high_score = (if has_ad_score r \<and> buyer_bid (ad_score r) > 0 then Some (ad_score r) else None);
          s1 = s\<lparr>export_debug := auction_export_debug r,
            downstream_logs := downstream_logs s @ (if auction_debug_info r then [''auction''] else [])\<rparr>
      in case ghost_winner_contributions r s1 of
           None \<Rightarrow> None
         | Some (ghosts, m) \<Rightarrow> answer_scores e high_score ghosts (s1\<lparr>shared_buyer_bids_map := m\<rparr>))"

text \<open>An internal error of the auction server is answered as if there had been no winner.\<close>

definition OnScoreAdsDone ::
    "select_ad_env \<Rightarrow> (status_code \<times> string) + ReceivedScoreAdsResponse \<Rightarrow> select_ad \<Rightarrow> select_ad option" where
  "OnScoreAdsDone e response s =
     (if HaveAdServerVisibleErrors s
      then Some (FinishWithStatus (Some InvalidArgument, GetAccumulatedErrorString AD_SERVER_VISIBLE (error_accumulator s)) s)
      else (case response of
          Inl (code, msg) \<Rightarrow>
            if code \<noteq> Internal then Some (FinishWithStatus (Some code, msg) s) else send_response e None None s
        | Inr r \<Rightarrow> take_scores e r s))"

end
