(* ===== verification/SelectAdScoring.thy ===== *)
theory SelectAdScoring
  imports SelectAdDone "HOL-Library.Signed_Division"
begin

text \<open>
  From the bids to the request for scores (\<^verbatim>\<open>select_ad_reactor.cc\<close>, \<^verbatim>\<open>select_ad_reactor_app.cc\<close>): the
  k-anonymity of the bids, the trusted signals of the seller (\<^verbatim>\<open>kv_seller_signals_adapter.cc\<close>,
  \<^verbatim>\<open>providers/http_scoring_signals_async_provider.cc\<close>) and the request to the auction server.
\<close>

subsection \<open>Bids for scoring\<close>

fun find_group :: "string \<Rightarrow> nat \<Rightarrow> InterestGroupForBidding list \<Rightarrow> (nat \<times> InterestGroupForBidding) option" where
  "find_group name i [] = None"
| "find_group name i (ig # igs) = (if igb_name ig = name then Some (i, ig) else find_group name (Suc i) igs)"

text \<open>The time since the user joined a group, in minutes.\<close>

definition recency_in_minutes :: "BrowserSignalsForBidding \<Rightarrow> int" where
  "recency_in_minutes b = to_int32 (case bsb_recency_ms b of
     Some ms \<Rightarrow> ms sdiv 60000 | None \<Rightarrow> bsb_recency b sdiv 60)"

definition not_empty_id :: "string option \<Rightarrow> string option" where
  "not_empty_id x = (if x = Some [] then None else x)"

definition BuildAdWithBidMetadata ::
    "AdWithBid \<Rightarrow> string \<Rightarrow> bool \<Rightarrow> select_ad \<Rightarrow> (AdWithBidMetadata \<times> select_ad) option" where
  "BuildAdWithBidMetadata input owner k_anon s = do {
     b \<leftarrow> map_of (buyer_inputs s) owner;
     let result = \<lparr>awb_ad = (case ab_ad input of None \<Rightarrow> Inl [] | Some ad \<Rightarrow> ad), awb_bid = ab_bid input,
           awb_render = ab_render input, ad_components = ab_ad_components input,
           awb_interest_group_name = ab_interest_group_name input, awb_interest_group_owner = owner,
           join_count = 0, recency = 0, modeling_signals = ab_modeling_signals input, ad_cost = ab_ad_cost input,
           awb_bid_currency = ab_bid_currency input, awb_interest_group_origin = [],
           awb_buyer_reporting_id = not_empty_id (ab_buyer_reporting_id input),
           awb_buyer_and_seller_reporting_id = not_empty_id (ab_buyer_and_seller_reporting_id input),
           awb_selected_buyer_and_seller_reporting_id = not_empty_id (ab_selected_buyer_and_seller_reporting_id input),
           k_anon_status = (enforce_kanon_enabled s \<longrightarrow> k_anon),
           data_version = nat (ab_data_version input mod 2 ^ 32), interest_group_idx = 0\<rparr>;
     Some (case find_group (ab_interest_group_name input) 0 (bib_interest_groups b) of
       None \<Rightarrow> (result, s)
     | Some (i, ig) \<Rightarrow>
         ((if sr_client_type (request s) = CLIENT_TYPE_BROWSER
           then result\<lparr>join_count := to_int32 (bsb_join_count (browser_signals ig)),
             recency := recency_in_minutes (browser_signals ig)\<rparr>
           else result)\<lparr>awb_interest_group_origin := igb_origin ig, interest_group_idx := int i\<rparr>,
          s\<lparr>ig_index_map := try_emplace (ig_index_map s) (owner, ab_interest_group_name input) (int i)\<rparr>)) }"

text \<open>A bid whose status was never determined is not k-anonymous.\<close>

definition k_anon_status_of :: "bid_key \<Rightarrow> select_ad \<Rightarrow> bool" where
  "k_anon_status_of k s = (bid_k_anon_status s k = Some True)"

fun build_ads :: "string \<Rightarrow> nat \<Rightarrow> AdWithBid list \<Rightarrow> select_ad \<Rightarrow> (AdWithBidMetadata list \<times> select_ad) option" where
  "build_ads owner i [] s = Some ([], s)"
| "build_ads owner i (ad # ads) s = do {
     (m, s1) \<leftarrow> BuildAdWithBidMetadata ad owner (k_anon_status_of (Audience_bid owner i) s) s;
     (ms, s2) \<leftarrow> build_ads owner (Suc i) ads s1;
     Some (m # ms, s2) }"

fun build_all_ads :: "BuyerBidsResponseMap \<Rightarrow> select_ad \<Rightarrow> (AdWithBidMetadata list \<times> select_ad) option" where
  "build_all_ads [] s = Some ([], s)"
| "build_all_ads ((owner, response) # buyers) s = do {
     (ms, s1) \<leftarrow> build_ads owner 0 (bids response) s;
     (ms', s2) \<leftarrow> build_all_ads buyers s1;
     Some (ms @ ms', s2) }"

definition BuildProtectedAppSignalsAdWithBidMetadata ::
    "string \<Rightarrow> ProtectedAppSignalsAdWithBid \<Rightarrow> bool \<Rightarrow> select_ad \<Rightarrow> ProtectedAppSignalsAdWithBidMetadata" where
  "BuildProtectedAppSignalsAdWithBidMetadata owner input k_anon s =
     \<lparr>pas_ad = (case pab_ad input of None \<Rightarrow> Inl [] | Some ad \<Rightarrow> ad), pas_bid = pab_bid input,
      pas_render = pab_render input, pas_ad_cost = pab_ad_cost input, pas_owner = owner,
      pas_bid_currency = pab_bid_currency input, pas_egress_payload = pab_egress_payload input,
      pas_temporary_unlimited_egress_payload = pab_temporary_unlimited_egress_payload input,
      pas_k_anon_status = (enforce_kanon_enabled s \<and> k_anon)\<rparr>"

definition pas_metadata :: "select_ad \<Rightarrow> ProtectedAppSignalsAdWithBidMetadata list" where
  "pas_metadata s = concat (map (\<lambda>(owner, response).
     map (\<lambda>(i, ad). BuildProtectedAppSignalsAdWithBidMetadata owner ad (k_anon_status_of (App_signals_bid owner i) s) s)
       (List.enumerate 0 (protected_app_signals_bids response))) (shared_buyer_bids_map s))"

definition CreateScoreAdsRequest_base :: "select_ad \<Rightarrow> (SentScoreAdsRequest \<times> select_ad) option" where
  "CreateScoreAdsRequest_base s = do {
     (ads, s1) \<leftarrow> (if sc_enable_protected_audience (cfg s) then build_all_ads (shared_buyer_bids_map s) s else Some ([], s));
     (let c = auction_config s1; input = protected_input s1 in
      Some (\<lparr>ad_bids = ads, seller_signals = ac_seller_signals c, auction_signals = ac_auction_signals c,
        scoring_signals = (case scoring_signals_result s1 of None \<Rightarrow> [] | Some x \<Rightarrow> ss_scoring_signals x),
        publisher_hostname = pin_publisher_name input, req_enable_debug_reporting = pin_enable_debug_reporting input,
        per_buyer_signals = map_of (map (map_prod id pbc_buyer_signals) (ac_per_buyer_config c)),
        protected_app_signals_ad_bids = [], req_seller = ac_seller c, top_level_seller = ac_top_level_seller c,
        seller_currency = ac_seller_currency c, component_auction_results = [],
        num_allowed_ghost_winners = (if enforce_kanon_enabled s1 then 1 else 0),
        enforce_kanon = (enforce_kanon_enabled s1 \<and> pin_enforce_kanon input),
        seller_data_version = (case scoring_signals_result s1 of None \<Rightarrow> 0 | Some x \<Rightarrow> ss_data_version x),
        score_ad_version = (case ac_code_experiment_spec c of None \<Rightarrow> [] | Some spec \<Rightarrow> spec_score_ad_version spec),
        sent_log_context = \<lparr>generation_id = pin_generation_id input, adtech_debug_id = ac_seller_debug_id c\<rparr>,
        sent_consented_debug_config = pin_consented_debug_config input,
        sent_is_sampled_for_debug = sampled_for_debug s1\<rparr>, s1)) }"

text \<open>Apps have no debug reports and choose the number of ghost winners.\<close>

definition CreateScoreAdsRequest :: "select_ad \<Rightarrow> (SentScoreAdsRequest \<times> select_ad) option" where
  "CreateScoreAdsRequest s = map_option (\<lambda>(r, s1).
     (if sc_is_app (cfg s1)
      then r\<lparr>req_enable_debug_reporting := False,
        num_allowed_ghost_winners := (if enforce_kanon_enabled s1
          then (case pin_num_k_anon_ghost_winners (protected_input s1) of None \<Rightarrow> 0 | Some n \<Rightarrow> n)
          else num_allowed_ghost_winners r),
        protected_app_signals_ad_bids := (if is_pas_enabled s1 then pas_metadata s1 else [])\<rparr>
      else r, s1)) (CreateScoreAdsRequest_base s)"

definition CancellableScoreAds :: "select_ad_env \<Rightarrow> select_ad \<Rightarrow> select_ad option" where
  "CancellableScoreAds e s = do {
     (r, s1) \<leftarrow> CreateScoreAdsRequest s;
     (if ad_bids r = [] \<and> protected_app_signals_ad_bids r = [] then OnScoreAdsDone e (Inr no_score) s1
      else Some (case scoring_client e r of
          None \<Rightarrow> call (Score_ads r) ScoreAdsCallback s1
        | Some _ \<Rightarrow> FinishWithStatus (Some Internal, kInternalServerError) s1)) }"

definition ScoreAds :: "select_ad_env \<Rightarrow> select_ad \<Rightarrow> select_ad option" where
  "ScoreAds e s = (if cancelled s then Some (FinishWithStatus (Some Cancelled, kRequestCancelled) s) else CancellableScoreAds e s)"

subsection \<open>Signals and k-anonymity are there\<close>

abbreviation kInternalError :: string where
  "kInternalError \<equiv> ''Internal Error''"

definition OnFetchScoringSignalsDone :: "select_ad_env \<Rightarrow> status_code + ScoringSignals \<Rightarrow> select_ad \<Rightarrow> select_ad option" where
  "OnFetchScoringSignalsDone e result s =
     (if \<not> sc_scoring_signals_fetched (cfg s) then ScoreAds e s
      else (case result of
          Inl _ \<Rightarrow> OnScoreAdsDone e (Inr no_score) (report_error AD_SERVER_VISIBLE kInternalError SERVER_SIDE s)
        | Inr signals \<Rightarrow>
            (let s1 = s\<lparr>scoring_signals_result := Some signals\<rparr> in
             if ss_scoring_signals signals = [] then OnScoreAdsDone e (Inr no_score) s1 else ScoreAds e s1)))"

text \<open>A task of the tracker for the signals and the k-anonymity of the bids completes.\<close>

definition scoring_task_completed :: "select_ad_env \<Rightarrow> TaskStatus \<Rightarrow> select_ad \<Rightarrow> select_ad option" where
  "scoring_task_completed e st s =
     (let (t, r) = TaskCompleted st (kanon_tracker s); s1 = s\<lparr>kanon_tracker := t\<rparr>
      in case r of None \<Rightarrow> Some s1 | Some _ \<Rightarrow> OnFetchScoringSignalsDone e (maybe_scoring_signals s1) s1)"

subsection \<open>K-anonymity\<close>

definition reporting_ids :: "AdWithBid \<Rightarrow> KAnonKeyReportingIDParam" where
  "reporting_ids ad = \<lparr>kp_buyer_reporting_id = ab_buyer_reporting_id ad,
     kp_buyer_and_seller_reporting_id = ab_buyer_and_seller_reporting_id ad,
     kp_selected_buyer_and_seller_reporting_id = ab_selected_buyer_and_seller_reporting_id ad\<rparr>"

definition k_anon_hashes_for_bid :: "select_ad_env \<Rightarrow> string \<Rightarrow> string \<Rightarrow> AdWithBid \<Rightarrow> string set" where
  "k_anon_hashes_for_bid e owner js_url ad =
     {se_SHA256 e (PlainTextKAnonKeyForAdRenderURL (se_CanonicalizeURL e) owner js_url (ab_render ad)),
      se_SHA256 e (PlainTextKAnonKeyForReportingID (se_CanonicalizeURL e) owner (ab_interest_group_name ad) js_url
        (ab_render ad) (reporting_ids ad))} \<union>
     (\<lambda>c. se_SHA256 e (PlainTextKAnonKeyForAdComponentRenderURL (se_CanonicalizeURL e) c)) ` set (ab_ad_components ad)"

definition audience_hash_sets :: "select_ad_env \<Rightarrow> string \<times> GetBidsResponse \<Rightarrow> (bid_key \<times> string set) list" where
  "audience_hash_sets e br = (case br of (owner, response) \<Rightarrow> (case se_report_win_js_urls e owner of
     None \<Rightarrow> []
   | Some js_url \<Rightarrow> map (\<lambda>(i, ad). (Audience_bid owner i, k_anon_hashes_for_bid e owner js_url ad)) (List.enumerate 0 (bids response))))"

definition app_signals_hash_sets :: "select_ad_env \<Rightarrow> string \<times> GetBidsResponse \<Rightarrow> (bid_key \<times> string set) list" where
  "app_signals_hash_sets e br = (case br of (owner, response) \<Rightarrow> (case se_report_win_js_urls e owner of
     None \<Rightarrow> []
   | Some js_url \<Rightarrow> map (\<lambda>(i, ad). (App_signals_bid owner i,
         {se_SHA256 e (PlainTextKAnonKeyForAdRenderURL (se_CanonicalizeURL e) owner js_url (pab_render ad))}))
       (List.enumerate 0 (protected_app_signals_bids response))))"

definition GetKAnonHashesForBids :: "select_ad_env \<Rightarrow> select_ad \<Rightarrow> (bid_key \<times> string set) list" where
  "GetKAnonHashesForBids e s = concat (map (audience_hash_sets e) (shared_buyer_bids_map s)) @
     (if sc_is_app (cfg s) then concat (map (app_signals_hash_sets e) (shared_buyer_bids_map s)) else [])"

definition PopulateKAnonStatusForBids :: "select_ad \<Rightarrow> select_ad" where
  "PopulateKAnonStatusForBids s = s\<lparr>bid_k_anon_status := fold (\<lambda>(key, hashes) m.
     m(key \<mapsto> (enforce_kanon_enabled s \<longrightarrow> hashes \<subseteq> queried_k_anon_hashes s))) (bid_k_anon_hash_sets s) (bid_k_anon_status s)\<rparr>"

definition GetKAnonSetType :: "select_ad \<Rightarrow> string" where
  "GetKAnonSetType s = (if sc_is_app (cfg s) then ''android'' else ''fledge'')"

definition QueryKAnonHashes :: "select_ad_env \<Rightarrow> select_ad \<Rightarrow> select_ad option" where
  "QueryKAnonHashes e s =
     (let s1 = s\<lparr>bid_k_anon_hash_sets := GetKAnonHashesForBids e s\<rparr>;
          query_sets = \<Union> (snd ` set (bid_k_anon_hash_sets s1))
      in if query_sets = {} then scoring_task_completed e SKIPPED s1
         else (case k_anon_cache_manager e (GetKAnonSetType s1) query_sets of
             None \<Rightarrow> Some (call (Query_k_anon (GetKAnonSetType s1) query_sets) KAnonCallback s1)
           | Some _ \<Rightarrow> scoring_task_completed e ERROR (PopulateKAnonStatusForBids s1)))"

end
