(* ===== verification/SelectAdSignals.thy ===== *)
theory SelectAdSignals
  imports SelectAdScoring
begin

text \<open>
  All bids are in: bids in the wrong currency are dropped, trusted signals are fetched and the
  k-anonymity of the bids is queried (\<^verbatim>\<open>select_ad_reactor.cc\<close>, \<^verbatim>\<open>kv_seller_signals_adapter.cc\<close>).
\<close>

subsection \<open>Currencies\<close>

text \<open>A bid in another currency is swapped to the end of the list, which is cut off there.\<close>

function filter_currency :: "('b \<Rightarrow> string) \<Rightarrow> string \<Rightarrow> nat \<Rightarrow> nat \<Rightarrow> 'b list \<Rightarrow> 'b list" where
  "filter_currency currency_of buyer_currency i remove_starting_at xs =
     (if i < remove_starting_at
      then (if currency_of (xs ! i) \<noteq> [] \<and> buyer_currency \<noteq> currency_of (xs ! i)
        then filter_currency currency_of buyer_currency i (remove_starting_at - 1)
          (xs[i := xs ! (remove_starting_at - 1), remove_starting_at - 1 := xs ! i])
        else filter_currency currency_of buyer_currency (Suc i) remove_starting_at xs)
      else take remove_starting_at xs)"
  by pat_completeness auto
termination by (relation "measure (\<lambda>(c, b, i, r, xs). r - i)") auto

declare filter_currency.simps [simp del]

definition FilterBidsWithMismatchingCurrencyHelper :: "('b \<Rightarrow> string) \<Rightarrow> 'b list \<Rightarrow> string \<Rightarrow> 'b list" where
  "FilterBidsWithMismatchingCurrencyHelper currency_of ads_with_bids buyer_currency =
     filter_currency currency_of buyer_currency 0 (length ads_with_bids) ads_with_bids"

definition has_bids :: "select_ad \<Rightarrow> GetBidsResponse \<Rightarrow> bool" where
  "has_bids s response \<longleftrightarrow> sc_enable_protected_audience (cfg s) \<and> bids response \<noteq> [] \<or>
     is_pas_enabled s \<and> protected_app_signals_bids response \<noteq> []"

text \<open>The currency that is expected of a buyer, if there is one.\<close>

definition expected_currency :: "select_ad \<Rightarrow> string \<Rightarrow> string option" where
  "expected_currency s buyer = (case map_of (ac_per_buyer_config (auction_config s)) buyer of
     None \<Rightarrow> None | Some c \<Rightarrow> if pbc_buyer_currency c = [] then None else Some (pbc_buyer_currency c))"

definition filter_response :: "string \<Rightarrow> GetBidsResponse \<Rightarrow> GetBidsResponse" where
  "filter_response currency response = response
     \<lparr>bids := FilterBidsWithMismatchingCurrencyHelper ab_bid_currency (bids response) currency,
      protected_app_signals_bids :=
        FilterBidsWithMismatchingCurrencyHelper pab_bid_currency (protected_app_signals_bids response) currency\<rparr>"

definition filter_buyer :: "select_ad \<Rightarrow> string \<times> GetBidsResponse \<Rightarrow> string \<times> GetBidsResponse" where
  "filter_buyer s br = (case br of (buyer, response) \<Rightarrow>
     (buyer, case expected_currency s buyer of None \<Rightarrow> response | Some c \<Rightarrow> filter_response c response))"

text \<open>Bids of a buyer without an expected currency count as valid without being looked at.\<close>

definition FilterBidsWithMismatchingCurrency :: "select_ad \<Rightarrow> bool \<times> select_ad" where
  "FilterBidsWithMismatchingCurrency s =
     (let filtered = map (filter_buyer s) (shared_buyer_bids_map s)
      in (list_ex (\<lambda>(buyer, response). expected_currency s buyer = None \<or> has_bids s response) filtered,
          s\<lparr>shared_buyer_bids_map := filter (\<lambda>(buyer, response). has_bids s response) filtered\<rparr>))"

subsection \<open>Trusted signals of the seller\<close>

definition seller_values_input :: "select_ad \<Rightarrow> string \<Rightarrow> GetSellerValuesInput" where
  "seller_values_input s group_id =
     (let responses = map snd (shared_buyer_bids_map s) in
      \<lparr>sv_render_urls = (\<Union>r \<in> set responses. ab_render ` set (bids r)) \<union>
         (if sc_enable_protected_app_signals (cfg s)
          then \<Union>r \<in> set responses. pab_render ` set (protected_app_signals_bids r) else {}),
       sv_ad_component_render_urls = (\<Union>r \<in> set responses. \<Union>ad \<in> set (bids r). set (ab_ad_components ad)),
       sv_client_type = sr_client_type (request s), sv_seller_kv_experiment_group_id = group_id\<rparr>)"

record GetSellerValuesOutput =
  sv_result :: string
  sv_data_version :: nat

text \<open>Android drops a version that does not fit into a byte.\<close>

definition seller_values_signals :: "ClientType \<Rightarrow> GetSellerValuesOutput \<Rightarrow> ScoringSignals" where
  "seller_values_signals client_type out = \<lparr>ss_scoring_signals = sv_result out,
     ss_data_version = (if client_type = CLIENT_TYPE_ANDROID \<and> 255 < sv_data_version out then 0 else sv_data_version out)\<rparr>"

definition BuildArgument :: "string list \<Rightarrow> string \<Rightarrow> UDFArgument" where
  "BuildArgument keys tag = \<lparr>arg_tag = tag, arg_keys = filter (\<lambda>k. k \<noteq> []) keys\<rparr>"

text \<open>The arguments of each bid, those of apps without components; an argument without keys is left out.\<close>

definition bid_arguments :: "AdWithBid \<Rightarrow> UDFArgument list" where
  "bid_arguments ad = filter (\<lambda>a. arg_keys a \<noteq> [])
     [BuildArgument [ab_render ad] ''renderUrls'', BuildArgument (ab_ad_components ad) ''adComponentRenderUrls'']"

definition pas_bid_arguments :: "ProtectedAppSignalsAdWithBid \<Rightarrow> UDFArgument list" where
  "pas_bid_arguments ad = filter (\<lambda>a. arg_keys a \<noteq> []) [BuildArgument [pab_render ad] ''renderUrls'']"

fun number_partitions :: "int \<Rightarrow> UDFArgument list list \<Rightarrow> RequestPartition list" where
  "number_partitions i [] = []"
| "number_partitions i (args # rest) = (if args = [] then number_partitions i rest
     else \<lparr>partition_id = i, compression_group_id = i, arguments = args\<rparr> # number_partitions (i + 1) rest)"

definition CreateV2ScoringRequest :: "select_ad \<Rightarrow> string \<Rightarrow> status_code + GetValuesRequest" where
  "CreateV2ScoringRequest s group_id =
     (let parts = number_partitions 0 (concat (map (\<lambda>(buyer, r). map bid_arguments (bids r) @
            (if is_pas_enabled s then map pas_bid_arguments (protected_app_signals_bids r) else [])) (shared_buyer_bids_map s)))
      in if parts = [] then Inl InvalidArgument
         else Inr \<lparr>client_version = ''Bna.PA.Seller.20240930'',
           kv_metadata = [(''client_type'', string_of_int (client_type_number (sr_client_type (request s)))),
             (''experiment_group_id'', group_id)],
           kv_consented_debug_config = pin_consented_debug_config (protected_input s),
           kv_log_context = \<lparr>generation_id = [], adtech_debug_id = []\<rparr>, partitions = parts\<rparr>)"

definition ConvertV2ResponseToV1ScoringSignals :: "json_text \<Rightarrow> string list \<Rightarrow> ScoringSignals result" where
  "ConvertV2ResponseToV1ScoringSignals txt contents =
     assign_or_return (ConvertKvV2ResponseToV1String txt [''renderUrls'', ''adComponentRenderUrls''] contents) (\<lambda>signals.
       Some (Inr \<lparr>ss_scoring_signals = signals, ss_data_version = 0\<rparr>))"

text \<open>A call that the provider cannot start is never answered.\<close>

definition CancellableFetchScoringSignalsV1 :: "select_ad_env \<Rightarrow> string \<Rightarrow> select_ad \<Rightarrow> select_ad" where
  "CancellableFetchScoringSignalsV1 e group_id s =
     (if \<not> sc_scoring_signals_fetched (cfg s)
      then FinishWithStatus (Some Internal, ''Definite logical error: Called V1 function to get scoring signals despite SCORING_SIGNALS_FETCH_MODE being NOT_FETCHED.'') s
      else (case scoring_signals_provider e of
          None \<Rightarrow> FinishWithStatus (Some Internal, ''Definite logical error: Called V1 function to get scoring signals despite the kv async client being nullptr.'') s
        | Some execute \<Rightarrow>
            let input = seller_values_input s group_id in
            if execute input = OkStatus then call (Get_scoring_signals input (buyer_metadata s)) ScoringSignalsCallback s else s))"

text \<open>Nor does a request that cannot be created or started end the wait for it.\<close>

definition CancellableFetchScoringSignalsV2 :: "select_ad_env \<Rightarrow> string \<Rightarrow> select_ad \<Rightarrow> select_ad" where
  "CancellableFetchScoringSignalsV2 e group_id s =
     (if \<not> sc_scoring_signals_fetched (cfg s)
      then FinishWithStatus (Some Internal, ''Definite logical error: Called V2 function to get scoring signals despite SCORING_SIGNALS_FETCH_MODE being NOT_FETCHED.'') s
      else (case scoring_kv_client e of
          None \<Rightarrow> FinishWithStatus (Some Internal, ''Definite logical error: Called V2 function to get scoring signals despite the kv async client being nullptr.'') s
        | Some execute \<Rightarrow> (case CreateV2ScoringRequest s group_id of
            Inl _ \<Rightarrow> s
          | Inr r \<Rightarrow> if execute r = OkStatus then call (Kv_lookup r) KvLookupCallback s else s)))"

definition uses_kv_v2 :: "select_ad \<Rightarrow> bool" where
  "uses_kv_v2 s = UseKvV2 (sr_client_type (request s)) (sc_enable_tkv_v2_browser (cfg s)) (sc_test_mode (cfg s))
     (sc_tkv_v2_address_empty (cfg s))"

definition CancellableFetchScoringSignals :: "select_ad_env \<Rightarrow> select_ad \<Rightarrow> select_ad" where
  "CancellableFetchScoringSignals e s =
     (let group_id = (case ac_code_experiment_spec (auction_config s) \<bind> seller_kv_experiment_group_id of
            None \<Rightarrow> [] | Some i \<Rightarrow> string_of_int i)
      in if uses_kv_v2 s then CancellableFetchScoringSignalsV2 e group_id s else CancellableFetchScoringSignalsV1 e group_id s)"

definition FetchScoringSignals :: "select_ad_env \<Rightarrow> select_ad \<Rightarrow> select_ad" where
  "FetchScoringSignals e s =
     (if cancelled s then FinishWithStatus (Some Cancelled, kRequestCancelled) s else CancellableFetchScoringSignals e s)"

subsection \<open>All bids are in\<close>

definition OnAllBidsDone :: "select_ad_env \<Rightarrow> bool \<Rightarrow> select_ad \<Rightarrow> select_ad option" where
  "OnAllBidsDone e any_successful_bids s =
     (if cancelled s then Some (FinishWithStatus (Some Cancelled, kRequestCancelled) s)
      else if shared_buyer_bids_map s = []
      then (if \<not> any_successful_bids then Some (FinishWithStatus (Some Internal, kInternalServerError) s)
            else OnScoreAdsDone e (Inr no_score) s)
      else
        (let (any_valid, s1) = FilterBidsWithMismatchingCurrency s in
         if \<not> any_valid
         then Some (FinishWithStatus (Some InvalidArgument, ''All bids rejected for failure to match buyer currency.'') s1)
         else if sc_scoring_signals_fetched (cfg s1)
         then Some (FetchScoringSignals e
           (if enforce_kanon_enabled s1 then call Run_query_k_anon_hashes KAnonTask s1 else PopulateKAnonStatusForBids s1))
         else if enforce_kanon_enabled s1 then QueryKAnonHashes e s1
         else ScoreAds e (PopulateKAnonStatusForBids s1)))"

end
