(* ===== verification/SelectAdFetchBids.thy ===== *)
theory SelectAdFetchBids
  imports SelectAdSignals
begin

text \<open>
  The requests for bids (\<^verbatim>\<open>select_ad_reactor.cc\<close>, \<^verbatim>\<open>select_ad_reactor_app.cc\<close>): which buyers are asked, with
  chaff to others that are configured, and what they are asked; then the execution of a call and the
  delivery of its callbacks.
\<close>

subsection \<open>Chaff\<close>

record ChaffingConfig =
  chaff_request_candidates :: "string list"
  num_chaff_requests :: int
  num_real_requests :: int

definition has_input :: "select_ad \<Rightarrow> string \<Rightarrow> bool" where
  "has_input s buyer \<longleftrightarrow> map_of (buyer_inputs s) buyer \<noteq> None"

abbreviation generation_id_of :: "select_ad \<Rightarrow> string" where
  "generation_id_of s \<equiv> pin_generation_id (protected_input s)"

text \<open>The buyers that are configured and listed, in the order of the configuration.\<close>

definition listed_buyers :: "select_ad_env \<Rightarrow> select_ad \<Rightarrow> string list" where
  "listed_buyers e s = filter (\<lambda>b. b \<in> set (ac_buyer_list (auction_config s))) (map fst (buyer_clients e))"

definition cached_buyers :: "select_ad_env \<Rightarrow> select_ad \<Rightarrow> InvokedBuyers option" where
  "cached_buyers e s = (if invoked_buyers_cache e = None then None else invoked_buyers s)"

definition GetChaffingConfig :: "select_ad_env \<Rightarrow> select_ad \<Rightarrow> ChaffingConfig" where
  "GetChaffingConfig e s =
     (let candidates = filter (\<lambda>b. \<not> has_input s b) (listed_buyers e s);
          num_real = int (length (filter (has_input s) (listed_buyers e s)))
      in if \<not> sc_enable_chaffing (cfg s)
         then \<lparr>chaff_request_candidates = [], num_chaff_requests = 0, num_real_requests = num_real\<rparr>
         else (case cached_buyers e s of
             Some b \<Rightarrow> \<lparr>chaff_request_candidates = chaff_buyer_names b,
               num_chaff_requests = int (length (chaff_buyer_names b)),
               num_real_requests = int (length (non_chaff_buyer_names b))\<rparr>
           | None \<Rightarrow>
               (let n = int (length candidates); lower_bound = min (if num_real = 0 then 2 else 1) n in
                \<lparr>chaff_request_candidates = (if has_generator s then shuffle_names e (generation_id_of s) candidates else candidates),
                 num_chaff_requests = (if candidates \<noteq> [] \<and> has_generator s
                   then choose_num_chaff e (generation_id_of s) lower_bound n else 0),
                 num_real_requests = num_real\<rparr>)))"

definition GetEffectiveNumberOfBuyers :: "ChaffingConfig \<Rightarrow> select_ad \<Rightarrow> int" where
  "GetEffectiveNumberOfBuyers c s =
     (if sc_enable_chaffing (cfg s) then num_real_requests c + num_chaff_requests c else num_real_requests c)"

definition GetNonChaffBuyerNames :: "select_ad_env \<Rightarrow> ChaffingConfig \<Rightarrow> select_ad \<Rightarrow> string list" where
  "GetNonChaffBuyerNames e c s = filter (\<lambda>b.
     \<not> (sc_enable_chaffing (cfg s) \<and> b \<in> set (chaff_request_candidates c)) \<and>
     b \<in> set (ac_buyer_list (auction_config s)) \<and> has_input s b) (map fst (buyer_clients e))"

subsection \<open>Requests\<close>

definition per_buyer_config :: "AuctionConfig \<Rightarrow> string \<Rightarrow> PerBuyerConfig option" where
  "per_buyer_config c = map_of (ac_per_buyer_config c)"

definition set_per_buyer_config :: "bool \<Rightarrow> PerBuyerConfig \<Rightarrow> GetBidsRawRequest \<Rightarrow> GetBidsRawRequest" where
  "set_per_buyer_config enforce c r = r\<lparr>
     gb_buyer_kv_experiment_group_id := pbc_buyer_kv_experiment_group_id c,
     gb_blob_versions := pbc_blob_versions c,
     gb_buyer_signals := pbc_buyer_signals c,
     gb_multi_bid_limit := (if enforce then pbc_multi_bid_limit c else gb_multi_bid_limit r)\<rparr>"

text \<open>Where protected audience is disabled, only one of the two forms of the input loses its groups.\<close>

definition CreateGetBidsRequest_base :: "select_ad_env \<Rightarrow> string \<Rightarrow> BuyerInputForBidding \<Rightarrow> select_ad \<Rightarrow> GetBidsRawRequest option" where
  "CreateGetBidsRequest_base e buyer b s =
     (let c = auction_config s; input = protected_input s; pbc = per_buyer_config c buyer;
          r0 = default_GetBidsRawRequest\<lparr>gb_is_chaff := False, gb_seller := ac_seller c,
            gb_client_type := sr_client_type (request s), gb_auction_signals := ac_auction_signals c\<rparr>;
          r1 = (case pbc of None \<Rightarrow> r0 | Some p \<Rightarrow> set_per_buyer_config (enforce_kanon_enabled s) p r0);
          r2 = r1\<lparr>gb_buyer_input := Some (ToBuyerInput b), gb_buyer_input_for_bidding := Some b,
            gb_top_level_seller := ac_top_level_seller c, gb_publisher_name := pin_publisher_name input,
            gb_enable_debug_reporting := pin_enable_debug_reporting input,
            gb_log_context := \<lparr>generation_id = pin_generation_id input,
              adtech_debug_id = (case pbc of None \<Rightarrow> [] | Some p \<Rightarrow> pbc_buyer_debug_id p)\<rparr>,
            gb_consented_debug_config := pin_consented_debug_config input,
            gb_enable_unlimited_egress := pin_enable_unlimited_egress input,
            gb_enforce_kanon := (enforce_kanon_enabled s \<and> pin_enforce_kanon input)\<rparr>;
          r3 = (if \<not> sc_enable_protected_audience (cfg s) \<and> bib_interest_groups b \<noteq> []
            then r2\<lparr>gb_buyer_input_for_bidding := Some (b\<lparr>bib_interest_groups := []\<rparr>)\<rparr> else r2)
      in if sc_priority_vector_enabled (cfg s)
         then do {
           signals \<leftarrow> GetBuyerPrioritySignals (se_txt e) (priority_vector s)
             (map_of (map (map_prod id pbc_priority_signals_overrides) (ac_per_buyer_config c))) buyer;
           Some (case signals of Inl _ \<Rightarrow> r3 | Inr text \<Rightarrow> r3\<lparr>gb_priority_signals := text\<rparr>) }
         else Some r3)"

definition has_app_install_signals :: "ProtectedAppSignals option \<Rightarrow> bool" where
  "has_app_install_signals p \<longleftrightarrow> (case p of None \<Rightarrow> False | Some x \<Rightarrow> app_install_signals x \<noteq> [])"

definition clear_input_pas :: "GetBidsRawRequest \<Rightarrow> GetBidsRawRequest" where
  "clear_input_pas r = r\<lparr>gb_buyer_input := map_option (\<lambda>b. b\<lparr>bi_protected_app_signals := None\<rparr>) (gb_buyer_input r)\<rparr>"

definition clear_bidding_input_pas :: "GetBidsRawRequest \<Rightarrow> GetBidsRawRequest" where
  "clear_bidding_input_pas r = r\<lparr>gb_buyer_input_for_bidding :=
     map_option (\<lambda>b. b\<lparr>bib_protected_app_signals := None\<rparr>) (gb_buyer_input_for_bidding r)\<rparr>"

text \<open>The contextual data is that of the uncompressed configuration.\<close>

definition MayPopulateProtectedAppSignalsBuyerInput :: "string \<Rightarrow> select_ad \<Rightarrow> GetBidsRawRequest \<Rightarrow> GetBidsRawRequest" where
  "MayPopulateProtectedAppSignalsBuyerInput buyer s r =
     (let signals = gb_buyer_input_for_bidding r \<bind> bib_protected_app_signals in
      if \<not> is_pas_enabled s then clear_bidding_input_pas (clear_input_pas r)
      else if \<not> has_app_install_signals (gb_buyer_input r \<bind> bi_protected_app_signals) then clear_input_pas r
      else if \<not> has_app_install_signals signals then clear_bidding_input_pas r
      else clear_bidding_input_pas (clear_input_pas r)\<lparr>gb_protected_app_signals_buyer_input := Some
          \<lparr>pasbi_protected_app_signals = signals,
           contextual_protected_app_signals_data =
             (case per_buyer_config (request_auction_config (request s)) buyer \<bind> pbc_contextual_protected_app_signals_data of
                None \<Rightarrow> None | Some d \<Rightarrow> if cpas_ad_render_ids d = [] then None else Some d)\<rparr>\<rparr>)"

definition CreateGetBidsRequest :: "select_ad_env \<Rightarrow> string \<Rightarrow> BuyerInputForBidding \<Rightarrow> select_ad \<Rightarrow> GetBidsRawRequest option" where
  "CreateGetBidsRequest e buyer b s = map_option (\<lambda>r.
     if sc_is_app (cfg s)
     then MayPopulateProtectedAppSignalsBuyerInput buyer s (r\<lparr>gb_enable_debug_reporting := False\<rparr>)
     else r) (CreateGetBidsRequest_base e buyer b s)"

definition chaff_request :: "select_ad \<Rightarrow> GetBidsRawRequest" where
  "chaff_request s = default_GetBidsRawRequest\<lparr>gb_is_chaff := True,
     gb_log_context := \<lparr>generation_id = generation_id_of s, adtech_debug_id = []\<rparr>\<rparr>"

subsection \<open>One buyer\<close>

text \<open>A task for a buyer completes: its own closure runs first.\<close>

definition bids_task_completed ::
    "select_ad_env \<Rightarrow> TaskStatus \<Rightarrow> (select_ad \<Rightarrow> select_ad) \<Rightarrow> select_ad \<Rightarrow> select_ad option" where
  "bids_task_completed e st on_single_task_done s =
     (let s1 = on_single_task_done s; (t, r) = TaskCompleted st (tracker s1); s2 = s1\<lparr>tracker := t\<rparr>
      in case r of None \<Rightarrow> Some s2 | Some any_successful \<Rightarrow> OnAllBidsDone e any_successful s2)"

text \<open>Headers that are passed on if they are found under their name in lower case.\<close>

definition add_header :: "(string \<times> string) list \<Rightarrow> string \<Rightarrow> (string \<rightharpoonup> string) \<Rightarrow> (string \<rightharpoonup> string)" where
  "add_header md header m = (case map_of md (AsciiStrToLower header) of
     None \<Rightarrow> m
   | Some v \<Rightarrow> if IsValidHeader header v then try_emplace m (AsciiStrToLower header) v else m)"

definition metadata_for_buyer :: "select_ad \<Rightarrow> string \<rightharpoonup> string" where
  "metadata_for_buyer s = fold (add_header (client_md s)) (sc_header_passed_to_buyer (cfg s))
     (if sc_enable_chaffing (cfg s) then buyer_metadata s
      else try_emplace (buyer_metadata s) ''bidding-auction-compression-type'' (string_of_nat (compression_number kGzip)))"

definition FetchBid :: "select_ad_env \<Rightarrow> string \<Rightarrow> GetBidsRawRequest \<Rightarrow> select_ad \<Rightarrow> select_ad option" where
  "FetchBid e buyer r s =
     (if cancelled s then bids_task_completed e CANCELLED id s
      else (case map_of (buyer_clients e) buyer of
          None \<Rightarrow> bids_task_completed e SKIPPED id s
        | Some execute \<Rightarrow>
            (let timeout = (if ac_buyer_timeout_ms (auction_config s) > 0 then ac_buyer_timeout_ms (auction_config s)
                   else sc_get_bid_rpc_timeout_ms (cfg s));
                 chaff_size = (if sc_enable_chaffing (cfg s) \<and> gb_is_chaff r \<and> has_generator s
                   then choose_chaff_size e (generation_id_of s) buyer else 0)
             in case execute r of
                  None \<Rightarrow> Some (call (Get_bids buyer r (metadata_for_buyer s) timeout chaff_size) (BidsCallback buyer) s)
                | Some _ \<Rightarrow> bids_task_completed e ERROR id s)))"

definition RecordInterestGroupUpdates :: "string \<Rightarrow> GetBidsResponse \<Rightarrow> select_ad \<Rightarrow> select_ad" where
  "RecordInterestGroupUpdates buyer response s =
     (if update_interest_group_list response = [] then s
      else s\<lparr>shared_ig_updates_map := emplace_bids buyer (update_interest_group_list response) (shared_ig_updates_map s)\<rparr>)"

text \<open>The answer of a buyer, and whether it has a log.\<close>

definition OnFetchBidsDone ::
    "select_ad_env \<Rightarrow> status_code + GetBidsResponse \<times> bool \<Rightarrow> string \<Rightarrow> select_ad \<Rightarrow> select_ad option" where
  "OnFetchBidsDone e response buyer s = (case response of
     Inl _ \<Rightarrow> bids_task_completed e ERROR id s
   | Inr (r, has_debug_info) \<Rightarrow>
       (let s1 = (if has_debug_info then s\<lparr>downstream_logs := downstream_logs s @ [buyer]\<rparr> else s) in
        if \<not> has_bids s1 r then bids_task_completed e EMPTY_RESPONSE (RecordInterestGroupUpdates buyer r) s1
        else bids_task_completed e SUCCESS (\<lambda>s. (RecordInterestGroupUpdates buyer r s)
            \<lparr>shared_buyer_bids_map := emplace_bids buyer (r\<lparr>update_interest_group_list := []\<rparr>) (shared_buyer_bids_map s)\<rparr>) s1))"

subsection \<open>All buyers\<close>

fun create_requests :: "select_ad_env \<Rightarrow> string list \<Rightarrow> select_ad \<Rightarrow> (string \<times> GetBidsRawRequest) list option" where
  "create_requests e [] s = Some []"
| "create_requests e (buyer # buyers) s = (case map_of (buyer_inputs s) buyer of
     None \<Rightarrow> create_requests e buyers s
   | Some b \<Rightarrow> do {
       r \<leftarrow> CreateGetBidsRequest e buyer b s;
       rs \<leftarrow> create_requests e buyers s;
       Some ((buyer, r) # rs) })"

text \<open>The requests in the order in which they are sent.\<close>

definition buyer_get_bids_requests :: "select_ad_env \<Rightarrow> ChaffingConfig \<Rightarrow> select_ad \<Rightarrow> (string \<times> GetBidsRawRequest) list option" where
  "buyer_get_bids_requests e c s = do {
     real \<leftarrow> create_requests e (case cached_buyers e s of
         Some b \<Rightarrow> non_chaff_buyer_names b | None \<Rightarrow> GetNonChaffBuyerNames e c s) s;
     Some (if sc_enable_chaffing (cfg s) \<and> chaff_request_candidates c \<noteq> []
       then (let all = real @ map (\<lambda>b. (b, chaff_request s)) (take (nat (num_chaff_requests c)) (chaff_request_candidates c))
             in if has_generator s then shuffle_requests e (generation_id_of s) all else all)
       else real) }"

text \<open>The first ones are sent, up to the cap; the tasks of the others are completed.\<close>

fun send_requests ::
    "select_ad_env \<Rightarrow> int \<Rightarrow> (string \<times> GetBidsRawRequest) list \<Rightarrow> select_ad \<Rightarrow> (InvokedBuyers \<times> select_ad) option" where
  "send_requests e n [] s = Some (\<lparr>chaff_buyer_names = [], non_chaff_buyer_names = []\<rparr>, s)"
| "send_requests e n ((buyer, r) # rs) s =
     (if n \<ge> max_buyers_solicited s
      then do {
        s1 \<leftarrow> bids_task_completed e SKIPPED id s;
        send_requests e n rs s1 }
      else do {
        s1 \<leftarrow> FetchBid e buyer r s;
        (invoked, s2) \<leftarrow> send_requests e (n + 1) rs s1;
        Some (if gb_is_chaff r then invoked\<lparr>chaff_buyer_names := buyer # chaff_buyer_names invoked\<rparr>
          else invoked\<lparr>non_chaff_buyer_names := buyer # non_chaff_buyer_names invoked\<rparr>, s2) })"

definition FetchBids :: "select_ad_env \<Rightarrow> select_ad \<Rightarrow> select_ad option" where
  "FetchBids e s0 =
     (let c = GetChaffingConfig e s0; n = GetEffectiveNumberOfBuyers c s0;
          s = s0\<lparr>tracker := SetNumTasksToTrack n (tracker s0)\<rparr>
      in if n = 0 then OnAllBidsDone e True s
         else do {
           rs \<leftarrow> buyer_get_bids_requests e c s;
           (invoked, s1) \<leftarrow> send_requests e 0 rs s;
           Some (if sc_enable_chaffing (cfg s1) \<and> invoked_buyers_cache e \<noteq> None \<and> invoked_buyers s1 = None
             then s1\<lparr>sent := sent s1 @ [Cache_invoked_buyers (generation_id_of s1) invoked]\<rparr> else s1) })"

subsection \<open>Execution\<close>

definition kBuyerMetadataKeysMap :: "(string \<times> string) list" where
  "kBuyerMetadataKeysMap = [(''x-accept-language'', ''x-accept-language''), (''x-user-agent'', ''x-user-agent''),
     (''x-bna-client-ip'', ''x-bna-client-ip'')]"

text \<open>\<^verbatim>\<open>SetGeneratorAndSample\<close> of \<^verbatim>\<open>services/common/loggers/request_log_context.h\<close>: whether there is a generator, and the sample.\<close>

definition SetGeneratorAndSample :: "select_ad_env \<Rightarrow> int \<Rightarrow> bool \<Rightarrow> bool \<Rightarrow> string \<Rightarrow> bool \<times> bool" where
  "SetGeneratorAndSample e debug_sample_rate_micro chaffing_enabled request_eligible gen_id =
     (let is_debug_eligible = (request_eligible \<and> debug_sample_rate_micro > 0)
      in (chaffing_enabled \<or> is_debug_eligible, is_debug_eligible \<and> RandomSample e gen_id))"

text \<open>After the decryption, whether it succeeded or not: sampling, consent, the buyers that were asked before.\<close>

definition prepare_context :: "select_ad_env \<Rightarrow> select_ad \<Rightarrow> select_ad" where
  "prepare_context e s =
     (let c = cfg s; input = protected_input s;
          (generator, sampled) = SetGeneratorAndSample e (sc_debug_sample_rate_micro c) (sc_enable_chaffing c)
            (sr_client_type (request s) = CLIENT_TYPE_ANDROID \<and> pin_enable_unlimited_egress input) (pin_generation_id input);
          input' = (if sc_consent_all_requests c
            then input\<lparr>pin_consented_debug_config := Some (ModifyConsent (se_server_token e)
              (case pin_consented_debug_config input of None \<Rightarrow> \<lparr>is_consented = False, token = []\<rparr> | Some x \<Rightarrow> x))\<rparr>
            else input)
      in s\<lparr>has_generator := generator, sampled_for_debug := sampled, protected_input := input',
           invoked_buyers := (if sc_enable_chaffing c
             then (case invoked_buyers_cache e of None \<Rightarrow> None | Some query \<Rightarrow> query (pin_generation_id input)) else None)\<rparr>)"

text \<open>The fields are checked; bids are fetched only if no error was found.\<close>

definition check_and_fetch :: "select_ad_env \<Rightarrow> select_ad \<Rightarrow> select_ad option" where
  "check_and_fetch e s = do {
     s1 \<leftarrow> MayPopulateAdServerVisibleErrors e s;
     (if HaveAdServerVisibleErrors s1 then OnScoreAdsDone e (Inr no_score) s1
      else
        (let s2 = MayPopulateClientVisibleErrors
               (if HaveClientVisibleErrors s1 then s1 else ValidateProtectedAuctionInput s1)
         in if HasErrors (error_accumulator s2) then OnScoreAdsDone e (Inr no_score) s2
            else FetchBids e s2)) }"

text \<open>(The text of the error for an illegal header is left out.)\<close>

definition Execute :: "select_ad_env \<Rightarrow> bool \<Rightarrow> select_ad \<Rightarrow> select_ad option" where
  "Execute e now_cancelled s0 =
     (let s = s0\<lparr>is_cancelled := now_cancelled\<rparr> in
      if cancelled s then Some (FinishWithStatus (Some Cancelled, kRequestCancelled) s)
      else (case GrpcMetadataToRequestMetadata (client_md s) kBuyerMetadataKeysMap Map.empty of
          Inl err \<Rightarrow> Some (FinishWithStatus (Some err, []) s)
        | Inr md \<Rightarrow>
            (let (extracted, s1) = ExtractAuctionConfig e (s\<lparr>buyer_metadata := md\<rparr>) in
             if fst extracted \<noteq> OkStatus then Some (FinishWithStatus extracted s1)
             else do {
               (decrypt_status, s2) \<leftarrow> DecryptRequest e
                 (s1\<lparr>tracker := SetNumTasksToTrack (int (length (ac_buyer_list (auction_config s1)))) (tracker s1)\<rparr>);
               let s3 = prepare_context e s2;
               (if fst decrypt_status \<noteq> OkStatus then Some (FinishWithStatus decrypt_status s3)
                else check_and_fetch e s3) })))"

text \<open>The reactor for requests that are empty or name no kind of client.\<close>

definition Execute_invalid :: "bool \<Rightarrow> select_ad \<Rightarrow> select_ad" where
  "Execute_invalid request_is_empty s =
     (let s1 = report_error AD_SERVER_VISIBLE
            (if request_is_empty then ''Empty SelectAdRequest received.'' else ''Unsupported client type.'') CLIENT_SIDE s
      in FinishWithStatus (Some InvalidArgument, GetAccumulatedErrorString AD_SERVER_VISIBLE (error_accumulator s1)) s1)"

subsection \<open>Callbacks\<close>

record answers =
  bids_answer :: "status_code + GetBidsResponse \<times> bool"
  scoring_signals_answer :: "status_code + GetSellerValuesOutput"
  scoring_kv_answer :: "status_code + string list"
  k_anon_answer :: "status_code + string set"
  scores_answer :: "(status_code \<times> string) + ReceivedScoreAdsResponse"

definition on_k_anon_answer :: "select_ad_env \<Rightarrow> status_code + string set \<Rightarrow> select_ad \<Rightarrow> select_ad option" where
  "on_k_anon_answer e response s = (case response of
     Inl _ \<Rightarrow> scoring_task_completed e ERROR s
   | Inr hashes \<Rightarrow> scoring_task_completed e SUCCESS (PopulateKAnonStatusForBids (s\<lparr>queried_k_anon_hashes := hashes\<rparr>)))"

definition on_scoring_signals :: "select_ad_env \<Rightarrow> status_code + GetSellerValuesOutput \<Rightarrow> select_ad \<Rightarrow> select_ad option" where
  "on_scoring_signals e response s =
     (if cancelled s then scoring_task_completed e CANCELLED s
      else scoring_task_completed e SUCCESS (s\<lparr>maybe_scoring_signals := (case response of
          Inl err \<Rightarrow> Inl err | Inr out \<Rightarrow> Inr (seller_values_signals (sr_client_type (request s)) out))\<rparr>))"

text \<open>An answer of the key/value server that cannot be converted is dereferenced.\<close>

definition on_scoring_kv_lookup :: "select_ad_env \<Rightarrow> status_code + string list \<Rightarrow> select_ad \<Rightarrow> select_ad option" where
  "on_scoring_kv_lookup e response s =
     (if cancelled s then Some (FinishWithStatus (Some Cancelled, kRequestCancelled) s)
      else (case response of
          Inl _ \<Rightarrow> OnScoreAdsDone e (Inr no_score) (report_error AD_SERVER_VISIBLE kInternalError SERVER_SIDE s)
        | Inr contents \<Rightarrow> do {
            signals \<leftarrow> ConvertV2ResponseToV1ScoringSignals (se_txt e) contents;
            (case signals of
               Inl _ \<Rightarrow> None
             | Inr x \<Rightarrow> scoring_task_completed e SUCCESS (s\<lparr>maybe_scoring_signals := Inr x\<rparr>)) }))"

definition deliver :: "select_ad_env \<Rightarrow> bool \<Rightarrow> answers \<Rightarrow> callback \<Rightarrow> select_ad \<Rightarrow> select_ad option" where
  "deliver e now_cancelled a cb s0 =
     (let s = s0\<lparr>waiting := remove1 cb (waiting s0), is_cancelled := now_cancelled\<rparr> in
      case cb of
        BidsCallback buyer \<Rightarrow>
          if cancelled s then bids_task_completed e CANCELLED id s else OnFetchBidsDone e (bids_answer a) buyer s
      | KAnonTask \<Rightarrow> QueryKAnonHashes e s
      | KAnonCallback \<Rightarrow> on_k_anon_answer e (k_anon_answer a) s
      | ScoringSignalsCallback \<Rightarrow> on_scoring_signals e (scoring_signals_answer a) s
      | KvLookupCallback \<Rightarrow> on_scoring_kv_lookup e (scoring_kv_answer a) s
      | ScoreAdsCallback \<Rightarrow>
          if cancelled s then Some (FinishWithStatus (Some Cancelled, kRequestCancelled) s)
          else OnScoreAdsDone e (scores_answer a) s)"

end
