(* ===== verification/SelectAdRuns.thy ===== *)
theory SelectAdRuns
  imports SelectAdFetchBids AsyncCall
begin

text \<open>
  Runs of the reactor of the seller front end: the tasks its two trackers count against the callbacks
  that wait. A call is finished at most once, whatever the clients do; it is finished when nothing waits
  any more, where the clients can be started and nothing finishes the call while another callback waits.
\<close>

subsection \<open>Finishing\<close>

fun is_finish :: "outgoing \<Rightarrow> bool" where
  "is_finish (Finish st) = True"
| "is_finish m = False"

definition finishes :: "select_ad \<Rightarrow> nat" where
  "finishes s = length (filter is_finish (sent s))"

definition same_calls :: "select_ad \<Rightarrow> select_ad \<Rightarrow> bool" where
  "same_calls s t \<longleftrightarrow> cfg t = cfg s \<and> request t = request s \<and> auction_scope t = auction_scope s \<and> enforce_kanon_enabled t = enforce_kanon_enabled s \<and>
     waiting t = waiting s \<and> finishes t = finishes s \<and> tracker t = tracker s \<and> kanon_tracker t = kanon_tracker s"

text \<open>The call is finished, and nothing else that matters changes.\<close>

definition finished_from :: "select_ad \<Rightarrow> select_ad \<Rightarrow> bool" where
  "finished_from s t \<longleftrightarrow> cfg t = cfg s \<and> request t = request s \<and> auction_scope t = auction_scope s \<and> enforce_kanon_enabled t = enforce_kanon_enabled s \<and>
     waiting t = waiting s \<and> finishes t = Suc (finishes s) \<and> tracker t = tracker s \<and> kanon_tracker t = kanon_tracker s"

lemma same_calls_self [simp]: "same_calls s s"
  by (simp add: same_calls_def)

lemma same_calls_trans: "same_calls s t \<Longrightarrow> same_calls t u \<Longrightarrow> same_calls s u"
  by (simp add: same_calls_def)

lemma same_finished: "same_calls s t \<Longrightarrow> finished_from t u \<Longrightarrow> finished_from s u"
  by (simp add: same_calls_def finished_from_def)

lemma FinishWithStatus_finished [simp]: "finished_from s (FinishWithStatus st s)"
  by (simp add: finished_from_def finishes_def FinishWithStatus_def)

lemma fold_same_calls: "(\<And>x t. same_calls t (f x t)) \<Longrightarrow> same_calls s (fold f xs s)"
  by (induction xs arbitrary: s) (auto intro: same_calls_trans)

lemma debug_report_same [simp]: "same_calls s (debug_report_for_ad e sigs owner ad s)"
  by (auto simp: debug_report_for_ad_def PopulateBuyerDebugReportsForComponentAuctionWinner_def same_calls_def
      finishes_def Let_def split: option.split)

lemma PerformDebugReporting_same: "same_calls s (PerformDebugReporting e w s)"
proof -
  have seller: "same_calls t (PopulateSellerDebugReportsForComponentAuctionWinner urls t)" for urls t
    by (simp add: PopulateSellerDebugReportsForComponentAuctionWinner_def same_calls_def finishes_def Let_def)
  have "same_calls s (fold (\<lambda>(o', response). fold (debug_report_for_ad e sigs o') (bids response)) m s)" for sigs m
    by (intro fold_same_calls) (auto intro: fold_same_calls split: prod.split)
  then show ?thesis
    by (auto simp: PerformDebugReporting_def Let_def intro: same_calls_trans [OF _ seller] split: option.split)
qed

text \<open>The encoding of the answer leaves the call to the reactor.\<close>

definition encoder_ok :: "select_ad_env \<Rightarrow> bool" where
  "encoder_ok e \<longleftrightarrow> (\<forall>i. fst (GetNonEncryptedResponse e i) = None)"

lemma EncryptResponse_cases:
  assumes "EncryptResponse e p s = Some (ok, t)"
  shows "if ok then same_calls s t else finished_from s t"
proof -
  have upd: "same_calls s (s\<lparr>result_key_id := k, result_ciphertext := c\<rparr>)"
    "same_calls s (s\<lparr>result_ciphertext := c\<rparr>)" for k c
    by (simp_all add: same_calls_def finishes_def)
  show ?thesis using assms upd
    by (auto simp: EncryptResponse_def split: if_split_asm option.split_asm)
qed

lemma send_response_finished:
  assumes "encoder_ok e" and "send_response e w g s = Some t"
  shows "finished_from s t"
proof -
  have "fst (GetNonEncryptedResponse e i) = None" for i using assms(1) by (simp add: encoder_ok_def)
  then have none: "GetNonEncryptedResponse e i = (h, r) \<Longrightarrow> h = None" for i h r by (metis fst_conv)
  from assms(2) none show ?thesis
    by (auto simp: send_response_def Let_def dest!: EncryptResponse_cases
        intro: same_finished [OF _ FinishWithStatus_finished] split: prod.split_asm option.split_asm if_split_asm)
qed

lemma same_calls_bids [simp]: "same_calls s (s\<lparr>shared_buyer_bids_map := m\<rparr>)"
  by (simp add: same_calls_def finishes_def)

lemma answer_scores_finished:
  assumes "encoder_ok e" and "answer_scores e w ghosts s = Some t"
  shows "finished_from s t"
  using assms(2) unfolding answer_scores_def Let_def
  by (auto split: option.split_asm prod.split_asm dest!: send_response_finished [OF assms(1)]
    intro: same_finished [OF same_calls_trans [OF PerformDebugReporting_same same_calls_bids]])

lemma take_scores_finished:
  assumes "encoder_ok e" and "take_scores e r s = Some t"
  shows "finished_from s t"
proof -
  have "same_calls s (s\<lparr>export_debug := x, downstream_logs := y, shared_buyer_bids_map := m\<rparr>)" for x y m
    by (simp add: same_calls_def finishes_def)
  from same_finished [OF this answer_scores_finished [OF assms(1)]] assms(2) show ?thesis
    unfolding take_scores_def Let_def by (auto split: option.split_asm prod.split_asm)
qed

lemma OnScoreAdsDone_finished:
  "encoder_ok e \<Longrightarrow> OnScoreAdsDone e r s = Some t \<Longrightarrow> finished_from s t"
  by (auto simp: OnScoreAdsDone_def dest: send_response_finished take_scores_finished
      split: if_split_asm sum.split_asm)

subsection \<open>Scoring\<close>

fun rank :: "callback \<Rightarrow> nat" where
  "rank (BidsCallback buyer) = 3"
| "rank KAnonTask = 2"
| "rank KAnonCallback = 1"
| "rank ScoringSignalsCallback = 1"
| "rank KvLookupCallback = 1"
| "rank ScoreAdsCallback = 0"

definition same_auction :: "select_ad \<Rightarrow> select_ad \<Rightarrow> bool" where
  "same_auction s t \<longleftrightarrow> cfg t = cfg s \<and> request t = request s \<and> auction_scope t = auction_scope s \<and>
     enforce_kanon_enabled t = enforce_kanon_enabled s"

text \<open>Callbacks of a rank below \<open>k\<close> may be left.\<close>

definition leaves :: "nat \<Rightarrow> select_ad \<Rightarrow> select_ad \<Rightarrow> bool" where
  "leaves k s t \<longleftrightarrow> same_auction s t \<and> (\<exists>new. waiting t = waiting s @ new \<and> (\<forall>c \<in> set new. rank c < k))"

definition scored :: "select_ad \<Rightarrow> bool" where
  "scored t \<longleftrightarrow> waiting t = [ScoreAdsCallback] \<and> finishes t = 0 \<or> waiting t = [] \<and> finishes t = 1"

definition scores :: "select_ad \<Rightarrow> select_ad \<Rightarrow> bool" where
  "scores s t \<longleftrightarrow> leaves 1 s t \<and> (waiting s = [] \<and> finishes s = 0 \<longrightarrow> scored t)"

lemma same_calls_scores: "same_calls s t \<Longrightarrow> scores t u \<Longrightarrow> scores s u"
  by (auto simp: scores_def same_calls_def leaves_def same_auction_def)

lemma finished_scores: "finished_from s t \<Longrightarrow> scores s t"
  by (auto simp: scores_def finished_from_def leaves_def same_auction_def scored_def)

lemma call_scores: "\<not> is_finish m \<Longrightarrow> scores s (call m ScoreAdsCallback s)"
  by (auto simp: scores_def call_def leaves_def same_auction_def scored_def finishes_def)

lemma BuildAdWithBidMetadata_same: "BuildAdWithBidMetadata ad owner k s = Some (m, t) \<Longrightarrow> same_calls s t"
  by (auto simp: BuildAdWithBidMetadata_def Let_def same_calls_def finishes_def elim!: bind_SomeE split: option.split_asm)

lemma build_ads_same: "build_ads owner i ads s = Some (ms, t) \<Longrightarrow> same_calls s t"
proof (induction owner i ads s arbitrary: ms rule: build_ads.induct)
  case (2 owner i ad ads s)
  then show ?case by (fastforce dest: BuildAdWithBidMetadata_same intro: same_calls_trans elim!: bind_SomeE)
qed simp

lemma build_all_ads_same: "build_all_ads m s = Some (ms, t) \<Longrightarrow> same_calls s t"
proof (induction m s arbitrary: ms rule: build_all_ads.induct)
  case (2 owner response m s)
  then show ?case by (fastforce dest: build_ads_same intro: same_calls_trans elim!: bind_SomeE)
qed simp

lemma CreateScoreAdsRequest_same: "CreateScoreAdsRequest s = Some (r, t) \<Longrightarrow> same_calls s t"
  by (auto simp: CreateScoreAdsRequest_def CreateScoreAdsRequest_base_def Let_def elim!: bind_SomeE
      dest: build_all_ads_same split: if_split_asm)

lemma ScoreAds_scores:
  assumes "encoder_ok e" and "ScoreAds e s = Some t"
  shows "scores s t"
proof (cases "cancelled s")
  case False
  with assms(2) obtain r s1 where r: "CreateScoreAdsRequest s = Some (r, s1)"
    and t: "(if ad_bids r = [] \<and> protected_app_signals_ad_bids r = [] then OnScoreAdsDone e (Inr no_score) s1
      else Some (case scoring_client e r of
          None \<Rightarrow> call (Score_ads r) ScoreAdsCallback s1
        | Some _ \<Rightarrow> FinishWithStatus (Some Internal, kInternalServerError) s1)) = Some t"
    by (auto simp: ScoreAds_def CancellableScoreAds_def elim!: bind_SomeE)
  from t have "scores s1 t"
    by (auto simp: call_scores finished_scores dest: OnScoreAdsDone_finished [OF assms(1)]
        split: if_split_asm option.split_asm)
  with CreateScoreAdsRequest_same [OF r] show ?thesis by (rule same_calls_scores)
qed (use assms(2) in \<open>auto simp: ScoreAds_def finished_scores\<close>)

lemma report_error_same [simp]: "same_calls s (report_error v m c s)"
  by (simp add: same_calls_def finishes_def)

lemma OnFetchScoringSignalsDone_scores:
  assumes "encoder_ok e" and "OnFetchScoringSignalsDone e r s = Some t"
  shows "scores s t"
proof -
  note fin = OnScoreAdsDone_finished [OF assms(1)] and go = ScoreAds_scores [OF assms(1)]
  have upd: "same_calls s (s\<lparr>scoring_signals_result := x\<rparr>)" for x by (simp add: same_calls_def finishes_def)
  from assms(2) show ?thesis
    by (auto simp: OnFetchScoringSignalsDone_def Let_def dest!: fin go
        intro: finished_scores same_finished [OF report_error_same] same_finished [OF upd] same_calls_scores [OF upd]
        split: if_split_asm sum.split_asm)
qed

subsection \<open>Signals and k-anonymity\<close>

abbreviation pending :: "select_ad \<Rightarrow> int" where
  "pending s \<equiv> pending_tasks_count (kanon_tracker s)"

fun for_scoring :: "callback \<Rightarrow> bool" where
  "for_scoring (BidsCallback buyer) = False"
| "for_scoring ScoreAdsCallback = False"
| "for_scoring cb = True"

text \<open>
  The second half of a call, with \<open>n\<close> tasks in hand besides those that wait for a callback. Until it is
  finished the tracker has at least that many tasks pending; a call that is finished before all of them
  complete leaves more, so that the tracker never calls back. If all goes well the numbers agree, and only a call for signals that nothing
  else waits for may end the call. That call is made once, and nothing else ends it before.
\<close>

definition scoring :: "bool \<Rightarrow> nat \<Rightarrow> select_ad \<Rightarrow> bool" where
  "scoring well n s \<longleftrightarrow>
     (if ScoreAdsCallback \<in> set (waiting s) then n = 0 \<and> waiting s = [ScoreAdsCallback] \<and> finishes s = 0
      else list_all for_scoring (waiting s) \<and> finishes s \<le> 1 \<and>
        (well \<and> KvLookupCallback \<in> set (waiting s) \<longrightarrow> n + length (waiting s) = 1) \<and>
        (KvLookupCallback \<in> set (waiting s) \<longrightarrow> finishes s = 0 \<and> KvLookupCallback \<notin> set (remove1 KvLookupCallback (waiting s))) \<and>
        (if finishes s = 0
         then 0 < pending s \<and> int (n + length (waiting s)) \<le> pending s \<and> (well \<longrightarrow> pending s = int (n + length (waiting s)))
         else n + length (waiting s) = 0 \<or> \<not> well \<and> int (n + length (waiting s)) < pending s))"

definition hands_over :: "nat \<Rightarrow> select_ad \<Rightarrow> select_ad \<Rightarrow> bool" where
  "hands_over k s t \<longleftrightarrow> leaves k s t \<and> (\<forall>well n. scoring well (Suc n) s \<longrightarrow> scoring well n t)"

lemma same_calls_scoring: "same_calls s t \<Longrightarrow> scoring well n t = scoring well n s"
  by (simp add: scoring_def same_calls_def)

lemma same_calls_leaves: "same_calls s t \<Longrightarrow> leaves k t u \<Longrightarrow> leaves k s u"
  by (simp add: leaves_def same_calls_def same_auction_def)

lemma same_calls_hands_scoring_over: "same_calls s t \<Longrightarrow> hands_over k t u \<Longrightarrow> hands_over k s u"
  by (simp add: hands_over_def same_calls_scoring [of s t]) (metis same_calls_leaves)

lemma leaves_rank_mono: "leaves j s t \<Longrightarrow> j \<le> k \<Longrightarrow> leaves k s t"
  by (fastforce simp: leaves_def)

lemma scored_scoring: "scored t \<Longrightarrow> scoring well 0 t"
  by (auto simp: scored_def scoring_def)

lemma scoring_task_completed_hands_over:
  assumes "encoder_ok e" and "scoring_task_completed e st s = Some t" and "0 < k"
  shows "hands_over k s t"
proof -
  obtain tr r where tc: "TaskCompleted st (kanon_tracker s) = (tr, r)" by (cases "TaskCompleted st (kanon_tracker s)")
  note counts = TaskCompleted_counts [OF tc]
  let ?s = "s\<lparr>kanon_tracker := tr\<rparr>"
  have fin: "finishes ?s = finishes s" by (simp add: finishes_def)
  show ?thesis
  proof (cases r)
    case None
    with assms(2) tc have t: "t = ?s" by (simp add: scoring_task_completed_def)
    have "scoring well n ?s" if "scoring well (Suc n) s" for well n
      using that counts None fin by (auto simp: scoring_def split: if_split_asm)
    then show ?thesis by (auto simp: hands_over_def t leaves_def same_auction_def)
  next
    case (Some b)
    with assms(2) tc have "OnFetchScoringSignalsDone e (maybe_scoring_signals ?s) ?s = Some t"
      by (simp add: scoring_task_completed_def)
    from OnFetchScoringSignalsDone_scores [OF assms(1) this] have sc: "scores ?s t" .
    then have l: "leaves 1 s t" by (simp add: scores_def leaves_def same_auction_def)
    have "scoring well n t" if "scoring well (Suc n) s" for well n
    proof -
      from that counts Some have "n = 0" "waiting s = []" "finishes s = 0"
        by (auto simp: scoring_def no_tasks no_tasks_eq split: if_split_asm)
      with sc fin show ?thesis by (simp add: scores_def scored_scoring)
    qed
    with l assms(3) show ?thesis by (simp add: hands_over_def leaves_rank_mono [OF l])
  qed
qed

lemma scoring_call_hands_over:
  "rank cb < k \<Longrightarrow> for_scoring cb \<Longrightarrow> cb \<noteq> KvLookupCallback \<Longrightarrow> \<not> is_finish m \<Longrightarrow> hands_over k s (call m cb s)"
  by (auto simp: hands_over_def leaves_def same_auction_def call_def scoring_def finishes_def remove1_append)

lemma PopulateKAnonStatusForBids_same [simp]: "same_calls s (PopulateKAnonStatusForBids s)"
  by (simp add: PopulateKAnonStatusForBids_def same_calls_def finishes_def)

lemma QueryKAnonHashes_hands_over:
  assumes "encoder_ok e" and "QueryKAnonHashes e s = Some t"
  shows "hands_over 2 s t"
proof -
  define s1 where "s1 = s\<lparr>bid_k_anon_hash_sets := GetKAnonHashesForBids e s\<rparr>"
  have s1: "same_calls s s1" by (simp add: s1_def same_calls_def finishes_def)
  have completed: "scoring_task_completed e st u = Some t \<Longrightarrow> same_calls s1 u \<Longrightarrow> hands_over 2 s1 t" for st u
    using scoring_task_completed_hands_over [OF assms(1)] same_calls_hands_scoring_over by simp
  have "hands_over 2 s1 (call (Query_k_anon ty q) KAnonCallback s1)" for ty q by (simp add: scoring_call_hands_over)
  then have "hands_over 2 s1 t"
    using assms(2) completed [OF _ same_calls_self] completed [OF _ PopulateKAnonStatusForBids_same]
    unfolding QueryKAnonHashes_def Let_def s1_def [symmetric] by (simp split: if_split_asm option.split_asm) metis
  with s1 show ?thesis by (rule same_calls_hands_scoring_over)
qed

lemma on_k_anon_answer_hands_over:
  assumes "encoder_ok e" and "on_k_anon_answer e r s = Some t"
  shows "hands_over 1 s t"
proof -
  have "same_calls s (PopulateKAnonStatusForBids (s\<lparr>queried_k_anon_hashes := h\<rparr>))" for h
    by (simp add: PopulateKAnonStatusForBids_def same_calls_def finishes_def)
  with assms show ?thesis
    by (auto simp: on_k_anon_answer_def intro: scoring_task_completed_hands_over same_calls_hands_scoring_over
        split: sum.split_asm)
qed

lemma on_scoring_signals_hands_over:
  assumes "encoder_ok e" and "on_scoring_signals e r s = Some t"
  shows "hands_over 1 s t"
proof -
  have "same_calls s (s\<lparr>maybe_scoring_signals := x\<rparr>)" for x by (simp add: same_calls_def finishes_def)
  with assms show ?thesis
    by (auto simp: on_scoring_signals_def intro: scoring_task_completed_hands_over same_calls_hands_scoring_over
        split: if_split_asm)
qed

text \<open>An answer of the key/value server may finish the call while the k-anonymity is still queried.\<close>

lemma finished_leaves: "finished_from s t \<Longrightarrow> leaves k s t"
  by (simp add: finished_from_def leaves_def same_auction_def)

lemma finished_scoring:
  assumes "finished_from s t" and "scoring well (Suc n) s" and "finishes s = 0" and "KvLookupCallback \<notin> set (waiting s)"
    and "well \<Longrightarrow> n + length (waiting s) = 0"
  shows "scoring well n t"
  using assms by (auto simp: scoring_def finished_from_def split: if_split_asm)

lemma on_scoring_kv_lookup_cases:
  assumes "encoder_ok e" and "on_scoring_kv_lookup e r s = Some t"
  shows "leaves 1 s t \<and> (finishes s = 0 \<and> KvLookupCallback \<notin> set (waiting s) \<and> scoring well (Suc n) s \<and> (well \<longrightarrow> n + length (waiting s) = 0) \<longrightarrow> scoring well n t)"
proof -
  have upd: "same_calls s (s\<lparr>maybe_scoring_signals := x\<rparr>)" for x by (simp add: same_calls_def finishes_def)
  have handed: "hands_over 1 s t" if "scoring_task_completed e SUCCESS (s\<lparr>maybe_scoring_signals := x\<rparr>) = Some t" for x
    by (rule same_calls_hands_scoring_over [OF upd scoring_task_completed_hands_over [OF assms(1) that]]) simp
  have fin: "finished_from s t" if "OnScoreAdsDone e r' (report_error v m c s) = Some t" for r' v m c
    by (rule same_finished [OF report_error_same OnScoreAdsDone_finished [OF assms(1) that]])
  have "finished_from s t \<or> hands_over 1 s t"
    using assms(2) unfolding on_scoring_kv_lookup_def
    by (auto elim!: bind_SomeE dest!: handed fin split: if_split_asm sum.split_asm)
  then show ?thesis
    by (auto simp: hands_over_def finished_leaves intro: finished_scoring)
qed

subsection \<open>The fetch of signals\<close>

text \<open>
  All goes well if the signals can be asked for and, where the k-anonymity is queried at the same time,
  nothing else ends the call: neither the client nor version 2 of the key/value server.
\<close>

definition goes_well :: "select_ad_env \<Rightarrow> select_ad \<Rightarrow> bool" where
  "goes_well e s \<longleftrightarrow> (sc_scoring_signals_fetched (cfg s) \<longrightarrow>
     (if uses_kv_v2 s then \<exists>execute. scoring_kv_client e = Some execute \<and> (\<forall>q. execute q = OkStatus)
      else \<exists>execute. scoring_signals_provider e = Some execute \<and> (\<forall>q. execute q = OkStatus)) \<and>
     (enforce_kanon_enabled s \<longrightarrow> \<not> sc_enable_cancellation (cfg s) \<and> \<not> uses_kv_v2 s))"

text \<open>Bids have URLs.\<close>

definition has_urls :: "GetBidsResponse \<Rightarrow> bool" where
  "has_urls r \<longleftrightarrow> list_all (\<lambda>ad. ab_render ad \<noteq> []) (bids r) \<and>
     list_all (\<lambda>ad. pab_render ad \<noteq> []) (protected_app_signals_bids r)"

definition bids_ok :: "select_ad \<Rightarrow> bool" where
  "bids_ok s \<longleftrightarrow> (\<forall>(buyer, r) \<in> set (shared_buyer_bids_map s). has_bids s r \<and> has_urls r)"

lemma number_partitions_Nil: "number_partitions i args = [] \<longleftrightarrow> list_all (\<lambda>a. a = []) args"
  by (induction i args rule: number_partitions.induct) auto

lemma CreateV2ScoringRequest_ok:
  assumes "bids_ok s" and "shared_buyer_bids_map s \<noteq> []"
  shows "\<exists>r. CreateV2ScoringRequest s g = Inr r"
proof -
  from assms obtain buyer r where r: "(buyer, r) \<in> set (shared_buyer_bids_map s)" "has_bids s r" "has_urls r"
    by (cases "shared_buyer_bids_map s") (auto simp: bids_ok_def)
  have arg: "bid_arguments ad \<noteq> []" if "ab_render ad \<noteq> []" for ad
    using that by (simp add: bid_arguments_def BuildArgument_def)
  have pas: "pas_bid_arguments ad \<noteq> []" if "pab_render ad \<noteq> []" for ad
    using that by (simp add: pas_bid_arguments_def BuildArgument_def)
  from r(2, 3) have "\<not> list_all (\<lambda>a. a = []) (map bid_arguments (bids r) @
      (if is_pas_enabled s then map pas_bid_arguments (protected_app_signals_bids r) else []))"
    using arg pas by (cases "bids r"; cases "protected_app_signals_bids r") (auto simp: has_bids_def has_urls_def)
  with r(1) show ?thesis
    by (auto simp: CreateV2ScoringRequest_def Let_def number_partitions_Nil list_all_iff) blast
qed

text \<open>Signals are fetched when at most the query for k-anonymity waits.\<close>

definition calls :: "select_ad \<Rightarrow> callback \<Rightarrow> select_ad \<Rightarrow> bool" where
  "calls s cb t \<longleftrightarrow> (\<exists>m. t = call m cb s \<and> \<not> is_finish m)"

lemma calls_call [simp]:
  "calls s KvLookupCallback (call (Kv_lookup r) KvLookupCallback s)"
  "calls s ScoringSignalsCallback (call (Get_scoring_signals i md) ScoringSignalsCallback s)"
  by (auto simp: calls_def)

definition fetched :: "select_ad_env \<Rightarrow> select_ad \<Rightarrow> select_ad \<Rightarrow> bool" where
  "fetched e s t \<longleftrightarrow> t = s \<and> \<not> (goes_well e s \<and> bids_ok s \<and> shared_buyer_bids_map s \<noteq> []) \<or>
   finished_from s t \<and> (goes_well e s \<longrightarrow> sc_enable_cancellation (cfg s)) \<or>
   calls s ScoringSignalsCallback t \<or> calls s KvLookupCallback t \<and> uses_kv_v2 s"

lemma FetchScoringSignals_cases:
  assumes "sc_scoring_signals_fetched (cfg s)"
  shows "fetched e s (FetchScoringSignals e s)"
proof -
  have v2: "fetched e s (CancellableFetchScoringSignalsV2 e g s)" if "uses_kv_v2 s" for g
    using assms that CreateV2ScoringRequest_ok [of s g]
    by (auto simp: CancellableFetchScoringSignalsV2_def fetched_def goes_well_def split: option.split sum.split)
  have v1: "fetched e s (CancellableFetchScoringSignalsV1 e g s)" if "\<not> uses_kv_v2 s" for g
    using assms that
    by (auto simp: CancellableFetchScoringSignalsV1_def fetched_def goes_well_def Let_def split: option.split)
  show ?thesis
  proof (cases "cancelled s")
    case True
    then show ?thesis by (simp add: FetchScoringSignals_def fetched_def cancelled_def)
  next
    case False
    with v1 v2 show ?thesis by (simp add: FetchScoringSignals_def CancellableFetchScoringSignals_def Let_def)
  qed
qed

lemma FetchScoringSignals_scoring:
  assumes "sc_scoring_signals_fetched (cfg s)" and "finishes s = 0" and "list_all for_scoring (waiting s)"
    and "KvLookupCallback \<notin> set (waiting s)" and "pending s = 1 + int (length (waiting s))"
    and "well \<longrightarrow> goes_well e s \<and> bids_ok s \<and> shared_buyer_bids_map s \<noteq> []"
    and "waiting s \<noteq> [] \<longrightarrow> enforce_kanon_enabled s"
  shows "leaves 2 s (FetchScoringSignals e s) \<and> scoring well 0 (FetchScoringSignals e s)"
proof -
  have no_score: "ScoreAdsCallback \<notin> set (waiting s)"
    using assms(3) by (auto simp: list_all_iff)
  have enforced: "well \<Longrightarrow> waiting s \<noteq> [] \<Longrightarrow> \<not> sc_enable_cancellation (cfg s) \<and> \<not> uses_kv_v2 s"
    using assms(1, 6, 7) by (auto simp: goes_well_def)
  consider "FetchScoringSignals e s = s" "\<not> well"
    | "finished_from s (FetchScoringSignals e s)" "well \<longrightarrow> sc_enable_cancellation (cfg s)"
    | m cb where "FetchScoringSignals e s = call m cb s" "\<not> is_finish m"
      "cb = ScoringSignalsCallback \<or> cb = KvLookupCallback \<and> uses_kv_v2 s"
    using FetchScoringSignals_cases [OF assms(1), of e] assms(6) unfolding fetched_def calls_def by blast
  then show ?thesis
  proof cases
    case 1
    then show ?thesis using assms no_score by (auto simp: scoring_def leaves_def same_auction_def)
  next
    case 2
    then show ?thesis using assms no_score enforced
      by (auto simp: scoring_def finished_from_def leaves_def same_auction_def)
  next
    case (3 m cb)
    then show ?thesis using assms no_score enforced
      by (auto simp: call_def scoring_def finishes_def leaves_def same_auction_def remove1_append)
  qed
qed

subsection \<open>All bids are in\<close>

lemma FilterBids_same [simp]: "same_calls s (snd (FilterBidsWithMismatchingCurrency s))"
  by (simp add: FilterBidsWithMismatchingCurrency_def same_calls_def finishes_def Let_def)

lemma set_filter_currency: "r \<le> length xs \<Longrightarrow> set (filter_currency c b i r xs) \<subseteq> set xs"
proof (induction c b i r xs rule: filter_currency.induct)
  case (1 c b i r xs)
  show ?case
  proof (cases "i < r")
    case True
    then have "set (xs[i := xs ! (r - 1), r - 1 := xs ! i]) = set xs"
      using "1.prems" set_swap [of i xs "r - 1"] by simp
    with 1 True show ?thesis by (auto simp: filter_currency.simps [of c b i])
  qed (simp add: filter_currency.simps [of c b i] set_take_subset)
qed

lemma list_all_filter_currency:
  "list_all P xs \<Longrightarrow> list_all P (FilterBidsWithMismatchingCurrencyHelper c xs b)"
  using set_filter_currency [of "length xs" xs c b 0]
  by (auto simp: FilterBidsWithMismatchingCurrencyHelper_def list_all_iff)

lemma filter_response_urls: "has_urls r \<Longrightarrow> has_urls (filter_response c r)"
  by (simp add: has_urls_def filter_response_def list_all_filter_currency)

lemma has_bids_same: "same_calls s t \<Longrightarrow> has_bids t r = has_bids s r"
  by (simp add: has_bids_def is_pas_enabled_def same_calls_def)

lemma FilterBids_ok:
  assumes "bids_ok s" and "fst (FilterBidsWithMismatchingCurrency s)"
  shows "bids_ok (snd (FilterBidsWithMismatchingCurrency s)) \<and>
    shared_buyer_bids_map (snd (FilterBidsWithMismatchingCurrency s)) \<noteq> []"
proof -
  let ?f = "map (filter_buyer s) (shared_buyer_bids_map s)"
  have m: "shared_buyer_bids_map (snd (FilterBidsWithMismatchingCurrency s)) = filter (\<lambda>(b, r). has_bids s r) ?f"
    by (simp add: FilterBidsWithMismatchingCurrency_def Let_def)
  have urls: "has_urls r" if "(b, r) \<in> set ?f" for b r
    using that assms(1) by (fastforce simp: filter_buyer_def bids_ok_def filter_response_urls split: option.split_asm)
  have bids: "has_bids s r" if "(b, r) \<in> set ?f" "expected_currency s b = None" for b r
    using that assms(1) by (fastforce simp: filter_buyer_def bids_ok_def)
  from assms(2) obtain b r where "(b, r) \<in> set ?f" "expected_currency s b = None \<or> has_bids s r"
    unfolding FilterBidsWithMismatchingCurrency_def Let_def fst_conv list_ex_iff by blast
  with bids have "(b, r) \<in> set (filter (\<lambda>(b, r). has_bids s r) ?f)" by auto
  then have "filter (\<lambda>(b, r). has_bids s r) ?f \<noteq> []" by (metis empty_iff list.set(1))
  with urls show ?thesis unfolding bids_ok_def m by (auto simp: has_bids_same [OF FilterBids_same])
qed

text \<open>The number of tasks of the second half.\<close>

definition scoring_tasks :: "select_ad \<Rightarrow> int" where
  "scoring_tasks s = (if enforce_kanon_enabled s \<and> sc_scoring_signals_fetched (cfg s) then 2 else 1)"

lemma goes_well_same: "same_auction s t \<Longrightarrow> goes_well e t = goes_well e s"
  by (simp add: goes_well_def uses_kv_v2_def same_auction_def)

lemma bids_ok_same: "same_auction s t \<Longrightarrow> shared_buyer_bids_map t = shared_buyer_bids_map s \<Longrightarrow> bids_ok t = bids_ok s"
  by (simp add: bids_ok_def has_bids_def is_pas_enabled_def same_auction_def)

lemma finished_all: "finished_from s t \<Longrightarrow> waiting s = [] \<Longrightarrow> finishes s = 0 \<Longrightarrow> leaves 3 s t \<and> scoring well 0 t"
  by (auto simp: finished_leaves scoring_def finished_from_def)

text \<open>Valid bids are there: they are scored, after what has to be fetched or queried.\<close>

lemma start_scoring:
  assumes "encoder_ok e" and "waiting s = []" and "finishes s = 0" and "pending s = scoring_tasks s"
    and "well \<longrightarrow> goes_well e s \<and> bids_ok s \<and> shared_buyer_bids_map s \<noteq> []"
    and "(if sc_scoring_signals_fetched (cfg s)
         then Some (FetchScoringSignals e
           (if enforce_kanon_enabled s then call Run_query_k_anon_hashes KAnonTask s else PopulateKAnonStatusForBids s))
         else if enforce_kanon_enabled s then QueryKAnonHashes e s
         else ScoreAds e (PopulateKAnonStatusForBids s)) = Some t"
  shows "leaves 3 s t \<and> scoring well 0 t"
proof (cases "sc_scoring_signals_fetched (cfg s)")
  case True
  let ?u = "if enforce_kanon_enabled s then call Run_query_k_anon_hashes KAnonTask s else PopulateKAnonStatusForBids s"
  have sc: "same_auction s ?u"
    using PopulateKAnonStatusForBids_same [of s] by (simp add: call_def same_auction_def same_calls_def)
  have u: "finishes ?u = 0" "waiting ?u = (if enforce_kanon_enabled s then [KAnonTask] else [])"
    "pending ?u = pending s" "shared_buyer_bids_map ?u = shared_buyer_bids_map s"
    using assms(2, 3) PopulateKAnonStatusForBids_same [of s]
    by (auto simp: call_def finishes_def same_calls_def PopulateKAnonStatusForBids_def)
  have "leaves 2 ?u (FetchScoringSignals e ?u) \<and> scoring well 0 (FetchScoringSignals e ?u)"
    using assms(4, 5) True u sc by (intro FetchScoringSignals_scoring)
      (auto simp: scoring_tasks_def goes_well_same [OF sc] bids_ok_same [OF sc] same_auction_def split: if_split_asm)
  with True assms(2, 6) u sc show ?thesis
    by (fastforce simp: leaves_def same_auction_def split: if_split_asm)
next
  case False
  then have p: "pending s = 1" using assms(4) by (simp add: scoring_tasks_def)
  have ready: "scoring well (Suc 0) s" using assms(2, 3) p by (simp add: scoring_def)
  show ?thesis
  proof (cases "enforce_kanon_enabled s")
    case True
    with False assms(6) have "hands_over 2 s t" by (intro QueryKAnonHashes_hands_over [OF assms(1)]) simp
    with ready show ?thesis by (auto simp: hands_over_def intro: leaves_rank_mono)
  next
    case no_kanon: False
    with False assms(6) have "scores (PopulateKAnonStatusForBids s) t"
      by (intro ScoreAds_scores [OF assms(1)]) simp
    from same_calls_scores [OF PopulateKAnonStatusForBids_same this] assms(2, 3) show ?thesis
      by (auto simp: scores_def intro: leaves_rank_mono scored_scoring)
  qed
qed

lemma OnAllBidsDone_scoring:
  assumes "encoder_ok e" and "OnAllBidsDone e b s = Some t" and "waiting s = []" and "finishes s = 0"
    and "pending s = scoring_tasks s" and "well \<longrightarrow> goes_well e s \<and> bids_ok s"
  shows "leaves 3 s t \<and> scoring well 0 t"
proof (cases "cancelled s \<or> shared_buyer_bids_map s = []")
  case True
  then have "finished_from s t"
    using assms(2) by (auto simp: OnAllBidsDone_def dest: OnScoreAdsDone_finished [OF assms(1)] split: if_split_asm)
  then show ?thesis using assms(3, 4) by (rule finished_all)
next
  case False
  obtain valid s1 where f: "FilterBidsWithMismatchingCurrency s = (valid, s1)"
    by (cases "FilterBidsWithMismatchingCurrency s")
  have s1: "same_calls s s1" using FilterBids_same [of s] by (simp add: f)
  show ?thesis
  proof (cases valid)
    case False
    with \<open>\<not> (cancelled s \<or> shared_buyer_bids_map s = [])\<close> assms(2) f have "finished_from s t"
      by (auto simp: OnAllBidsDone_def intro: same_finished [OF s1])
    then show ?thesis using assms(3, 4) by (rule finished_all)
  next
    case True
    have ok: "well \<longrightarrow> goes_well e s1 \<and> bids_ok s1 \<and> shared_buyer_bids_map s1 \<noteq> []"
      using assms(6) FilterBids_ok [of s] f True s1
      by (auto simp: goes_well_def uses_kv_v2_def same_calls_def)
    have "leaves 3 s1 t \<and> scoring well 0 t"
      using assms(2) False True f s1 ok assms(3-5)
      by (intro start_scoring [OF assms(1)]) (auto simp: OnAllBidsDone_def same_calls_def scoring_tasks_def)
    with s1 show ?thesis using same_calls_leaves by blast
  qed
qed

lemma fetched_leaves: "fetched e s t \<Longrightarrow> leaves 2 s t"
  by (auto simp: fetched_def finished_leaves calls_def) (auto simp: leaves_def same_auction_def call_def)

lemma leaves_trans: "leaves k s t \<Longrightarrow> leaves k t u \<Longrightarrow> leaves k s u"
  by (fastforce simp: leaves_def same_auction_def)

lemma same_calls_leave [simp]: "same_calls s t \<Longrightarrow> leaves k s t"
  by (simp add: same_calls_def leaves_def same_auction_def)

lemma OnAllBidsDone_leaves:
  assumes "encoder_ok e" and "OnAllBidsDone e b s = Some t"
  shows "leaves 3 s t"
proof -
  obtain valid s1 where f: "FilterBidsWithMismatchingCurrency s = (valid, s1)"
    by (cases "FilterBidsWithMismatchingCurrency s")
  have s1: "leaves 3 s s1" using FilterBids_same [of s] by (simp add: f)
  have start: "leaves 3 s1 (if enforce_kanon_enabled s1 then call Run_query_k_anon_hashes KAnonTask s1
      else PopulateKAnonStatusForBids s1)"
    by (auto simp: leaves_def same_auction_def call_def PopulateKAnonStatusForBids_def)
  have fetch: "leaves 3 s1 (FetchScoringSignals e u)" if "leaves 3 s1 u" "sc_scoring_signals_fetched (cfg s1)" for u
  proof -
    from that have "cfg u = cfg s1" by (simp add: leaves_def same_auction_def)
    with that have "leaves 2 u (FetchScoringSignals e u)" by (intro fetched_leaves [OF FetchScoringSignals_cases]) simp
    then have "leaves 3 u (FetchScoringSignals e u)" by (rule leaves_rank_mono) simp
    with that(1) show ?thesis by (rule leaves_trans)
  qed
  have kanon: "leaves 3 s1 t" if "QueryKAnonHashes e s1 = Some t"
    using QueryKAnonHashes_hands_over [OF assms(1) that] by (auto simp: hands_over_def intro: leaves_rank_mono)
  have score: "leaves 3 s1 t" if "ScoreAds e (PopulateKAnonStatusForBids s1) = Some t"
    using same_calls_scores [OF PopulateKAnonStatusForBids_same ScoreAds_scores [OF assms(1) that]]
    by (auto simp: scores_def intro: leaves_rank_mono)
  have "leaves 3 s1 t" if "\<not> cancelled s" "shared_buyer_bids_map s \<noteq> []" valid
    using assms(2) that f fetch [OF start] kanon score by (auto simp: OnAllBidsDone_def split: if_split_asm)
  moreover have "finished_from s t \<or> finished_from s1 t" if "cancelled s \<or> shared_buyer_bids_map s = [] \<or> \<not> valid"
    using assms(2) that f by (auto simp: OnAllBidsDone_def dest: OnScoreAdsDone_finished [OF assms(1)] split: if_split_asm)
  ultimately show ?thesis using leaves_trans [OF s1] finished_leaves by blast
qed

subsection \<open>Bids\<close>

fun for_bids :: "callback \<Rightarrow> bool" where
  "for_bids (BidsCallback buyer) = True"
| "for_bids cb = False"

text \<open>The first half of a call, with \<open>n\<close> tasks in hand besides those that wait for a buyer.\<close>

definition collecting :: "select_ad_env \<Rightarrow> bool \<Rightarrow> nat \<Rightarrow> select_ad \<Rightarrow> bool" where
  "collecting e well n s \<longleftrightarrow> finishes s = 0 \<and> list_all for_bids (waiting s) \<and> 0 < pending_tasks_count (tracker s) \<and>
     int (n + length (waiting s)) \<le> pending_tasks_count (tracker s) \<and> pending s = scoring_tasks s \<and>
     (well \<longrightarrow> pending_tasks_count (tracker s) = int (n + length (waiting s)) \<and> goes_well e s \<and> bids_ok s)"

definition running :: "select_ad_env \<Rightarrow> bool \<Rightarrow> nat \<Rightarrow> select_ad \<Rightarrow> bool" where
  "running e well n s \<longleftrightarrow> collecting e well n s \<or> n = 0 \<and> scoring well 0 s"

definition passes_on :: "select_ad_env \<Rightarrow> bool \<Rightarrow> select_ad \<Rightarrow> select_ad \<Rightarrow> bool" where
  "passes_on e well s t \<longleftrightarrow> leaves 3 s t \<and> (\<forall>n. collecting e well (Suc n) s \<longrightarrow> running e well n t)"

lemma same_calls_collecting:
  "same_calls s t \<Longrightarrow> (well \<longrightarrow> bids_ok s \<longrightarrow> bids_ok t) \<Longrightarrow> collecting e well n s \<Longrightarrow> collecting e well n t"
  by (auto simp: collecting_def same_calls_def scoring_tasks_def goes_well_def uses_kv_v2_def)

lemma same_calls_passes_on:
  assumes "same_calls s t" and "well \<longrightarrow> bids_ok s \<longrightarrow> bids_ok t" and "passes_on e well t u"
  shows "passes_on e well s u"
  using assms(3) same_calls_leaves [OF assms(1)] same_calls_collecting [OF assms(1, 2)]
  unfolding passes_on_def by blast

lemma bids_task_completed_passes_on:
  assumes "encoder_ok e" and "bids_task_completed e st f s = Some t"
    and "same_calls s (f s)" and "well \<longrightarrow> bids_ok s \<longrightarrow> bids_ok (f s)"
  shows "passes_on e well s t"
proof (rule same_calls_passes_on [OF assms(3, 4)])
  obtain tr r where tc: "TaskCompleted st (tracker (f s)) = (tr, r)" by (cases "TaskCompleted st (tracker (f s))")
  note counts = TaskCompleted_counts [OF tc]
  let ?s = "f s" and ?t = "(f s)\<lparr>tracker := tr\<rparr>"
  have fin: "finishes ?t = finishes ?s" by (simp add: finishes_def)
  have auction: "same_auction ?s ?t" by (simp add: same_auction_def)
  have ok: "goes_well e ?t = goes_well e ?s" "bids_ok ?t = bids_ok ?s" "scoring_tasks ?t = scoring_tasks ?s"
    using goes_well_same [OF auction] bids_ok_same [OF auction] by (simp_all add: scoring_tasks_def)
  show "passes_on e well ?s t"
  proof (cases r)
    case None
    with assms(2) tc have t: "t = ?t" by (simp add: bids_task_completed_def Let_def)
    have "collecting e well n ?t" if "collecting e well (Suc n) ?s" for n
      using that counts None fin ok by (auto simp: collecting_def)
    then show ?thesis by (auto simp: passes_on_def t leaves_def same_auction_def running_def)
  next
    case (Some b)
    with assms(2) tc have all_done: "OnAllBidsDone e b ?t = Some t" by (simp add: bids_task_completed_def Let_def)
    note all = OnAllBidsDone_scoring [OF assms(1) this]
    have "running e well n t" if "collecting e well (Suc n) ?s" for n
    proof -
      from that counts Some have "n = 0" "waiting ?t = []" "finishes ?t = 0" "pending ?t = scoring_tasks ?t"
        "well \<longrightarrow> goes_well e ?t \<and> bids_ok ?t"
        using fin ok by (auto simp: collecting_def no_tasks no_tasks_eq)
      with all [of well] show ?thesis by (simp add: running_def)
    qed
    moreover have "leaves 3 ?t t" by (rule OnAllBidsDone_leaves [OF assms(1) all_done])
    ultimately show ?thesis by (auto simp: passes_on_def leaves_def same_auction_def)
  qed
qed

end
