(* ===== verification/SelectAdCalls.thy ===== *)
theory SelectAdCalls
  imports SelectAdRuns
begin

text \<open>
  Whole runs of the reactor of the seller front end: the requests for bids, the execution of a call and
  the delivery of callbacks, and what holds of every run.
\<close>

subsection \<open>Requests for bids\<close>

lemma leaves_call: "rank cb < k \<Longrightarrow> leaves k s (call m cb s)"
  by (simp add: leaves_def same_auction_def call_def)

lemma FetchBid_takes:
  assumes "encoder_ok e" and "FetchBid e buyer r s = Some t"
  shows "leaves 4 s t \<and> (\<forall>n. collecting e well (Suc n) s \<longrightarrow> running e well n t)"
proof -
  have completed: "passes_on e well s t" if "bids_task_completed e st id s = Some t" for st
    using bids_task_completed_passes_on [OF assms(1) that] by simp
  have called: "collecting e well n (call (Get_bids b r md i k) (BidsCallback b) s)"
    if "collecting e well (Suc n) s" for n md i k b
    using that by (auto simp: collecting_def call_def finishes_def scoring_tasks_def goes_well_def uses_kv_v2_def
        bids_ok_def has_bids_def is_pas_enabled_def)
  have "passes_on e well s t \<or> (\<exists>md i k. t = call (Get_bids buyer r md i k) (BidsCallback buyer) s)"
    using assms(2) completed by (fastforce simp: FetchBid_def Let_def split: if_split_asm option.split_asm)
  then show ?thesis
    using called by (auto simp: passes_on_def running_def leaves_call intro: leaves_rank_mono)
qed

lemma running_Suc: "running e well (Suc n) s \<longleftrightarrow> collecting e well (Suc n) s"
  by (simp add: running_def)

lemma send_requests_runs:
  assumes "encoder_ok e" and "send_requests e k rs s = Some (b, t)"
  shows "leaves 4 s t \<and> (running e well (length rs) s \<longrightarrow> running e well 0 t)"
  using assms
proof (induction e k rs s arbitrary: b rule: send_requests.induct)
  case (2 e k buyer r rs s)
  note ok = "2.prems"(1)
  obtain s1 b1 where s1: "leaves 4 s s1 \<and> (\<forall>n. collecting e well (Suc n) s \<longrightarrow> running e well n s1)"
    and rest: "leaves 4 s1 t \<and> (running e well (length rs) s1 \<longrightarrow> running e well 0 t)"
  proof (cases "k \<ge> max_buyers_solicited s")
    case True
    with "2.prems"(2) obtain s1 where sk: "bids_task_completed e SKIPPED id s = Some s1"
      and r: "send_requests e k rs s1 = Some (b, t)" by (auto elim!: bind_SomeE)
    have "passes_on e well s s1" using bids_task_completed_passes_on [OF ok sk] by simp
    then have "leaves 4 s s1 \<and> (\<forall>n. collecting e well (Suc n) s \<longrightarrow> running e well n s1)"
      by (auto simp: passes_on_def intro: leaves_rank_mono)
    with that "2.IH"(1) [OF True sk ok r] show ?thesis by blast
  next
    case False
    with "2.prems"(2) obtain s1 b1 where f: "FetchBid e buyer r s = Some s1"
      and r: "send_requests e (k + 1) rs s1 = Some (b1, t)" by (auto elim!: bind_SomeE)
    from that FetchBid_takes [OF ok f] "2.IH"(2) [OF False f ok r] show ?thesis by blast
  qed
  then show ?case using leaves_trans by (auto simp: running_Suc)
qed simp

text \<open>The generator chooses among what it is given.\<close>

definition choices_ok :: "select_ad_env \<Rightarrow> bool" where
  "choices_ok e \<longleftrightarrow> (\<forall>g xs. mset (shuffle_names e g xs) = mset xs) \<and>
     (\<forall>g rs. mset (shuffle_requests e g rs) = mset rs) \<and>
     (\<forall>g lower upper. lower \<le> upper \<longrightarrow> lower \<le> choose_num_chaff e g lower upper \<and> choose_num_chaff e g lower upper \<le> upper)"

lemma create_requests_length:
  "create_requests e bs s = Some rs \<Longrightarrow> length rs = length (filter (has_input s) bs)"
proof (induction bs arbitrary: rs)
  case (Cons b bs)
  then show ?case by (auto simp: has_input_def elim!: bind_SomeE split: option.split_asm)
qed simp

lemma GetChaffingConfig_tracker [simp]: "GetChaffingConfig e (s\<lparr>tracker := t\<rparr>) = GetChaffingConfig e s"
  unfolding GetChaffingConfig_def has_input_def listed_buyers_def cached_buyers_def Let_def
  by (simp split: option.split)

lemma chaff_candidates:
  assumes "choices_ok e" and "cached_buyers e s = None"
  shows "set (chaff_request_candidates (GetChaffingConfig e s)) \<subseteq> {b. \<not> has_input s b}"
    and "0 \<le> num_chaff_requests (GetChaffingConfig e s)"
    and "num_chaff_requests (GetChaffingConfig e s) \<le> int (length (chaff_request_candidates (GetChaffingConfig e s)))"
proof -
  have shuffled: "set (shuffle_names e g xs) = set xs" "length (shuffle_names e g xs) = length xs" for g xs
    using assms(1) by (metis choices_ok_def mset_eq_setD, metis choices_ok_def mset_eq_length)
  have chosen: "0 \<le> choose_num_chaff e g (min l (int n)) (int n) \<and> choose_num_chaff e g (min l (int n)) (int n) \<le> int n"
    if "0 \<le> l" for g l n
  proof -
    have "min l (int n) \<le> choose_num_chaff e g (min l (int n)) (int n) \<and> choose_num_chaff e g (min l (int n)) (int n) \<le> int n"
      using assms(1) by (simp add: choices_ok_def)
    with that show ?thesis by linarith
  qed
  show "set (chaff_request_candidates (GetChaffingConfig e s)) \<subseteq> {b. \<not> has_input s b}"
    "0 \<le> num_chaff_requests (GetChaffingConfig e s)"
    "num_chaff_requests (GetChaffingConfig e s) \<le> int (length (chaff_request_candidates (GetChaffingConfig e s)))"
    using assms(2) shuffled chosen by (auto simp: GetChaffingConfig_def Let_def)
qed

lemma non_chaff_buyers:
  assumes "choices_ok e" and "cached_buyers e s = None"
  shows "GetNonChaffBuyerNames e (GetChaffingConfig e s) s = filter (has_input s) (listed_buyers e s)"
  using chaff_candidates(1) [OF assms]
  by (auto simp: GetNonChaffBuyerNames_def listed_buyers_def intro!: filter_cong)

text \<open>There is a task for every request, and only those, where the buyers were not asked before.\<close>

lemma request_count:
  assumes "choices_ok e" and "buyer_get_bids_requests e (GetChaffingConfig e s) s = Some rs"
    and "cached_buyers e s \<noteq> None \<longrightarrow> sc_enable_chaffing (cfg s)"
  shows "int (length rs) \<le> GetEffectiveNumberOfBuyers (GetChaffingConfig e s) s \<and>
    (cached_buyers e s = None \<longrightarrow> int (length rs) = GetEffectiveNumberOfBuyers (GetChaffingConfig e s) s)"
proof -
  let ?c = "GetChaffingConfig e s"
  define names where "names = (case cached_buyers e s of Some b \<Rightarrow> non_chaff_buyer_names b | None \<Rightarrow> GetNonChaffBuyerNames e ?c s)"
  have len: "length (shuffle_requests e g xs) = length xs" for g xs
    using assms(1) by (metis choices_ok_def mset_eq_length)
  from assms(2) obtain real where real: "create_requests e names s = Some real"
    and rs: "length rs = length real + (if sc_enable_chaffing (cfg s)
      then length (take (nat (num_chaff_requests ?c)) (chaff_request_candidates ?c)) else 0)"
    by (auto simp: buyer_get_bids_requests_def names_def len Let_def elim!: bind_SomeE split: if_split_asm)
  note rl = create_requests_length [OF real]
  show ?thesis
  proof (cases "cached_buyers e s")
    case None
    have n: "names = filter (has_input s) (listed_buyers e s)"
      using non_chaff_buyers [OF assms(1) None] by (simp add: names_def None)
    have "int (length real) = num_real_requests ?c"
      using rl n None by (simp add: GetChaffingConfig_def Let_def)
    with rs chaff_candidates [OF assms(1) None] show ?thesis
      by (simp add: GetEffectiveNumberOfBuyers_def)
  next
    case (Some b)
    have "length real \<le> length names" using rl by simp
    with Some rs assms(3) show ?thesis
      by (simp add: GetEffectiveNumberOfBuyers_def GetChaffingConfig_def names_def Let_def)
  qed
qed

subsection \<open>Execution\<close>

lemma FetchBids_runs:
  assumes "encoder_ok e" and "choices_ok e" and "FetchBids e s = Some t"
    and "waiting s = []" and "finishes s = 0" and "pending s = scoring_tasks s" and "shared_buyer_bids_map s = []"
    and "cached_buyers e s \<noteq> None \<longrightarrow> sc_enable_chaffing (cfg s)"
    and "well \<longrightarrow> goes_well e s \<and> cached_buyers e s = None"
  shows "leaves 4 s t \<and> running e well 0 t"
proof -
  let ?c = "GetChaffingConfig e s"
  let ?n = "GetEffectiveNumberOfBuyers ?c s"
  let ?s = "s\<lparr>tracker := SetNumTasksToTrack ?n (tracker s)\<rparr>"
  have n: "pending_tasks_count (tracker ?s) = ?n" by (simp add: SetNumTasksToTrack_def)
  have same: "finishes ?s = finishes s" "scoring_tasks ?s = scoring_tasks s" "goes_well e ?s = goes_well e s"
    "bids_ok ?s" "same_auction s ?s" "cached_buyers e ?s = cached_buyers e s" "GetEffectiveNumberOfBuyers ?c ?s = ?n"
    using assms(7) by (simp_all add: finishes_def scoring_tasks_def goes_well_def uses_kv_v2_def bids_ok_def
        same_auction_def cached_buyers_def GetEffectiveNumberOfBuyers_def)
  show ?thesis
  proof (cases "?n = 0")
    case True
    with assms(3) have all_done: "OnAllBidsDone e True ?s = Some t" by (simp add: FetchBids_def Let_def)
    have "leaves 3 ?s t \<and> scoring well 0 t"
      using assms(4-6, 9) same by (intro OnAllBidsDone_scoring [OF assms(1) all_done]) auto
    then have "leaves 4 ?s t" "scoring well 0 t" by (auto intro: leaves_rank_mono)
    with same(5) show ?thesis by (auto simp: running_def leaves_def same_auction_def)
  next
    case False
    with assms(3) obtain rs b u where rs: "buyer_get_bids_requests e ?c ?s = Some rs"
      and u: "send_requests e 0 rs ?s = Some (b, u)"
      and t: "t = u \<or> t = u\<lparr>sent := sent u @ [Cache_invoked_buyers (generation_id_of u) b]\<rparr>"
      by (auto simp: FetchBids_def Let_def elim!: bind_SomeE)
    have count: "int (length rs) \<le> ?n \<and> (cached_buyers e s = None \<longrightarrow> int (length rs) = ?n)"
      using request_count [of e ?s rs] assms(2, 8) rs same by simp
    from send_requests_runs [OF assms(1) u] have l: "leaves 4 ?s u"
      and r: "running e well (length rs) ?s \<longrightarrow> running e well 0 u" by blast+
    have "0 < ?n" using False count by linarith
    then have "running e well (length rs) ?s"
      using count assms(4-6, 9) same n by (auto simp: running_def collecting_def)
    with r have u_run: "running e well 0 u" by blast
    have tu: "same_calls u t" "bids_ok u \<longrightarrow> bids_ok t"
      using t by (auto simp: same_calls_def finishes_def bids_ok_def has_bids_def is_pas_enabled_def)
    from u_run have "running e well 0 t"
      using same_calls_collecting [OF tu(1), of well e 0] tu(2) same_calls_scoring [OF tu(1)]
      by (auto simp: running_def)
    moreover have "leaves 4 s t"
      using l tu(1) same(5) by (fastforce simp: leaves_def same_auction_def same_calls_def)
    ultimately show ?thesis by blast
  qed
qed

text \<open>A reactor that has called nobody yet.\<close>

definition fresh :: "select_ad \<Rightarrow> bool" where
  "fresh s \<longleftrightarrow> waiting s = [] \<and> finishes s = 0 \<and> shared_buyer_bids_map s = [] \<and>
     (invoked_buyers s \<noteq> None \<longrightarrow> sc_enable_chaffing (cfg s))"

definition ready :: "select_ad \<Rightarrow> bool" where
  "ready s \<longleftrightarrow> fresh s \<and> pending s = scoring_tasks s"

definition quiet :: "select_ad \<Rightarrow> select_ad \<Rightarrow> bool" where
  "quiet s t \<longleftrightarrow> same_calls s t \<and> shared_buyer_bids_map t = shared_buyer_bids_map s \<and> invoked_buyers t = invoked_buyers s"

text \<open>The k-anonymity may turn out not to be enforced.\<close>

definition continues :: "select_ad \<Rightarrow> select_ad \<Rightarrow> bool" where
  "continues s t \<longleftrightarrow> cfg t = cfg s \<and> request t = request s \<and> auction_scope t = auction_scope s \<and>
     (enforce_kanon_enabled t \<longrightarrow> enforce_kanon_enabled s)"

lemma continues_trans: "continues s t \<Longrightarrow> continues t u \<Longrightarrow> continues s u"
  by (auto simp: continues_def)

lemma quiet_continues: "quiet s t \<Longrightarrow> continues s t"
  by (simp add: quiet_def same_calls_def continues_def)

lemma continues_goes_well: "continues s t \<Longrightarrow> goes_well e s \<Longrightarrow> goes_well e t"
  by (simp add: continues_def goes_well_def uses_kv_v2_def)

lemma quiet_self [simp]: "quiet s s"
  by (simp add: quiet_def)

lemma quiet_steps: "quiet s t \<Longrightarrow> quiet t u \<Longrightarrow> quiet s u"
  by (auto simp: quiet_def intro: same_calls_trans)

lemma quiet_fresh: "quiet s t \<Longrightarrow> fresh s \<Longrightarrow> fresh t"
  by (simp add: quiet_def fresh_def same_calls_def)

lemma quiet_ready: "quiet s t \<Longrightarrow> ready s \<Longrightarrow> ready t"
  using quiet_fresh by (auto simp: ready_def quiet_def same_calls_def scoring_tasks_def)

lemma quiet_report_error: "quiet s t \<Longrightarrow> quiet s (report_error v m c t)"
  by (simp add: quiet_def same_calls_def finishes_def)

lemma quiet_ad_server_error: "quiet s t \<Longrightarrow> quiet s (ad_server_error b m t)"
  unfolding ad_server_error_def by (simp add: quiet_report_error)

lemma quiet_fold: "(\<And>x t. quiet s t \<Longrightarrow> quiet s (f x t)) \<Longrightarrow> quiet s t \<Longrightarrow> quiet s (fold f xs t)"
  by (induction xs arbitrary: t) auto

lemma quiet_check_per_buyer_config: "quiet s t \<Longrightarrow> quiet s (check_per_buyer_config kv t)"
  unfolding check_per_buyer_config_def comp_def by (cases kv) (simp only: prod.case quiet_ad_server_error)

lemma quiet_client_errors: "quiet s (report_client_errors msgs s)"
  unfolding report_client_errors_def by (intro quiet_fold quiet_report_error quiet_self)

lemma quiet_ad_server_errors: "quiet s (ad_server_errors s)"
  unfolding ad_server_errors_def Let_def
  by (intro quiet_ad_server_error quiet_fold quiet_check_per_buyer_config quiet_self)

lemma quiet_MayPopulateAdServerVisibleErrors:
  assumes "MayPopulateAdServerVisibleErrors e s = Some t"
  shows "quiet s t"
proof -
  have "quiet s (u\<lparr>priority_vector := v\<rparr>)" if "quiet s u" for u v
    using that by (simp add: quiet_def same_calls_def finishes_def)
  with assms quiet_ad_server_errors [of s] show ?thesis
    by (auto simp: MayPopulateAdServerVisibleErrors_def split: if_split_asm sum.split_asm)
qed

lemma quiet_if: "quiet s t \<Longrightarrow> quiet s u \<Longrightarrow> quiet s (if b then t else u)"
  by simp

lemma quiet_ValidateProtectedAuctionInput: "quiet s (ValidateProtectedAuctionInput s)"
  unfolding ValidateProtectedAuctionInput_def Let_def by (intro quiet_if quiet_report_error quiet_self)

lemma quiet_MayPopulateClientVisibleErrors: "quiet s (MayPopulateClientVisibleErrors s)"
  by (simp add: MayPopulateClientVisibleErrors_def quiet_def same_calls_def finishes_def)

lemma ExtractAuctionConfig_fresh:
  "ExtractAuctionConfig e s = (st, t) \<Longrightarrow> fresh s \<Longrightarrow> fresh t \<and> pending t = pending s \<and> continues s t"
  by (auto simp: ExtractAuctionConfig_def fresh_def continues_def finishes_def split: option.split_asm sum.split_asm if_split_asm)

lemma decode_request_ready:
  assumes "decode_request e p c s = Some t" and "fresh s" and "pending s = 1"
  shows "ready t \<and> continues s t"
proof -
  obtain i msgs where i: "GetDecodedProtectedAuctionInput e (sc_is_app (cfg s)) p = (i, msgs)" by fastforce
  with assms(1) obtain bi im where bi: "GetDecodedBuyerinputs e (sc_is_app (cfg s)) (pin_buyer_input i) = Some (bi, im)"
    by (auto simp: decode_request_def elim!: bind_SomeE)
  define b where "b = (enforce_kanon_enabled s \<and> pin_enforce_kanon i)"
  let ?v = "s\<lparr>decrypted_request := Some (p, c), protected_input := i, buyer_inputs := bi, enforce_kanon_enabled := b\<rparr>"
  define u where "u = report_client_errors (msgs @ im) ?v"
  have t: "t = (if b then u\<lparr>kanon_tracker := SetNumTasksToTrack (if sc_scoring_signals_fetched (cfg u) then 2 else 1) (kanon_tracker u)\<rparr> else u)"
    using assms(1) unfolding u_def b_def by (simp add: decode_request_def i bi Let_def split del: if_split)
  have u: "quiet ?v u" unfolding u_def by (rule quiet_client_errors)
  have "fresh ?v" using assms(2) by (simp add: fresh_def finishes_def)
  with u have "fresh u" by (rule quiet_fresh)
  moreover have "enforce_kanon_enabled u = b" "kanon_tracker u = kanon_tracker s" "cfg u = cfg s"
    using u by (simp_all add: quiet_def same_calls_def)
  ultimately have "ready t"
    using t assms(3) by (auto simp: ready_def fresh_def finishes_def scoring_tasks_def SetNumTasksToTrack_def)
  moreover have "continues s t"
    using quiet_continues [OF u] t by (auto simp: continues_def b_def)
  ultimately show ?thesis by blast
qed

lemma DecryptRequest_ready:
  assumes "DecryptRequest e s = Some (st, t)" and "fresh s" and "pending s = 1"
  shows "fresh t \<and> continues s t \<and> (fst st = OkStatus \<longrightarrow> ready t)"
proof -
  let ?s = "s\<lparr>is_protected_auction_request := (sr_protected_auction_ciphertext (request s) \<noteq> [])\<rparr>"
  have s: "fresh ?s" "pending ?s = 1" using assms(2, 3) by (simp_all add: fresh_def finishes_def)
  have "fresh t \<and> fst st \<noteq> OkStatus \<and> (t = s \<or> t = ?s) \<or> ready t \<and> continues ?s t"
    using assms(1, 2) s(1) decode_request_ready [OF _ s]
    by (auto simp: DecryptRequest_def Let_def split: if_split_asm sum.split_asm)
  then show ?thesis by (auto simp: ready_def continues_def)
qed

lemma prepare_context_ready:
  assumes "fresh s"
  shows "fresh (prepare_context e s) \<and> continues s (prepare_context e s) \<and>
    pending (prepare_context e s) = pending s \<and> (ready s \<longrightarrow> ready (prepare_context e s)) \<and>
    ((\<forall>query g. invoked_buyers_cache e = Some query \<longrightarrow> query g = None) \<longrightarrow> invoked_buyers (prepare_context e s) = None)"
  using assms
  by (auto simp: prepare_context_def Let_def fresh_def finishes_def continues_def ready_def scoring_tasks_def
      split: option.split prod.split)

text \<open>No buyers are known from another execution.\<close>

definition first_execution :: "select_ad_env \<Rightarrow> bool" where
  "first_execution e \<longleftrightarrow> (\<forall>query g. invoked_buyers_cache e = Some query \<longrightarrow> query g = None)"

text \<open>Either the call is finished and nobody was called, or bids are fetched.\<close>

definition starts :: "select_ad_env \<Rightarrow> select_ad \<Rightarrow> select_ad \<Rightarrow> bool" where
  "starts e s t \<longleftrightarrow> (\<exists>u. fresh u \<and> finished_from u t) \<or>
     (\<exists>u. ready u \<and> continues s u \<and> FetchBids e u = Some t \<and> (first_execution e \<and> invoked_buyers s = None \<longrightarrow> invoked_buyers u = None))"

lemma starts_finished: "fresh u \<Longrightarrow> starts e s (FinishWithStatus st u)"
  using FinishWithStatus_finished by (auto simp: starts_def)

lemma check_and_fetch_starts:
  assumes "encoder_ok e" and "check_and_fetch e s = Some t" and "ready s"
  shows "starts e s t"
proof -
  from assms(2) obtain s1 where s1: "MayPopulateAdServerVisibleErrors e s = Some s1"
    unfolding check_and_fetch_def by (rule bind_SomeE)
  let ?u = "if HaveClientVisibleErrors s1 then s1 else ValidateProtectedAuctionInput s1"
  define s2 where "s2 = MayPopulateClientVisibleErrors ?u"
  have q1: "quiet s s1" using s1 by (rule quiet_MayPopulateAdServerVisibleErrors)
  have "quiet s1 ?u" using quiet_ValidateProtectedAuctionInput by simp
  then have q2: "quiet s s2"
    unfolding s2_def using q1 quiet_MayPopulateClientVisibleErrors quiet_steps by blast
  note ready1 = quiet_ready [OF q1 assms(3)] and ready2 = quiet_ready [OF q2 assms(3)]
  have failed: "starts e s t" if "OnScoreAdsDone e r v = Some t" "ready v" for r v
    using OnScoreAdsDone_finished [OF assms(1) that(1)] that(2) by (auto simp: ready_def starts_def)
  have go: "starts e s t" if "FetchBids e s2 = Some t"
    using that ready2 quiet_continues [OF q2] q2 by (auto simp: starts_def quiet_def)
  from assms(2) s1 failed [OF _ ready1] failed [OF _ ready2] go show ?thesis
    by (simp add: check_and_fetch_def Let_def s2_def [symmetric] split: if_split_asm)
qed

lemma Execute_starts:
  assumes "encoder_ok e" and "Execute e nc s = Some t" and "fresh s" and "pending s = 1" and "invoked_buyers s = None"
  shows "starts e s t"
proof -
  let ?s = "\<lambda>md. s\<lparr>is_cancelled := nc, buyer_metadata := md\<rparr>"
  have s: "fresh (s\<lparr>is_cancelled := nc\<rparr>)" "fresh (?s md)" "pending (?s md) = 1" "continues s (?s md)" for md
    using assms(3, 4) by (simp_all add: fresh_def finishes_def continues_def)
  have extracted: "starts e s t"
    if ex: "ExtractAuctionConfig e (?s md) = (st, s1)" and "fst st = OkStatus"
      and de: "DecryptRequest e (s1\<lparr>tracker := n\<rparr>) = Some (st', s2)"
      and rest: "(if fst st' \<noteq> OkStatus then Some (FinishWithStatus st' (prepare_context e s2))
        else check_and_fetch e (prepare_context e s2)) = Some t" for md st s1 st' s2 n
  proof -
    have s1: "fresh s1 \<and> pending s1 = 1 \<and> continues (?s md) s1" using ExtractAuctionConfig_fresh [OF ex] s by simp
    then have "fresh (s1\<lparr>tracker := n\<rparr>)" "pending (s1\<lparr>tracker := n\<rparr>) = 1" "continues (?s md) (s1\<lparr>tracker := n\<rparr>)"
      by (auto simp: fresh_def finishes_def continues_def)
    note s2 = DecryptRequest_ready [OF de this(1, 2)] and c1 = this(3)
    then have s3: "fresh (prepare_context e s2) \<and> continues s2 (prepare_context e s2) \<and>
        (fst st' = OkStatus \<longrightarrow> ready (prepare_context e s2)) \<and> (first_execution e \<longrightarrow> invoked_buyers (prepare_context e s2) = None)"
      using prepare_context_ready [of s2 e] by (auto simp: first_execution_def)
    have c3: "continues s (prepare_context e s2)" using s(4) c1 s2 s3 continues_trans by blast
    have fin: "starts e s (FinishWithStatus st' (prepare_context e s2))" using s3 by (intro starts_finished) blast
    have go: "starts e s t" if "check_and_fetch e (prepare_context e s2) = Some t" "fst st' = OkStatus"
    proof -
      have "starts e (prepare_context e s2) t"
        using check_and_fetch_starts [OF assms(1) that(1)] s3 that(2) by blast
      with c3 s3 show ?thesis by (auto simp: starts_def intro: continues_trans)
    qed
    show ?thesis using rest fin go by (auto split: if_split_asm)
  qed
  from assms(2) show ?thesis
    unfolding Execute_def Let_def
    by (auto elim!: bind_SomeE split: if_split_asm sum.split_asm prod.split_asm
        intro: starts_finished s(1) ExtractAuctionConfig_fresh [THEN conjunct1, OF _ s(2)] extracted)
qed

lemma Execute_running:
  assumes "encoder_ok e" and "choices_ok e" and "Execute e nc s = Some t" and "fresh s" and "pending s = 1"
    and "invoked_buyers s = None" and "well \<longrightarrow> goes_well e s \<and> first_execution e"
  shows "running e well 0 t"
  using Execute_starts [OF assms(1, 3-6)] unfolding starts_def
proof (elim disjE exE conjE)
  fix u assume "fresh u" and "finished_from u t"
  then show ?thesis using finished_all by (auto simp: running_def fresh_def)
next
  fix u assume u: "ready u" "continues s u" "FetchBids e u = Some t"
    "first_execution e \<and> invoked_buyers s = None \<longrightarrow> invoked_buyers u = None"
  then show ?thesis
    using FetchBids_runs [OF assms(1, 2) u(3)] assms(6, 7) continues_goes_well [OF u(2)]
    by (auto simp: ready_def fresh_def cached_buyers_def)
qed

lemma new_fresh: "fresh (new_SelectAdReactor c r md)" "pending (new_SelectAdReactor c r md) = 1"
    "invoked_buyers (new_SelectAdReactor c r md) = None"
  by (simp_all add: new_SelectAdReactor_def fresh_def finishes_def new_tracker_def)

subsection \<open>Callbacks\<close>

definition answers_with_urls :: "answers \<Rightarrow> bool" where
  "answers_with_urls a \<longleftrightarrow> (case bids_answer a of Inl _ \<Rightarrow> True | Inr (r, _) \<Rightarrow> has_urls r)"

lemma set_emplace_bids: "set (emplace_bids k v m) \<subseteq> insert (k, v) (set m)"
  by (auto simp: emplace_bids_def)

lemma RecordInterestGroupUpdates_same:
  "same_calls s (RecordInterestGroupUpdates b r s)" "bids_ok (RecordInterestGroupUpdates b r s) = bids_ok s"
  by (auto simp: RecordInterestGroupUpdates_def same_calls_def finishes_def bids_ok_def has_bids_def is_pas_enabled_def)

lemma OnFetchBidsDone_passes_on:
  assumes "encoder_ok e" and "OnFetchBidsDone e (bids_answer a) buyer s = Some t" and "well \<longrightarrow> answers_with_urls a"
  shows "passes_on e well s t"
proof (cases "bids_answer a")
  case (Inl err)
  with assms(1, 2) show ?thesis
    by (auto simp: OnFetchBidsDone_def intro!: bids_task_completed_passes_on)
next
  case (Inr p)
  obtain r d where p: "p = (r, d)" by (cases p)
  define u where "u = (if d then s\<lparr>downstream_logs := downstream_logs s @ [buyer]\<rparr> else s)"
  have u: "same_calls s u" "bids_ok u = bids_ok s"
    by (auto simp: u_def same_calls_def finishes_def bids_ok_def has_bids_def is_pas_enabled_def)
  let ?keep = "\<lambda>s. (RecordInterestGroupUpdates buyer r s)
    \<lparr>shared_buyer_bids_map := emplace_bids buyer (r\<lparr>update_interest_group_list := []\<rparr>) (shared_buyer_bids_map s)\<rparr>"
  have keep: "same_calls u (?keep u)"
    using same_calls_trans [OF RecordInterestGroupUpdates_same(1) same_calls_bids] .
  have ok: "well \<longrightarrow> bids_ok u \<longrightarrow> bids_ok (?keep u)" if "has_bids u r"
    using that assms(3) Inr p set_emplace_bids [of buyer "r\<lparr>update_interest_group_list := []\<rparr>" "shared_buyer_bids_map u"]
      has_bids_same [OF keep]
    by (fastforce simp: bids_ok_def answers_with_urls_def has_bids_def has_urls_def)
  have "passes_on e well u t"
    using assms(1, 2) Inr p keep ok RecordInterestGroupUpdates_same
    by (auto simp: OnFetchBidsDone_def u_def [symmetric] Let_def split: if_split_asm
        intro!: bids_task_completed_passes_on)
  with u show ?thesis by (intro same_calls_passes_on [of s u]) auto
qed

abbreviation taken :: "callback \<Rightarrow> bool \<Rightarrow> select_ad \<Rightarrow> select_ad" where
  "taken cb c s \<equiv> s\<lparr>waiting := remove1 cb (waiting s), is_cancelled := c\<rparr>"

lemma finished_sooner: "finished_from s t \<Longrightarrow> leaves 0 s t"
  by (rule finished_leaves)

lemma deliver_passes:
  assumes "encoder_ok e" and "deliver e c a cb s = Some t" and "well \<longrightarrow> answers_with_urls a"
  shows "case cb of BidsCallback b \<Rightarrow> passes_on e well (taken cb c s) t
    | KAnonTask \<Rightarrow> hands_over 2 (taken cb c s) t
    | KvLookupCallback \<Rightarrow> on_scoring_kv_lookup e (scoring_kv_answer a) (taken cb c s) = Some t
    | ScoreAdsCallback \<Rightarrow> finished_from (taken cb c s) t
    | _ \<Rightarrow> hands_over 1 (taken cb c s) t"
proof (cases cb)
  case (BidsCallback b)
  then show ?thesis
    using assms by (auto simp: deliver_def Let_def split: if_split_asm
        intro: OnFetchBidsDone_passes_on bids_task_completed_passes_on [of e CANCELLED id])
next
  case ScoreAdsCallback
  then show ?thesis
    using assms by (auto simp: deliver_def Let_def split: if_split_asm intro: OnScoreAdsDone_finished)
qed (use assms in \<open>auto simp: deliver_def Let_def simp del: One_nat_def intro: QueryKAnonHashes_hands_over
      on_k_anon_answer_hands_over on_scoring_signals_hands_over\<close>)

lemma callback_leaves:
  assumes "encoder_ok e" and "deliver e c a cb s = Some t"
  shows "leaves (rank cb) (taken cb c s) t"
  using deliver_passes [OF assms, of False] on_scoring_kv_lookup_cases [OF assms(1)]
  by (cases cb) (auto simp: passes_on_def hands_over_def finished_leaves)

lemma length_remove1_Suc: "x \<in> set xs \<Longrightarrow> length xs = Suc (length (remove1 x xs))"
  by (induction xs) auto

lemma list_all_remove1: "list_all P xs \<Longrightarrow> list_all P (remove1 x xs)"
  by (metis list_all_iff notin_set_remove1)

lemma taken_collecting:
  assumes "collecting e well n s" and "cb \<in> set (waiting s)"
  shows "collecting e well (Suc n) (taken cb c s)"
proof -
  have "length (waiting s) = Suc (length (remove1 cb (waiting s)))"
    using assms(2) by (rule length_remove1_Suc)
  then show ?thesis
    using assms(1) by (auto simp: collecting_def finishes_def list_all_remove1 scoring_tasks_def goes_well_def
        uses_kv_v2_def bids_ok_def has_bids_def is_pas_enabled_def)
qed

lemma taken_scoring:
  assumes "scoring well 0 s" and "cb \<in> set (waiting s)" and "cb \<noteq> ScoreAdsCallback"
  shows "scoring well (Suc 0) (taken cb c s)"
proof -
  have "length (waiting s) = Suc (length (remove1 cb (waiting s)))"
    using assms(2) by (rule length_remove1_Suc)
  moreover have "ScoreAdsCallback \<notin> set (waiting s)"
    using assms by (auto simp: scoring_def split: if_split_asm)
  ultimately show ?thesis
    using assms by (auto simp: scoring_def finishes_def list_all_remove1 remove1_commute dest: notin_set_remove1
        split: if_split_asm)
qed

lemma deliver_running:
  assumes "encoder_ok e" and "deliver e c a cb s = Some t" and "cb \<in> set (waiting s)" and "running e well 0 s"
    and "well \<longrightarrow> answers_with_urls a"
  shows "running e well 0 t"
proof -
  note passes = deliver_passes [OF assms(1, 2, 5)]
  from assms(4) consider "collecting e well 0 s" | "scoring well 0 s" by (auto simp: running_def)
  then show ?thesis
  proof cases
    case 1
    with assms(3) have "for_bids cb" by (auto simp: collecting_def list_all_iff)
    then obtain b where "cb = BidsCallback b" by (cases cb) auto
    with passes taken_collecting [OF 1 assms(3)] show ?thesis by (auto simp: passes_on_def)
  next
    case 2
    note sc = taken_scoring [OF 2 assms(3), of c]
    have not_bids: "\<not> for_bids cb"
      using 2 assms(3) by (cases cb) (auto simp: scoring_def list_all_iff split: if_split_asm)
    have score: "scoring well 0 t" if "cb = ScoreAdsCallback"
      using that 2 assms(3) passes by (auto simp: scoring_def finished_from_def finishes_def)
    have kv: "scoring well 0 t" if k: "cb = KvLookupCallback"
    proof -
      have "finishes (taken cb c s) = 0" "KvLookupCallback \<notin> set (waiting (taken cb c s))"
        "well \<longrightarrow> 0 + length (waiting (taken cb c s)) = 0"
        using 2 assms(3) k by (auto simp: scoring_def finishes_def length_remove1 split: if_split_asm)
      moreover have "on_scoring_kv_lookup e (scoring_kv_answer a) (taken cb c s) = Some t" using passes k by simp
      ultimately show ?thesis using on_scoring_kv_lookup_cases [OF assms(1)] sc k by blast
    qed
    from passes sc score kv not_bids have "scoring well 0 t" by (cases cb) (auto simp: hands_over_def)
    then show ?thesis by (simp add: running_def)
  qed
qed

subsection \<open>Runs\<close>

text \<open>A callback that waits is delivered, with answers that satisfy \<open>P\<close> and whatever the client does.\<close>

definition delivers :: "select_ad_env \<Rightarrow> (answers \<Rightarrow> bool) \<Rightarrow> callback \<Rightarrow> select_ad \<Rightarrow> select_ad \<Rightarrow> bool" where
  "delivers e P cb s t \<longleftrightarrow> cb \<in> set (waiting s) \<and> (\<exists>c a. P a \<and> deliver e c a cb s = Some t)"

lemma run_running:
  assumes "deliveries (delivers e P) n s t" and "encoder_ok e" and "running e well 0 s"
    and "\<And>a. well \<Longrightarrow> P a \<Longrightarrow> answers_with_urls a"
  shows "running e well 0 t"
  using assms
proof (induction rule: deliveries.induct)
  case (more n s s' cb s'')
  then show ?case by (auto simp: delivers_def intro: deliver_running)
qed

lemma running_finishes: "running e well n s \<Longrightarrow> finishes s \<le> 1"
  by (auto simp: running_def collecting_def scoring_def split: if_split_asm)

lemma running_ends: "running e True n s \<Longrightarrow> waiting s = [] \<Longrightarrow> n = 0 \<Longrightarrow> finishes s = 1"
  by (auto simp: running_def collecting_def scoring_def split: if_split_asm)

text \<open>An environment whose encoder does not finish calls.\<close>

definition encoding :: "select_ad_env \<Rightarrow> select_ad_env" where
  "encoding e = e\<lparr>GetNonEncryptedResponse := (\<lambda>i. (None, snd (GetNonEncryptedResponse e i)))\<rparr>"

lemma encoding_ok [simp]: "encoder_ok (encoding e)"
  by (simp add: encoder_ok_def encoding_def)

lemma encoding_id: "encoder_ok e \<Longrightarrow> encoding e = e"
  unfolding encoder_ok_def encoding_def by (cases e) (auto simp: fun_eq_iff prod_eq_iff)

interpretation select_ad: async_call "delivers (encoding e) P" waiting rank for e P
proof unfold_locales
  fix cb s t
  assume "delivers (encoding e) P cb s t"
  then obtain c a where mem: "cb \<in> set (waiting s)" and d: "deliver (encoding e) c a cb s = Some t"
    by (auto simp: delivers_def)
  from callback_leaves [OF encoding_ok d] obtain new where
    "waiting t = remove1 cb (waiting s) @ new" "\<forall>c \<in> set new. rank c < rank cb"
    by (auto simp: leaves_def)
  with mem show "cb \<in> set (waiting s) \<and>
      (\<exists>new. mset (waiting t) + {#cb#} = mset (waiting s) + mset new \<and> (\<forall>c \<in> set new. rank c < rank cb))"
    by (intro conjI exI [of _ new]) auto
qed

end
