(* ===== verification/SelectAdAnswered.thy ===== *)
theory SelectAdAnswered
  imports SelectAdCalls
begin

text \<open>
  What holds of every call of the seller front end (\<^verbatim>\<open>seller_frontend_service/select_ad_reactor.cc\<close>), from its
  execution to its last callback, with an example.
\<close>

subsection \<open>An example\<close>

text \<open>One buyer is asked. If \<open>v2\<close>, k-anonymity is enforced and signals are looked up with version 2.\<close>

definition sample_sa_config :: "bool \<Rightarrow> SelectAdConfig" where
  "sample_sa_config v2 = \<lparr>sc_is_app = False, sc_enable_protected_app_signals = False, sc_enable_protected_audience = True,
     sc_enable_tkv_v2_browser = v2, sc_enable_chaffing = False, sc_allow_compressed_auction_config = False,
     sc_seller_origin_domain = ''s'', sc_priority_vector_enabled = False, sc_scoring_signals_fetched = v2,
     sc_consent_all_requests = False, sc_debug_sample_rate_micro = 0, sc_get_bid_rpc_timeout_ms = 60,
     sc_header_passed_to_buyer = [], sc_tkv_v2_address_empty = False, sc_test_mode = False,
     sc_enable_cancellation = True, sc_enable_kanon = v2, sc_enable_buyer_private_aggregate_reporting = False,
     sc_per_adtech_paapi_contributions_limit = 20, sc_max_buyers_solicited = kMaxBuyersSolicited\<rparr>"

definition sample_sa_request :: SelectAdRequest where
  "sample_sa_request = \<lparr>sr_protected_audience_ciphertext = [],
     sr_auction_config = Some (default_AuctionConfig\<lparr>ac_seller_signals := ''x'', ac_auction_signals := ''x'',
       ac_buyer_list := [''b''], ac_seller := ''s''\<rparr>),
     sr_client_type = CLIENT_TYPE_BROWSER, sr_protected_auction_ciphertext = [1],
     sr_num_component_auction_results = 0, sr_compressed_auction_config = None\<rparr>"

definition sample_sa_input :: "bool \<Rightarrow> ProtectedInput" where
  "sample_sa_input v2 = default_ProtectedInput\<lparr>pin_publisher_name := ''p'', pin_generation_id := ''g'', pin_enforce_kanon := v2\<rparr>"

definition sample_sa_env :: "bool \<Rightarrow> select_ad_env" where
  "sample_sa_env v2 = \<lparr>se_txt = \<lparr>ParseJsonString = (\<lambda>s. Inl InvalidArgument), SerializeJsonDoc = (\<lambda>j. Inr ''{}'')\<rparr>,
     se_gzip = \<lparr>GzipCompress = Inr, GzipDecompress = Inr\<rparr>, DecryptOHTTP = (\<lambda>c. Inr (c, ''secret'')),
     HpkeEncrypt = (\<lambda>p _. Some (p, ''key'')), EncryptAndEncapsulateResponse = (\<lambda>p _. Some p),
     parse_auction_config = (\<lambda>_. None), DecodeRequestPayload = Inr, parse_protected_input = (\<lambda>_. (default_ProtectedInput, False)),
     decode_cbor_input = (\<lambda>_. (sample_sa_input v2, [])), parse_buyer_input = (\<lambda>_. None),
     DecodeBuyerInputs = (\<lambda>_. ([(''b'', \<lparr>bib_interest_groups = [], bib_protected_app_signals = Some default_ProtectedAppSignals\<rparr>)], [])),
     buyer_clients = [(''b'', \<lambda>_. OkStatus)], scoring_signals_provider = None, scoring_kv_client = Some (\<lambda>_. OkStatus),
     scoring_client = (\<lambda>_. OkStatus), k_anon_cache_manager = (\<lambda>_ _. OkStatus), invoked_buyers_cache = None,
     se_report_win_js_urls = Map.empty, se_CanonicalizeURL = id, se_SHA256 = id, se_StrReplaceAll = (\<lambda>s _. s),
     GetNonEncryptedResponse = (\<lambda>_. (None, Some [7])), se_server_token = None, RandomSample = (\<lambda>_. False),
     choose_num_chaff = (\<lambda>_ l _. l), shuffle_names = (\<lambda>_ xs. xs), shuffle_requests = (\<lambda>_ xs. xs),
     choose_chaff_size = (\<lambda>_ _. 0)\<rparr>"

definition sample_sa_bid :: AdWithBid where
  "sample_sa_bid = \<lparr>ab_ad = None, ab_bid = 1, ab_render = ''u'', ab_ad_components = [], ab_allow_component_auction = False,
     ab_interest_group_name = ''ig'', ab_ad_cost = 0, ab_debug_report_urls = None, ab_modeling_signals = 0,
     ab_bid_currency = [], ab_buyer_reporting_id = None, ab_private_aggregation_contributions = [],
     ab_buyer_and_seller_reporting_id = None, ab_selected_buyer_and_seller_reporting_id = None, ab_data_version = 0\<rparr>"

definition sample_sa_answers :: "bool \<Rightarrow> answers" where
  "sample_sa_answers v2 = \<lparr>bids_answer = (if v2 then Inr (\<lparr>bids = [sample_sa_bid], protected_app_signals_bids = [],
       update_interest_group_list = [], downstream_servers = []\<rparr>, False) else Inl Internal),
     scoring_signals_answer = Inl Internal, scoring_kv_answer = Inl Internal, k_anon_answer = Inl Internal,
     scores_answer = Inl (Internal, [])\<rparr>"

definition sample_sa :: "bool \<Rightarrow> select_ad" where
  "sample_sa v2 = new_SelectAdReactor (sample_sa_config v2) sample_sa_request []"

lemma sample_sa_execute: "map_option (\<lambda>s. (finishes s, waiting s)) (Execute (sample_sa_env v2) False (sample_sa v2)) = Some (0, [BidsCallback ''b''])"
  by (cases v2; simp only:; code_simp)

lemma sample_bids:
  "map_option (\<lambda>s. (finishes s, waiting s)) (Execute (sample_sa_env v2) False (sample_sa v2) \<bind>
      deliver (sample_sa_env v2) False (sample_sa_answers v2) (BidsCallback ''b'')) =
    Some (if v2 then (0, [KAnonTask, KvLookupCallback]) else (1, []))"
  by (cases v2; simp only: if_True if_False; code_simp)

lemma sample_lookup:
  "map_option (\<lambda>s. (finishes s, waiting s)) (Execute (sample_sa_env True) False (sample_sa True) \<bind>
      deliver (sample_sa_env True) False (sample_sa_answers True) (BidsCallback ''b'') \<bind>
      deliver (sample_sa_env True) False (sample_sa_answers True) KvLookupCallback) = Some (1, [KAnonTask])"
  by code_simp

lemma sample_ok: "encoder_ok (sample_sa_env v2)" "choices_ok (sample_sa_env v2)" "first_execution (sample_sa_env v2)"
  by (simp_all add: encoder_ok_def choices_ok_def first_execution_def sample_sa_env_def)

lemma sample_encoding: "encoding (sample_sa_env v2) = sample_sa_env v2"
  using sample_ok(1) by (rule encoding_id)

lemma sample_sa_run:
  obtains s t where "Execute (sample_sa_env v2) False (sample_sa v2) = Some s" "waiting s = [BidsCallback ''b'']"
    "deliver (sample_sa_env v2) False (sample_sa_answers v2) (BidsCallback ''b'') s = Some t"
    "(finishes t, waiting t) = (if v2 then (0, [KAnonTask, KvLookupCallback]) else (1, []))"
    "P (sample_sa_answers v2) \<longrightarrow> deliveries (delivers (sample_sa_env v2) P) 1 s t"
proof -
  obtain s where s: "Execute (sample_sa_env v2) False (sample_sa v2) = Some s" "waiting s = [BidsCallback ''b'']"
    using sample_sa_execute [of v2] by auto
  obtain t where t: "deliver (sample_sa_env v2) False (sample_sa_answers v2) (BidsCallback ''b'') s = Some t"
    "(finishes t, waiting t) = (if v2 then (0, [KAnonTask, KvLookupCallback]) else (1, []))"
    using sample_bids [of v2] s by (auto split: if_split_asm)
  have "delivers (sample_sa_env v2) P (BidsCallback ''b'') s t" if "P (sample_sa_answers v2)"
    using s t that by (auto simp: delivers_def)
  then have "P (sample_sa_answers v2) \<longrightarrow> deliveries (delivers (sample_sa_env v2) P) 1 s t"
    using deliveries.more [OF deliveries.none] by fastforce
  from that [OF s t this] show thesis .
qed

subsection \<open>Answers\<close>

text \<open>C3. A call of the seller front end is never finished twice, in any run: whatever the request, the configuration,
  the buyers, the answers of the servers and their order are, also when the client cancels at any moment,
  when clients cannot be started and when buyers are skipped, provided that the encoding of the answer
  does not itself end the call.\<close>

theorem finished_at_most_once:
  assumes "encoder_ok e" and "choices_ok e" and "Execute e c (new_SelectAdReactor cf r md) = Some s"
    and "deliveries (delivers e P) n s t"
  shows "finishes t \<le> 1"
proof -
  have "running e False 0 s" using Execute_running [OF assms(1-3) new_fresh] by simp
  then have "running e False 0 t" using run_running [OF assms(4, 1)] by blast
  then show ?thesis by (rule running_finishes)
qed

theorem finished_at_most_once_witness:
  "\<exists>s t. Execute (sample_sa_env True) False (sample_sa True) = Some s \<and> waiting s \<noteq> [] \<and>
     deliveries (delivers (sample_sa_env True) (\<lambda>_. True)) 1 s t \<and> finishes t \<le> 1"
proof -
  obtain s t where run: "Execute (sample_sa_env True) False (sample_sa True) = Some s" "waiting s = [BidsCallback ''b'']"
    "deliveries (delivers (sample_sa_env True) (\<lambda>_. True)) 1 s t" by (rule sample_sa_run [of True "\<lambda>_. True"]) auto
  from finished_at_most_once [OF sample_ok(1, 2) run(1) [unfolded sample_sa_def] run(3)] run show ?thesis by auto
qed




text \<open>With version 2 of the key/value server a failed lookup ends the call of the seller front end at once, even
  if the query for k-anonymity that was started with it is still to run: its callback then runs on a
  reactor that has given up the call.\<close>

theorem failed_lookup_ends_call:
  assumes "encoder_ok e" and "deliver e c a KvLookupCallback s = Some t" and "scoring_kv_answer a = Inl err"
    and "KAnonTask \<in> set (waiting s)"
  shows "finishes t = Suc (finishes s) \<and> KAnonTask \<in> set (waiting t)"
proof -
  let ?s = "taken KvLookupCallback c s"
  have "on_scoring_kv_lookup e (Inl err) ?s = Some t" using deliver_passes [OF assms(1, 2), of False] assms(3) by simp
  then have "finished_from ?s t"
    by (auto simp: on_scoring_kv_lookup_def split: if_split_asm dest!: OnScoreAdsDone_finished [OF assms(1)]
        intro: same_finished [OF report_error_same])
  moreover have "finishes ?s = finishes s" by (simp add: finishes_def)
  ultimately show ?thesis using assms(4) by (auto simp: finished_from_def)
qed

theorem failed_lookup_ends_call_witness:
  "\<exists>s t u. Execute (sample_sa_env True) False (sample_sa True) = Some s \<and>
     deliveries (delivers (sample_sa_env True) (\<lambda>_. True)) 1 s t \<and>
     deliver (sample_sa_env True) False (sample_sa_answers True) KvLookupCallback t = Some u \<and>
     finishes u = 1 \<and> KAnonTask \<in> set (waiting u)"
proof -
  obtain s t where run: "Execute (sample_sa_env True) False (sample_sa True) = Some s"
    "deliver (sample_sa_env True) False (sample_sa_answers True) (BidsCallback ''b'') s = Some t"
    "(finishes t, waiting t) = (0, [KAnonTask, KvLookupCallback])"
    "deliveries (delivers (sample_sa_env True) (\<lambda>_. True)) 1 s t" by (rule sample_sa_run [of True "\<lambda>_. True"]) auto
  obtain u where u: "deliver (sample_sa_env True) False (sample_sa_answers True) KvLookupCallback t = Some u"
    using sample_lookup run(1, 2) by auto
  have "scoring_kv_answer (sample_sa_answers True) = Inl Internal" by (simp add: sample_sa_answers_def)
  from failed_lookup_ends_call [OF sample_ok(1) u this] run u show ?thesis by auto
qed

end
