(* ===== verification/SelectAdBuyers.thy ===== *)
theory SelectAdBuyers
  imports SelectAdAnswered
begin

text \<open>
  The buyers of a call of the seller front end: how many are asked, and which of their bids are dropped
  for their currency (\<^verbatim>\<open>seller_frontend_service/select_ad_reactor.cc\<close>).
\<close>

subsection \<open>The buyers that are asked\<close>

definition asked :: "select_ad \<Rightarrow> nat" where
  "asked s = length (filter for_bids (waiting s))"

lemma rank_bids: "for_bids cb \<longleftrightarrow> rank cb = 3"
  by (cases cb) auto

lemma leaves_asked: "leaves 3 s t \<Longrightarrow> asked t = asked s \<and> max_buyers_solicited t = max_buyers_solicited s"
  by (fastforce simp: leaves_def asked_def rank_bids filter_empty_conv same_auction_def max_buyers_solicited_def)

lemma FetchBid_asked:
  assumes "encoder_ok e" and "FetchBid e buyer r s = Some t"
  shows "asked t \<le> Suc (asked s) \<and> max_buyers_solicited t = max_buyers_solicited s"
proof -
  have completed: "asked t = asked s \<and> max_buyers_solicited t = max_buyers_solicited s"
    if "bids_task_completed e st id s = Some t" for st
    using bids_task_completed_passes_on [OF assms(1) that, of False] by (simp add: passes_on_def leaves_asked)
  have called: "asked (call m (BidsCallback buyer) s) = Suc (asked s)"
    "max_buyers_solicited (call m (BidsCallback buyer) s) = max_buyers_solicited s" for m
    by (simp_all add: asked_def call_def max_buyers_solicited_def)
  show ?thesis
    using assms(2) completed called by (fastforce simp: FetchBid_def Let_def split: if_split_asm option.split_asm)
qed

lemma send_requests_asked:
  assumes "encoder_ok e" and "send_requests e n rs s = Some (b, t)"
  shows "int (asked t) + n \<le> int (asked s) + max n (max_buyers_solicited s)"
  using assms
proof (induction e n rs s arbitrary: b rule: send_requests.induct)
  case (2 e n buyer r rs s)
  note ok = "2.prems"(1)
  show ?case
  proof (cases "n \<ge> max_buyers_solicited s")
    case True
    with "2.prems"(2) obtain s1 where sk: "bids_task_completed e SKIPPED id s = Some s1"
      and r: "send_requests e n rs s1 = Some (b, t)" by (auto elim!: bind_SomeE)
    have "leaves 3 s s1" using bids_task_completed_passes_on [OF ok sk, of False] by (simp add: passes_on_def)
    with "2.IH"(1) [OF True sk ok r] show ?thesis by (simp add: leaves_asked)
  next
    case False
    with "2.prems"(2) obtain s1 b1 where f: "FetchBid e buyer r s = Some s1"
      and r: "send_requests e (n + 1) rs s1 = Some (b1, t)" by (auto elim!: bind_SomeE)
    from FetchBid_asked [OF ok f] "2.IH"(2) [OF False f ok r] False show ?thesis by simp
  qed
qed simp

lemma FetchBids_asked:
  assumes "encoder_ok e" and "FetchBids e s = Some t" and "waiting s = []"
  shows "int (asked t) \<le> max 0 (max_buyers_solicited s)"
proof -
  let ?n = "GetEffectiveNumberOfBuyers (GetChaffingConfig e s) s"
  let ?s = "s\<lparr>tracker := SetNumTasksToTrack ?n (tracker s)\<rparr>"
  have s: "asked ?s = 0" "max_buyers_solicited ?s = max_buyers_solicited s"
    using assms(3) by (simp_all add: asked_def max_buyers_solicited_def)
  show ?thesis
  proof (cases "?n = 0")
    case True
    with assms(2) have "OnAllBidsDone e True ?s = Some t" by (simp add: FetchBids_def Let_def)
    from leaves_asked [OF OnAllBidsDone_leaves [OF assms(1) this]] s show ?thesis by simp
  next
    case False
    with assms(2) obtain rs b u where u: "send_requests e 0 rs ?s = Some (b, u)" and t: "waiting t = waiting u"
      by (fastforce simp: FetchBids_def Let_def elim!: bind_SomeE)
    from send_requests_asked [OF assms(1) u] s t show ?thesis by (simp add: asked_def)
  qed
qed

text \<open>C7. However many buyers are configured, listed and have input, a call of the seller front end has requests
  for bids out to at most as many of them as the cap allows: 15 with chaff, else the configured number.\<close>

theorem at_most_cap_buyers_asked:
  assumes "encoder_ok e" and "Execute e c (new_SelectAdReactor cf r md) = Some s"
  shows "int (length (filter for_bids (waiting s))) \<le>
    max 0 (if sc_enable_chaffing cf then kMaxBuyersSolicitedChaffingEnabled else sc_max_buyers_solicited cf)"
proof -
  have cfg: "cfg (new_SelectAdReactor cf r md) = cf" by (simp add: new_SelectAdReactor_def)
  from Execute_starts [OF assms new_fresh] show ?thesis unfolding starts_def
  proof (elim disjE exE conjE)
    fix u assume "fresh u" and "finished_from u s"
    then show ?thesis by (simp add: fresh_def finished_from_def)
  next
    fix u assume u: "ready u" "continues (new_SelectAdReactor cf r md) u" "FetchBids e u = Some s"
    from FetchBids_asked [OF assms(1) u(3)] u(1, 2) cfg show ?thesis
      by (auto simp: ready_def fresh_def continues_def max_buyers_solicited_def asked_def)
  qed
qed

theorem at_most_cap_buyers_asked_witness:
  "\<exists>s. Execute (sample_sa_env True) False (sample_sa True) = Some s \<and>
     length (filter for_bids (waiting s)) = 1 \<and> int (length (filter for_bids (waiting s))) \<le> 2"
proof -
  obtain s where s: "Execute (sample_sa_env True) False (sample_sa True) = Some s" "waiting s = [BidsCallback ''b'']"
    using sample_sa_execute [of True] by auto
  from at_most_cap_buyers_asked [OF sample_ok(1) s(1) [unfolded sample_sa_def]] s show ?thesis
    by (auto simp: sample_sa_config_def kMaxBuyersSolicited_def)
qed

subsection \<open>Currencies\<close>

text \<open>What was swapped behind the end is dropped; what is left before the index has been looked at.\<close>

lemma filter_currency_mset:
  assumes "i \<le> r" and "r \<le> length xs"
  shows "mset (filter_currency c b i r xs) =
    mset (take i xs) + filter_mset (\<lambda>x. c x = [] \<or> c x = b) (mset (drop i (take r xs)))"
  using assms
proof (induction c b i r xs rule: filter_currency.induct)
  case (1 c b i r xs)
  let ?good = "\<lambda>x. c x = [] \<or> c x = b"
  show ?case
  proof (cases "i < r")
    case True
    have split: "drop i (take r ys) = ys ! i # drop (Suc i) (take r ys)" if "r \<le> length ys" for ys :: "'a list"
      using True that Cons_nth_drop_Suc [of i "take r ys"] by simp
    show ?thesis
    proof (cases "?good (xs ! i)")
      case good: True
      then have "filter_currency c b i r xs = filter_currency c b (Suc i) r xs"
        using True by (auto simp: filter_currency.simps [of c b i r xs])
      with 1 True good show ?thesis
        using split [of xs] by (auto simp: take_Suc_conv_app_nth)
    next
      case bad: False
      let ?ys = "xs[i := xs ! (r - 1), r - 1 := xs ! i]"
      have "filter_currency c b i r xs = filter_currency c b i (r - 1) ?ys"
        using True bad by (auto simp: filter_currency.simps [of c b i r xs])
      also have "mset \<dots> = mset (take i ?ys) + filter_mset ?good (mset (drop i (take (r - 1) ?ys)))"
        using 1 True bad by auto
      also have "take i ?ys = take i xs" using True by simp
      also have "filter_mset ?good (mset (drop i (take (r - 1) ?ys))) = filter_mset ?good (mset (drop i (take r xs)))"
      proof -
        obtain k where k: "r = Suc k" using True by (cases r) auto
        have k_len: "k < length xs" using 1(4) k by simp
        have last: "take r xs = take k xs @ [xs ! k]"
          using k_len by (simp add: k take_Suc_conv_app_nth)
        show ?thesis
        proof (cases "i = k")
          case True
          with k_len have "drop i (take r xs) = [xs ! i]" unfolding last by simp
          then show ?thesis using bad True k by simp
        next
          case False
          then have ik: "i < k" using True k by simp
          have "drop i (take k ?ys) = xs ! k # drop (Suc i) (take k xs)"
            using ik k k_len by (simp add: drop_update_swap Cons_nth_drop_Suc [symmetric] take_update_swap list_update_beyond)
          moreover have "drop i (take r xs) = xs ! i # drop (Suc i) (take k xs) @ [xs ! k]"
            using ik k_len Cons_nth_drop_Suc [of i "take k xs"] by (simp add: last)
          ultimately show ?thesis using bad k by simp
        qed
      qed
      finally show ?thesis .
    qed
  qed (use 1 in \<open>simp add: filter_currency.simps [of c b r r xs]\<close>)
qed

text \<open>C8. The currency check of the seller front end, which swaps bids to the end of a list and cuts it off
  there, keeps exactly the bids that name no currency or the one that is expected of the buyer, each as
  often as it was there.\<close>

theorem mismatching_currencies_dropped:
  "mset (FilterBidsWithMismatchingCurrencyHelper currency_of bs buyer_currency) =
    mset (filter (\<lambda>x. currency_of x = [] \<or> currency_of x = buyer_currency) bs)"
  using filter_currency_mset [of 0 "length bs" bs currency_of buyer_currency]
  by (simp add: FilterBidsWithMismatchingCurrencyHelper_def)

end
