(* ===== verification/BiddingReactor.thy ===== *)
theory BiddingReactor
  imports SelectAdMessages ReportingUtil DispatchMessages AsyncCall
begin

text \<open>
  What the two reactors of the bidding service share
  (\<^verbatim>\<open>services/common/code_dispatch/code_dispatch_reactor.h\<close>,
  \<^verbatim>\<open>services/bidding_service/base_generate_bids_reactor.h\<close>, \<^verbatim>\<open>services/bidding_service/utils/validation.cc\<close>):
  the decryption of the request on construction, the encryption of the answer, the members common to
  both, and the reading of the answers of the buyers' code. The state is that of the reactor; what it
  does is recorded, and each open call is a callback that waits. The members of one kind of reactor
  are the last field.
\<close>

subsection \<open>Configuration and messages\<close>

record BiddingServiceRuntimeConfig =
  rc_enable_buyer_debug_url_generation :: bool
  rc_roma_timeout_ms :: string
  rc_max_allowed_size_debug_url_bytes :: int
  rc_max_allowed_size_all_debug_urls_kb :: int
  rc_default_protected_audience_generate_bid_version :: string
  rc_default_protected_app_signals_generate_bid_version :: string
  rc_default_prepare_data_for_ad_retrieval_version :: string
  rc_use_per_request_udf_versioning :: bool
  rc_per_adtech_paapi_contributions_limit :: int
  rc_enable_cancellation :: bool
  rc_enable_temporary_unlimited_egress :: bool
  rc_use_per_request_schema_versioning :: bool
  rc_default_egress_schema_version :: string
  rc_default_unlimited_egress_schema_version :: string

record GenerateBidsRequest =
  gn_key_id :: string
  gn_request_ciphertext :: "byte list"

record 'bid GenerateBidsRawResponse =
  generated_bids :: "'bid list"
  bidding_export_debug :: bool

definition no_bids :: "'bid GenerateBidsRawResponse" where
  "no_bids = \<lparr>generated_bids = [], bidding_export_debug = False\<rparr>"

text \<open>The requests for ads are built by a library from these arguments.\<close>

record AdsRetrieval =
  retrieval_data :: string
  retrieval_metadata :: "(string \<times> string) list"
  retrieval_contextual_signals :: string
  retrieval_ad_render_ids :: "string list"

datatype action =
    Finish status
  | Batch "DispatchRequest list"
  | Retrieve_ads AdsRetrieval
  | Lookup_ads "string list"

subsection \<open>State\<close>

record ('raw, 'bid, 'cb, 'own) reactor =
  raw_request :: 'raw
  raw_response :: "'bid GenerateBidsRawResponse"
  secret :: string
  response_ciphertext :: "byte list option"
  enable_cancellation :: bool
  enable_buyer_debug_url_generation :: bool
  roma_timeout_ms :: string
  enable_adtech_code_logging :: bool
  should_export_event :: bool
  max_allowed_size_debug_url_chars :: int
  max_allowed_size_all_debug_urls_chars :: int
  sent :: "action list"
  waiting :: "'cb list"
  own :: 'own

text \<open>
  The parts outside: cryptography, the messages (a request that cannot be parsed leaves some
  message behind) and the consent to logging it gives, which a logger derives from it.
\<close>

record ('raw, 'bid) dispatch_env =
  GetPrivateKey :: "string \<Rightarrow> string option"
  HpkeDecrypt :: "string \<Rightarrow> byte list \<Rightarrow> status_code + HpkeDecryptResponse"
  ParseFromString :: "byte list \<Rightarrow> bool \<times> 'raw"
  SerializeAsString :: "'bid GenerateBidsRawResponse \<Rightarrow> byte list"
  AeadEncrypt :: "byte list \<Rightarrow> string \<Rightarrow> status_code + byte list"
  is_consented_or_sampled :: "'raw \<Rightarrow> bool"
  ShouldExportEvent :: "'raw \<Rightarrow> bool"

subsection \<open>Construction\<close>

text \<open>
  Whether the request could be decrypted, the request, the secret for the answer, and the calls of
  \<^verbatim>\<open>Finish\<close>. A request that cannot be parsed is not finished here.
\<close>

definition DecryptRequest ::
    "('raw, 'bid, 'z) dispatch_env_scheme \<Rightarrow> GenerateBidsRequest \<Rightarrow> 'raw \<Rightarrow> bool \<times> 'raw \<times> string \<times> action list" where
  "DecryptRequest e request raw =
     (if gn_key_id request = [] then (False, raw, [], [Finish (Some InvalidArgument)])
      else if gn_request_ciphertext request = [] then (False, raw, [], [Finish (Some InvalidArgument)])
      else (case GetPrivateKey e (gn_key_id request) of
          None \<Rightarrow> (False, raw, [], [Finish (Some InvalidArgument)])
        | Some private_key \<Rightarrow> (case HpkeDecrypt e private_key (gn_request_ciphertext request) of
            Inl _ \<Rightarrow> (False, raw, [], [Finish (Some InvalidArgument)])
          | Inr d \<Rightarrow> (let (ok, parsed) = ParseFromString e (hpke_payload d) in (ok, parsed, hpke_secret d, [])))))"

definition kBytesMultiplyer :: int where
  "kBytesMultiplyer = 1024"

text \<open>The result of the decryption is only logged.\<close>

definition BaseGenerateBidsReactor ::
    "('raw, 'bid, 'z) dispatch_env_scheme \<Rightarrow> BiddingServiceRuntimeConfig \<Rightarrow> GenerateBidsRequest \<Rightarrow> 'raw \<Rightarrow>
     ('raw \<Rightarrow> 'own) \<Rightarrow> ('raw, 'bid, 'cb, 'own) reactor" where
  "BaseGenerateBidsReactor e rc request raw0 make_own =
     (let (_, raw, hpke, acts) = DecryptRequest e request raw0 in
      \<lparr>raw_request = raw, raw_response = no_bids, secret = hpke, response_ciphertext = None,
       enable_cancellation = rc_enable_cancellation rc,
       enable_buyer_debug_url_generation = rc_enable_buyer_debug_url_generation rc,
       roma_timeout_ms = rc_roma_timeout_ms rc,
       enable_adtech_code_logging = is_consented_or_sampled e raw,
       should_export_event = ShouldExportEvent e raw,
       max_allowed_size_debug_url_chars = rc_max_allowed_size_debug_url_bytes rc,
       max_allowed_size_all_debug_urls_chars = kBytesMultiplyer * rc_max_allowed_size_all_debug_urls_kb rc,
       sent = acts, waiting = [], own = make_own raw\<rparr>)"

subsection \<open>Finishing\<close>

definition act :: "action \<Rightarrow> ('raw, 'bid, 'cb, 'own) reactor \<Rightarrow> ('raw, 'bid, 'cb, 'own) reactor" where
  "act a s = s\<lparr>sent := sent s @ [a]\<rparr>"

definition start :: "action \<Rightarrow> 'cb \<Rightarrow> ('raw, 'bid, 'cb, 'own) reactor \<Rightarrow> ('raw, 'bid, 'cb, 'own) reactor" where
  "start a cb s = s\<lparr>sent := sent s @ [a], waiting := waiting s @ [cb]\<rparr>"

text \<open>A response that cannot be encrypted finishes the call, and the caller is told so.\<close>

definition EncryptResponse ::
    "('raw, 'bid, 'z) dispatch_env_scheme \<Rightarrow> ('raw, 'bid, 'cb, 'own) reactor \<Rightarrow> bool \<times> ('raw, 'bid, 'cb, 'own) reactor" where
  "EncryptResponse e s = (case AeadEncrypt e (SerializeAsString e (raw_response s)) (secret s) of
     Inl _ \<Rightarrow> (False, act (Finish (Some Internal)) s)
   | Inr c \<Rightarrow> (True, s\<lparr>response_ciphertext := Some c\<rparr>))"

definition set_export_debug :: "('raw, 'bid, 'cb, 'own) reactor \<Rightarrow> ('raw, 'bid, 'cb, 'own) reactor" where
  "set_export_debug s = s\<lparr>raw_response := (raw_response s)\<lparr>bidding_export_debug := should_export_event s\<rparr>\<rparr>"

definition finishes :: "('raw, 'bid, 'cb, 'own) reactor \<Rightarrow> nat" where
  "finishes s = length (filter (\<lambda>a. case a of Finish _ \<Rightarrow> True | _ \<Rightarrow> False) (sent s))"

subsection \<open>Answers of the buyers' code\<close>

text \<open>
  \<^verbatim>\<open>services/common/util/reporting_util.cc\<close>. The logs in an answer must be arrays of strings, and the
  answer an object with a response.
\<close>

definition MayVlogAdTechCodeLogs :: "json \<Rightarrow> string \<Rightarrow> unit option" where
  "MayVlogAdTechCodeLogs document log_type = do {
     m \<leftarrow> FindMember document log_type;
     (case m of
        None \<Rightarrow> Some ()
      | Some v \<Rightarrow> do { logs \<leftarrow> GetArray v; if list_all IsString logs then Some () else None }) }"

definition MayVlogAllAdTechCodeLogs :: "bool \<Rightarrow> json \<Rightarrow> unit option" where
  "MayVlogAllAdTechCodeLogs enable_ad_tech_code_logging document =
     (if \<not> enable_ad_tech_code_logging then Some ()
      else do {
        _ \<leftarrow> MayVlogAdTechCodeLogs document ''logs'';
        _ \<leftarrow> MayVlogAdTechCodeLogs document ''warnings'';
        MayVlogAdTechCodeLogs document ''errors'' })"

text \<open>\<^verbatim>\<open>document["response"]\<close>\<close>

definition response_member :: "json \<Rightarrow> json option" where
  "response_member document = FindMember document ''response'' \<bind> (\<lambda>m. m)"

fun serialize_values :: "json_text \<Rightarrow> json list \<Rightarrow> status_code + string list" where
  "serialize_values txt [] = Inr []"
| "serialize_values txt (v # vs) = (case SerializeJsonDoc txt v of
     Inl _ \<Rightarrow> Inl Internal
   | Inr s \<Rightarrow> (case serialize_values txt vs of Inl err \<Rightarrow> Inl err | Inr ss \<Rightarrow> Inr (s # ss)))"

definition SerializeJsonArrayDocToVector :: "json_text \<Rightarrow> json \<Rightarrow> status_code + string list" where
  "SerializeJsonArrayDocToVector txt document =
     (case document of JArray vs \<Rightarrow> serialize_values txt vs | _ \<Rightarrow> Inl Internal)"

definition ParseAndGetResponseJsonArray :: "json_text \<Rightarrow> bool \<Rightarrow> string \<Rightarrow> string list result" where
  "ParseAndGetResponseJsonArray txt enable_ad_tech_code_logging response =
     assign_or_return (Some (ParseJsonString txt response)) (\<lambda>document.
       if enable_ad_tech_code_logging then do {
         _ \<leftarrow> MayVlogAllAdTechCodeLogs enable_ad_tech_code_logging document;
         r \<leftarrow> response_member document;
         Some (SerializeJsonArrayDocToVector txt r) }
       else Some (SerializeJsonArrayDocToVector txt document))"

subsection \<open>Validation\<close>

definition IsValidProtectedAudienceBid :: "AdWithBid \<Rightarrow> AuctionScope \<Rightarrow> status" where
  "IsValidProtectedAudienceBid b scope =
     (if ab_bid b = 0 then Some InvalidArgument
      else if scope = AUCTION_SCOPE_DEVICE_COMPONENT_MULTI_SELLER \<and> \<not> ab_allow_component_auction b
      then Some PermissionDenied
      else OkStatus)"

definition IsValidProtectedAppSignalsBid :: "ProtectedAppSignalsAdWithBid \<Rightarrow> AuctionScope \<Rightarrow> status" where
  "IsValidProtectedAppSignalsBid b scope =
     (if pab_bid b = 0 then Some InvalidArgument
      else if scope = AUCTION_SCOPE_SERVER_COMPONENT_MULTI_SELLER \<and> \<not> pab_allow_component_auction b
      then Some PermissionDenied
      else OkStatus)"

text \<open>The bid with its debug URLs trimmed, and the sizes of those that stay.\<close>

definition TrimAndReturnDebugUrlsSize ::
    "AdWithBid \<Rightarrow> int \<Rightarrow> int \<Rightarrow> int \<Rightarrow> AdWithBid \<times> int \<times> int" where
  "TrimAndReturnDebugUrlsSize b max_url max_all total_chars = (case ab_debug_report_urls b of
     None \<Rightarrow> (b, 0, 0)
   | Some urls \<Rightarrow>
       if total_chars \<ge> max_all then (b\<lparr>ab_debug_report_urls := None\<rparr>, 0, 0)
       else
         (let win = int (length (auction_debug_win_url urls));
              loss = int (length (auction_debug_loss_url urls));
              clear_win = (win > max_url \<or> win + total_chars > max_all);
              urls' = (if clear_win then urls\<lparr>auction_debug_win_url := []\<rparr> else urls);
              win' = (if clear_win then 0 else win);
              total_chars' = (if clear_win then total_chars else total_chars + win);
              clear_loss = (loss > max_url \<or> loss + total_chars' > max_all);
              urls'' = (if clear_loss then urls'\<lparr>auction_debug_loss_url := []\<rparr> else urls');
              loss' = (if clear_loss then 0 else loss)
          in (b\<lparr>ab_debug_report_urls := (if win' = 0 \<and> loss' = 0 then None else Some urls'')\<rparr>, win', loss')))"

subsection \<open>Facts\<close>

definition debug_url_chars :: "AdWithBid \<Rightarrow> int" where
  "debug_url_chars b = (case ab_debug_report_urls b of
     None \<Rightarrow> 0
   | Some urls \<Rightarrow> int (length (auction_debug_win_url urls)) + int (length (auction_debug_loss_url urls)))"

text \<open>A URL is kept as it was or dropped, and within both limits.\<close>

definition trimmed_urls :: "int \<Rightarrow> AdWithBid \<Rightarrow> AdWithBid \<Rightarrow> bool" where
  "trimmed_urls max_url b b' \<longleftrightarrow> (\<exists>u. b' = b\<lparr>ab_debug_report_urls := u\<rparr> \<and>
     (case u of None \<Rightarrow> True | Some urls' \<Rightarrow> (\<exists>urls. ab_debug_report_urls b = Some urls \<and>
       (\<forall>get \<in> {auction_debug_win_url, auction_debug_loss_url}.
          get urls' = [] \<or> get urls' = get urls \<and> int (length (get urls)) \<le> max_url))))"

lemma Trim_trimmed:
  assumes "TrimAndReturnDebugUrlsSize b max_url max_all total_chars = (b', win, loss)"
  shows "trimmed_urls max_url b b'" and "0 \<le> win" and "0 \<le> loss" and "debug_url_chars b' = win + loss"
    and "total_chars + win + loss \<le> max total_chars max_all"
proof -
  have sizes: "0 \<le> win \<and> 0 \<le> loss \<and> debug_url_chars b' = win + loss \<and>
      total_chars + win + loss \<le> max total_chars max_all"
    using assms by (auto simp: TrimAndReturnDebugUrlsSize_def debug_url_chars_def Let_def
        split: option.split_asm if_split_asm)
  show "trimmed_urls max_url b b'"
    using assms by (auto simp: TrimAndReturnDebugUrlsSize_def trimmed_urls_def Let_def
        split: option.split_asm if_split_asm intro!: exI [of _ "ab_debug_report_urls b'"])
  from sizes show "0 \<le> win" and "0 \<le> loss" and "debug_url_chars b' = win + loss"
    and "total_chars + win + loss \<le> max total_chars max_all" by simp_all
qed

text \<open>What a finished call says and what it leaves alone.\<close>

lemma finishes_simps [simp]:
  "finishes (act (Finish st) s) = Suc (finishes s)"
  "waiting (act a s) = waiting s"
  "finishes (s\<lparr>raw_response := r\<rparr>) = finishes s"
  "finishes (s\<lparr>waiting := w\<rparr>) = finishes s"
  "finishes (s\<lparr>response_ciphertext := c\<rparr>) = finishes s"
  "finishes (s\<lparr>own := p\<rparr>) = finishes s"
  "finishes (set_export_debug s) = finishes s"
  "waiting (set_export_debug s) = waiting s"
  by (simp_all add: finishes_def act_def set_export_debug_def)

lemma finishes_start [simp]:
  "finishes (start (Batch reqs) cb s) = finishes s"
  "finishes (start (Retrieve_ads r) cb s) = finishes s"
  "finishes (start (Lookup_ads ids) cb s) = finishes s"
  "waiting (start a cb s) = waiting s @ [cb]"
  by (simp_all add: finishes_def start_def)

text \<open>Environments that can encrypt.\<close>

definition encrypting :: "('raw, 'bid, 'z) dispatch_env_scheme \<Rightarrow> ('raw, 'bid, 'z) dispatch_env_scheme" where
  "encrypting e = e\<lparr>AeadEncrypt := \<lambda>p sec. case AeadEncrypt e p sec of Inl _ \<Rightarrow> Inr [] | Inr c \<Rightarrow> Inr c\<rparr>"

definition always_encrypts :: "('raw, 'bid, 'z) dispatch_env_scheme \<Rightarrow> bool" where
  "always_encrypts e \<longleftrightarrow> (\<forall>p sec. \<exists>c. AeadEncrypt e p sec = Inr c)"

lemma encrypting_encrypts [simp]: "always_encrypts (encrypting e)"
  by (auto simp: always_encrypts_def encrypting_def split: sum.split)

lemma EncryptResponse_encrypts:
  assumes "always_encrypts e"
  shows "\<exists>c. EncryptResponse e s = (True, s\<lparr>response_ciphertext := Some c\<rparr>)"
proof -
  from assms obtain c where "AeadEncrypt e (SerializeAsString e (raw_response s)) (secret s) = Inr c"
    unfolding always_encrypts_def by blast
  then show ?thesis by (auto simp: EncryptResponse_def)
qed

lemma EncryptResponse_fails:
  "fst (EncryptResponse e s) = False \<Longrightarrow> snd (EncryptResponse e s) = act (Finish (Some Internal)) s"
  by (auto simp: EncryptResponse_def split: sum.split_asm)

end
