(* ===== verification/GenerateBids.thy ===== *)
theory GenerateBids
  imports BiddingReactor
begin

text \<open>
  The reactor of the bidding service that runs the buyer's code for each interest group
  (\<^verbatim>\<open>services/bidding_service/generate_bids_reactor.cc\<close>, built without \<^verbatim>\<open>MICROSOFT_AD_SELECTION_BUILD\<close>):
  the arguments of the code, the dispatch, and the bids read from its answers.
\<close>

subsection \<open>Arguments of the code\<close>

text \<open>A piece of text between quotes.\<close>

abbreviation quote :: string where
  "quote \<equiv> [CHR 0x22]"

definition kJsonStringEnd :: string where
  "kJsonStringEnd = quote @ '','' @ quote"

definition kJsonStringValueStart :: string where
  "kJsonStringValueStart = quote @ '':'' @ quote"

definition kJsonValueStart :: string where
  "kJsonValueStart = quote @ '':''"

definition kJsonValueEnd :: string where
  "kJsonValueEnd = '','' @ quote"

definition kJsonEmptyString :: string where
  "kJsonEmptyString = quote @ quote"

definition kEmptyDeviceSignals :: string where
  "kEmptyDeviceSignals = ''{}''"

definition or_empty_json :: "string \<Rightarrow> string" where
  "or_empty_json s = (if s = [] then kJsonEmptyString else s)"

text \<open>The recency in seconds is multiplied in 64 bits; an overflow is undefined.\<close>

definition recency_in_ms :: "BrowserSignalsForBidding \<Rightarrow> int option" where
  "recency_in_ms sigs = (case bsb_recency_ms sigs of
     Some ms \<Rightarrow> Some ms
   | None \<Rightarrow> (let ms = bsb_recency sigs * 1000 in
       if - (2 ^ 63) \<le> ms \<and> ms < 2 ^ 63 then Some ms else None))"

definition MakeBrowserSignalsForScript ::
    "string \<Rightarrow> string \<Rightarrow> string \<Rightarrow> BrowserSignalsForBidding \<Rightarrow> 32 word \<Rightarrow> int \<Rightarrow> string option" where
  "MakeBrowserSignalsForScript publisher seller_name tls sigs dv limit = do {
     recency_ms \<leftarrow> recency_in_ms sigs;
     Some (''{'' @ quote @ ''topWindowHostname'' @ kJsonStringValueStart @ publisher @ kJsonStringEnd @
       ''seller'' @ kJsonStringValueStart @ seller_name @
       (if tls \<noteq> [] then kJsonStringEnd @ ''topLevelSeller'' @ kJsonStringValueStart @ tls else []) @
       kJsonStringEnd @ ''joinCount'' @ kJsonValueStart @ string_of_int (bsb_join_count sigs) @
       kJsonValueEnd @ ''bidCount'' @ kJsonValueStart @ string_of_int (bsb_bid_count sigs) @
       kJsonValueEnd @ ''recency'' @ kJsonValueStart @ string_of_int recency_ms @
       kJsonValueEnd @ ''prevWins'' @ kJsonValueStart @ or_empty_json (bsb_prev_wins sigs) @
       kJsonValueEnd @ ''prevWinsMs'' @ kJsonValueStart @
         or_empty_json (case bsb_prev_wins_ms sigs of None \<Rightarrow> [] | Some w \<Rightarrow> w) @
       kJsonValueEnd @ ''dataVersion'' @ kJsonValueStart @ string_of_nat (unat dv) @
       kJsonValueEnd @ ''multiBidLimit'' @ kJsonValueStart @
         string_of_int (if limit > 0 then limit else kDefaultMultiBidLimit) @ ''}'') }"

definition SerializeRepeatedStringField :: "json_text \<Rightarrow> string list \<Rightarrow> status_code + string" where
  "SerializeRepeatedStringField txt items = SerializeJsonDoc txt (JArray (map JString items))"

text \<open>A member of the interest group that is left out if it is empty.\<close>

definition repeated_member :: "json_text \<Rightarrow> string \<Rightarrow> string list \<Rightarrow> status_code + string" where
  "repeated_member txt name items =
     (if items = [] then Inr []
      else (case SerializeRepeatedStringField txt items of
          Inl err \<Rightarrow> Inl err | Inr a \<Rightarrow> Inr ('','' @ quote @ name @ quote @ '':'' @ a)))"

definition SerializeIG :: "json_text \<Rightarrow> RequestInterestGroup \<Rightarrow> status_code + string" where
  "SerializeIG txt ig = (case repeated_member txt ''trustedBiddingSignalsKeys'' (rig_trusted_bidding_signals_keys ig) of
     Inl err \<Rightarrow> Inl err
   | Inr keys \<Rightarrow> (case repeated_member txt ''adRenderIds'' (rig_ad_render_ids ig) of
       Inl err \<Rightarrow> Inl err
     | Inr ids \<Rightarrow> (case repeated_member txt ''adComponentRenderIds'' (rig_ad_component_render_ids ig) of
         Inl err \<Rightarrow> Inl err
       | Inr cids \<Rightarrow> Inr (''{'' @ quote @ ''name'' @ quote @ '':'' @ quote @ rig_name ig @ quote @ keys @ ids @ cids @
           (if rig_user_bidding_signals ig = [] then []
            else '','' @ quote @ ''userBiddingSignals'' @ quote @ '':'' @ rig_user_bidding_signals ig) @ ''}''))))"

text \<open>The arguments, by their index.\<close>

datatype GenerateBidArgs =
  kInterestGroup | kAuctionSignals | kBuyerSignals | kTrustedBiddingSignals | kDeviceSignals | kMultiBidLimit | kFeatureFlags

fun ArgIndex :: "GenerateBidArgs \<Rightarrow> nat" where
  "ArgIndex kInterestGroup = 0"
| "ArgIndex kAuctionSignals = 1"
| "ArgIndex kBuyerSignals = 2"
| "ArgIndex kTrustedBiddingSignals = 3"
| "ArgIndex kDeviceSignals = 4"
| "ArgIndex kMultiBidLimit = 5"
| "ArgIndex kFeatureFlags = 6"

definition kArgsSizeWithWrapper :: nat where
  "kArgsSizeWithWrapper = 7"

definition BuildBaseInput :: "GenerateBidsRawRequest \<Rightarrow> string list" where
  "BuildBaseInput r = (replicate kArgsSizeWithWrapper [])
     [ArgIndex kAuctionSignals := or_empty_json (gn_auction_signals r),
      ArgIndex kBuyerSignals := or_empty_json (gn_buyer_signals r)]"

text \<open>
  The signals of an interest group: those of a browser, unless they are the default. The message of an
  Android device has no fields, so it always is the default one.
\<close>

definition device_signals_input :: "GenerateBidsRawRequest \<Rightarrow> RequestInterestGroup \<Rightarrow> string option" where
  "device_signals_input r ig = (case rig_device_signals ig of
     Browser_signals_for_bidding s \<Rightarrow>
       if s \<noteq> default_BrowserSignalsForBidding
       then MakeBrowserSignalsForScript (gn_publisher_name r) (gn_seller r) (gn_top_level_seller r) s
         (gn_data_version r) (gn_multi_bid_limit r)
       else Some kEmptyDeviceSignals
   | Android_signals_for_bidding \<Rightarrow> Some kEmptyDeviceSignals
   | No_device_signals_for_bidding \<Rightarrow> Some kEmptyDeviceSignals)"

definition kDispatchHandlerFunctionNameWithCodeWrapper :: string where
  "kDispatchHandlerFunctionNameWithCodeWrapper = ''generateBidEntryFunction''"

definition BuildGenerateBidRequest ::
    "json_text \<Rightarrow> RequestInterestGroup \<Rightarrow> GenerateBidsRawRequest \<Rightarrow> string list \<Rightarrow> bool \<Rightarrow> bool \<Rightarrow> string \<Rightarrow>
     DispatchRequest result" where
  "BuildGenerateBidRequest txt ig r base_input debug_url_generation adtech_code_logging version = do {
     device_signals \<leftarrow> device_signals_input r ig;
     Some (case SerializeIG txt ig of
       Inl err \<Rightarrow> Inl err
     | Inr serialized_ig \<Rightarrow> Inr \<lparr>req_id = rig_name ig, version_string = version,
         handler_name = kDispatchHandlerFunctionNameWithCodeWrapper,
         inputs = base_input[ArgIndex kTrustedBiddingSignals := rig_trusted_bidding_signals ig,
           ArgIndex kDeviceSignals := device_signals,
           ArgIndex kMultiBidLimit := string_of_int (gn_multi_bid_limit r),
           ArgIndex kFeatureFlags := GetFeatureFlagJson adtech_code_logging
             (debug_url_generation \<and> gn_enable_debug_reporting r),
           ArgIndex kInterestGroup := serialized_ig],
         tags = []\<rparr>) }"

subsection \<open>Private aggregation\<close>

text \<open>The indices of the contributions to remove, in ascending order.\<close>

definition contribution_event :: "PrivateAggregateContribution \<Rightarrow> EventType" where
  "contribution_event c = (case pac_event c of None \<Rightarrow> EVENT_TYPE_UNSPECIFIED | Some ev \<Rightarrow> event_type ev)"

fun indices_to_remove ::
    "int \<Rightarrow> nat \<Rightarrow> PrivateAggregateContribution list \<Rightarrow> (EventType \<Rightarrow> int) \<Rightarrow> nat list" where
  "indices_to_remove limit i [] event_type_counts = []"
| "indices_to_remove limit i (c # cs) event_type_counts =
     (let t = contribution_event c in
      if t = EVENT_TYPE_UNSPECIFIED \<or> event_type_counts t \<ge> limit
      then i # indices_to_remove limit (Suc i) cs event_type_counts
      else indices_to_remove limit (Suc i) cs (event_type_counts(t := event_type_counts t + 1)))"

definition erase_at :: "nat \<Rightarrow> 'a list \<Rightarrow> 'a list" where
  "erase_at i xs = take i xs @ drop (Suc i) xs"

definition ProcessPAggContributions :: "AdWithBid \<Rightarrow> int \<Rightarrow> AdWithBid" where
  "ProcessPAggContributions b limit = b\<lparr>ab_private_aggregation_contributions :=
     fold erase_at (rev (indices_to_remove limit 0 (ab_private_aggregation_contributions b) (\<lambda>_. 0)))
       (ab_private_aggregation_contributions b)\<rparr>"

subsection \<open>The reactor\<close>

record pa_members =
  auction_scope :: AuctionScope
  per_adtech_paapi_contributions_limit :: int
  protected_audience_generate_bid_version :: string

datatype pa_callback = Generate_bids_batch

type_synonym pa_reactor = "(GenerateBidsRawRequest, AdWithBid, pa_callback, pa_members) reactor"

text \<open>
  The rest outside: JSON text, whether the sandbox takes a batch, and the parsing of a bid, which
  ignores unknown fields.
\<close>

record pa_env = "(GenerateBidsRawRequest, AdWithBid) dispatch_env" +
  env_txt :: json_text
  BatchExecute :: "DispatchRequest list \<Rightarrow> status"
  JsonStringToMessage :: "string \<Rightarrow> status_code + AdWithBid"

definition default_GenerateBidsRawRequest :: GenerateBidsRawRequest where
  "default_GenerateBidsRawRequest = \<lparr>gn_interest_group_for_bidding = [], gn_auction_signals = [],
     gn_buyer_signals = [], gn_enable_debug_reporting = False, gn_seller = [], gn_publisher_name = [],
     gn_log_context = \<lparr>generation_id = [], adtech_debug_id = []\<rparr>, gn_consented_debug_config = None,
     gn_top_level_seller = [], gn_multi_bid_limit = 0, gn_enforce_kanon = False, gn_data_version = 0,
     gn_is_sampled_for_debug = False, gn_blob_versions = None\<rparr>"

text \<open>The version of the code: that of the request, where it may choose and does, or the default.\<close>

definition or_default :: "string \<Rightarrow> string \<Rightarrow> string" where
  "or_default version default_version = (if version = [] then default_version else version)"

definition blob_version :: "bool \<Rightarrow> (BuyerBlobVersions \<Rightarrow> string) \<Rightarrow> BuyerBlobVersions option \<Rightarrow> string" where
  "blob_version allowed get versions = (if allowed then (case versions of None \<Rightarrow> [] | Some v \<Rightarrow> get v) else [])"

definition pa_members_of :: "BiddingServiceRuntimeConfig \<Rightarrow> GenerateBidsRawRequest \<Rightarrow> pa_members" where
  "pa_members_of rc r = \<lparr>
     auction_scope = (if gn_top_level_seller r = [] then AUCTION_SCOPE_SINGLE_SELLER
       else AUCTION_SCOPE_DEVICE_COMPONENT_MULTI_SELLER),
     per_adtech_paapi_contributions_limit = rc_per_adtech_paapi_contributions_limit rc,
     protected_audience_generate_bid_version =
       or_default (blob_version (rc_use_per_request_udf_versioning rc) protected_audience_generate_bid_udf (gn_blob_versions r))
         (rc_default_protected_audience_generate_bid_version rc)\<rparr>"

definition GenerateBidsReactor_new :: "pa_env \<Rightarrow> BiddingServiceRuntimeConfig \<Rightarrow> GenerateBidsRequest \<Rightarrow> pa_reactor" where
  "GenerateBidsReactor_new e rc request =
     BaseGenerateBidsReactor e rc request default_GenerateBidsRawRequest (pa_members_of rc)"

text \<open>The answer is encrypted whatever the status is.\<close>

definition EncryptResponseAndFinish :: "pa_env \<Rightarrow> status \<Rightarrow> pa_reactor \<Rightarrow> pa_reactor" where
  "EncryptResponseAndFinish e st s =
     (let (encrypted, s') = EncryptResponse e (set_export_debug s) in
      act (Finish (if encrypted then st else Some Internal)) s')"

subsection \<open>Dispatch\<close>

text \<open>A group whose request cannot be built is left out.\<close>

fun dispatch_requests :: "pa_env \<Rightarrow> pa_reactor \<Rightarrow> RequestInterestGroup list \<Rightarrow> DispatchRequest list option" where
  "dispatch_requests e s [] = Some []"
| "dispatch_requests e s (ig # igs) = do {
     req \<leftarrow> BuildGenerateBidRequest (env_txt e) ig (raw_request s) (BuildBaseInput (raw_request s))
       (enable_buyer_debug_url_generation s) (enable_adtech_code_logging s)
       (protected_audience_generate_bid_version (own s));
     reqs \<leftarrow> dispatch_requests e s igs;
     Some (case req of Inl _ \<Rightarrow> reqs | Inr d \<Rightarrow> d\<lparr>tags := [(''IGNORED'', roma_timeout_ms s)]\<rparr> # reqs) }"

definition Execute :: "pa_env \<Rightarrow> bool \<Rightarrow> pa_reactor \<Rightarrow> pa_reactor option" where
  "Execute e is_cancelled s =
     (if enable_cancellation s \<and> is_cancelled then Some (EncryptResponseAndFinish e (Some Cancelled) s)
      else if gn_interest_group_for_bidding (raw_request s) = []
      then Some (EncryptResponseAndFinish e (Some InvalidArgument) s)
      else do {
        reqs \<leftarrow> dispatch_requests e s (gn_interest_group_for_bidding (raw_request s));
        Some (if reqs = [] then EncryptResponseAndFinish e OkStatus s
              else (case BatchExecute e reqs of
                 None \<Rightarrow> start (Batch reqs) Generate_bids_batch s
               | Some _ \<Rightarrow> EncryptResponseAndFinish e (Some Internal) s)) })"

subsection \<open>Bids\<close>

text \<open>A string is put between quotes for the code of the seller.\<close>

definition quote_ad :: "AdWithBid \<Rightarrow> AdWithBid" where
  "quote_ad b = (case ab_ad b of
     Some (Inl v) \<Rightarrow> b\<lparr>ab_ad := Some (Inl (quote @ v @ quote))\<rparr> | _ \<Rightarrow> b)"

definition complete_bid :: "pa_reactor \<Rightarrow> string \<Rightarrow> AdWithBid \<Rightarrow> AdWithBid" where
  "complete_bid s name b = ProcessPAggContributions
     (b\<lparr>ab_data_version := uint (gn_data_version (raw_request s)), ab_interest_group_name := name\<rparr>)
     (per_adtech_paapi_contributions_limit (own s))"

text \<open>One bid of an answer: the bids so far and the characters of their debug URLs.\<close>

fun add_bid :: "pa_env \<Rightarrow> pa_reactor \<Rightarrow> string \<Rightarrow> string \<Rightarrow> AdWithBid list \<times> int \<Rightarrow> AdWithBid list \<times> int" where
  "add_bid e s name bid_response (acc, total_debug_urls_chars) = (case JsonStringToMessage e bid_response of
     Inl _ \<Rightarrow> (acc, total_debug_urls_chars)
   | Inr parsed \<Rightarrow>
       if IsValidProtectedAudienceBid (quote_ad parsed) (auction_scope (own s)) \<noteq> OkStatus
       then (acc, total_debug_urls_chars)
       else
         (let (b, win, loss) = TrimAndReturnDebugUrlsSize (quote_ad parsed) (max_allowed_size_debug_url_chars s)
                (max_allowed_size_all_debug_urls_chars s) total_debug_urls_chars
          in (acc @ [complete_bid s name b], total_debug_urls_chars + (win + loss))))"

fun add_results ::
    "pa_env \<Rightarrow> pa_reactor \<Rightarrow> (status_code + DispatchResponse) list \<Rightarrow> AdWithBid list \<times> int \<Rightarrow>
     (AdWithBid list \<times> int) option" where
  "add_results e s [] acc = Some acc"
| "add_results e s (Inl err # results) acc = add_results e s results acc"
| "add_results e s (Inr result # results) acc =
     (case ParseAndGetResponseJsonArray (env_txt e) (enable_adtech_code_logging s) (resp result) of
        None \<Rightarrow> None
      | Some (Inl err) \<Rightarrow> add_results e s results acc
      | Some (Inr generate_bid_responses) \<Rightarrow>
          add_results e s results (fold (add_bid e s (resp_id result)) generate_bid_responses acc))"

definition GenerateBidsCallback ::
    "pa_env \<Rightarrow> (status_code + DispatchResponse) list \<Rightarrow> pa_reactor \<Rightarrow> pa_reactor option" where
  "GenerateBidsCallback e output s =
     (if output = [] then Some s
      else do {
        (bs, _) \<leftarrow> add_results e s output (generated_bids (raw_response s), 0);
        Some (s\<lparr>raw_response := (raw_response s)\<lparr>generated_bids := bs\<rparr>\<rparr>) })"

definition deliver ::
    "pa_env \<Rightarrow> bool \<Rightarrow> (status_code + DispatchResponse) list \<Rightarrow> pa_callback \<Rightarrow> pa_reactor \<Rightarrow> pa_reactor option" where
  "deliver e is_cancelled output cb s =
     (let s' = s\<lparr>waiting := remove1 cb (waiting s)\<rparr> in
      if enable_cancellation s \<and> is_cancelled then Some (EncryptResponseAndFinish e (Some Cancelled) s')
      else map_option (EncryptResponseAndFinish e OkStatus) (GenerateBidsCallback e output s'))"

end
