(* ===== verification/GenerateBidsRuns.thy ===== *)
theory GenerateBidsRuns
  imports GenerateBids
begin

text \<open>
  What holds of a call for bids (\<^verbatim>\<open>services/bidding_service/generate_bids_reactor.cc\<close>): which bids it
  returns, how much of their debug URLs and private aggregation is kept, and how often it is finished.
\<close>

subsection \<open>Private aggregation\<close>

text \<open>What the loop keeps.\<close>

fun kept_contributions ::
    "int \<Rightarrow> PrivateAggregateContribution list \<Rightarrow> (EventType \<Rightarrow> int) \<Rightarrow> PrivateAggregateContribution list" where
  "kept_contributions limit [] cnt = []"
| "kept_contributions limit (c # cs) cnt =
     (let t = contribution_event c in
      if t = EVENT_TYPE_UNSPECIFIED \<or> cnt t \<ge> limit then kept_contributions limit cs cnt
      else c # kept_contributions limit cs (cnt(t := cnt t + 1)))"

lemma erase_removed:
  "length pre = i \<Longrightarrow>
   fold erase_at (rev (indices_to_remove limit i cs cnt)) (pre @ cs) = pre @ kept_contributions limit cs cnt"
proof (induction cs arbitrary: pre i cnt)
  case (Cons c cs)
  have step: "fold erase_at (rev (indices_to_remove limit (Suc i) cs cnt')) (pre @ c # cs) =
      pre @ c # kept_contributions limit cs cnt'" for cnt'
    using Cons.IH [of "pre @ [c]" "Suc i" cnt'] Cons.prems by simp
  have "erase_at i (pre @ c # kept_contributions limit cs cnt) = pre @ kept_contributions limit cs cnt"
    using Cons.prems by (simp add: erase_at_def)
  with step show ?case by (simp add: Let_def)
qed simp

text \<open>The contributions of one event that precede a place.\<close>

definition earlier :: "PrivateAggregateContribution list \<Rightarrow> nat \<Rightarrow> int" where
  "earlier cs i = int (length (filter (\<lambda>c. contribution_event c = contribution_event (cs ! i)) (take i cs)))"

definition within_limit :: "int \<Rightarrow> PrivateAggregateContribution list \<Rightarrow> nat set" where
  "within_limit limit cs = {i. i < length cs \<and> contribution_event (cs ! i) \<noteq> EVENT_TYPE_UNSPECIFIED \<and> earlier cs i < limit}"

definition count_event :: "PrivateAggregateContribution list \<Rightarrow> EventType \<Rightarrow> int" where
  "count_event cs t = int (length (filter (\<lambda>c. contribution_event c = t) cs))"

lemma kept_contributions_nths:
  assumes "\<And>t. t \<noteq> EVENT_TYPE_UNSPECIFIED \<Longrightarrow> cnt t = min (max 0 limit) (count_event pre t)"
  shows "kept_contributions limit cs cnt =
    nths cs {i. i < length cs \<and> contribution_event (cs ! i) \<noteq> EVENT_TYPE_UNSPECIFIED \<and>
      count_event (pre @ take i cs) (contribution_event (cs ! i)) < limit}"
  using assms
proof (induction cs arbitrary: pre cnt)
  case (Cons c cs)
  let ?t = "contribution_event c"
  have nonneg: "0 \<le> count_event pre t" for t by (simp add: count_event_def)
  have next_cnt: "count_event (pre @ [c]) t = count_event pre t + (if t = ?t then 1 else 0)" for t
    by (simp add: count_event_def)
  show ?case
  proof (cases "?t = EVENT_TYPE_UNSPECIFIED \<or> cnt ?t \<ge> limit")
    case True
    have "cnt t = min (max 0 limit) (count_event (pre @ [c]) t)" if "t \<noteq> EVENT_TYPE_UNSPECIFIED" for t
      using Cons.prems [OF that] True that nonneg [of t] by (auto simp: next_cnt)
    from Cons.IH [OF this] True Cons.prems [of ?t] nonneg [of ?t] show ?thesis
      by (auto simp: nths_Cons Let_def intro!: arg_cong [of _ _ "nths cs"])
  next
    case False
    define cnt' where "cnt' = cnt(?t := cnt ?t + 1)"
    have "cnt' t = min (max 0 limit) (count_event (pre @ [c]) t)" if "t \<noteq> EVENT_TYPE_UNSPECIFIED" for t
      using Cons.prems [OF that] Cons.prems [of ?t] False that nonneg [of t] by (auto simp: next_cnt cnt'_def)
    note IH = Cons.IH [OF this]
    from False have "kept_contributions limit (c # cs) cnt = c # kept_contributions limit cs cnt'"
      by (simp add: Let_def cnt'_def)
    moreover have "count_event pre ?t < limit" using False Cons.prems [of ?t] nonneg [of ?t] by auto
    ultimately show ?thesis using False by (simp add: nths_Cons IH)
  qed
qed simp

lemma ProcessPAgg_kept:
  "ab_private_aggregation_contributions (ProcessPAggContributions b limit) =
     kept_contributions limit (ab_private_aggregation_contributions b) (\<lambda>_. 0)"
  using erase_removed [of "[]" 0 limit "ab_private_aggregation_contributions b" "\<lambda>_. 0"]
  by (simp add: ProcessPAggContributions_def)

text \<open>C15. Private aggregation is limited per event: of the contributions of a bid exactly those are kept, in
  their order, that name an event and before which fewer than the limit contribute to the same event,
  although the loop collects the indices of the others and erases them one by one from the end. The
  rest of the bid stays as it is.\<close>

theorem contributions_within_limit:
  "ProcessPAggContributions b limit = b\<lparr>ab_private_aggregation_contributions :=
     nths (ab_private_aggregation_contributions b) (within_limit limit (ab_private_aggregation_contributions b))\<rparr>"
proof -
  have "kept_contributions limit cs (\<lambda>_. 0) = nths cs (within_limit limit cs)" for cs
    using kept_contributions_nths [of "\<lambda>_. 0" limit "[]" cs]
    by (auto simp: within_limit_def earlier_def count_event_def)
  then show ?thesis
    using erase_removed [of "[]" 0 limit "ab_private_aggregation_contributions b" "\<lambda>_. 0"]
    by (simp add: ProcessPAggContributions_def)
qed

subsection \<open>The bids of an answer\<close>

text \<open>The bids that the answers of the code give, were it not for the size of their debug URLs.\<close>

definition parsed_bids :: "pa_env \<Rightarrow> pa_reactor \<Rightarrow> DispatchResponse \<Rightarrow> AdWithBid list" where
  "parsed_bids e s d =
     (case ParseAndGetResponseJsonArray (env_txt e) (enable_adtech_code_logging s) (resp d) of
        Some (Inr texts) \<Rightarrow> concat (map (\<lambda>t. case JsonStringToMessage e t of Inl _ \<Rightarrow> [] | Inr b \<Rightarrow> [quote_ad b]) texts)
      | _ \<Rightarrow> [])"

definition may_bid :: "AuctionScope \<Rightarrow> AdWithBid \<Rightarrow> bool" where
  "may_bid scope b \<longleftrightarrow> ab_bid b \<noteq> 0 \<and>
     (scope = AUCTION_SCOPE_DEVICE_COMPONENT_MULTI_SELLER \<longrightarrow> ab_allow_component_auction b)"

definition bids_of_answer :: "pa_env \<Rightarrow> pa_reactor \<Rightarrow> status_code + DispatchResponse \<Rightarrow> AdWithBid list" where
  "bids_of_answer e s result = (case result of
     Inl _ \<Rightarrow> []
   | Inr d \<Rightarrow> map (complete_bid s (resp_id d)) (filter (may_bid (auction_scope (own s))) (parsed_bids e s d)))"

lemma valid_iff_may_bid: "IsValidProtectedAudienceBid b scope = OkStatus \<longleftrightarrow> may_bid scope b"
  by (simp add: IsValidProtectedAudienceBid_def may_bid_def)

lemma complete_bid_urls:
  "complete_bid s name (b\<lparr>ab_debug_report_urls := u\<rparr>) = (complete_bid s name b)\<lparr>ab_debug_report_urls := u\<rparr>"
  "ab_debug_report_urls (complete_bid s name b) = ab_debug_report_urls b"
  by (simp_all add: complete_bid_def ProcessPAggContributions_def)

lemma complete_trimmed:
  assumes "trimmed_urls m b b'"
  shows "trimmed_urls m (complete_bid s name b) (complete_bid s name b')"
proof -
  from assms obtain u where b': "b' = b\<lparr>ab_debug_report_urls := u\<rparr>"
    and u: "case u of None \<Rightarrow> True | Some urls' \<Rightarrow> (\<exists>urls. ab_debug_report_urls b = Some urls \<and>
       (\<forall>get \<in> {auction_debug_win_url, auction_debug_loss_url}.
          get urls' = [] \<or> get urls' = get urls \<and> int (length (get urls)) \<le> m))"
    unfolding trimmed_urls_def by blast
  show ?thesis unfolding trimmed_urls_def b' complete_bid_urls using u by blast
qed

lemma debug_url_chars_complete [simp]: "debug_url_chars (complete_bid s name b) = debug_url_chars b"
  by (simp add: debug_url_chars_def complete_bid_urls)

text \<open>The bids so far against those they came from, and the running total against the bids.\<close>

definition bids_so_far :: "pa_reactor \<Rightarrow> AdWithBid list \<Rightarrow> AdWithBid list \<times> int \<Rightarrow> bool" where
  "bids_so_far s src st \<longleftrightarrow>
     list_all2 (trimmed_urls (max_allowed_size_debug_url_chars s)) src (fst st) \<and>
     snd st = sum_list (map debug_url_chars (fst st)) \<and> snd st \<le> max 0 (max_allowed_size_all_debug_urls_chars s)"

lemma add_bid_so_far:
  assumes "bids_so_far s src st"
  shows "bids_so_far s (src @ map (complete_bid s name) (filter (may_bid (auction_scope (own s)))
      (case JsonStringToMessage e t of Inl _ \<Rightarrow> [] | Inr b \<Rightarrow> [quote_ad b]))) (add_bid e s name t st)"
proof (cases "JsonStringToMessage e t")
  case Inl
  with assms show ?thesis by (cases st) simp
next
  case (Inr p)
  obtain acc n where st: "st = (acc, n)" by (cases st)
  obtain b win loss where trim: "TrimAndReturnDebugUrlsSize (quote_ad p) (max_allowed_size_debug_url_chars s)
      (max_allowed_size_all_debug_urls_chars s) n = (b, win, loss)"
    by (cases "TrimAndReturnDebugUrlsSize (quote_ad p) (max_allowed_size_debug_url_chars s)
      (max_allowed_size_all_debug_urls_chars s) n")
  note facts = Trim_trimmed [OF trim]
  show ?thesis
  proof (cases "may_bid (auction_scope (own s)) (quote_ad p)")
    case False
    with assms Inr show ?thesis unfolding st by (simp add: valid_iff_may_bid)
  next
    case True
    with Inr have eq: "add_bid e s name t st = (acc @ [complete_bid s name b], n + (win + loss))"
      by (simp add: st trim valid_iff_may_bid)
    have "trimmed_urls (max_allowed_size_debug_url_chars s) (complete_bid s name (quote_ad p)) (complete_bid s name b)"
      by (rule complete_trimmed [OF facts(1)])
    moreover have "n + (win + loss) \<le> max 0 (max_allowed_size_all_debug_urls_chars s)"
      using assms facts(5) by (auto simp: bids_so_far_def st max_def split: if_split_asm)
    ultimately show ?thesis using assms True facts(4)
      unfolding eq bids_so_far_def by (simp add: Inr st list_all2_appendI)
  qed
qed

lemma add_bids_so_far:
  assumes "bids_so_far s src st"
  shows "bids_so_far s (src @ map (complete_bid s name) (filter (may_bid (auction_scope (own s)))
      (concat (map (\<lambda>t. case JsonStringToMessage e t of Inl _ \<Rightarrow> [] | Inr b \<Rightarrow> [quote_ad b]) texts))))
    (fold (add_bid e s name) texts st)"
  using assms
proof (induction texts arbitrary: src st)
  case (Cons t texts)
  from Cons.IH [OF add_bid_so_far [OF Cons.prems, of name e t]] show ?case by simp
qed simp

lemma add_results_so_far:
  assumes "add_results e s outs st = Some st'" and "bids_so_far s src st"
  shows "bids_so_far s (src @ concat (map (bids_of_answer e s) outs)) st'"
  using assms
proof (induction e s outs st arbitrary: src st' rule: add_results.induct)
  case (3 e s result results st)
  show ?case
  proof (cases "ParseAndGetResponseJsonArray (env_txt e) (enable_adtech_code_logging s) (resp result)")
    case None
    with "3.prems" show ?thesis by simp
  next
    case (Some r)
    show ?thesis
    proof (cases r)
      case (Inl err)
      from 3(1) [OF Some Inl] "3.prems" Some Inl show ?thesis by (simp add: bids_of_answer_def parsed_bids_def)
    next
      case (Inr texts)
      from Some Inr have eq: "parsed_bids e s result =
          concat (map (\<lambda>t. case JsonStringToMessage e t of Inl _ \<Rightarrow> [] | Inr b \<Rightarrow> [quote_ad b]) texts)"
        by (simp add: parsed_bids_def)
      from 3(2) [OF Some Inr _ add_bids_so_far [OF "3.prems"(2), of "resp_id result" e texts]] "3.prems"(1) Some Inr
      show ?thesis by (simp add: bids_of_answer_def eq)
    qed
  qed
qed (simp_all add: bids_of_answer_def)


subsection \<open>Runs\<close>

inductive delivers :: "pa_env \<Rightarrow> pa_callback \<Rightarrow> pa_reactor \<Rightarrow> pa_reactor \<Rightarrow> bool" for e :: pa_env where
  "cb \<in> set (waiting s) \<Longrightarrow> deliver e is_cancelled output cb s = Some s' \<Longrightarrow> delivers e cb s s'"

inductive_cases deliversE: "delivers e cb s s'"

lemma EncryptResponseAndFinish_once:
  assumes "always_encrypts e"
  shows "finishes (EncryptResponseAndFinish e st s) = Suc (finishes s)"
    and "waiting (EncryptResponseAndFinish e st s) = waiting s"
proof -
  obtain c where "EncryptResponse e (set_export_debug s) = (True, (set_export_debug s)\<lparr>response_ciphertext := Some c\<rparr>)"
    using EncryptResponse_encrypts [OF assms] by blast
  then show "finishes (EncryptResponseAndFinish e st s) = Suc (finishes s)"
    and "waiting (EncryptResponseAndFinish e st s) = waiting s"
    by (simp_all add: EncryptResponseAndFinish_def)
qed

lemma GenerateBidsCallback_frame:
  "GenerateBidsCallback e output s = Some s' \<Longrightarrow> finishes s' = finishes s \<and> waiting s' = waiting s"
  by (auto simp: GenerateBidsCallback_def monad_simps split: if_split_asm)

lemma delivers_finishes:
  assumes "delivers e cb s s'" and "always_encrypts e"
  shows "cb \<in> set (waiting s) \<and> finishes s' = Suc (finishes s) \<and> waiting s' = remove1 cb (waiting s)"
  using assms(1)
  by (elim deliversE)
    (auto simp: deliver_def Let_def EncryptResponseAndFinish_once [OF assms(2)]
      dest!: GenerateBidsCallback_frame split: if_split_asm)

interpretation generate_bids: single_shot "delivers (encrypting e)" waiting "\<lambda>_. 0" finishes for e
  by unfold_locales (simp add: delivers_finishes)

lemma pa_Execute_starts:
  assumes "Execute e is_cancelled s = Some s'" and "always_encrypts e" and "waiting s = []"
  shows "finishes s' = Suc (finishes s) \<and> waiting s' = [] \<or>
    finishes s' = finishes s \<and> waiting s' = [Generate_bids_batch]"
  using assms(1,3)
  by (auto simp: Execute_def monad_simps EncryptResponseAndFinish_once [OF assms(2)]
      split: if_split_asm option.split_asm)

lemma pa_new_reactor:
  assumes "fst (DecryptRequest e request default_GenerateBidsRawRequest)"
  shows "finishes (GenerateBidsReactor_new e rc request) = 0 \<and> waiting (GenerateBidsReactor_new e rc request) = []"
  using assms
  by (auto simp: GenerateBidsReactor_new_def BaseGenerateBidsReactor_def DecryptRequest_def finishes_def
      Let_def split: if_split_asm option.splits sum.splits prod.splits)

lemma only_callback: "cb = Generate_bids_batch" for cb :: pa_callback
  by (cases cb)


text \<open>A request that cannot be decrypted is finished in the constructor; nothing stops \<^verbatim>\<open>Execute\<close>.\<close>

lemma undecrypted_request:
  "DecryptRequest e request raw0 = (ok, raw, sec, acts) \<Longrightarrow> acts \<noteq> [] \<Longrightarrow> raw = raw0 \<and> acts = [Finish (Some InvalidArgument)]"
  by (auto simp: DecryptRequest_def split: if_split_asm option.split_asm sum.split_asm prod.split_asm)

lemma EncryptResponseAndFinish_again:
  "finishes (EncryptResponseAndFinish e st s) \<ge> Suc (finishes s)"
  by (auto simp: EncryptResponseAndFinish_def EncryptResponse_def split: sum.split)

text \<open>C14. A request for bids that cannot be decrypted is finished twice: once by the constructor, which goes on,
  and again by \<^verbatim>\<open>Execute\<close>, which finds no interest groups in the empty request.\<close>

theorem undecryptable_finished_twice:
  assumes "snd (snd (snd (DecryptRequest e request default_GenerateBidsRawRequest))) \<noteq> []"
    and "Execute e is_cancelled (GenerateBidsReactor_new e rc request) = Some s"
  shows "finishes s \<ge> 2"
proof -
  obtain ok raw sec acts where d: "DecryptRequest e request default_GenerateBidsRawRequest = (ok, raw, sec, acts)"
    by (cases "DecryptRequest e request default_GenerateBidsRawRequest")
  let ?s = "GenerateBidsReactor_new e rc request"
  from undecrypted_request [OF d] assms(1) d
  have "raw_request ?s = default_GenerateBidsRawRequest \<and> finishes ?s = 1"
    by (simp add: GenerateBidsReactor_new_def BaseGenerateBidsReactor_def finishes_def)
  with assms(2) have "\<exists>st. s = EncryptResponseAndFinish e st ?s \<and> finishes ?s = 1"
    by (auto simp: Execute_def default_GenerateBidsRawRequest_def split: if_split_asm)
  then obtain st where "s = EncryptResponseAndFinish e st ?s" and "finishes ?s = 1" by blast
  with EncryptResponseAndFinish_again [of ?s e st] show ?thesis by simp
qed

subsection \<open>A sample call\<close>

text \<open>
  Two interest groups; the code fails for the first and returns two bids for the second, the second of
  which is zero. The limit on debug URLs leaves room for the first URL only.
\<close>

definition sample_gb_text :: json_text where
  "sample_gb_text = \<lparr>ParseJsonString = (\<lambda>s. if s = ''bids'' then Inr (JArray [JString ''one'', JString ''zero'']) else Inl Internal),
     SerializeJsonDoc = (\<lambda>j. case j of JString s \<Rightarrow> Inr s | _ \<Rightarrow> Inr ''[]'')\<rparr>"

definition sample_gb_bid :: "rat \<Rightarrow> AdWithBid" where
  "sample_gb_bid x = \<lparr>ab_ad = Some (Inl ''ad''), ab_bid = x, ab_render = ''u'', ab_ad_components = [],
     ab_allow_component_auction = False, ab_interest_group_name = [], ab_ad_cost = 0,
     ab_debug_report_urls = Some \<lparr>auction_debug_win_url = ''win'', auction_debug_loss_url = ''loss''\<rparr>,
     ab_modeling_signals = 0, ab_bid_currency = [], ab_buyer_reporting_id = None,
     ab_private_aggregation_contributions = [], ab_buyer_and_seller_reporting_id = None,
     ab_selected_buyer_and_seller_reporting_id = None, ab_data_version = 0\<rparr>"

definition sample_gb_group :: "string \<Rightarrow> RequestInterestGroup" where
  "sample_gb_group name = \<lparr>rig_name = name, rig_trusted_bidding_signals_keys = [''k''], rig_trusted_bidding_signals = ''{}'',
     rig_ad_render_ids = [], rig_ad_component_render_ids = [], rig_user_bidding_signals = [],
     rig_device_signals = Android_signals_for_bidding\<rparr>"

definition sample_gb_raw :: GenerateBidsRawRequest where
  "sample_gb_raw = default_GenerateBidsRawRequest\<lparr>
     gn_interest_group_for_bidding := [sample_gb_group ''a'', sample_gb_group ''b''], gn_data_version := 5\<rparr>"

definition sample_gb_env :: pa_env where
  "sample_gb_env = \<lparr>GetPrivateKey = (\<lambda>k. Some k), HpkeDecrypt = (\<lambda>_ c. Inr \<lparr>hpke_payload = c, hpke_secret = ''s''\<rparr>),
     ParseFromString = (\<lambda>_. (True, sample_gb_raw)), SerializeAsString = (\<lambda>_. [1]), AeadEncrypt = (\<lambda>p _. Inr p),
     is_consented_or_sampled = (\<lambda>_. False), ShouldExportEvent = (\<lambda>_. False), env_txt = sample_gb_text,
     BatchExecute = (\<lambda>_. OkStatus),
     JsonStringToMessage = (\<lambda>s. if s = ''one'' then Inr (sample_gb_bid 1) else Inr (sample_gb_bid 0))\<rparr>"

definition sample_gb_config :: BiddingServiceRuntimeConfig where
  "sample_gb_config = \<lparr>rc_enable_buyer_debug_url_generation = True, rc_roma_timeout_ms = ''10'',
     rc_max_allowed_size_debug_url_bytes = 3, rc_max_allowed_size_all_debug_urls_kb = 1,
     rc_default_protected_audience_generate_bid_version = ''v1'',
     rc_default_protected_app_signals_generate_bid_version = ''v2'',
     rc_default_prepare_data_for_ad_retrieval_version = ''v3'', rc_use_per_request_udf_versioning = False,
     rc_per_adtech_paapi_contributions_limit = 1, rc_enable_cancellation = True,
     rc_enable_temporary_unlimited_egress = False, rc_use_per_request_schema_versioning = False,
     rc_default_egress_schema_version = ''d'', rc_default_unlimited_egress_schema_version = ''d''\<rparr>"

definition sample_gb_request :: "string \<Rightarrow> GenerateBidsRequest" where
  "sample_gb_request key = \<lparr>gn_key_id = key, gn_request_ciphertext = [1]\<rparr>"

definition sample_gb :: pa_reactor where
  "sample_gb = GenerateBidsReactor_new (encrypting sample_gb_env) sample_gb_config (sample_gb_request ''key'')"

definition sample_gb_output :: "(status_code + DispatchResponse) list" where
  "sample_gb_output = [Inl DeadlineExceeded, Inr \<lparr>resp_id = ''b'', resp = ''bids''\<rparr>]"

lemma sample_gb_callback:
  "map_option (\<lambda>s. map ab_interest_group_name (generated_bids (raw_response s)))
     (GenerateBidsCallback sample_gb_env sample_gb_output sample_gb) = Some [''b'']"
  by code_simp

lemma sample_gb_empty:
  "generated_bids (raw_response sample_gb) = []" "max_allowed_size_all_debug_urls_chars sample_gb = 1024"
  by code_simp+


lemma sample_gb_runs:
  "fst (DecryptRequest (encrypting sample_gb_env) (sample_gb_request ''key'') default_GenerateBidsRawRequest)"
  "map_option waiting (Execute (encrypting sample_gb_env) False sample_gb) = Some [Generate_bids_batch]"
  "(Execute (encrypting sample_gb_env) False sample_gb \<bind>
     (\<lambda>s. map_option finishes (deliver (encrypting sample_gb_env) False sample_gb_output Generate_bids_batch s))) = Some 1"
  by code_simp+


theorem undecryptable_finished_twice_witness:
  "\<exists>s. Execute sample_gb_env False (GenerateBidsReactor_new sample_gb_env sample_gb_config (sample_gb_request [])) = Some s \<and>
    finishes s \<ge> 2"
proof -
  have "map_option finishes (Execute sample_gb_env False
      (GenerateBidsReactor_new sample_gb_env sample_gb_config (sample_gb_request []))) = Some 2"
    by code_simp
  then obtain s where s: "Execute sample_gb_env False (GenerateBidsReactor_new sample_gb_env sample_gb_config (sample_gb_request [])) = Some s"
    by auto
  have "snd (snd (snd (DecryptRequest sample_gb_env (sample_gb_request []) default_GenerateBidsRawRequest))) \<noteq> []"
    by (simp add: DecryptRequest_def sample_gb_request_def)
  from undecryptable_finished_twice [OF this s] s show ?thesis by blast
qed

end
