(* ===== verification/DataFetch.thy ===== *)
theory DataFetch
  imports Egress "HOL-Library.Multiset"
begin

text \<open>
  The periodic fetchers (\<^verbatim>\<open>services/common/data_fetch\<close>): code and schemas are fetched from URLs or a
  bucket, and what was fetched is handed to its owner. The owner is part of the state and \<open>on_fetch\<close> the
  virtual \<^verbatim>\<open>OnFetch\<close>; the four implementations of it follow. A period of time is an input of a step.
\<close>

definition GetBucketBlobVersion :: "string \<Rightarrow> string \<Rightarrow> status_code + string" where
  "GetBucketBlobVersion bucket_name blob_name =
     (if bucket_name = [] then Inl InvalidArgument
      else if blob_name = [] then Inl InvalidArgument
      else Inr (bucket_name @ ''/'' @ blob_name))"

subsection \<open>From URLs\<close>

record 'o url_fetcher =
  cb_results_value :: "string list"
  url_some_load_success :: bool
  url_owner :: 'o
  url_task_scheduled :: bool

definition new_url_fetcher :: "'o \<Rightarrow> 'o url_fetcher" where
  "new_url_fetcher owner = \<lparr>cb_results_value = [], url_some_load_success = False, url_owner = owner,
     url_task_scheduled = False\<rparr>"

text \<open>The results up to the first failure, and whether there is none.\<close>

fun results_until_failure :: "(status_code + string) list \<Rightarrow> string list \<times> bool" where
  "results_until_failure [] = ([], True)"
| "results_until_failure (Inl err # results) = ([], False)"
| "results_until_failure (Inr v # results) = (let (vs, ok) = results_until_failure results in (v # vs, ok))"

definition PeriodicUrlFetchSync ::
    "(string list \<Rightarrow> 'o \<Rightarrow> (bool \<times> 'o) option) \<Rightarrow> (status_code + string) list \<Rightarrow> 'o url_fetcher \<Rightarrow> 'o url_fetcher option" where
  "PeriodicUrlFetchSync on_fetch results s = do {
     s' \<leftarrow> (let (results_value, all_status_ok) = results_until_failure results in
        if all_status_ok \<and> cb_results_value s \<noteq> results_value
        then do {
          (ok, owner) \<leftarrow> on_fetch results_value (url_owner s);
          Some (s\<lparr>cb_results_value := results_value, url_some_load_success := ok, url_owner := owner\<rparr>) }
        else Some s);
     Some (s'\<lparr>url_task_scheduled := True\<rparr>) }"

definition kMinUrlFetchDuration :: int where
  "kMinUrlFetchDuration = 60000"

text \<open>The durations, in milliseconds, are checked, and the first fetch decides.\<close>

definition url_fetcher_Start ::
    "(string list \<Rightarrow> 'o \<Rightarrow> (bool \<times> 'o) option) \<Rightarrow> int \<Rightarrow> int \<Rightarrow> (status_code + string) list \<Rightarrow> 'o url_fetcher \<Rightarrow>
     (status \<times> 'o url_fetcher) option" where
  "url_fetcher_Start on_fetch time_out_ms fetch_period_ms results s =
     (if \<not> (time_out_ms < fetch_period_ms) \<or> \<not> (fetch_period_ms > kMinUrlFetchDuration) then None
      else do {
        s' \<leftarrow> PeriodicUrlFetchSync on_fetch results s;
        Some (if url_some_load_success s' then OkStatus else Some Internal, s') })"

definition url_fetcher_End :: "'o url_fetcher \<Rightarrow> 'o url_fetcher" where
  "url_fetcher_End s = s\<lparr>url_task_scheduled := False\<rparr>"

subsection \<open>From a bucket\<close>

record 'o bucket_fetcher =
  bucket_name :: string
  some_load_success :: bool
  owner :: 'o
  task_scheduled :: bool

definition new_bucket_fetcher :: "string \<Rightarrow> 'o \<Rightarrow> 'o bucket_fetcher" where
  "new_bucket_fetcher bucket ow = \<lparr>bucket_name = bucket, some_load_success = False, owner = ow, task_scheduled = False\<rparr>"

text \<open>
  The client: the names of the blobs, whether the request for a blob is started, what it results in, and
  in which order the results of the started ones come.
\<close>

record blob_storage =
  ListBlobsSync :: "status_code + string list"
  GetBlob :: "string \<Rightarrow> status"
  blob_result :: "string \<Rightarrow> status_code + string"
  completion_order :: "string list \<Rightarrow> string list"

text \<open>One result, under the lock.\<close>

definition blob_fetched ::
    "(string \<Rightarrow> string \<Rightarrow> status_code + string \<Rightarrow> 'o \<Rightarrow> (status \<times> 'o) option) \<Rightarrow> blob_storage \<Rightarrow> string \<Rightarrow>
     'o bucket_fetcher \<Rightarrow> 'o bucket_fetcher option" where
  "blob_fetched on_fetch b name s = do {
     (load_status, ow) \<leftarrow> on_fetch (bucket_name s) name (blob_result b name) (owner s);
     Some (s\<lparr>owner := ow, some_load_success := (load_status = OkStatus \<or> some_load_success s)\<rparr>) }"

fun blobs_fetched ::
    "(string \<Rightarrow> string \<Rightarrow> status_code + string \<Rightarrow> 'o \<Rightarrow> (status \<times> 'o) option) \<Rightarrow> blob_storage \<Rightarrow> string list \<Rightarrow>
     'o bucket_fetcher \<Rightarrow> 'o bucket_fetcher option" where
  "blobs_fetched on_fetch b [] s = Some s"
| "blobs_fetched on_fetch b (name # names) s = do {
     s' \<leftarrow> blob_fetched on_fetch b name s;
     blobs_fetched on_fetch b names s' }"

datatype 'a waits = Returns 'a | Waits_forever

text \<open>
  The counter starts at the number of blobs and is decremented by each result; a request that could not
  be started has none.
\<close>

definition PeriodicBucketFetchSync ::
    "(string \<Rightarrow> string \<Rightarrow> status_code + string \<Rightarrow> 'o \<Rightarrow> (status \<times> 'o) option) \<Rightarrow> blob_storage \<Rightarrow>
     'o bucket_fetcher \<Rightarrow> 'o bucket_fetcher waits option" where
  "PeriodicBucketFetchSync on_fetch b s = (case ListBlobsSync b of
     Inl _ \<Rightarrow> Some (Returns (s\<lparr>task_scheduled := True\<rparr>))
   | Inr blob_list \<Rightarrow> do {
       let results = completion_order b (filter (\<lambda>name. GetBlob b name = OkStatus) blob_list);
       s' \<leftarrow> blobs_fetched on_fetch b results s;
       Some (if length results = length blob_list then Returns (s'\<lparr>task_scheduled := True\<rparr>) else Waits_forever) })"

definition bucket_fetcher_Start ::
    "(string \<Rightarrow> string \<Rightarrow> status_code + string \<Rightarrow> 'o \<Rightarrow> (status \<times> 'o) option) \<Rightarrow> blob_storage \<Rightarrow>
     'o bucket_fetcher \<Rightarrow> (status \<times> 'o bucket_fetcher) waits option" where
  "bucket_fetcher_Start on_fetch b s = map_option (\<lambda>r. case r of
     Returns s' \<Rightarrow> Returns (if some_load_success s' then OkStatus else Some Internal, s')
   | Waits_forever \<Rightarrow> Waits_forever) (PeriodicBucketFetchSync on_fetch b s)"

definition bucket_fetcher_End :: "'o bucket_fetcher \<Rightarrow> 'o bucket_fetcher" where
  "bucket_fetcher_End s = s\<lparr>task_scheduled := False\<rparr>"

subsection \<open>Code\<close>

text \<open>The owner is the sandbox: the code it has for each version, and whether it takes a piece of code.\<close>

record code_loader =
  loaded_code :: "string \<rightharpoonup> string"
  LoadSync_status :: "string \<Rightarrow> string \<Rightarrow> status"

definition LoadSync :: "string \<Rightarrow> string \<Rightarrow> code_loader \<Rightarrow> status \<times> code_loader" where
  "LoadSync v code l = (case LoadSync_status l v code of
     None \<Rightarrow> (OkStatus, l\<lparr>loaded_code := (loaded_code l)(v \<mapsto> code)\<rparr>) | Some err \<Rightarrow> (Some err, l))"

definition PeriodicCodeFetcher_OnFetch ::
    "(string list \<Rightarrow> string) \<Rightarrow> string \<Rightarrow> string list \<Rightarrow> code_loader \<Rightarrow> (bool \<times> code_loader) option" where
  "PeriodicCodeFetcher_OnFetch wrap_code v fetched_data l =
     (let (st, l') = LoadSync v (wrap_code fetched_data) l in Some (st = OkStatus, l'))"

definition PeriodicBucketCodeFetcher_OnFetch ::
    "(string list \<Rightarrow> string) \<Rightarrow> string \<Rightarrow> string \<Rightarrow> status_code + string \<Rightarrow> code_loader \<Rightarrow> (status \<times> code_loader) option" where
  "PeriodicBucketCodeFetcher_OnFetch wrap_code bucket name result l = Some (case GetBucketBlobVersion bucket name of
     Inl err \<Rightarrow> (Some err, l)
   | Inr v \<Rightarrow> (case result of
       Inl _ \<Rightarrow> (Some InvalidArgument, l)
     | Inr data \<Rightarrow> if data = [] then (Some NotFound, l) else LoadSync v (wrap_code [data]) l))"

subsection \<open>Egress schemas\<close>

definition kDefaultEgressSchemaId :: string where
  "kDefaultEgressSchemaId = ''default''"

definition AdtechSchemaFetcher_OnFetch ::
    "egress_env \<Rightarrow> string list \<Rightarrow> EgressSchemaCache \<Rightarrow> (bool \<times> EgressSchemaCache) option" where
  "AdtechSchemaFetcher_OnFetch e fetched_data c = do {
     schema \<leftarrow> nth_option fetched_data 0;
     (st, c') \<leftarrow> EgressSchemaCache_Update e schema kDefaultEgressSchemaId c;
     Some (st = OkStatus, c') }"

definition EgressSchemaBucketFetcher_OnFetch ::
    "egress_env \<Rightarrow> string \<Rightarrow> string \<Rightarrow> status_code + string \<Rightarrow> EgressSchemaCache \<Rightarrow> (status \<times> EgressSchemaCache) option" where
  "EgressSchemaBucketFetcher_OnFetch e bucket name result c = (case GetBucketBlobVersion bucket name of
     Inl err \<Rightarrow> Some (Some err, c)
   | Inr blob_name \<Rightarrow> (case result of
       Inl _ \<Rightarrow> Some (Some InvalidArgument, c)
     | Inr schema \<Rightarrow> EgressSchemaCache_Update e schema blob_name c))"

subsection \<open>Fetches from URLs\<close>

text \<open>Some periodic fetches, one after the other.\<close>

fun url_fetches ::
    "(string list \<Rightarrow> 'o \<Rightarrow> (bool \<times> 'o) option) \<Rightarrow> (status_code + string) list list \<Rightarrow> 'o url_fetcher \<Rightarrow> 'o url_fetcher option" where
  "url_fetches on_fetch [] s = Some s"
| "url_fetches on_fetch (r # rs) s = do { s' \<leftarrow> PeriodicUrlFetchSync on_fetch r s; url_fetches on_fetch rs s' }"

text \<open>What a fetch found, if all of it was there.\<close>

definition complete_fetch :: "(status_code + string) list \<Rightarrow> string list option" where
  "complete_fetch results = (if snd (results_until_failure results) then Some (fst (results_until_failure results)) else None)"

lemma complete_fetch_eq: "complete_fetch results = Some vs \<longleftrightarrow> results = map Inr vs"
proof -
  have eq: "results_until_failure results = (vs, True) \<longleftrightarrow> results = map Inr vs" for vs
  proof (induction results arbitrary: vs rule: results_until_failure.induct)
    case (3 v results)
    obtain a b where r: "results_until_failure results = (a, b)" by (cases "results_until_failure results")
    show ?case
    proof (cases vs)
      case (Cons w ws)
      from "3.IH" [of ws] r show ?thesis by (auto simp: Cons)
    qed (simp add: r)
  qed auto
  obtain a b where "results_until_failure results = (a, b)" by (cases "results_until_failure results")
  moreover from this have "complete_fetch results = Some vs \<longleftrightarrow> a = vs \<and> b" by (simp add: complete_fetch_def conj_commute)
  ultimately show ?thesis using eq [of vs] by simp
qed

lemma url_fetch_cases:
  "PeriodicUrlFetchSync on_fetch results s = (case complete_fetch results of
     None \<Rightarrow> Some (s\<lparr>url_task_scheduled := True\<rparr>)
   | Some vs \<Rightarrow>
       if vs = cb_results_value s then Some (s\<lparr>url_task_scheduled := True\<rparr>)
       else map_option (\<lambda>(ok, ow). s\<lparr>cb_results_value := vs, url_some_load_success := ok, url_owner := ow,
              url_task_scheduled := True\<rparr>) (on_fetch vs (url_owner s)))"
  by (cases "on_fetch (fst (results_until_failure results)) (url_owner s)")
    (auto simp: PeriodicUrlFetchSync_def complete_fetch_def split_beta)

text \<open>C17. Code that could not be loaded is not tried again: what was fetched is remembered before it is known whether
  it can be loaded, so when loading it fails, every later fetch that finds the same is skipped, whether
  or not the sandbox would take it by then, and what is loaded stays as it was.\<close>

theorem failed_load_not_repeated:
  assumes "PeriodicUrlFetchSync on_fetch (map Inr vs) s = Some s1" and "cb_results_value s \<noteq> vs"
    and "\<not> url_some_load_success s1" and "\<forall>r \<in> set rs. complete_fetch r = None \<or> complete_fetch r = Some vs"
  shows "\<exists>s2. url_fetches on_fetch' rs s1 = Some s2 \<and> url_owner s2 = url_owner s1 \<and> \<not> url_some_load_success s2"
proof -
  have "cb_results_value s1 = vs"
    using assms(1,2) complete_fetch_eq [of "map Inr vs" vs] by (auto simp: url_fetch_cases)
  with assms(3,4) show ?thesis
  proof (induction rs arbitrary: s1)
    case (Cons r rs)
    then have step: "PeriodicUrlFetchSync on_fetch' r s1 = Some (s1\<lparr>url_task_scheduled := True\<rparr>)"
      by (auto simp: url_fetch_cases)
    from Cons.IH [of "s1\<lparr>url_task_scheduled := True\<rparr>"] Cons.prems step show ?case by simp
  qed simp
qed

text \<open>The last complete fetch.\<close>

fun last_complete :: "(status_code + string) list list \<Rightarrow> string list option" where
  "last_complete [] = None"
| "last_complete (r # rs) = (case last_complete rs of Some vs \<Rightarrow> Some vs | None \<Rightarrow> complete_fetch r)"

lemma PeriodicCodeFetcher_accepts:
  assumes "\<And>code. LoadSync_status l v code = OkStatus"
  shows "PeriodicCodeFetcher_OnFetch wrap v vs l = Some (True, l\<lparr>loaded_code := (loaded_code l)(v \<mapsto> wrap vs)\<rparr>)"
  using assms by (simp add: PeriodicCodeFetcher_OnFetch_def LoadSync_def)

lemma code_follows_from:
  assumes "url_fetches (PeriodicCodeFetcher_OnFetch wrap v) rs s = Some s'"
    and "\<And>code. LoadSync_status (url_owner s) v code = OkStatus"
    and "cb_results_value s \<noteq> [] \<longrightarrow> loaded_code (url_owner s) v = Some (wrap (cb_results_value s))"
    and "\<forall>r \<in> set rs. r \<noteq> []"
  shows "loaded_code (url_owner s') v = (case last_complete rs of
     None \<Rightarrow> loaded_code (url_owner s) v | Some vs \<Rightarrow> Some (wrap vs))"
  using assms
proof (induction rs arbitrary: s)
  case (Cons r rs)
  from Cons.prems(1) obtain s1 where s1: "PeriodicUrlFetchSync (PeriodicCodeFetcher_OnFetch wrap v) r s = Some s1"
    and rest: "url_fetches (PeriodicCodeFetcher_OnFetch wrap v) rs s1 = Some s'"
    by (auto simp: monad_simps)
  have "(\<forall>code. LoadSync_status (url_owner s1) v code = OkStatus) \<and>
      (cb_results_value s1 \<noteq> [] \<longrightarrow> loaded_code (url_owner s1) v = Some (wrap (cb_results_value s1))) \<and>
      loaded_code (url_owner s1) v =
        (case complete_fetch r of None \<Rightarrow> loaded_code (url_owner s) v | Some vs \<Rightarrow> Some (wrap vs))"
  proof (cases "complete_fetch r")
    case None
    with s1 Cons.prems(2,3) show ?thesis by (auto simp: url_fetch_cases)
  next
    case (Some vs)
    then have "vs \<noteq> []" using Cons.prems(4) complete_fetch_eq [of r vs] by auto
    with Some s1 Cons.prems(2,3) show ?thesis
      by (auto simp: url_fetch_cases PeriodicCodeFetcher_accepts split: if_split_asm)
  qed
  with Cons.IH [OF rest] Cons.prems(4) show ?case by (auto split: option.splits)
qed simp

text \<open>C16. The code in the sandbox follows its source: where the sandbox takes all code, after any number of fetches
  of at least one URL it holds what the last complete fetch found, wrapped, although equal code is not
  loaded again and incomplete fetches are skipped.\<close>

theorem code_follows_source:
  assumes "url_fetches (PeriodicCodeFetcher_OnFetch wrap v) rs (new_url_fetcher l) = Some s"
    and "\<And>code. LoadSync_status l v code = OkStatus" and "\<forall>r \<in> set rs. r \<noteq> []"
  shows "loaded_code (url_owner s) v = (case last_complete rs of
     None \<Rightarrow> loaded_code l v | Some vs \<Rightarrow> Some (wrap vs))"
proof -
  have "url_owner (new_url_fetcher l) = l" and "cb_results_value (new_url_fetcher l) = []"
    by (simp_all add: new_url_fetcher_def)
  with code_follows_from [OF assms(1)] assms(2,3) show ?thesis by (simp split: option.split)
qed

subsection \<open>Fetches from a bucket\<close>

lemma length_filter_all: "length (filter P xs) = length xs \<longleftrightarrow> (\<forall>x \<in> set xs. P x)"
proof (induction xs)
  case (Cons x xs)
  then show ?case using le_imp_less_Suc [OF length_filter_le [of P xs], THEN less_imp_neq] by (cases "P x") simp_all
qed simp


text \<open>A blob from an empty bucket name is never loaded, and neither is one without data.\<close>

lemma bucket_code_loaded:
  assumes "PeriodicBucketCodeFetcher_OnFetch wrap_code bucket name result l = Some (OkStatus, l')"
  shows "\<exists>data. result = Inr data \<and> data \<noteq> [] \<and> l' = l\<lparr>loaded_code :=
    (loaded_code l)(bucket @ ''/'' @ name \<mapsto> wrap_code [data])\<rparr>"
  using assms by (auto simp: PeriodicBucketCodeFetcher_OnFetch_def GetBucketBlobVersion_def LoadSync_def
      split: if_split_asm sum.split_asm option.split_asm)

subsection \<open>A sample source\<close>

definition sample_loader :: "bool \<Rightarrow> code_loader" where
  "sample_loader takes = \<lparr>loaded_code = Map.empty, LoadSync_status = (\<lambda>_ _. if takes then OkStatus else Some Internal)\<rparr>"

theorem code_follows_source_witness:
  "\<exists>s. url_fetches (PeriodicCodeFetcher_OnFetch concat ''v1'') [[Inr ''a''], [Inr ''b''], [Inl Internal]]
      (new_url_fetcher (sample_loader True)) = Some s \<and> loaded_code (url_owner s) ''v1'' = Some ''b''"
proof -
  have "map_option (\<lambda>_. ()) (url_fetches (PeriodicCodeFetcher_OnFetch concat ''v1'') [[Inr ''a''], [Inr ''b''], [Inl Internal]]
      (new_url_fetcher (sample_loader True))) = Some ()" by code_simp
  then obtain s where s: "url_fetches (PeriodicCodeFetcher_OnFetch concat ''v1'') [[Inr ''a''], [Inr ''b''], [Inl Internal]]
      (new_url_fetcher (sample_loader True)) = Some s" by auto
  have "last_complete [[Inr ''a''], [Inr ''b''], [Inl Internal]] = Some [''b'']" by code_simp
  with code_follows_source [OF s] s show ?thesis by (simp add: sample_loader_def)
qed

theorem failed_load_not_repeated_witness:
  "\<exists>s1 s2. PeriodicUrlFetchSync (PeriodicCodeFetcher_OnFetch concat ''v1'') (map Inr [''a''])
      (new_url_fetcher (sample_loader False)) = Some s1 \<and>
    url_fetches (\<lambda>_ l. Some (True, sample_loader True)) [[Inr ''a''], [Inl Internal]] s1 = Some s2 \<and>
    url_owner s2 = url_owner s1 \<and> \<not> url_some_load_success s2"
proof -
  have "map_option (\<lambda>s. url_some_load_success s) (PeriodicUrlFetchSync (PeriodicCodeFetcher_OnFetch concat ''v1'')
      (map Inr [''a'']) (new_url_fetcher (sample_loader False))) = Some False" by code_simp
  then obtain s1 where s1: "PeriodicUrlFetchSync (PeriodicCodeFetcher_OnFetch concat ''v1'') (map Inr [''a''])
      (new_url_fetcher (sample_loader False)) = Some s1" and f: "\<not> url_some_load_success s1" by auto
  have "cb_results_value (new_url_fetcher (sample_loader False)) \<noteq> [''a'']" by (simp add: new_url_fetcher_def)
  moreover have "\<forall>r \<in> set [[Inr ''a''], [Inl Internal]]. complete_fetch r = None \<or> complete_fetch r = Some [''a'']"
    by (simp add: complete_fetch_def)
  ultimately show ?thesis using failed_load_not_repeated [OF s1 _ f] s1 by blast
qed


end
