(* ===== verification/EgressSchemaFetch.thy ===== *)
theory EgressSchemaFetch
  imports DataFetch BiddingReactor
begin

text \<open>
  The start of the egress of protected app signals
  (\<^verbatim>\<open>services/bidding_service/egress_features/egress_schema_fetch_manager.cc\<close>): which caches of schemas
  there are, the versions of schemas a request may choose, and how the caches reach the reactor
  (\<^verbatim>\<open>bidding_main.cc\<close>).
\<close>

datatype FetchMode = FETCH_MODE_URL | FETCH_MODE_BUCKET | FETCH_MODE_LOCAL

record EgressSchemaFetchConfig =
  fetch_mode :: FetchMode
  egress_schema_url :: string
  egress_schema_bucket :: string
  egress_default_schema_in_bucket :: string
  url_fetch_period_ms :: int
  url_fetch_timeout_ms :: int
  temporary_unlimited_egress_schema_url :: string
  temporary_unlimited_egress_schema_bucket :: string
  temporary_unlimited_egress_default_schema_in_bucket :: string

record EgressOptions =
  opt_enable_protected_app_signals :: bool
  opt_enable_temporary_unlimited_egress :: bool
  opt_limited_egress_bits :: int
  opt_fetch_config :: string

text \<open>\<open>None\<close> is the null pointer.\<close>

record EgressSchemaCaches =
  egress_schema_cache :: "EgressSchemaCache option"
  unlimited_egress_schema_cache :: "EgressSchemaCache option"

text \<open>
  The parts outside: the parsing of the configuration and of schemas, the files with specifications, and
  what the first fetch from a URL or bucket finds.
\<close>

record schema_fetch_env =
  parse_fetch_config :: "string \<Rightarrow> status_code + EgressSchemaFetchConfig"
  schema_env :: egress_env
  spec_file :: "string \<Rightarrow> status_code + string"
  blob_client_Init :: status
  blob_client_Run :: status
  FetchUrl :: "string \<Rightarrow> status_code + string"
  blob_client :: "string \<Rightarrow> blob_storage"

definition EgressConfigureRuntimeDefaults ::
    "EgressOptions \<Rightarrow> EgressSchemaFetchConfig \<Rightarrow> BiddingServiceRuntimeConfig \<Rightarrow> status_code + BiddingServiceRuntimeConfig" where
  "EgressConfigureRuntimeDefaults opt c rc =
     (if \<not> opt_enable_temporary_unlimited_egress opt \<and> opt_limited_egress_bits opt < 1 then Inl InvalidArgument
      else if fetch_mode c = FETCH_MODE_BUCKET then
        (case (if opt_enable_temporary_unlimited_egress opt
               then GetBucketBlobVersion (temporary_unlimited_egress_schema_bucket c)
                 (temporary_unlimited_egress_default_schema_in_bucket c)
               else Inr (rc_default_unlimited_egress_schema_version rc)) of
           Inl err \<Rightarrow> Inl err
         | Inr unlimited \<Rightarrow>
             (case (if opt_limited_egress_bits opt > 0
                    then GetBucketBlobVersion (egress_schema_bucket c) (egress_default_schema_in_bucket c)
                    else Inr (rc_default_egress_schema_version rc)) of
                Inl err \<Rightarrow> Inl err
              | Inr limited \<Rightarrow> Inr (rc\<lparr>rc_use_per_request_schema_versioning := True,
                  rc_default_unlimited_egress_schema_version := unlimited,
                  rc_default_egress_schema_version := limited\<rparr>)))
      else Inr (rc\<lparr>rc_use_per_request_schema_versioning := False,
        rc_default_egress_schema_version := kDefaultEgressSchemaId,
        rc_default_unlimited_egress_schema_version := kDefaultEgressSchemaId\<rparr>))"

definition InitializeBucketClient :: "schema_fetch_env \<Rightarrow> status" where
  "InitializeBucketClient e = (case blob_client_Init e of Some err \<Rightarrow> Some err | None \<Rightarrow> blob_client_Run e)"

definition empty_schema_cache :: "schema_fetch_env \<Rightarrow> EgressSchemaCache" where
  "empty_schema_cache e = \<lparr>version_features = Map.empty,
     cddl_spec_cache = CddlSpecCache_Init ''services/bidding_service/egress_cddl_spec/'' (spec_file e)\<rparr>"

definition StartEgressSchemaFetch ::
    "schema_fetch_env \<Rightarrow> EgressSchemaFetchConfig \<Rightarrow> string \<Rightarrow> string \<Rightarrow> (status_code + EgressSchemaCache) waits option" where
  "StartEgressSchemaFetch e c url bucket = (case fetch_mode c of
     FETCH_MODE_URL \<Rightarrow> map_option (\<lambda>(st, s). Returns (case st of Some err \<Rightarrow> Inl err | None \<Rightarrow> Inr (url_owner s)))
       (url_fetcher_Start (AdtechSchemaFetcher_OnFetch (schema_env e)) (url_fetch_timeout_ms c) (url_fetch_period_ms c)
          [FetchUrl e url] (new_url_fetcher (empty_schema_cache e)))
   | FETCH_MODE_BUCKET \<Rightarrow> map_option (\<lambda>r. case r of
         Waits_forever \<Rightarrow> Waits_forever
       | Returns (st, s) \<Rightarrow> Returns (case st of Some err \<Rightarrow> Inl err | None \<Rightarrow> Inr (owner s)))
       (bucket_fetcher_Start (EgressSchemaBucketFetcher_OnFetch (schema_env e)) (blob_client e bucket)
          (new_bucket_fetcher bucket (empty_schema_cache e)))
   | FETCH_MODE_LOCAL \<Rightarrow> Some (Returns (Inl InvalidArgument)))"

text \<open>Go on with what was returned, unless it is an error.\<close>

definition when_returned ::
    "(status_code + 'a) waits option \<Rightarrow> ('a \<Rightarrow> (status_code + 'b) waits option) \<Rightarrow> (status_code + 'b) waits option" where
  "when_returned r f = (case r of
     None \<Rightarrow> None
   | Some Waits_forever \<Rightarrow> Some Waits_forever
   | Some (Returns (Inl err)) \<Rightarrow> Some (Returns (Inl err))
   | Some (Returns (Inr x)) \<Rightarrow> f x)"

lemma when_returned_eq:
  "when_returned r f = Some (Returns (Inr y)) \<longleftrightarrow> (\<exists>x. r = Some (Returns (Inr x)) \<and> f x = Some (Returns (Inr y)))"
  by (auto simp: when_returned_def split: option.splits waits.splits sum.splits)

text \<open>A cache if it is wanted.\<close>

definition start_if ::
    "bool \<Rightarrow> (status_code + EgressSchemaCache) waits option \<Rightarrow> (status_code + EgressSchemaCache option) waits option" where
  "start_if wanted start_fetch =
     (if \<not> wanted then Some (Returns (Inr None))
      else when_returned start_fetch (\<lambda>c. Some (Returns (Inr (Some c)))))"

definition EgressSchemaFetchManager_Init ::
    "schema_fetch_env \<Rightarrow> EgressOptions \<Rightarrow> BiddingServiceRuntimeConfig \<Rightarrow>
     (status_code + EgressSchemaCaches \<times> BiddingServiceRuntimeConfig) waits option" where
  "EgressSchemaFetchManager_Init e opt rc =
     (if \<not> opt_enable_protected_app_signals opt
      then Some (Returns (Inr (\<lparr>egress_schema_cache = None, unlimited_egress_schema_cache = None\<rparr>, rc)))
      else if opt_fetch_config opt = [] then Some (Returns (Inl InvalidArgument))
      else (case parse_fetch_config e (opt_fetch_config opt) of
        Inl err \<Rightarrow> Some (Returns (Inl err))
      | Inr c \<Rightarrow> (case EgressConfigureRuntimeDefaults opt c rc of
          Inl err \<Rightarrow> Some (Returns (Inl err))
        | Inr rc' \<Rightarrow> (case (if fetch_mode c = FETCH_MODE_BUCKET then InitializeBucketClient e else OkStatus) of
            Some err \<Rightarrow> Some (Returns (Inl err))
          | None \<Rightarrow>
              when_returned (start_if (opt_enable_temporary_unlimited_egress opt)
                (StartEgressSchemaFetch e c (temporary_unlimited_egress_schema_url c)
                  (temporary_unlimited_egress_schema_bucket c))) (\<lambda>unlimited.
              when_returned (start_if (opt_limited_egress_bits opt > 0)
                (StartEgressSchemaFetch e c (egress_schema_url c) (egress_schema_bucket c))) (\<lambda>limited.
                Some (Returns (Inr (\<lparr>egress_schema_cache = limited, unlimited_egress_schema_cache = unlimited\<rparr>, rc')))))))))"

text \<open>
  \<^verbatim>\<open>bidding_main.cc\<close> and \<^verbatim>\<open>bidding_service.h\<close>: the caches are passed in this order, and the parameters that
  take them are the cache for unlimited and the one for limited egress, as the reactor uses them.
\<close>

record service_caches =
  service_egress_schema_cache :: "EgressSchemaCache option"
  service_limited_egress_schema_cache :: "EgressSchemaCache option"

definition BiddingService_new :: "EgressSchemaCache option \<Rightarrow> EgressSchemaCache option \<Rightarrow> service_caches" where
  "BiddingService_new cache limited_cache =
     \<lparr>service_egress_schema_cache = cache, service_limited_egress_schema_cache = limited_cache\<rparr>"

definition bidding_service_caches :: "EgressSchemaCaches \<Rightarrow> service_caches" where
  "bidding_service_caches caches =
     BiddingService_new (egress_schema_cache caches) (unlimited_egress_schema_cache caches)"

lemma start_if_cache:
  "start_if wanted f = Some (Returns (Inr c)) \<Longrightarrow> (c = None) = (\<not> wanted)"
  by (auto simp: start_if_def when_returned_eq split: if_split_asm)

text \<open>A cache exists exactly for each kind of egress that is enabled.\<close>

lemma Init_caches:
  assumes "EgressSchemaFetchManager_Init e opt rc = Some (Returns (Inr (caches, rc')))"
    and "opt_enable_protected_app_signals opt"
  shows "(egress_schema_cache caches = None) = (opt_limited_egress_bits opt \<le> 0)"
    and "(unlimited_egress_schema_cache caches = None) = (\<not> opt_enable_temporary_unlimited_egress opt)"
    and "opt_enable_temporary_unlimited_egress opt \<or> 0 < opt_limited_egress_bits opt"
  using assms
  by (auto simp: EgressSchemaFetchManager_Init_def EgressConfigureRuntimeDefaults_def when_returned_eq dest!: start_if_cache
      split: if_split_asm sum.split_asm option.split_asm)

end
