(* ===== verification/PasGenerateBids.thy ===== *)
theory PasGenerateBids
  imports EgressSchemaFetch RequestMetadata
begin

text \<open>
  The reactor of the bidding service for protected app signals
  (\<^verbatim>\<open>services/bidding_service/protected_app_signals_generate_bids_reactor.{h,cc}\<close>): the buyer's code
  prepares the retrieval of ads, the ads are fetched, or looked up when the request names them, and the
  code generates bids, whose egress payloads are serialised (theory \<open>Egress\<close>).
\<close>

subsection \<open>The reactor\<close>

record pas_members =
  pas_auction_scope :: AuctionScope
  request_metadata :: "string \<rightharpoonup> string"
  protected_app_signals_generate_bid_version :: string
  prepare_data_for_ad_retrieval_version :: string
  egress_schema_version :: string
  temporary_unlimited_egress_schema_version :: string
  enable_temporary_unlimited_egress :: bool
  caches :: service_caches

text \<open>The callbacks keep the prepared data they were made with.\<close>

datatype pas_callback =
    Prepared_data
  | Ads_retrieved string
  | Ads_looked_up string
  | Generated_bids

type_synonym pas_reactor = "(GenerateProtectedAppSignalsBidsRawRequest, ProtectedAppSignalsAdWithBid, pas_callback, pas_members) reactor"

text \<open>A client the service was not given an address for is \<open>None\<close>, a null pointer.\<close>

record pas_env = "(GenerateProtectedAppSignalsBidsRawRequest, ProtectedAppSignalsAdWithBid) dispatch_env" +
  env_txt :: json_text
  BatchExecute :: "DispatchRequest list \<Rightarrow> status"
  JsonStringToMessage :: "string \<Rightarrow> status_code + ProtectedAppSignalsAdWithBid"
  BytesToHexString :: "string \<Rightarrow> string"
  ad_retrieval_client :: "(AdsRetrieval \<Rightarrow> status) option"
  kv_client :: "(string list \<Rightarrow> status) option"
  limited_egress_bits :: int
  pas_egress_env :: egress_env

definition default_PASRawRequest :: GenerateProtectedAppSignalsBidsRawRequest where
  "default_PASRawRequest = \<lparr>gp_auction_signals = [], gp_buyer_signals = [],
     gp_protected_app_signals = default_ProtectedAppSignals, gp_seller = [], gp_publisher_name = [],
     gp_log_context = \<lparr>generation_id = [], adtech_debug_id = []\<rparr>, gp_consented_debug_config = None,
     gp_enable_debug_reporting = False, gp_contextual_protected_app_signals_data = None,
     gp_enable_unlimited_egress = False, gp_multi_bid_limit = 0, gp_enforce_kanon = False,
     gp_is_sampled_for_debug = False, gp_blob_versions = None, gp_top_level_seller = []\<rparr>"

definition pas_version :: "bool \<Rightarrow> (BuyerBlobVersions \<Rightarrow> string) \<Rightarrow> BuyerBlobVersions option \<Rightarrow> string \<Rightarrow> string" where
  "pas_version allowed get versions default_version =
     (let v = (if allowed then (case versions of None \<Rightarrow> [] | Some vs \<Rightarrow> get vs) else [])
      in if v = [] then default_version else v)"

definition pas_members_of ::
    "BiddingServiceRuntimeConfig \<Rightarrow> service_caches \<Rightarrow> GenerateProtectedAppSignalsBidsRawRequest \<Rightarrow> pas_members" where
  "pas_members_of rc service r = \<lparr>
     pas_auction_scope = (if gp_top_level_seller r = [] then AUCTION_SCOPE_SINGLE_SELLER
       else AUCTION_SCOPE_SERVER_COMPONENT_MULTI_SELLER),
     request_metadata = Map.empty,
     protected_app_signals_generate_bid_version = pas_version (rc_use_per_request_udf_versioning rc)
       protected_app_signals_generate_bid_udf (gp_blob_versions r)
       (rc_default_protected_app_signals_generate_bid_version rc),
     prepare_data_for_ad_retrieval_version = pas_version (rc_use_per_request_udf_versioning rc)
       prepare_data_for_ad_retrieval_udf (gp_blob_versions r) (rc_default_prepare_data_for_ad_retrieval_version rc),
     egress_schema_version = pas_version (rc_use_per_request_schema_versioning rc) egress_schema
       (gp_blob_versions r) (rc_default_egress_schema_version rc),
     temporary_unlimited_egress_schema_version = pas_version (rc_use_per_request_schema_versioning rc)
       temporary_unlimited_egress_schema (gp_blob_versions r) (rc_default_unlimited_egress_schema_version rc),
     enable_temporary_unlimited_egress = rc_enable_temporary_unlimited_egress rc,
     caches = service\<rparr>"

definition ProtectedAppSignalsGenerateBidsReactor_new ::
    "pas_env \<Rightarrow> BiddingServiceRuntimeConfig \<Rightarrow> service_caches \<Rightarrow> GenerateBidsRequest \<Rightarrow> pas_reactor" where
  "ProtectedAppSignalsGenerateBidsReactor_new e rc service request =
     BaseGenerateBidsReactor e rc request default_PASRawRequest (pas_members_of rc service)"

text \<open>Only an answer that is OK is encrypted.\<close>

definition EncryptResponseAndFinish :: "pas_env \<Rightarrow> status \<Rightarrow> pas_reactor \<Rightarrow> pas_reactor" where
  "EncryptResponseAndFinish e st s =
     (let s1 = set_export_debug s in
      if st \<noteq> OkStatus then act (Finish st) s1
      else
        (let (encrypted, s') = EncryptResponse e s1 in
         act (Finish (if encrypted then OkStatus else Some Internal)) s'))"

definition cancelled :: "bool \<Rightarrow> pas_reactor \<Rightarrow> bool" where
  "cancelled is_cancelled s \<longleftrightarrow> enable_cancellation s \<and> is_cancelled"

subsection \<open>Requests to the code\<close>

definition roma_arg :: "string \<Rightarrow> string" where
  "roma_arg s = (if s = [] then [CHR 0x22, CHR 0x22] else s)"

definition PopulateArgInRomaRequest :: "string \<Rightarrow> nat \<Rightarrow> string list \<Rightarrow> string list" where
  "PopulateArgInRomaRequest s i request = request[i := roma_arg s]"

definition encoded_signals :: "pas_env \<Rightarrow> pas_reactor \<Rightarrow> string" where
  "encoded_signals e s = [CHR 0x22] @
     BytesToHexString e (app_install_signals (gp_protected_app_signals (raw_request s))) @ [CHR 0x22]"

definition signals_version :: "pas_reactor \<Rightarrow> string" where
  "signals_version s = string_of_int (encoding_version (gp_protected_app_signals (raw_request s)))"

definition roma_request :: "pas_reactor \<Rightarrow> string \<Rightarrow> string \<Rightarrow> string list \<Rightarrow> DispatchRequest" where
  "roma_request s v handler input = \<lparr>req_id = generation_id (gp_log_context (raw_request s)),
     version_string = v, handler_name = handler, inputs = input, tags = [(''IGNORED'', roma_timeout_ms s)]\<rparr>"

definition CreatePrepareDataForAdsRetrievalRequest :: "pas_env \<Rightarrow> pas_reactor \<Rightarrow> DispatchRequest" where
  "CreatePrepareDataForAdsRetrievalRequest e s =
     roma_request s (prepare_data_for_ad_retrieval_version (own s)) ''prepareDataForAdRetrievalEntryFunction''
       (PopulateArgInRomaRequest (GetFeatureFlagJson (enable_adtech_code_logging s) False) 4
       (PopulateArgInRomaRequest (gp_buyer_signals (raw_request s)) 3
       (PopulateArgInRomaRequest (gp_auction_signals (raw_request s)) 2
       (PopulateArgInRomaRequest (signals_version s) 1
       (PopulateArgInRomaRequest (encoded_signals e s) 0 (replicate 5 []))))))"

text \<open>The answer is remembered in the reactor; it only depends on the request.\<close>

definition IsContextualRetrievalRequest :: "pas_reactor \<Rightarrow> bool" where
  "IsContextualRetrievalRequest s = (case gp_contextual_protected_app_signals_data (raw_request s) of
     None \<Rightarrow> False
   | Some d \<Rightarrow> cpas_ad_render_ids d \<noteq> [] \<and> \<not> fetch_ads_from_retrieval_service d)"

definition auction_metadata :: "pas_reactor \<Rightarrow> string" where
  "auction_metadata s = (if gp_top_level_seller (raw_request s) \<noteq> []
     then ''{'' @ [CHR 0x22] @ ''topLevelSeller'' @ [CHR 0x22] @ '':'' @ [CHR 0x22] @
       gp_top_level_seller (raw_request s) @ [CHR 0x22] @ ''}''
     else ''{}'')"

definition CreateGenerateBidsRequest :: "pas_env \<Rightarrow> pas_reactor \<Rightarrow> string \<Rightarrow> string \<Rightarrow> DispatchRequest" where
  "CreateGenerateBidsRequest e s ads prepared =
     (let input = PopulateArgInRomaRequest prepared 3
            (PopulateArgInRomaRequest (gp_buyer_signals (raw_request s)) 2
            (PopulateArgInRomaRequest (gp_auction_signals (raw_request s)) 1
            (PopulateArgInRomaRequest ads 0 (replicate 10 []))));
          input2 = (if prepared = [] \<and> IsContextualRetrievalRequest s
            then PopulateArgInRomaRequest (signals_version s) 5 (PopulateArgInRomaRequest (encoded_signals e s) 4 input)
            else input)
      in roma_request s (protected_app_signals_generate_bid_version (own s)) ''generateBidEntryFunction''
           (PopulateArgInRomaRequest (string_of_int (gp_multi_bid_limit (raw_request s))) 6
           (PopulateArgInRomaRequest (GetFeatureFlagJson (enable_adtech_code_logging s)
              (enable_buyer_debug_url_generation s \<and> gp_enable_debug_reporting (raw_request s))) 8
           (PopulateArgInRomaRequest (auction_metadata s) 7 input2))))"

text \<open>\<^verbatim>\<open>ExecuteRomaRequests\<close>: one request, unless the call was cancelled.\<close>

definition ExecuteRomaRequests :: "pas_env \<Rightarrow> bool \<Rightarrow> DispatchRequest \<Rightarrow> pas_callback \<Rightarrow> pas_reactor \<Rightarrow> pas_reactor" where
  "ExecuteRomaRequests e is_cancelled req cb s =
     (if cancelled is_cancelled s then EncryptResponseAndFinish e (Some Cancelled) s
      else (case BatchExecute e [req] of
         None \<Rightarrow> start (Batch [req]) cb s
       | Some _ \<Rightarrow> EncryptResponseAndFinish e (Some Internal) s))"

definition ValidateRomaResponse :: "(status_code + DispatchResponse) list \<Rightarrow> status_code + DispatchResponse" where
  "ValidateRomaResponse result = (case result of [r] \<Rightarrow> r | _ \<Rightarrow> Inl InvalidArgument)"

text \<open>The callback of \<^verbatim>\<open>ExecuteRomaRequests\<close>: what was answered is parsed, and used if it could be.\<close>

definition roma_answered ::
    "pas_env \<Rightarrow> (string \<Rightarrow> 'a result) \<Rightarrow> ('a \<Rightarrow> pas_reactor \<Rightarrow> pas_reactor option) \<Rightarrow>
     (status_code + DispatchResponse) list \<Rightarrow> pas_reactor \<Rightarrow> pas_reactor option" where
  "roma_answered e parse_response on_successful_response result s = (case ValidateRomaResponse result of
     Inl _ \<Rightarrow> Some (EncryptResponseAndFinish e (Some Internal) s)
   | Inr r \<Rightarrow> (case parse_response (resp r) of
       None \<Rightarrow> None
     | Some (Inl _) \<Rightarrow> Some (EncryptResponseAndFinish e (Some Internal) s)
     | Some (Inr parsed) \<Rightarrow> on_successful_response parsed s))"

subsection \<open>Ads\<close>

definition metadata_value :: "pas_reactor \<Rightarrow> string \<Rightarrow> string" where
  "metadata_value s key = (case request_metadata (own s) key of None \<Rightarrow> [] | Some v \<Rightarrow> v)"

definition CreateAdsRetrievalRequest :: "pas_reactor \<Rightarrow> string \<Rightarrow> AdsRetrieval" where
  "CreateAdsRetrievalRequest s prepared = \<lparr>retrieval_data = prepared,
     retrieval_metadata = [(''X-BnA-Client-IP'', metadata_value s ''x-bna-client-ip''),
       (''X-Accept-Language'', metadata_value s ''x-accept-language''),
       (''X-User-Agent'', metadata_value s ''x-user-agent'')],
     retrieval_contextual_signals = gp_buyer_signals (raw_request s), retrieval_ad_render_ids = []\<rparr>"

text \<open>The client is used without a check.\<close>

definition FetchAds :: "pas_env \<Rightarrow> bool \<Rightarrow> string \<Rightarrow> pas_reactor \<Rightarrow> pas_reactor option" where
  "FetchAds e is_cancelled prepared s =
     (if cancelled is_cancelled s then Some (EncryptResponseAndFinish e (Some Cancelled) s)
      else do {
        client \<leftarrow> ad_retrieval_client e;
        let req = CreateAdsRetrievalRequest s prepared;
        Some (case client req of
           None \<Rightarrow> start (Retrieve_ads req) (Ads_retrieved prepared) s
         | Some _ \<Rightarrow> EncryptResponseAndFinish e (Some Internal) s) })"

definition contextual_ad_render_ids :: "pas_reactor \<Rightarrow> string list" where
  "contextual_ad_render_ids s = (case gp_contextual_protected_app_signals_data (raw_request s) of
     None \<Rightarrow> [] | Some d \<Rightarrow> cpas_ad_render_ids d)"

definition FetchAdsMetadata :: "pas_env \<Rightarrow> bool \<Rightarrow> string \<Rightarrow> pas_reactor \<Rightarrow> pas_reactor option" where
  "FetchAdsMetadata e is_cancelled prepared s =
     (if cancelled is_cancelled s then Some (EncryptResponseAndFinish e (Some Cancelled) s)
      else do {
        client \<leftarrow> kv_client e;
        let ids = contextual_ad_render_ids s;
        Some (case client ids of
           None \<Rightarrow> start (Lookup_ads ids) (Ads_looked_up prepared) s
         | Some _ \<Rightarrow> EncryptResponseAndFinish e (Some Internal) s) })"

definition OnFetchAdsDataDone :: "pas_env \<Rightarrow> bool \<Rightarrow> string \<Rightarrow> string \<Rightarrow> pas_reactor \<Rightarrow> pas_reactor" where
  "OnFetchAdsDataDone e is_cancelled ads prepared s =
     (if ads = [] then EncryptResponseAndFinish e OkStatus s
      else ExecuteRomaRequests e is_cancelled (CreateGenerateBidsRequest e s ads prepared) Generated_bids s)"

text \<open>The callback of both fetches.\<close>

definition ads_fetched :: "pas_env \<Rightarrow> bool \<Rightarrow> status_code + string \<Rightarrow> string \<Rightarrow> pas_reactor \<Rightarrow> pas_reactor" where
  "ads_fetched e is_cancelled result prepared s = (case result of
     Inl _ \<Rightarrow> EncryptResponseAndFinish e (Some Internal) s
   | Inr ads \<Rightarrow> OnFetchAdsDataDone e is_cancelled ads prepared s)"

subsection \<open>Bids\<close>

fun parse_bids :: "pas_env \<Rightarrow> string list \<Rightarrow> status_code + ProtectedAppSignalsAdWithBid list" where
  "parse_bids e [] = Inr []"
| "parse_bids e (t # ts) = (case JsonStringToMessage e t of
     Inl err \<Rightarrow> Inl err
   | Inr b \<Rightarrow> (case parse_bids e ts of Inl err \<Rightarrow> Inl err | Inr bs \<Rightarrow> Inr (b # bs)))"

definition ParseProtectedSignalsGenerateBidsResponse ::
    "pas_env \<Rightarrow> pas_reactor \<Rightarrow> string \<Rightarrow> ProtectedAppSignalsAdWithBid list result" where
  "ParseProtectedSignalsGenerateBidsResponse e s response =
     assign_or_return (ParseAndGetResponseJsonArray (env_txt e) (enable_adtech_code_logging s) response)
       (\<lambda>generate_bid_responses. Some (parse_bids e generate_bid_responses))"

definition kMaxInt :: int where
  "kMaxInt = 2 ^ 31 - 1"

text \<open>A payload through a cache that may be a null pointer, which is only used for a payload that is not empty.\<close>

definition populate_payload ::
    "pas_env \<Rightarrow> string \<Rightarrow> string \<Rightarrow> EgressSchemaCache option \<Rightarrow> int \<Rightarrow> string option" where
  "populate_payload e schema_id payload cache limit =
     (if payload = [] then Some []
      else do {
        c \<leftarrow> cache;
        PopulateSerializedEgressPayload (pas_egress_env e) schema_id payload c limit })"

definition with_egress :: "pas_env \<Rightarrow> pas_reactor \<Rightarrow> ProtectedAppSignalsAdWithBid \<Rightarrow> ProtectedAppSignalsAdWithBid option" where
  "with_egress e s b = do {
     limited \<leftarrow> (if limited_egress_bits e \<le> 0 then Some []
       else populate_payload e (egress_schema_version (own s)) (pab_egress_payload b)
         (service_limited_egress_schema_cache (caches (own s))) (limited_egress_bits e));
     unlimited \<leftarrow> (if \<not> gp_enable_unlimited_egress (raw_request s) \<or> \<not> enable_temporary_unlimited_egress (own s) then Some []
       else populate_payload e (temporary_unlimited_egress_schema_version (own s))
         (pab_temporary_unlimited_egress_payload b) (service_egress_schema_cache (caches (own s))) kMaxInt);
     Some (b\<lparr>pab_egress_payload := limited, pab_temporary_unlimited_egress_payload := unlimited\<rparr>) }"

fun add_bids ::
    "pas_env \<Rightarrow> pas_reactor \<Rightarrow> ProtectedAppSignalsAdWithBid list \<Rightarrow> ProtectedAppSignalsAdWithBid list \<Rightarrow>
     ProtectedAppSignalsAdWithBid list option" where
  "add_bids e s [] acc = Some acc"
| "add_bids e s (b # bs) acc =
     (if IsValidProtectedAppSignalsBid b (pas_auction_scope (own s)) \<noteq> OkStatus then add_bids e s bs acc
      else do {
        added_bid \<leftarrow> with_egress e s b;
        add_bids e s bs (acc @ [added_bid]) })"

definition on_bids :: "pas_env \<Rightarrow> ProtectedAppSignalsAdWithBid list \<Rightarrow> pas_reactor \<Rightarrow> pas_reactor option" where
  "on_bids e bs s = do {
     all_bids \<leftarrow> add_bids e s bs (generated_bids (raw_response s));
     Some (EncryptResponseAndFinish e OkStatus (s\<lparr>raw_response := (raw_response s)\<lparr>generated_bids := all_bids\<rparr>\<rparr>)) }"

subsection \<open>Execution\<close>

definition StartContextualAdsRetrieval :: "pas_env \<Rightarrow> bool \<Rightarrow> pas_reactor \<Rightarrow> pas_reactor option" where
  "StartContextualAdsRetrieval e is_cancelled s = FetchAdsMetadata e is_cancelled [] s"

definition StartNonContextualAdsRetrieval :: "pas_env \<Rightarrow> bool \<Rightarrow> pas_reactor \<Rightarrow> pas_reactor" where
  "StartNonContextualAdsRetrieval e is_cancelled s =
     ExecuteRomaRequests e is_cancelled (CreatePrepareDataForAdsRetrievalRequest e s) Prepared_data s"

definition kBuyerMetadataKeysMap :: "(string \<times> string) list" where
  "kBuyerMetadataKeysMap = [(''x-accept-language'', ''x-accept-language''), (''x-user-agent'', ''x-user-agent''),
     (''x-bna-client-ip'', ''x-bna-client-ip'')]"

text \<open>The call may be cancelled before \<^verbatim>\<open>Execute\<close> and again before the first request.\<close>

definition Execute :: "pas_env \<Rightarrow> bool \<Rightarrow> bool \<Rightarrow> (string \<times> string) list \<Rightarrow> pas_reactor \<Rightarrow> pas_reactor option" where
  "Execute e is_cancelled is_cancelled2 client_metadata s =
     (if cancelled is_cancelled s then Some (EncryptResponseAndFinish e (Some Cancelled) s)
      else (case GrpcMetadataToRequestMetadata client_metadata kBuyerMetadataKeysMap Map.empty of
         Inl err \<Rightarrow> Some (EncryptResponseAndFinish e (Some err) s)
       | Inr md \<Rightarrow>
           (let s' = s\<lparr>own := (own s)\<lparr>request_metadata := md\<rparr>\<rparr> in
            if IsContextualRetrievalRequest s' then StartContextualAdsRetrieval e is_cancelled2 s'
            else Some (StartNonContextualAdsRetrieval e is_cancelled2 s'))))"

text \<open>The response of the code that prepares the retrieval.\<close>

definition parse_prepared :: "pas_env \<Rightarrow> string \<Rightarrow> string result" where
  "parse_prepared e response = assign_or_return (Some (ParseJsonString (env_txt e) response)) (\<lambda>document. do {
     r \<leftarrow> response_member document;
     Some (SerializeJsonDoc (env_txt e) r) })"

text \<open>What a callback is called with.\<close>

record pas_answer =
  roma_result :: "(status_code + DispatchResponse) list"
  ads_result :: "status_code + string"

definition handle :: "pas_env \<Rightarrow> bool \<Rightarrow> pas_answer \<Rightarrow> pas_callback \<Rightarrow> pas_reactor \<Rightarrow> pas_reactor option" where
  "handle e is_cancelled a cb s = (case cb of
     Prepared_data \<Rightarrow> roma_answered e (parse_prepared e) (FetchAds e is_cancelled) (roma_result a) s
   | Ads_retrieved prepared \<Rightarrow> Some (ads_fetched e is_cancelled (ads_result a) prepared s)
   | Ads_looked_up prepared \<Rightarrow> Some (ads_fetched e is_cancelled (ads_result a) prepared s)
   | Generated_bids \<Rightarrow>
       roma_answered e (ParseProtectedSignalsGenerateBidsResponse e s) (on_bids e) (roma_result a) s)"

definition deliver ::
    "pas_env \<Rightarrow> bool \<Rightarrow> bool \<Rightarrow> pas_answer \<Rightarrow> pas_callback \<Rightarrow> pas_reactor \<Rightarrow> pas_reactor option" where
  "deliver e is_cancelled is_cancelled2 a cb s =
     (let s' = s\<lparr>waiting := remove1 cb (waiting s)\<rparr> in
      if cancelled is_cancelled s then Some (EncryptResponseAndFinish e (Some Cancelled) s')
      else handle e is_cancelled2 a cb s')"

end
