(* ===== verification/PasGenerateBidsRuns.thy ===== *)
theory PasGenerateBidsRuns
  imports PasGenerateBids EgressPayload
begin

text \<open>
  What holds of a call for bids on protected app signals
  (\<^verbatim>\<open>services/bidding_service/protected_app_signals_generate_bids_reactor.cc\<close>): how often it is finished,
  what leaves with its bids, and where it runs into a cache that is not there.
\<close>

subsection \<open>Runs\<close>

inductive delivers :: "pas_env \<Rightarrow> pas_callback \<Rightarrow> pas_reactor \<Rightarrow> pas_reactor \<Rightarrow> bool" for e :: pas_env where
  "cb \<in> set (waiting s) \<Longrightarrow> deliver e is_cancelled is_cancelled2 a cb s = Some s' \<Longrightarrow> delivers e cb s s'"

inductive_cases deliversE: "delivers e cb s s'"

fun rank :: "pas_callback \<Rightarrow> nat" where
  "rank Prepared_data = 2"
| "rank (Ads_retrieved prepared) = 1"
| "rank (Ads_looked_up prepared) = 1"
| "rank Generated_bids = 0"

text \<open>A handler finishes the call or leaves one callback of a lower rank.\<close>

definition moves_on :: "nat \<Rightarrow> pas_reactor \<Rightarrow> pas_reactor \<Rightarrow> bool" where
  "moves_on k s s' \<longleftrightarrow> finishes s' = Suc (finishes s) \<and> waiting s' = waiting s \<or>
     finishes s' = finishes s \<and> (\<exists>c. waiting s' = waiting s @ [c] \<and> rank c < k)"

lemma finish_moves_on:
  assumes "always_encrypts e"
  shows "finishes (EncryptResponseAndFinish e st s) = Suc (finishes s)"
    and "waiting (EncryptResponseAndFinish e st s) = waiting s"
proof -
  obtain c where "EncryptResponse e (set_export_debug s) = (True, (set_export_debug s)\<lparr>response_ciphertext := Some c\<rparr>)"
    using EncryptResponse_encrypts [OF assms] by blast
  then show "finishes (EncryptResponseAndFinish e st s) = Suc (finishes s)"
    and "waiting (EncryptResponseAndFinish e st s) = waiting s"
    by (simp_all add: EncryptResponseAndFinish_def Let_def)
qed

lemma ExecuteRomaRequests_moves_on:
  "always_encrypts e \<Longrightarrow> rank cb < k \<Longrightarrow> moves_on k s (ExecuteRomaRequests e c req cb s)"
  by (auto simp: ExecuteRomaRequests_def moves_on_def finish_moves_on split: option.split)

lemma FetchAds_moves_on:
  "FetchAds e c prepared s = Some s' \<Longrightarrow> always_encrypts e \<Longrightarrow> 1 < k \<Longrightarrow> moves_on k s s'"
  by (auto simp: FetchAds_def moves_on_def finish_moves_on Let_def monad_simps split: if_split_asm option.splits)

lemma FetchAdsMetadata_moves_on:
  "FetchAdsMetadata e c prepared s = Some s' \<Longrightarrow> always_encrypts e \<Longrightarrow> 1 < k \<Longrightarrow> moves_on k s s'"
  by (auto simp: FetchAdsMetadata_def moves_on_def finish_moves_on Let_def monad_simps split: if_split_asm option.splits)

lemma ads_fetched_moves_on:
  "always_encrypts e \<Longrightarrow> 0 < k \<Longrightarrow> moves_on k s (ads_fetched e c result prepared s)"
  by (auto simp: ads_fetched_def OnFetchAdsDataDone_def moves_on_def [of k s "EncryptResponseAndFinish e _ s"]
      finish_moves_on ExecuteRomaRequests_moves_on split: sum.split)

lemma on_bids_moves_on: "on_bids e bs s = Some s' \<Longrightarrow> always_encrypts e \<Longrightarrow> moves_on k s s'"
  by (auto simp: on_bids_def moves_on_def finish_moves_on monad_simps)

lemma roma_answered_moves_on:
  assumes "roma_answered e parse f result s = Some s'" and "always_encrypts e"
    and "\<And>x. f x s = Some s' \<Longrightarrow> moves_on k s s'"
  shows "moves_on k s s'"
  using assms
  by (auto simp: roma_answered_def moves_on_def [of k s "EncryptResponseAndFinish e _ s"] finish_moves_on
      split: sum.split_asm option.split_asm)

lemma roma_answered_cases:
  assumes "roma_answered e parse f result s = Some s'"
  obtains st where "s' = EncryptResponseAndFinish e st s" | x where "f x s = Some s'"
  using assms by (auto simp: roma_answered_def split: sum.split_asm option.split_asm)

lemma handle_moves_on:
  assumes "handle e c a cb s = Some s'" and "always_encrypts e"
  shows "moves_on (rank cb) s s'"
proof (cases cb)
  case Prepared_data
  with assms show ?thesis
    by (auto simp: handle_def elim!: roma_answered_moves_on [OF _ assms(2)] FetchAds_moves_on [OF _ assms(2)])
next
  case (Ads_retrieved prepared)
  with assms ads_fetched_moves_on [OF assms(2), of 1] show ?thesis by (auto simp: handle_def)
next
  case (Ads_looked_up prepared)
  with assms ads_fetched_moves_on [OF assms(2), of 1] show ?thesis by (auto simp: handle_def)
next
  case Generated_bids
  with assms show ?thesis
    by (auto simp: handle_def elim!: roma_answered_moves_on [OF _ assms(2)] on_bids_moves_on [OF _ assms(2)])
qed

lemma pas_delivers_one:
  assumes "delivers e cb s s'" and "always_encrypts e"
  shows "cb \<in> set (waiting s) \<and>
    (finishes s' = Suc (finishes s) \<and> waiting s' = remove1 cb (waiting s) \<or>
     finishes s' = finishes s \<and> (\<exists>c. waiting s' = remove1 cb (waiting s) @ [c] \<and> rank c < rank cb))"
  using assms(1)
  by (elim deliversE)
    (auto simp: deliver_def Let_def finish_moves_on [OF assms(2)] moves_on_def
      dest!: handle_moves_on [OF _ assms(2)] split: if_split_asm)

interpretation pas_bids: single_shot "delivers (encrypting e)" waiting rank finishes for e
  by unfold_locales (rule pas_delivers_one [OF _ encrypting_encrypts])

lemma pas_Execute_starts:
  assumes "Execute e c c2 md s = Some s'" and "always_encrypts e"
  shows "moves_on 3 s s'"
proof -
  have starts: "moves_on 3 (s\<lparr>own := p\<rparr>) t \<longleftrightarrow> moves_on 3 s t" for p t by (simp add: moves_on_def)
  from assms(1) consider (finish) st where "s' = EncryptResponseAndFinish e st s"
    | (lookup) p where "FetchAdsMetadata e c2 [] (s\<lparr>own := p\<rparr>) = Some s'"
    | (prepare) p where "s' = StartNonContextualAdsRetrieval e c2 (s\<lparr>own := p\<rparr>)"
    by (auto simp: Execute_def StartContextualAdsRetrieval_def Let_def split: if_split_asm sum.split_asm)
  then show ?thesis
  proof cases
    case finish
    then show ?thesis by (simp add: moves_on_def finish_moves_on [OF assms(2)])
  next
    case (lookup p)
    from FetchAdsMetadata_moves_on [OF this assms(2), of 3] show ?thesis by (simp add: starts)
  next
    case (prepare p)
    then show ?thesis
      using ExecuteRomaRequests_moves_on [OF assms(2), of Prepared_data 3 "s\<lparr>own := p\<rparr>"]
      by (simp add: starts StartNonContextualAdsRetrieval_def)
  qed
qed

lemma pas_new_reactor:
  assumes "fst (DecryptRequest e request default_PASRawRequest)"
  shows "finishes (ProtectedAppSignalsGenerateBidsReactor_new e rc service request) = 0 \<and>
    waiting (ProtectedAppSignalsGenerateBidsReactor_new e rc service request) = []"
  using assms
  by (auto simp: ProtectedAppSignalsGenerateBidsReactor_new_def BaseGenerateBidsReactor_def DecryptRequest_def
      finishes_def Let_def split: if_split_asm option.splits sum.splits prod.splits)


subsection \<open>What leaves with the bids\<close>

lemma generated_bids_finish [simp]:
  "generated_bids (raw_response (EncryptResponseAndFinish e st s)) = generated_bids (raw_response s)"
  by (simp add: EncryptResponseAndFinish_def EncryptResponse_def act_def set_export_debug_def Let_def split: sum.split)

lemma add_bids_invariant:
  assumes "add_bids e s bs acc = Some r" and "\<forall>b \<in> set acc. P b"
    and "\<And>b b'. IsValidProtectedAppSignalsBid b (pas_auction_scope (own s)) = OkStatus \<Longrightarrow>
      with_egress e s b = Some b' \<Longrightarrow> P b'"
  shows "\<forall>b \<in> set r. P b"
  using assms(1,2)
proof (induction bs arbitrary: acc)
  case (Cons b bs)
  show ?case
  proof (cases "IsValidProtectedAppSignalsBid b (pas_auction_scope (own s)) = OkStatus")
    case False
    with Cons show ?thesis by simp
  next
    case True
    with Cons.prems(1) obtain b' where b': "with_egress e s b = Some b'" and rest: "add_bids e s bs (acc @ [b']) = Some r"
      by (auto simp: monad_simps)
    from assms(3) [OF True b'] Cons.prems(2) have "\<forall>x \<in> set (acc @ [b']). P x" by simp
    from Cons.IH [OF rest this] show ?thesis .
  qed
qed simp

lemma populate_payload_limit:
  assumes "populate_payload e schema_id payload cache limit = Some out" and "out \<noteq> []"
    and "\<And>c. cache = Some c \<Longrightarrow> wf_cache c" and "0 < limit" and "limit < 2 ^ 31"
  shows "\<exists>bytes v. out = Base64Escape (pas_egress_env e) (bytes @ [GetEgressVectorHeader v]) \<and>
    8 * length bytes < nat limit + 8 \<and> (\<forall>p < 8 * length bytes. payload_bit bytes p \<longrightarrow> p < nat limit)"
proof -
  from assms(1,2) obtain c where c: "cache = Some c" and
    "PopulateSerializedEgressPayload (pas_egress_env e) schema_id payload c limit = Some out"
    by (auto simp: populate_payload_def monad_simps split: if_split_asm)
  then obtain z where z: "GetSerializedEgressPayload (pas_egress_env e) schema_id payload c limit = Some z"
    and "out = (case z of Inl _ \<Rightarrow> [] | Inr p \<Rightarrow> p)"
    using assms(2) by (auto simp: PopulateSerializedEgressPayload_def split: if_split_asm)
  with assms(2) have "GetSerializedEgressPayload (pas_egress_env e) schema_id payload c limit = Some (Inr out)"
    by (cases z) simp_all
  from egress_payload_within_limit [OF assms(3) [OF c] _ assms(5) this] assms(2,4) show ?thesis by simp
qed

text \<open>A bid that may leave, with payloads that may.\<close>

definition may_leave :: "pas_env \<Rightarrow> pas_reactor \<Rightarrow> ProtectedAppSignalsAdWithBid \<Rightarrow> bool" where
  "may_leave e s b \<longleftrightarrow> pab_bid b \<noteq> 0 \<and>
     (pas_auction_scope (own s) = AUCTION_SCOPE_SERVER_COMPONENT_MULTI_SELLER \<longrightarrow> pab_allow_component_auction b) \<and>
     (pab_egress_payload b \<noteq> [] \<longrightarrow> 0 < limited_egress_bits e \<and>
        (\<exists>bytes v. pab_egress_payload b = Base64Escape (pas_egress_env e) (bytes @ [GetEgressVectorHeader v]) \<and>
          8 * length bytes < nat (limited_egress_bits e) + 8 \<and>
          (\<forall>p < 8 * length bytes. payload_bit bytes p \<longrightarrow> p < nat (limited_egress_bits e)))) \<and>
     (pab_temporary_unlimited_egress_payload b \<noteq> [] \<longrightarrow>
        gp_enable_unlimited_egress (raw_request s) \<and> enable_temporary_unlimited_egress (own s))"

lemma with_egress_may_leave:
  assumes "IsValidProtectedAppSignalsBid b (pas_auction_scope (own s)) = OkStatus" and "with_egress e s b = Some b'"
    and "\<And>c. service_limited_egress_schema_cache (caches (own s)) = Some c \<Longrightarrow> wf_cache c"
    and "limited_egress_bits e < 2 ^ 31"
  shows "may_leave e s b'"
proof -
  from assms(2) obtain limited unlimited where
    l: "(if limited_egress_bits e \<le> 0 then Some [] else populate_payload e (egress_schema_version (own s))
        (pab_egress_payload b) (service_limited_egress_schema_cache (caches (own s))) (limited_egress_bits e)) = Some limited"
    and u: "(if \<not> gp_enable_unlimited_egress (raw_request s) \<or> \<not> enable_temporary_unlimited_egress (own s) then Some []
        else populate_payload e (temporary_unlimited_egress_schema_version (own s))
          (pab_temporary_unlimited_egress_payload b) (service_egress_schema_cache (caches (own s))) kMaxInt) = Some unlimited"
    and b': "b' = b\<lparr>pab_egress_payload := limited, pab_temporary_unlimited_egress_payload := unlimited\<rparr>"
    unfolding with_egress_def monad_simps by blast
  have "0 < limited_egress_bits e \<and>
      (\<exists>bytes v. limited = Base64Escape (pas_egress_env e) (bytes @ [GetEgressVectorHeader v]) \<and>
        8 * length bytes < nat (limited_egress_bits e) + 8 \<and>
        (\<forall>p < 8 * length bytes. payload_bit bytes p \<longrightarrow> p < nat (limited_egress_bits e)))" if "limited \<noteq> []"
  proof (cases "limited_egress_bits e \<le> 0")
    case False
    with l populate_payload_limit [OF _ that assms(3) _ assms(4)] show ?thesis by simp
  qed (use l that in simp)
  moreover have "gp_enable_unlimited_egress (raw_request s) \<and> enable_temporary_unlimited_egress (own s)" if "unlimited \<noteq> []"
    using u that by (auto split: if_split_asm)
  moreover have "pab_bid b \<noteq> 0 \<and> (pas_auction_scope (own s) = AUCTION_SCOPE_SERVER_COMPONENT_MULTI_SELLER \<longrightarrow>
      pab_allow_component_auction b)"
    using assms(1) by (auto simp: IsValidProtectedAppSignalsBid_def split: if_split_asm)
  ultimately show ?thesis unfolding may_leave_def b' by simp
qed


subsection \<open>The caches of schemas\<close>

lemma add_bids_undefined:
  "b \<in> set bs \<Longrightarrow> IsValidProtectedAppSignalsBid b (pas_auction_scope (own s)) = OkStatus \<Longrightarrow>
   with_egress e s b = None \<Longrightarrow> add_bids e s bs acc = None"
proof (induction bs arbitrary: acc)
  case (Cons x bs)
  then show ?case by (cases "x = b"; cases "with_egress e s x") auto
qed simp

text \<open>C13. Limited egress does not work on its own: the bidding service passes its two caches of schemas in the
  order in which they are declared to parameters declared in the other order, so where limited egress is
  enabled and unlimited egress is not, the first valid bid with an egress payload makes the reactor use
  a cache that does not exist.\<close>

theorem limited_egress_without_schemas:
  assumes "EgressSchemaFetchManager_Init fe opt rc = Some (Returns (Inr (cs, rc')))"
    and "opt_enable_protected_app_signals opt" and "\<not> opt_enable_temporary_unlimited_egress opt"
    and "limited_egress_bits e = opt_limited_egress_bits opt" and "caches (own s) = bidding_service_caches cs"
    and "\<not> cancelled c s" and "roma_result a = [Inr answer]"
    and "ParseProtectedSignalsGenerateBidsResponse e s (resp answer) = Some (Inr bs)"
    and "b \<in> set bs" and "IsValidProtectedAppSignalsBid b (pas_auction_scope (own s)) = OkStatus"
    and "pab_egress_payload b \<noteq> []"
  shows "deliver e c c2 a Generated_bids s = None"
proof -
  define s1 where "s1 = s\<lparr>waiting := remove1 Generated_bids (waiting s)\<rparr>"
  note caches = Init_caches [OF assms(1,2)]
  have "service_limited_egress_schema_cache (caches (own s1)) = None"
    using assms(3,5) caches(2) by (simp add: s1_def bidding_service_caches_def BiddingService_new_def)
  moreover have "0 < limited_egress_bits e" using caches(3) assms(3,4) by simp
  ultimately have "with_egress e s1 b = None"
    using assms(11) by (simp add: with_egress_def populate_payload_def)
  from add_bids_undefined [OF assms(9) _ this] assms(10) have "on_bids e bs s1 = None"
    by (simp add: on_bids_def s1_def)
  moreover have "ParseProtectedSignalsGenerateBidsResponse e s1 = ParseProtectedSignalsGenerateBidsResponse e s"
    by (simp add: ParseProtectedSignalsGenerateBidsResponse_def s1_def fun_eq_iff)
  ultimately show ?thesis using assms(6,7,8)
    by (simp add: deliver_def Let_def s1_def [symmetric] handle_def roma_answered_def ValidateRomaResponse_def)
qed

subsection \<open>A sample call\<close>

text \<open>
  A request that names no ads: the code prepares the retrieval, one ad is fetched, and the code bids on
  it with an egress payload.
\<close>

definition sample_pas_text :: json_text where
  "sample_pas_text = \<lparr>ParseJsonString = (\<lambda>s. if s = ''bids'' then Inr (JArray [JString ''one''])
       else Inr (JObject [(''response'', JString ''prepared'')])),
     SerializeJsonDoc = (\<lambda>j. case j of JString s \<Rightarrow> Inr s | _ \<Rightarrow> Inl Internal)\<rparr>"

definition sample_pas_bid :: ProtectedAppSignalsAdWithBid where
  "sample_pas_bid = \<lparr>pab_ad = None, pab_bid = 1, pab_render = ''u'', pab_ad_cost = 0, pab_bid_currency = [],
     pab_egress_payload = ''payload'', pab_temporary_unlimited_egress_payload = ''payload'',
     pab_debug_report_urls = None, pab_allow_component_auction = False\<rparr>"

definition sample_pas_env :: pas_env where
  "sample_pas_env = \<lparr>GetPrivateKey = (\<lambda>k. Some k), HpkeDecrypt = (\<lambda>_ c. Inr \<lparr>hpke_payload = c, hpke_secret = ''s''\<rparr>),
     ParseFromString = (\<lambda>_. (True, default_PASRawRequest)), SerializeAsString = (\<lambda>_. [1]), AeadEncrypt = (\<lambda>p _. Inr p),
     is_consented_or_sampled = (\<lambda>_. False), ShouldExportEvent = (\<lambda>_. False), env_txt = sample_pas_text,
     BatchExecute = (\<lambda>_. OkStatus), JsonStringToMessage = (\<lambda>_. Inr sample_pas_bid), BytesToHexString = (\<lambda>s. s),
     ad_retrieval_client = Some (\<lambda>_. OkStatus), kv_client = None, limited_egress_bits = 10,
     pas_egress_env = sample_egress_env\<rparr>"

definition sample_pas_config :: BiddingServiceRuntimeConfig where
  "sample_pas_config = \<lparr>rc_enable_buyer_debug_url_generation = False, rc_roma_timeout_ms = ''10'',
     rc_max_allowed_size_debug_url_bytes = 0, rc_max_allowed_size_all_debug_urls_kb = 0,
     rc_default_protected_audience_generate_bid_version = ''v1'',
     rc_default_protected_app_signals_generate_bid_version = ''v2'',
     rc_default_prepare_data_for_ad_retrieval_version = ''v3'', rc_use_per_request_udf_versioning = False,
     rc_per_adtech_paapi_contributions_limit = 0, rc_enable_cancellation = False,
     rc_enable_temporary_unlimited_egress = False, rc_use_per_request_schema_versioning = False,
     rc_default_egress_schema_version = ''id'', rc_default_unlimited_egress_schema_version = ''id''\<rparr>"

definition sample_pas_request :: GenerateBidsRequest where
  "sample_pas_request = \<lparr>gn_key_id = ''key'', gn_request_ciphertext = [1]\<rparr>"

definition sample_pas :: "service_caches \<Rightarrow> pas_reactor" where
  "sample_pas service = ProtectedAppSignalsGenerateBidsReactor_new (encrypting sample_pas_env) sample_pas_config
     service sample_pas_request"

definition sample_service :: service_caches where
  "sample_service = \<lparr>service_egress_schema_cache = None, service_limited_egress_schema_cache = Some loaded_cache\<rparr>"

definition sample_pas_answer :: "string \<Rightarrow> pas_answer" where
  "sample_pas_answer t = \<lparr>roma_result = [Inr \<lparr>resp_id = ''r'', resp = t\<rparr>], ads_result = Inr ''ads''\<rparr>"

definition sample_pas_run :: "nat \<Rightarrow> pas_reactor option" where
  "sample_pas_run n = do {
     s0 \<leftarrow> Execute (encrypting sample_pas_env) False False [] (sample_pas sample_service);
     if n = 0 then Some s0 else do {
       s1 \<leftarrow> deliver (encrypting sample_pas_env) False False (sample_pas_answer ''prep'') Prepared_data s0;
       if n = 1 then Some s1 else do {
         s2 \<leftarrow> deliver (encrypting sample_pas_env) False False (sample_pas_answer []) (Ads_retrieved ''prepared'') s1;
         if n = 2 then Some s2 else
           deliver (encrypting sample_pas_env) False False (sample_pas_answer ''bids'') Generated_bids s2 } } }"

lemma sample_pas_waiting:
  "map_option waiting (sample_pas_run 0) = Some [Prepared_data]"
  "map_option waiting (sample_pas_run 1) = Some [Ads_retrieved ''prepared'']"
  "map_option waiting (sample_pas_run 2) = Some [Generated_bids]"
  "map_option finishes (sample_pas_run 3) = Some 1"
  by code_simp+

lemma sample_pas_bids:
  "map_option (\<lambda>s. generated_bids (raw_response s)) (sample_pas_run 2) = Some []"
  "map_option (\<lambda>s. map pab_render (generated_bids (raw_response s))) (sample_pas_run 3) = Some [''u'']"
  by code_simp+

lemma sample_pas_steps:
  obtains s0 s1 s2 s3
  where "Execute (encrypting sample_pas_env) False False [] (sample_pas sample_service) = Some s0"
    and "deliver (encrypting sample_pas_env) False False (sample_pas_answer ''prep'') Prepared_data s0 = Some s1"
    and "deliver (encrypting sample_pas_env) False False (sample_pas_answer []) (Ads_retrieved ''prepared'') s1 = Some s2"
    and "deliver (encrypting sample_pas_env) False False (sample_pas_answer ''bids'') Generated_bids s2 = Some s3"
    and "waiting s0 = [Prepared_data]" "waiting s1 = [Ads_retrieved ''prepared'']" "waiting s2 = [Generated_bids]"
    and "finishes s3 = 1" "generated_bids (raw_response s2) = []"
    and "map pab_render (generated_bids (raw_response s3)) = [''u'']"
proof -
  from sample_pas_waiting sample_pas_bids obtain s0 s1 s2 s3 where r:
    "sample_pas_run 0 = Some s0" "sample_pas_run 1 = Some s1" "sample_pas_run 2 = Some s2" "sample_pas_run 3 = Some s3"
    and w: "waiting s0 = [Prepared_data]" "waiting s1 = [Ads_retrieved ''prepared'']" "waiting s2 = [Generated_bids]"
      "finishes s3 = 1" "generated_bids (raw_response s2) = []"
      "map pab_render (generated_bids (raw_response s3)) = [''u'']"
    by auto
  have e: "Execute (encrypting sample_pas_env) False False [] (sample_pas sample_service) = Some s0"
    using r(1) by (auto simp: sample_pas_run_def monad_simps)
  have d1: "deliver (encrypting sample_pas_env) False False (sample_pas_answer ''prep'') Prepared_data s0 = Some s1"
    using r(2) by (simp add: sample_pas_run_def e monad_simps)
  have d2: "deliver (encrypting sample_pas_env) False False (sample_pas_answer []) (Ads_retrieved ''prepared'') s1 = Some s2"
    using r(3) by (simp add: sample_pas_run_def e d1 monad_simps)
  have d3: "deliver (encrypting sample_pas_env) False False (sample_pas_answer ''bids'') Generated_bids s2 = Some s3"
    using r(4) by (simp add: sample_pas_run_def e d1 d2 monad_simps)
  from that [OF e d1 d2 d3 w] show thesis .
qed


lemma sample_pas_fields:
  "caches (own (sample_pas service)) = service"
  "generated_bids (raw_response (sample_pas service)) = []"
  "pas_auction_scope (own (sample_pas service)) = AUCTION_SCOPE_SINGLE_SELLER"
  "enable_cancellation (sample_pas service) = False"
  "enable_adtech_code_logging (sample_pas service) = False"
  by (simp_all add: sample_pas_def ProtectedAppSignalsGenerateBidsReactor_new_def BaseGenerateBidsReactor_def
      DecryptRequest_def encrypting_def sample_pas_env_def sample_pas_request_def sample_pas_config_def
      pas_members_of_def default_PASRawRequest_def no_bids_def)

lemma sample_pas_delivery:
  "map_option (\<lambda>s. map pab_render (generated_bids (raw_response s)))
     (deliver sample_pas_env False False (sample_pas_answer ''bids'') Generated_bids (sample_pas sample_service)) = Some [''u'']"
  by code_simp


text \<open>Limited egress is enabled, unlimited egress is not, and there is a schema.\<close>

definition sample_fetch_env :: schema_fetch_env where
  "sample_fetch_env = \<lparr>parse_fetch_config = (\<lambda>_. Inr \<lparr>fetch_mode = FETCH_MODE_URL, egress_schema_url = ''url'',
       egress_schema_bucket = [], egress_default_schema_in_bucket = [], url_fetch_period_ms = 100000,
       url_fetch_timeout_ms = 1000, temporary_unlimited_egress_schema_url = [],
       temporary_unlimited_egress_schema_bucket = [], temporary_unlimited_egress_default_schema_in_bucket = []\<rparr>),
     schema_env = sample_egress_env, spec_file = (\<lambda>_. Inr ''spec''), blob_client_Init = OkStatus,
     blob_client_Run = OkStatus, FetchUrl = (\<lambda>_. Inr ''schema''),
     blob_client = (\<lambda>_. \<lparr>ListBlobsSync = Inr [], GetBlob = (\<lambda>_. OkStatus), blob_result = (\<lambda>_. Inl NotFound),
       completion_order = id\<rparr>)\<rparr>"

definition sample_egress_options :: EgressOptions where
  "sample_egress_options = \<lparr>opt_enable_protected_app_signals = True, opt_enable_temporary_unlimited_egress = False,
     opt_limited_egress_bits = 10, opt_fetch_config = ''config''\<rparr>"

lemma sample_init:
  "(case EgressSchemaFetchManager_Init sample_fetch_env sample_egress_options sample_pas_config of
      Some (Returns (Inr r)) \<Rightarrow> True | _ \<Rightarrow> False)"
  by code_simp

lemma sample_pas_parsed:
  "ParseProtectedSignalsGenerateBidsResponse sample_pas_env (sample_pas service) ''bids'' = Some (Inr [sample_pas_bid])"
  by (simp add: ParseProtectedSignalsGenerateBidsResponse_def ParseAndGetResponseJsonArray_def sample_pas_fields
      sample_pas_env_def sample_pas_text_def SerializeJsonArrayDocToVector_def)

theorem limited_egress_without_schemas_witness:
  "\<exists>cs rc'. EgressSchemaFetchManager_Init sample_fetch_env sample_egress_options sample_pas_config =
      Some (Returns (Inr (cs, rc'))) \<and> egress_schema_cache cs \<noteq> None \<and>
    deliver sample_pas_env False False (sample_pas_answer ''bids'') Generated_bids
      (sample_pas (bidding_service_caches cs)) = None"
proof -
  from sample_init obtain cs rc' where i: "EgressSchemaFetchManager_Init sample_fetch_env sample_egress_options
      sample_pas_config = Some (Returns (Inr (cs, rc')))"
    by (auto split: option.split_asm waits.split_asm sum.split_asm)
  have o: "opt_enable_protected_app_signals sample_egress_options"
    "\<not> opt_enable_temporary_unlimited_egress sample_egress_options"
    "limited_egress_bits sample_pas_env = opt_limited_egress_bits sample_egress_options"
    by (simp_all add: sample_egress_options_def sample_pas_env_def)
  have c: "egress_schema_cache cs \<noteq> None"
    using Init_caches(1) [OF i o(1)] by (simp add: sample_egress_options_def)
  have v: "IsValidProtectedAppSignalsBid sample_pas_bid AUCTION_SCOPE_SINGLE_SELLER = OkStatus"
    "pab_egress_payload sample_pas_bid \<noteq> []" "resp \<lparr>resp_id = ''r'', resp = ''bids''\<rparr> = ''bids''"
    by (simp_all add: IsValidProtectedAppSignalsBid_def sample_pas_bid_def)
  have "deliver sample_pas_env False False (sample_pas_answer ''bids'') Generated_bids
      (sample_pas (bidding_service_caches cs)) = None"
    by (rule limited_egress_without_schemas [OF i o, where b = sample_pas_bid and
          answer = "\<lparr>resp_id = ''r'', resp = ''bids''\<rparr>" and bs = "[sample_pas_bid]"])
      (simp_all add: sample_pas_fields cancelled_def sample_pas_answer_def sample_pas_parsed v)
  with i c show ?thesis by blast
qed

end
