(* ===== verification/Spec2Isabelle.thy ===== *)
theory Spec2Isabelle
  imports KAnonCacheManager ScoreAdsCandidates PrivateAggregation Noiser ScoreAdsRuns EgressPayload PriorityVector
    ReportingPrivacy GetBidsRuns HashUtil ErrorAccumulator SelectAdBuyers GenerateBidsRuns
    PasGenerateBidsRuns
begin

text \<open>
  The bidding and auction servers: a model of their C++ code under \<^verbatim>\<open>src/services\<close> and the theorems
  that make it correct.

  \<^bold>\<open>The program.\<close> Four services run an ad auction inside trusted execution environments. The seller
  front end (\<^verbatim>\<open>seller_frontend_service\<close>) receives an encrypted request of a client, asks the buyers
  for bids, fetches the trusted signals of the seller, asks a k-anonymity service about the bids, has
  them scored by the auction service and answers with the winner. The buyer front end
  (\<^verbatim>\<open>buyer_frontend_service\<close>) fetches the trusted signals of the buyer and has the bidding service
  generate bids. The bidding service (\<^verbatim>\<open>bidding_service\<close>) and the auction service
  (\<^verbatim>\<open>auction_service\<close>) run the code of the ad techs in a sandbox and check, filter and complete what
  it returns. Each service handles a request in a reactor: an object with the request, the answer and
  some counters, whose methods start calls to clients and are called back by them.

  \<^bold>\<open>The theories\<close>, bottom up.

  \<^item> Shared: \<open>Prelude\<close> (statuses, the option monad, collections of rules), \<open>StdSort\<close> (the contract of
    \<^verbatim>\<open>std::sort\<close> as the locale \<open>std_sorted\<close>, and an instance), \<open>Json\<close> and \<open>JsonMembers\<close> (documents of
    rapidjson, their checked and unchecked accessors, and updates of members), \<open>AsyncCall\<close> (the locales
    \<open>async_call\<close>, \<open>single_successor\<close> and \<open>single_shot\<close>: a reactor waits for callbacks, each of which
    uses up one and leaves callbacks of lower rank, so it stops; the reactors interpret them).
  \<^item> \<^verbatim>\<open>services/common\<close>: \<open>AsyncTaskTracker\<close>, \<open>ErrorAccumulator\<close>, \<open>RequestMetadata\<close>, \<open>HashUtil\<close> (the texts
    hashed into k-anonymity keys), \<open>Transcoding\<close> (framing and compression between the front ends),
    \<open>PriorityVector\<close>, \<open>ReportingUtil\<close> (post auction signals and debug reports), \<open>AuctionTypes\<close> (the
    messages of \<^verbatim>\<open>api/bidding_auction_servers.proto\<close> the auction service uses), \<open>DispatchMessages\<close> (what is
    sent to the sandbox, and its answers), \<open>DataFetch\<close> (the fetchers on timers of code and schemas).
  \<^item> The caches of k-anonymity: \<open>DoublyLinkedList\<close> (a heap of nodes), \<open>Cache\<close> (the map, the list, the
    timers and the closures they post; refines a list of entries in order of recency) and
    \<open>KAnonCacheManager\<close> (sharding, lookup, query and update; written against the locale
    \<open>cache_interface\<close>, which \<open>Cache\<close> interprets).
  \<^item> The auction service: \<open>ScoreAdsProto\<close> (trusted signals per ad, requests for the seller's code, its
    answers), \<open>ScoreAdsReactor\<close> (state and construction), \<open>ScoreAdsDispatch\<close> (\<^verbatim>\<open>Execute\<close>),
    \<open>ScoreAdsWinner\<close> and \<open>ScoreAdsCandidates\<close> (the choice of the winner and of ghost winners),
    \<open>ScoreAdsReporting\<close> (the answer and the reports), \<open>ScoreAdsRuns\<close> (whole calls),
    \<open>PrivateAggregation\<close> (contributions, buckets and values), \<open>Noiser\<close> (noise and buckets of reported
    values), \<open>ReportingHelper\<close> and \<open>ReportingPrivacy\<close> (inputs of the reporting code and what they hide).
  \<^item> The bidding service: \<open>Egress\<close> and \<open>EgressPayload\<close> (schemas, features and the packing of bits),
    \<open>BiddingReactor\<close> (what its reactors share: decryption, validation of bids, parsing of answers),
    \<open>GenerateBids\<close> (bids for interest groups), \<open>EgressSchemaFetch\<close> (the schemas fetched at the start),
    \<open>PasGenerateBids\<close> (bids on protected app signals); \<open>GenerateBidsRuns\<close> and \<open>PasGenerateBidsRuns\<close>
    hold the theorems on whole calls.
  \<^item> The buyer front end: \<open>BuyerSignals\<close> (requests to and answers of the key/value servers),
    \<open>GetBidsMessages\<close>, \<open>GenerateBidsRequest\<close> (which interest groups bid, with what), \<open>GetBids\<close> (the
    reactor) and \<open>GetBidsRuns\<close> (whole calls).
  \<^item> The seller front end: \<open>BuyerInput\<close> (conversion of a buyer's input), \<open>SelectAdMessages\<close>,
    \<open>SelectAdState\<close>, \<open>SelectAdInput\<close> (decoding and validation), \<open>SelectAdFetchBids\<close> (chaff and the
    requests for bids), \<open>SelectAdSignals\<close> (currency check, trusted signals, k-anonymity),
    \<open>SelectAdScoring\<close> (the request for scores), \<open>SelectAdDone\<close> (answer and debug reports),
    \<open>SellerPrivateAggregation\<close>; \<open>SelectAdRuns\<close>, \<open>SelectAdCalls\<close>, \<open>SelectAdAnswered\<close> and \<open>SelectAdBuyers\<close>
    hold the theorems on whole calls.

  \<^bold>\<open>How the model corresponds to the code.\<close> A struct or message is a \<open>record\<close>, an enum or a variant a
  \<open>datatype\<close>, a function a definition of the same name; the comment before a group of definitions
  names its file. A method of a class takes the record of the object and returns it updated. The
  conventions, which hold throughout:

  \<^item> A result \<open>option\<close> that is \<open>None\<close> where the code returns a value stands for undefined behaviour, a
    failed \<^verbatim>\<open>RAPIDJSON_ASSERT\<close> or an abort of the process; a \<^verbatim>\<open>absl::StatusOr\<close> is a sum with the status
    on the left, and an absent \<^verbatim>\<open>std::optional\<close> is \<open>None\<close> as well. A \<^verbatim>\<open>DCHECK\<close> is not modelled, since a
    release build drops it.
  \<^item> Machine integers are words or integers with their wrap-around written out; a \<^verbatim>\<open>float\<close> or
    \<^verbatim>\<open>double\<close> is a rational, except where the code's rounding is the point (\<open>Noiser\<close>).
  \<^item> A hash map is an association list; where the code iterates over one, the order is that of
    insertion, or a parameter. Strings are lists of characters, bytes below 256.
  \<^item> A message that was moved from is read as the code could read it: where the code reads it again,
    the model says what is left, and a finding names the place.
  \<^item> Callbacks are atomic steps and come in any order; where the code holds a lock, this is what the
    lock makes of it. A call started by a reactor is recorded (\<open>sent\<close>) and its callback is kept among
    those that wait (\<open>waiting\<close>, \<open>pending\<close>); a run delivers them one by one, with any answer of the client.
    Whether the client has cancelled the call is an argument of each step.
  \<^item> What is not under \<^verbatim>\<open>src\<close> (sandboxed code, encryption, gzip, the printing and parsing of JSON text,
    hashes, URL functions, randomness, clocks, clients) is an argument of the definitions. What the
    theorems need of it is stated as a hypothesis, and its witness shows an instance.
  \<^item> Logs, metrics, benchmarking and the branches of the Microsoft build are left out.

  \<^bold>\<open>What the theorems show.\<close> For each reactor: a call is finished at most once, it ends, and, where the
  clients can be started, it is answered, with the tasks each tracker counts against the callbacks that
  wait as invariant; where the code fails to, the run that shows it. For the caches: refinement of an
  abstract LRU map, safety of every reachable state, the bound by the capacity, and answers that agree
  with the service. For the auction: the winner and the ghost winners are the best ads that qualify,
  every ad is accounted for, trusted signals go to the ads they belong to, buyers and losers learn no
  more than they may. For values: round trips of buyer inputs, framed payloads and egress features,
  bounds of noised values and of payload sizes, priorities against a reference definition, distinct
  texts of k-anonymity keys. For the fetchers: the code that runs is the one loaded last, and a start
  that waits for buckets returns exactly when each request could be started.

  Some theorems state behaviour that the comments of the code do not lead one to expect; the manifest
  lists them as findings: \<open>empty_app_signals_never_answered\<close> (the buyer front end counts a task that
  is never started), \<open>undecryptable_finished_twice\<close> (a request that cannot be decrypted has its call
  finished again by \<^verbatim>\<open>Execute\<close>) and \<open>limited_egress_without_schemas\<close> (the bidding service is built
  with its two caches of schemas swapped).

  \<^bold>\<open>Bounds and fuel.\<close> No definition that models code runs on fuel except rejection sampling in
  \<open>Noiser\<close>, which consumes a finite list of random words: a list that runs out is \<open>None\<close>, and the
  theorem counts the words that are accepted. Loops over lists are recursion on the list. Runs are
  lists of deliveries; that they end is a theorem on the rank of the callbacks that wait.

  \<^bold>\<open>Not modelled\<close>, with the reason:

  \<^item> The CBOR form of requests and answers (\<^verbatim>\<open>seller_frontend_service/util/web_utils.cc\<close>,
    \<^verbatim>\<open>private_aggregation_helper.cc\<close>): it is glue over a third party library (libcbor); the reactor has it
    as a parameter.
  \<^item> The mains, the configuration and the startup of the services, and the fetchers that only read
    their parameters and build the URLs and wrappers of what \<open>DataFetch\<close> fetches (\<^verbatim>\<open>udf_fetcher\<close>,
    \<^verbatim>\<open>buyer_code_fetch_manager.cc\<close>).
  \<^item> Clients (\<^verbatim>\<open>common/clients\<close>, gRPC and HTTP), encryption (\<^verbatim>\<open>common/encryption\<close>), telemetry and metrics
    (\<^verbatim>\<open>common/metric\<close>): calls of libraries.
  \<^item> JavaScript wrappers (\<^verbatim>\<open>code_wrapper\<close>): text of another language. The inference sidecar: calls of
    TensorFlow and PyTorch in a process of its own. The k-anonymity service: a stub over a client.
  \<^item> Tools, load tests, benchmarks and deployment.
\<close>

end
